(* ===== verification/Prelude.thy ===== *)
theory Prelude
  imports Main "HOL-Library.Word" "HOL-Library.Signed_Division"
begin

text \<open>
  What the components share: Go's error and panic results, its 64-bit integers, maps whose
  iteration order the program does not choose, and the locale of machines whose operations
  keep an invariant. Go's int is int64 on every platform the repository is built for
  (amd64 and arm64), so both are modelled as HOL integers whose wrap-around is written
  out by i64 wherever the code adds, multiplies or converts.
\<close>

subsection \<open>Results\<close>

text \<open>An error return carries its message; a panic carries a short description.\<close>

datatype error = Err string | Panic string

type_synonym 'a result = "error + 'a"

definition wrap_err :: "string \<Rightarrow> error \<Rightarrow> error" where
  "wrap_err msg e = (case e of Err m \<Rightarrow> Err (msg @ m) | Panic m \<Rightarrow> Panic m)"

definition is_ok :: "'a result \<Rightarrow> bool" where
  "is_ok r = (case r of Inl _ \<Rightarrow> False | Inr _ \<Rightarrow> True)"

lemma is_ok_simps [simp]: "\<not> is_ok (Inl e)" "is_ok (Inr v)"
  by (simp_all add: is_ok_def)

lemma is_ok_iff: "is_ok r \<longleftrightarrow> (\<exists>v. r = Inr v)"
  by (cases r) simp_all

lemma case_unit_any [simp]: "(case u of () \<Rightarrow> f) = f"
  by (rule unit.induct [of _ u], rule unit.case)

lemma wrap_err_simps [simp]:
  "wrap_err msg (Err m) = Err (msg @ m)" "wrap_err msg (Panic m) = Panic m"
  by (simp_all add: wrap_err_def)

text \<open>An early return of an error or a panic, and the next statement otherwise.\<close>

definition bind_res :: "'a result \<Rightarrow> ('a \<Rightarrow> 'b result) \<Rightarrow> 'b result" where
  "bind_res r f = (case r of Inl e \<Rightarrow> Inl e | Inr v \<Rightarrow> f v)"

lemma bind_res_simps [simp]: "bind_res (Inl e) f = Inl e" "bind_res (Inr v) f = f v"
  by (simp_all add: bind_res_def)

lemma bind_res_Inr: "bind_res r f = Inr w \<longleftrightarrow> (\<exists>v. r = Inr v \<and> f v = Inr w)"
  by (cases r) simp_all

text \<open>A nil pointer dereference where the pointer is nil.\<close>

definition deref :: "'a option \<Rightarrow> 'a result" where
  "deref p = (case p of None \<Rightarrow> Inl (Panic ''nil pointer dereference'') | Some v \<Rightarrow> Inr v)"

lemma deref_simps [simp]: "deref None = Inl (Panic ''nil pointer dereference'')" "deref (Some v) = Inr v"
  by (simp_all add: deref_def)

lemma deref_Inr: "deref p = Inr v \<longleftrightarrow> p = Some v"
  by (cases p) simp_all

subsection \<open>Signed 64-bit integers\<close>

definition i64 :: "int \<Rightarrow> int" where
  "i64 x = (x + 2 ^ 63) mod 2 ^ 64 - 2 ^ 63"

definition in_i64 :: "int \<Rightarrow> bool" where
  "in_i64 x \<longleftrightarrow> - (2 ^ 63) \<le> x \<and> x < 2 ^ 63"

lemma i64_id: "in_i64 x \<Longrightarrow> i64 x = x"
  by (simp add: i64_def in_i64_def)

lemma i64_in [simp]: "in_i64 (i64 x)"
proof -
  have "0 \<le> (x + 2 ^ 63) mod 2 ^ 64" "(x + 2 ^ 63) mod 2 ^ 64 < (2 ^ 64 :: int)"
    by simp_all
  then show ?thesis by (simp add: i64_def in_i64_def)
qed

lemma i64_idem [simp]: "i64 (i64 x) = i64 x"
  by (rule i64_id) simp

lemma i64_0 [simp]: "i64 0 = 0"
  by (simp add: i64_def)

lemma i64_add_left [simp]: "i64 (i64 a + b) = i64 (a + b)"
proof -
  have "(i64 a + b + 2 ^ 63) mod 2 ^ 64 = ((a + 2 ^ 63) mod 2 ^ 64 + b) mod 2 ^ 64"
    by (simp add: i64_def)
  also have "\<dots> = (a + b + 2 ^ 63) mod 2 ^ 64"
    by (simp add: mod_simps ac_simps)
  finally show ?thesis by (simp add: i64_def)
qed

lemma i64_add_right [simp]: "i64 (a + i64 b) = i64 (a + b)"
  using i64_add_left [of b a] by (simp add: add.commute)

lemma i64_nonneg_small: "0 \<le> x \<Longrightarrow> x < 2 ^ 63 \<Longrightarrow> i64 x = x"
  by (rule i64_id) (simp add: in_i64_def)

subsection \<open>Maps\<close>

text \<open>
  Reading a missing key of a Go map with a numeric value type gives 0.
\<close>

definition get0 :: "('k \<rightharpoonup> int) \<Rightarrow> 'k \<Rightarrow> int" where
  "get0 m k = (case m k of None \<Rightarrow> 0 | Some v \<Rightarrow> v)"

lemma get0_simps [simp]:
  "m k = None \<Longrightarrow> get0 m k = 0" "m k = Some v \<Longrightarrow> get0 m k = v"
  by (simp_all add: get0_def)

lemma get0_upd: "get0 (m(k \<mapsto> v)) j = (if j = k then v else get0 m j)"
  by (simp add: get0_def)

text \<open>
  A range over a map or a sync.Map visits every key once, in an order the program does not
  choose. Operations that iterate take the order as an argument; enumerates says that it is
  one Go may choose.
\<close>

definition enumerates :: "'k list \<Rightarrow> ('k \<rightharpoonup> 'v) \<Rightarrow> bool" where
  "enumerates ks m \<longleftrightarrow> distinct ks \<and> set ks = dom m"

lemma enumerates_Nil: "enumerates [] m \<longleftrightarrow> m = Map.empty"
  by (auto simp: enumerates_def)

lemma enumerates_mem: "enumerates ks m \<Longrightarrow> k \<in> set ks \<longleftrightarrow> m k \<noteq> None"
  by (auto simp: enumerates_def)

lemma fold_map_upd_other: "k \<notin> f ` set xs \<Longrightarrow> fold (\<lambda>x m. m(f x \<mapsto> g x)) xs m k = m k"
  by (induction xs arbitrary: m) auto

lemma fold_map_upd_dom: "dom (fold (\<lambda>x m. m(f x \<mapsto> g x)) xs m) = dom m \<union> f ` set xs"
  by (induction xs arbitrary: m) auto

lemma fold_map_del: "fold (\<lambda>x m. m(f x := None)) xs m k = (if k \<in> f ` set xs then None else m k)"
  by (induction xs arbitrary: m) auto

lemma fold_map_upd_distinct:
  assumes "distinct (map f xs)" "x \<in> set xs"
  shows "fold (\<lambda>x m. m(f x \<mapsto> g x)) xs m (f x) = Some (g x)"
  using assms
proof (induction xs arbitrary: m)
  case (Cons y ys)
  show ?case
  proof (cases "x \<in> set ys")
    case True
    with Cons show ?thesis by simp
  next
    case False
    with Cons.prems have "x = y" and "f x \<notin> f ` set ys" by auto
    then show ?thesis using fold_map_upd_other [of "f y" f ys g "m(f y \<mapsto> g y)"] by (simp del: fun_upd_apply add: fun_upd_same)
  qed
qed simp

lemma fold_map_upd_perm:
  assumes "distinct (map f xs)" "distinct (map f ys)" "set xs = set ys"
  shows "fold (\<lambda>x m. m(f x \<mapsto> g x)) xs m = fold (\<lambda>x m. m(f x \<mapsto> g x)) ys m"
proof
  fix k
  show "fold (\<lambda>x m. m(f x \<mapsto> g x)) xs m k = fold (\<lambda>x m. m(f x \<mapsto> g x)) ys m k"
  proof (cases "k \<in> f ` set xs")
    case True
    then obtain x where "x \<in> set xs" "k = f x" by auto
    with assms show ?thesis by (simp add: fold_map_upd_distinct)
  next
    case False
    with assms show ?thesis by (simp add: fold_map_upd_other)
  qed
qed

subsection \<open>Machines with an invariant\<close>

text \<open>
  Several components are states with a list of operations and an invariant each operation
  keeps. The locale proves once that runs and reachable states keep it.
\<close>

locale inv_machine =
  fixes step :: "'op \<Rightarrow> 's \<Rightarrow> 's"
    and inv :: "'s \<Rightarrow> bool"
  assumes step_inv: "inv s \<Longrightarrow> inv (step a s)"
begin

lemma run_inv: "inv s \<Longrightarrow> inv (fold step ops s)"
  by (induction ops arbitrary: s) (auto intro: step_inv)

lemma run_frame:
  assumes "inv s" "\<And>a s. a \<in> set ops \<Longrightarrow> inv s \<Longrightarrow> obs (step a s) = obs s"
  shows "obs (fold step ops s) = obs s"
  using assms
proof (induction ops arbitrary: s)
  case (Cons a ops)
  have "obs (fold step ops (step a s)) = obs (step a s)"
    by (rule Cons.IH) (use Cons.prems in \<open>auto intro: step_inv\<close>)
  also have "\<dots> = obs s" using Cons.prems by simp
  finally show ?case by simp
qed simp

lemma run_sum:
  assumes "inv s" "\<And>a s. inv s \<Longrightarrow> obs (step a s) = obs s + (w a :: 'm :: comm_monoid_add)"
  shows "obs (fold step ops s) = obs s + sum_list (map w ops)"
  using assms
proof (induction ops arbitrary: s)
  case (Cons a ops)
  have "obs (fold step ops (step a s)) = obs (step a s) + sum_list (map w ops)"
    by (rule Cons.IH) (use Cons.prems in \<open>auto intro: step_inv\<close>)
  then show ?case using Cons.prems by (simp add: ac_simps)
qed simp

end

end
