(* ===== verification/Go_Strings.thy ===== *)
theory Go_Strings
  imports Prelude
begin

text \<open>
  The functions of Go's strings, strconv and fmt packages that the components use, on byte
  strings (a Go string is a sequence of bytes, a HOL char is one byte). toLower is the
  package's behaviour on ASCII letters; the repository only compares its result with ASCII
  words.
\<close>

definition hasPrefix :: "string \<Rightarrow> string \<Rightarrow> bool" where
  "hasPrefix s p \<longleftrightarrow> take (length p) s = p"

definition trimPrefix :: "string \<Rightarrow> string \<Rightarrow> string" where
  "trimPrefix s p = (if hasPrefix s p then drop (length p) s else s)"

fun contains :: "string \<Rightarrow> string \<Rightarrow> bool" where
  "contains [] sub = (sub = [])"
| "contains (c # s) sub = (hasPrefix (c # s) sub \<or> contains s sub)"

definition lower_char :: "char \<Rightarrow> char" where
  "lower_char c = (let n = of_char c :: nat in if 65 \<le> n \<and> n \<le> 90 then char_of (n + 32) else c)"

definition toLower :: "string \<Rightarrow> string" where
  "toLower s = map lower_char s"

text \<open>strings.Split with a one-byte separator: the result is never empty.\<close>

fun split_on :: "char \<Rightarrow> string \<Rightarrow> string list" where
  "split_on c [] = [[]]"
| "split_on c (x # xs) =
     (if x = c then [] # split_on c xs
      else (case split_on c xs of [] \<Rightarrow> [[x]] | w # ws \<Rightarrow> (x # w) # ws))"

fun join :: "string \<Rightarrow> string list \<Rightarrow> string" where
  "join sep [] = []"
| "join sep [w] = w"
| "join sep (w # ws) = w @ sep @ join sep ws"

lemma hasPrefix_append [simp]: "hasPrefix (p @ s) p"
  by (simp add: hasPrefix_def)

lemma hasPrefix_iff: "hasPrefix s p \<longleftrightarrow> (\<exists>t. s = p @ t)"
  by (metis append_eq_conv_conj append_take_drop_id hasPrefix_def)

lemma trimPrefix_append [simp]: "trimPrefix (p @ s) p = s"
  by (simp add: trimPrefix_def)

lemma split_on_nonempty [simp]: "split_on c s \<noteq> []"
  by (cases s) (auto split: list.splits)

lemma join_split_on: "join [c] (split_on c s) = s"
proof (induction s)
  case (Cons x s)
  obtain w ws where w: "split_on c s = w # ws" by (cases "split_on c s") auto
  with Cons show ?case by (cases ws) auto
qed simp

lemma split_on_no_sep: "w \<in> set (split_on c s) \<Longrightarrow> c \<notin> set w"
  by (induction s arbitrary: w) (auto split: list.splits if_splits)

lemma contains_iff: "contains s sub \<longleftrightarrow> (\<exists>u v. s = u @ sub @ v)"
proof (induction s)
  case (Cons c s)
  have "(\<exists>u v. c # s = u @ sub @ v) \<longleftrightarrow> hasPrefix (c # s) sub \<or> (\<exists>u v. s = u @ sub @ v)"
    (is "?L \<longleftrightarrow> ?R")
  proof
    assume ?L
    then obtain u v where uv: "c # s = u @ sub @ v" by blast
    then show ?R by (cases u) (auto simp: hasPrefix_iff)
  next
    assume ?R
    then show ?L
    proof
      assume "hasPrefix (c # s) sub"
      then obtain t where "c # s = [] @ sub @ t" by (auto simp: hasPrefix_iff)
      then show ?L by blast
    next
      assume "\<exists>u v. s = u @ sub @ v"
      then obtain u v where "c # s = (c # u) @ sub @ v" by auto
      then show ?L by blast
    qed
  qed
  with Cons show ?case by simp
qed simp

subsection \<open>Decimal numbers\<close>

definition digit_char :: "nat \<Rightarrow> char" where
  "digit_char d = char_of (48 + d)"

fun nat_str :: "nat \<Rightarrow> string" where
  "nat_str n = (if n < 10 then [digit_char n] else nat_str (n div 10) @ [digit_char (n mod 10)])"

declare nat_str.simps [simp del]

definition itoa :: "int \<Rightarrow> string" where
  "itoa i = (if i < 0 then CHR ''-'' # nat_str (nat (- i)) else nat_str (nat i))"

definition digit_val :: "char \<Rightarrow> int option" where
  "digit_val c = (let n = of_char c :: nat in if 48 \<le> n \<and> n \<le> 57 then Some (int n - 48) else None)"

datatype num_error = ErrSyntax | ErrRange

text \<open>strconv.ParseUint in base 10 with 64 bits; it stops at the first bad digit or overflow.\<close>

fun parse_digits :: "int \<Rightarrow> string \<Rightarrow> int \<times> num_error option" where
  "parse_digits n [] = (n, None)"
| "parse_digits n (c # cs) =
     (case digit_val c of
        None \<Rightarrow> (0, Some ErrSyntax)
      | Some d \<Rightarrow> if n * 10 + d \<ge> 2 ^ 64 then (2 ^ 64 - 1, Some ErrRange) else parse_digits (n * 10 + d) cs)"

definition parse_uint :: "string \<Rightarrow> int \<times> num_error option" where
  "parse_uint s = (if s = [] then (0, Some ErrSyntax) else parse_digits 0 s)"

text \<open>strconv.Atoi: the value and the error; a range error still carries the clamped value.\<close>

definition atoi :: "string \<Rightarrow> int \<times> num_error option" where
  "atoi s =
     (let neg = (s \<noteq> [] \<and> hd s = CHR ''-'');
          rest = (if s \<noteq> [] \<and> (hd s = CHR ''-'' \<or> hd s = CHR ''+'') then tl s else s)
      in case parse_uint rest of
           (_, Some ErrSyntax) \<Rightarrow> (0, Some ErrSyntax)
         | (un, _) \<Rightarrow>
             if \<not> neg \<and> un \<ge> 2 ^ 63 then (2 ^ 63 - 1, Some ErrRange)
             else if neg \<and> un > 2 ^ 63 then (- (2 ^ 63), Some ErrRange)
             else (if neg then - un else un, None))"

lemma of_digit_char [simp]: "d < 10 \<Longrightarrow> (of_char (digit_char d) :: nat) = 48 + d"
  by (simp add: digit_char_def of_char_of)

lemma digit_char_inj: "a < 10 \<Longrightarrow> b < 10 \<Longrightarrow> digit_char a = digit_char b \<Longrightarrow> a = b"
  by (metis of_digit_char add_left_cancel)

lemma digit_char_neq_minus: "d < 10 \<Longrightarrow> digit_char d \<noteq> CHR ''-''"
proof
  assume d: "d < 10" "digit_char d = CHR ''-''"
  have "(of_char (CHR ''-'') :: nat) = 45" by simp
  with d of_digit_char [of d] show False by simp
qed

lemma digit_val_digit_char: "d < 10 \<Longrightarrow> digit_val (digit_char d) = Some (int d)"
  by (simp add: digit_val_def)

lemma nat_str_nonempty [simp]: "nat_str n \<noteq> []"
  by (subst nat_str.simps) simp

lemma nat_str_digits: "c \<in> set (nat_str n) \<Longrightarrow> \<exists>d<10. c = digit_char d"
proof (induction n rule: nat_str.induct)
  case (1 n)
  have "\<exists>d<10. digit_char (n mod 10) = digit_char d"
    by (rule exI [of _ "n mod 10"]) simp
  with 1 show ?case by (subst (asm) nat_str.simps) (auto split: if_splits)
qed

lemma nat_str_inj: "nat_str a = nat_str b \<Longrightarrow> a = b"
proof (induction a arbitrary: b rule: nat_str.induct)
  case (1 a)
  have len: "length (nat_str n) = 1 \<longleftrightarrow> n < 10" for n
    by (subst nat_str.simps) simp
  show ?case
  proof (cases "a < 10")
    case True
    with "1.prems" len [of a] len [of b] have "b < 10" by simp
    with True "1.prems" show ?thesis
      by (simp add: nat_str.simps [of a] nat_str.simps [of b] digit_char_inj)
  next
    case False
    with "1.prems" len [of a] len [of b] have "\<not> b < 10" by auto
    with False "1.prems" have "nat_str (a div 10) = nat_str (b div 10)"
      and "digit_char (a mod 10) = digit_char (b mod 10)"
      by (simp_all add: nat_str.simps [of a] nat_str.simps [of b])
    with False "1.IH" have "a div 10 = b div 10" "a mod 10 = b mod 10"
      by (auto intro: digit_char_inj)
    then show ?thesis by (metis div_mult_mod_eq)
  qed
qed

lemma itoa_inj: "itoa a = itoa b \<Longrightarrow> a = b"
proof -
  have nm: "nat_str n \<noteq> CHR ''-'' # t" for n t
    using nat_str_digits [of "CHR ''-''" n] digit_char_neq_minus by force
  assume "itoa a = itoa b"
  then show "a = b"
    using nm nm [THEN not_sym] by (auto simp: itoa_def dest: nat_str_inj split: if_splits)
qed

lemma parse_digits_append:
  "parse_digits n xs = (m, None) \<Longrightarrow> parse_digits n (xs @ ys) = parse_digits m ys"
  by (induction xs arbitrary: n) (auto split: option.splits if_splits)

lemma parse_digits_nat_str: "int n < 2 ^ 64 \<Longrightarrow> parse_digits 0 (nat_str n) = (int n, None)"
proof (induction n rule: nat_str.induct)
  case (1 n)
  show ?case
  proof (cases "n < 10")
    case True
    then show ?thesis by (subst nat_str.simps) (simp add: digit_val_digit_char)
  next
    case False
    have b: "int (n div 10) < 2 ^ 64" using "1.prems" by linarith
    have e: "int (n div 10) * 10 + int (n mod 10) = int n" by presburger
    have "parse_digits 0 (nat_str (n div 10) @ [digit_char (n mod 10)]) =
        parse_digits (int (n div 10)) [digit_char (n mod 10)]"
      by (rule parse_digits_append [OF "1.IH" [OF False b]])
    also have "\<dots> = (int n, None)"
      using "1.prems" e by (simp add: digit_val_digit_char)
    finally show ?thesis using False by (subst nat_str.simps) simp
  qed
qed

lemma atoi_unsigned:
  assumes "parse_uint s = (i, None)" "hd s \<noteq> CHR ''-''" "hd s \<noteq> CHR ''+''" "i < 2 ^ 63"
  shows "atoi s = (i, None)"
  using assms by (simp only: atoi_def Let_def) simp

text \<open>strconv.Atoi reads back what strconv.Itoa prints, for every int64.\<close>

lemma atoi_itoa: "in_i64 i \<Longrightarrow> atoi (itoa i) = (i, None)"
proof -
  assume i: "in_i64 i"
  have hd: "hd (nat_str n) \<noteq> CHR ''-''" "hd (nat_str n) \<noteq> CHR ''+''" for n
  proof -
    obtain d where "d < 10" "hd (nat_str n) = digit_char d"
      using nat_str_digits [of "hd (nat_str n)" n] by auto
    then have "digit_val (hd (nat_str n)) \<noteq> None" by (simp add: digit_val_digit_char)
    then show "hd (nat_str n) \<noteq> CHR ''-''" "hd (nat_str n) \<noteq> CHR ''+''"
      by (auto simp: digit_val_def)
  qed
  have p: "parse_uint (nat_str (nat k)) = (k, None)" if "0 \<le> k" "k < 2 ^ 64" for k
    using that parse_digits_nat_str [of "nat k"] by (simp add: parse_uint_def)
  show ?thesis
  proof (cases "i < 0")
    case True
    with i p [of "- i"] have "parse_uint (nat_str (nat (- i))) = (- i, None)"
      by (simp add: in_i64_def)
    with True i show ?thesis by (simp add: atoi_def itoa_def in_i64_def)
  next
    case False
    with i p [of i] have "parse_uint (nat_str (nat i)) = (i, None)"
      by (simp add: in_i64_def)
    then have "atoi (nat_str (nat i)) = (i, None)"
      by (rule atoi_unsigned [OF _ hd]) (use False i in \<open>simp_all add: in_i64_def\<close>)
    with False show ?thesis by (simp add: itoa_def)
  qed
qed

subsection \<open>Tags\<close>

text \<open>common/format/user.go: the key of a user of a node.\<close>

definition UserTag :: "string \<Rightarrow> string \<Rightarrow> string" where
  "UserTag tag uuid = tag @ ''|'' @ uuid"

lemma UserTag_inj [simp]: "UserTag tag u = UserTag tag v \<longleftrightarrow> u = v"
  by (simp add: UserTag_def)

lemma UserTag_inj_on: "inj_on (UserTag tag) A"
  by (simp add: inj_on_def)

text \<open>
  Across tags the key is injective where no tag contains the separator.
\<close>

lemma UserTag_inj2:
  assumes "CHR ''|'' \<notin> set t" "CHR ''|'' \<notin> set t'" "UserTag t u = UserTag t' u'"
  shows "t = t' \<and> u = u'"
proof -
  have tw: "CHR ''|'' \<notin> set t \<Longrightarrow> takeWhile (\<lambda>c. c \<noteq> CHR ''|'') (UserTag t u) = t" for t u
    by (induction t) (auto simp: UserTag_def)
  from assms tw have "t = t'" by metis
  with assms(3) show ?thesis by simp
qed

end
