(* ===== verification/Traffic_Counter.thy ===== *)
theory Traffic_Counter
  imports Go_Strings
begin

text \<open>
  common/counter: the traffic counters of a node's users (traffic.go), the counter handed to
  xray (xraytraffic.go) and the counting connections (conn.go). A TrafficStorage is reached
  through pointers that open connections keep, so the storages live in an explicit store and
  a TrafficCounter maps a user to an address of it. The counters are atomic int64 values.
\<close>

record TrafficStorage =
  UpCounter :: int
  DownCounter :: int

definition new_storage :: TrafficStorage where
  "new_storage = \<lparr>UpCounter = 0, DownCounter = 0\<rparr>"

record tstore =
  storages :: "nat \<Rightarrow> TrafficStorage"
  next_addr :: nat

type_synonym TrafficCounter = "string \<rightharpoonup> nat"

definition NewTrafficCounter :: TrafficCounter where
  "NewTrafficCounter = Map.empty"

definition alloc_storage :: "tstore \<Rightarrow> nat \<times> tstore" where
  "alloc_storage h =
     (next_addr h,
      h\<lparr>storages := (storages h)(next_addr h := new_storage), next_addr := Suc (next_addr h)\<rparr>)"

definition add_up :: "nat \<Rightarrow> int \<Rightarrow> tstore \<Rightarrow> tstore" where
  "add_up a n h = h\<lparr>storages := (storages h)
     (a := (storages h a)\<lparr>UpCounter := i64 (UpCounter (storages h a) + n)\<rparr>)\<rparr>"

definition add_down :: "nat \<Rightarrow> int \<Rightarrow> tstore \<Rightarrow> tstore" where
  "add_down a n h = h\<lparr>storages := (storages h)
     (a := (storages h a)\<lparr>DownCounter := i64 (DownCounter (storages h a) + n)\<rparr>)\<rparr>"

definition store_up :: "nat \<Rightarrow> int \<Rightarrow> tstore \<Rightarrow> tstore" where
  "store_up a n h = h\<lparr>storages := (storages h)(a := (storages h a)\<lparr>UpCounter := n\<rparr>)\<rparr>"

definition store_down :: "nat \<Rightarrow> int \<Rightarrow> tstore \<Rightarrow> tstore" where
  "store_down a n h = h\<lparr>storages := (storages h)(a := (storages h a)\<lparr>DownCounter := n\<rparr>)\<rparr>"

subsection \<open>The operations of traffic.go\<close>

definition GetCounter :: "string \<Rightarrow> TrafficCounter \<Rightarrow> tstore \<Rightarrow> nat \<times> TrafficCounter \<times> tstore" where
  "GetCounter uuid c h =
     (case c uuid of
        Some a \<Rightarrow> (a, c, h)
      | None \<Rightarrow> (let (a, h') = alloc_storage h in (a, c(uuid \<mapsto> a), h')))"

definition GetUpCount :: "string \<Rightarrow> TrafficCounter \<Rightarrow> tstore \<Rightarrow> int" where
  "GetUpCount uuid c h = (case c uuid of Some a \<Rightarrow> UpCounter (storages h a) | None \<Rightarrow> 0)"

definition GetDownCount :: "string \<Rightarrow> TrafficCounter \<Rightarrow> tstore \<Rightarrow> int" where
  "GetDownCount uuid c h = (case c uuid of Some a \<Rightarrow> DownCounter (storages h a) | None \<Rightarrow> 0)"

text \<open>Len counts the keys that the range visits.\<close>

definition Len :: "string list \<Rightarrow> nat" where
  "Len order = fold (\<lambda>_ n. Suc n) order 0"

definition Reset :: "string \<Rightarrow> TrafficCounter \<Rightarrow> tstore \<Rightarrow> tstore" where
  "Reset uuid c h = (case c uuid of Some a \<Rightarrow> store_down a 0 (store_up a 0 h) | None \<Rightarrow> h)"

definition Delete :: "string \<Rightarrow> TrafficCounter \<Rightarrow> TrafficCounter" where
  "Delete uuid c = c(uuid := None)"

definition Rx :: "string \<Rightarrow> int \<Rightarrow> TrafficCounter \<Rightarrow> tstore \<Rightarrow> TrafficCounter \<times> tstore" where
  "Rx uuid n c h = (let (a, c', h') = GetCounter uuid c h in (c', add_down a n h'))"

definition Tx :: "string \<Rightarrow> int \<Rightarrow> TrafficCounter \<Rightarrow> tstore \<Rightarrow> TrafficCounter \<times> tstore" where
  "Tx uuid n c h = (let (a, c', h') = GetCounter uuid c h in (c', add_up a n h'))"

subsection \<open>Well-formedness\<close>

text \<open>Two users never share a storage, and every pointer is to an allocated one.\<close>

definition tc_wf :: "TrafficCounter \<Rightarrow> tstore \<Rightarrow> bool" where
  "tc_wf c h \<longleftrightarrow> inj_on c (dom c) \<and> (\<forall>k a. c k = Some a \<longrightarrow> a < next_addr h)"

lemma tc_wf_inj: "tc_wf c h \<Longrightarrow> c k = Some a \<Longrightarrow> c k' = Some a \<Longrightarrow> k = k'"
  by (metis domI inj_onD tc_wf_def)

lemma tc_wf_bound: "tc_wf c h \<Longrightarrow> c k = Some a \<Longrightarrow> a < next_addr h"
  by (auto simp: tc_wf_def)

lemma tc_wf_new [simp]: "tc_wf NewTrafficCounter h"
  by (simp add: tc_wf_def NewTrafficCounter_def)

lemma next_addr_simps [simp]:
  "next_addr (add_up a n h) = next_addr h" "next_addr (add_down a n h) = next_addr h"
  "next_addr (store_up a n h) = next_addr h" "next_addr (store_down a n h) = next_addr h"
  by (simp_all add: add_up_def add_down_def store_up_def store_down_def)

lemma storages_simps [simp]:
  "UpCounter (storages (add_up a n h) b) =
     (if b = a then i64 (UpCounter (storages h a) + n) else UpCounter (storages h b))"
  "DownCounter (storages (add_up a n h) b) = DownCounter (storages h b)"
  "DownCounter (storages (add_down a n h) b) =
     (if b = a then i64 (DownCounter (storages h a) + n) else DownCounter (storages h b))"
  "UpCounter (storages (add_down a n h) b) = UpCounter (storages h b)"
  "UpCounter (storages (store_up a n h) b) = (if b = a then n else UpCounter (storages h b))"
  "DownCounter (storages (store_up a n h) b) = DownCounter (storages h b)"
  "DownCounter (storages (store_down a n h) b) = (if b = a then n else DownCounter (storages h b))"
  "UpCounter (storages (store_down a n h) b) = UpCounter (storages h b)"
  by (simp_all add: add_up_def add_down_def store_up_def store_down_def)

lemma tc_wf_counts [simp]:
  "tc_wf c (add_up a n h) = tc_wf c h" "tc_wf c (add_down a n h) = tc_wf c h"
  "tc_wf c (store_up a n h) = tc_wf c h" "tc_wf c (store_down a n h) = tc_wf c h"
  by (simp_all add: tc_wf_def)

lemma tc_wf_Delete: "tc_wf c h \<Longrightarrow> tc_wf (Delete uuid c) h"
  by (auto simp: tc_wf_def Delete_def inj_on_def)

lemma tc_wf_alloc:
  assumes "tc_wf c h" "c uuid = None"
  shows "tc_wf (c(uuid \<mapsto> next_addr h)) (snd (alloc_storage h))"
proof -
  have "c k \<noteq> Some (next_addr h)" for k
    using assms(1) by (auto dest: tc_wf_bound)
  with assms show ?thesis
    by (auto simp: tc_wf_def alloc_storage_def inj_on_def less_Suc_eq)
qed

lemma GetCounter_wf: "tc_wf c h \<Longrightarrow> GetCounter uuid c h = (a, c', h') \<Longrightarrow> tc_wf c' h'"
  using tc_wf_alloc [of c h uuid]
  by (auto simp: GetCounter_def alloc_storage_def split: option.splits)

lemma GetCounter_lookup: "GetCounter uuid c h = (a, c', h') \<Longrightarrow> c' uuid = Some a"
  by (auto simp: GetCounter_def alloc_storage_def split: option.splits)

lemma GetCounter_map: "GetCounter uuid c h = (a, c', h') \<Longrightarrow> c' = c(uuid \<mapsto> a)"
  by (auto simp: GetCounter_def alloc_storage_def split: option.splits)

text \<open>Looking a counter up changes no count; a new counter starts at zero.\<close>

lemma GetCounter_counts:
  assumes "tc_wf c h" "GetCounter uuid c h = (a, c', h')"
  shows "GetUpCount k c' h' = GetUpCount k c h" "GetDownCount k c' h' = GetDownCount k c h"
    and "UpCounter (storages h' a) = GetUpCount uuid c h"
    and "DownCounter (storages h' a) = GetDownCount uuid c h"
proof -
  have fresh: "c j \<noteq> Some (next_addr h)" for j
    using assms(1) by (auto dest: tc_wf_bound)
  show "GetUpCount k c' h' = GetUpCount k c h" "GetDownCount k c' h' = GetDownCount k c h"
    "UpCounter (storages h' a) = GetUpCount uuid c h"
    "DownCounter (storages h' a) = GetDownCount uuid c h"
    using assms(2) fresh [of k] fresh [of uuid]
    by (auto simp: GetCounter_def alloc_storage_def GetUpCount_def GetDownCount_def
        new_storage_def split: option.splits if_splits)
qed

lemma Tx_counts:
  assumes "tc_wf c h" "Tx uuid n c h = (c', h')"
  shows "tc_wf c' h'"
    and "GetUpCount k c' h' =
      (if k = uuid then i64 (GetUpCount uuid c h + n) else GetUpCount k c h)"
    and "GetDownCount k c' h' = GetDownCount k c h"
proof -
  obtain a c1 h1 where g: "GetCounter uuid c h = (a, c1, h1)" by (metis prod_cases3)
  with assms(2) have e: "c' = c1" "h' = add_up a n h1" by (simp_all add: Tx_def)
  from g assms(1) have wf: "tc_wf c1 h1" by (auto intro: GetCounter_wf)
  with e show "tc_wf c' h'" by simp
  note gc = GetCounter_counts [OF assms(1) g] and l = GetCounter_lookup [OF g]
  have other: "k \<noteq> uuid \<Longrightarrow> c1 k \<noteq> Some a" using tc_wf_inj [OF wf _ l] by blast
  show "GetUpCount k c' h' =
      (if k = uuid then i64 (GetUpCount uuid c h + n) else GetUpCount k c h)"
    using gc(1) [of k] gc(3) e l other by (auto simp: GetUpCount_def split: option.splits)
  show "GetDownCount k c' h' = GetDownCount k c h"
    using gc(2) [of k] e by (simp add: GetDownCount_def split: option.splits)
qed

lemma Rx_counts:
  assumes "tc_wf c h" "Rx uuid n c h = (c', h')"
  shows "tc_wf c' h'"
    and "GetDownCount k c' h' =
      (if k = uuid then i64 (GetDownCount uuid c h + n) else GetDownCount k c h)"
    and "GetUpCount k c' h' = GetUpCount k c h"
proof -
  obtain a c1 h1 where g: "GetCounter uuid c h = (a, c1, h1)" by (metis prod_cases3)
  with assms(2) have e: "c' = c1" "h' = add_down a n h1" by (simp_all add: Rx_def)
  from g assms(1) have wf: "tc_wf c1 h1" by (auto intro: GetCounter_wf)
  with e show "tc_wf c' h'" by simp
  note gc = GetCounter_counts [OF assms(1) g] and l = GetCounter_lookup [OF g]
  have other: "k \<noteq> uuid \<Longrightarrow> c1 k \<noteq> Some a" using tc_wf_inj [OF wf _ l] by blast
  show "GetDownCount k c' h' =
      (if k = uuid then i64 (GetDownCount uuid c h + n) else GetDownCount k c h)"
    using gc(2) [of k] gc(4) e l other by (auto simp: GetDownCount_def split: option.splits)
  show "GetUpCount k c' h' = GetUpCount k c h"
    using gc(1) [of k] e by (simp add: GetUpCount_def split: option.splits)
qed

lemma Reset_counts:
  assumes "tc_wf c h"
  shows "tc_wf c (Reset uuid c h)"
    and "GetUpCount k c (Reset uuid c h) = (if k = uuid then 0 else GetUpCount k c h)"
    and "GetDownCount k c (Reset uuid c h) = (if k = uuid then 0 else GetDownCount k c h)"
  using assms tc_wf_inj [OF assms]
  by (auto simp: Reset_def GetUpCount_def GetDownCount_def split: option.splits)

lemma Delete_counts:
  "GetUpCount k (Delete uuid c) h = (if k = uuid then 0 else GetUpCount k c h)"
  "GetDownCount k (Delete uuid c) h = (if k = uuid then 0 else GetDownCount k c h)"
  by (simp_all add: Delete_def GetUpCount_def GetDownCount_def)

lemma Len_length: "Len order = length order"
proof -
  have "fold (\<lambda>_ n. Suc n) order k = length order + k" for k
    by (induction order arbitrary: k) auto
  then show ?thesis by (simp add: Len_def)
qed

lemma Len_card: "enumerates order c \<Longrightarrow> Len order = card (dom c)"
  by (metis Len_length distinct_card enumerates_def)

subsection \<open>The abstract table of counts\<close>

text \<open>
  What the component promises: a table of upload and download counts, zero where nothing was
  counted, in which every operation acts on the row of its user. The pointers, the store and
  the allocation are an implementation of it.
\<close>

datatype tc_op =
  OpGet string | OpRx string int | OpTx string int | OpReset string | OpDelete string

fun tc_step :: "tc_op \<Rightarrow> TrafficCounter \<times> tstore \<Rightarrow> TrafficCounter \<times> tstore" where
  "tc_step (OpGet u) (c, h) = snd (GetCounter u c h)"
| "tc_step (OpRx u n) (c, h) = Rx u n c h"
| "tc_step (OpTx u n) (c, h) = Tx u n c h"
| "tc_step (OpReset u) (c, h) = (c, Reset u c h)"
| "tc_step (OpDelete u) (c, h) = (Delete u c, h)"

type_synonym table = "string \<Rightarrow> int \<times> int"

fun table_step :: "tc_op \<Rightarrow> table \<Rightarrow> table" where
  "table_step (OpGet u) t = t"
| "table_step (OpRx u n) t = t(u := (fst (t u), i64 (snd (t u) + n)))"
| "table_step (OpTx u n) t = t(u := (i64 (fst (t u) + n), snd (t u)))"
| "table_step (OpReset u) t = t(u := (0, 0))"
| "table_step (OpDelete u) t = t(u := (0, 0))"

definition abs_table :: "TrafficCounter \<times> tstore \<Rightarrow> table" where
  "abs_table s = (\<lambda>k. (GetUpCount k (fst s) (snd s), GetDownCount k (fst s) (snd s)))"

abbreviation tc_inv :: "TrafficCounter \<times> tstore \<Rightarrow> bool" where
  "tc_inv s \<equiv> tc_wf (fst s) (snd s)"

lemma tc_step_inv: "tc_inv s \<Longrightarrow> tc_inv (tc_step op s)"
proof (cases s; cases op)
  fix c h u assume s: "s = (c, h)" "op = OpGet u" and wf: "tc_inv s"
  obtain a c' h' where "GetCounter u c h = (a, c', h')" by (metis prod_cases3)
  with s wf show ?thesis by (auto dest: GetCounter_wf)
next
  fix c h u n assume s: "s = (c, h)" "op = OpRx u n" and wf: "tc_inv s"
  then show ?thesis by (cases "Rx u n c h") (auto dest: Rx_counts)
next
  fix c h u n assume s: "s = (c, h)" "op = OpTx u n" and wf: "tc_inv s"
  then show ?thesis by (cases "Tx u n c h") (auto dest: Tx_counts)
qed (auto simp: Reset_counts tc_wf_Delete)

interpretation tcm: inv_machine tc_step tc_inv
  by unfold_locales (rule tc_step_inv)

lemma tc_step_refines:
  assumes "tc_inv s"
  shows "abs_table (tc_step op s) = table_step op (abs_table s)"
proof (cases s; cases op)
  fix c h u assume s: "s = (c, h)" "op = OpGet u"
  obtain a c' h' where "GetCounter u c h = (a, c', h')" by (metis prod_cases3)
  with s assms show ?thesis by (auto simp: abs_table_def GetCounter_counts)
next
  fix c h u n assume s: "s = (c, h)" "op = OpRx u n"
  then show ?thesis using assms
    by (cases "Rx u n c h") (auto simp: abs_table_def Rx_counts fun_eq_iff)
next
  fix c h u n assume s: "s = (c, h)" "op = OpTx u n"
  then show ?thesis using assms
    by (cases "Tx u n c h") (auto simp: abs_table_def Tx_counts fun_eq_iff)
qed (use assms in \<open>auto simp: abs_table_def Reset_counts Delete_counts fun_eq_iff\<close>)

text \<open>
  The pointer of a storage stays valid: what is counted through the address a connection
  obtained earlier is what the counter reports, until the user is deleted.
\<close>

lemma alias_counts:
  assumes "tc_wf c h" "c uuid = Some a"
  shows "GetUpCount uuid c (add_up a n h) = i64 (GetUpCount uuid c h + n)"
    and "GetDownCount uuid c (add_down a n h) = i64 (GetDownCount uuid c h + n)"
    and "k \<noteq> uuid \<Longrightarrow> GetUpCount k c (add_up a n h) = GetUpCount k c h"
    and "k \<noteq> uuid \<Longrightarrow> GetDownCount k c (add_down a n h) = GetDownCount k c h"
proof -
  have other: "c k \<noteq> Some a" if "k \<noteq> uuid" for k
    using tc_wf_inj [OF assms(1) _ assms(2)] that by blast
  show "GetUpCount uuid c (add_up a n h) = i64 (GetUpCount uuid c h + n)"
    "GetDownCount uuid c (add_down a n h) = i64 (GetDownCount uuid c h + n)"
    using assms(2) by (simp_all add: GetUpCount_def GetDownCount_def)
  show "k \<noteq> uuid \<Longrightarrow> GetUpCount k c (add_up a n h) = GetUpCount k c h"
    "k \<noteq> uuid \<Longrightarrow> GetDownCount k c (add_down a n h) = GetDownCount k c h"
    using other by (simp_all add: GetUpCount_def GetDownCount_def split: option.split)
qed

subsection \<open>Runs\<close>

lemma tc_run_refines:
  "tc_inv s \<Longrightarrow> abs_table (fold tc_step ops s) = fold table_step ops (abs_table s)"
  by (induction ops arbitrary: s) (simp_all add: tc_step_inv tc_step_refines)

text \<open>
  C31: every run of the counter's operations, whatever addresses it allocates, is the same run
  of the plain table: the counts it reports at the end are the table's.
\<close>

theorem counter_runs_refine_table:
  assumes "tc_wf c h"
  shows "abs_table (fold tc_step ops (c, h)) = fold table_step ops (abs_table (c, h))
    \<and> tc_inv (fold tc_step ops (c, h))"
  using tc_run_refines [of "(c, h)"] tcm.run_inv [of "(c, h)"] assms by simp

theorem counter_runs_refine_table_witness:
  "fst (abs_table (fold tc_step
      [OpTx ''a'' 5, OpRx ''a'' 7, OpTx ''b'' 1, OpReset ''b'', OpTx ''a'' 6]
      (NewTrafficCounter, \<lparr>storages = \<lambda>_. new_storage, next_addr = 0\<rparr>)) ''a'') = 11"
proof -
  let ?h = "\<lparr>storages = \<lambda>_. new_storage, next_addr = 0\<rparr>"
  let ?ops = "[OpTx ''a'' 5, OpRx ''a'' 7, OpTx ''b'' 1, OpReset ''b'', OpTx ''a'' 6]"
  have "tc_wf NewTrafficCounter ?h" by simp
  then have "abs_table (fold tc_step ?ops (NewTrafficCounter, ?h)) =
      fold table_step ?ops (abs_table (NewTrafficCounter, ?h))"
    by (rule counter_runs_refine_table [THEN conjunct1])
  moreover have "abs_table (NewTrafficCounter, ?h) = (\<lambda>_. (0, 0))"
    by (simp add: abs_table_def GetUpCount_def GetDownCount_def NewTrafficCounter_def)
  ultimately show ?thesis by (simp add: i64_def)
qed

end
