(* ===== verification/Conn_Counter.thy ===== *)
theory Conn_Counter
  imports Traffic_Counter
begin

text \<open>
  common/counter/conn.go, common/counter/xraytraffic.go, common/rate/conn.go,
  common/rate/writer.go and core/xray/app/dispatcher/countreader.go: the wrappers that count
  and limit the bytes of a connection. The wrapped connection is an input: each operation
  takes what the inner call returned and gives the effect on the counters (the store), the
  bytes waited for at the rate limiter, and the result handed to the caller.
\<close>

subsection \<open>xraytraffic.go\<close>

text \<open>A pointer to one of the two atomic counters of a storage.\<close>

datatype field_ptr = UpField nat | DownField nat

fun ptr_load :: "field_ptr \<Rightarrow> tstore \<Rightarrow> int" where
  "ptr_load (UpField a) h = UpCounter (storages h a)"
| "ptr_load (DownField a) h = DownCounter (storages h a)"

fun ptr_store :: "field_ptr \<Rightarrow> int \<Rightarrow> tstore \<Rightarrow> tstore" where
  "ptr_store (UpField a) n h = store_up a n h"
| "ptr_store (DownField a) n h = store_down a n h"

definition xtc_Value :: "field_ptr \<Rightarrow> tstore \<Rightarrow> int" where
  "xtc_Value v h = ptr_load v h"

definition xtc_Set :: "field_ptr \<Rightarrow> int \<Rightarrow> tstore \<Rightarrow> int \<times> tstore" where
  "xtc_Set v newValue h = (ptr_load v h, ptr_store v newValue h)"

definition xtc_Add :: "field_ptr \<Rightarrow> int \<Rightarrow> tstore \<Rightarrow> int \<times> tstore" where
  "xtc_Add v delta h = (let n = i64 (ptr_load v h + delta) in (n, ptr_store v n h))"

lemma ptr_load_store [simp]: "ptr_load v (ptr_store v n h) = n"
  by (cases v) simp_all

lemma ptr_load_store_other [simp]: "v \<noteq> w \<Longrightarrow> ptr_load w (ptr_store v n h) = ptr_load w h"
  by (cases v; cases w) simp_all

lemma xtc_Add_is_add:
  "snd (xtc_Add (UpField a) n h) = add_up a n h" "snd (xtc_Add (DownField a) n h) = add_down a n h"
  by (simp_all add: xtc_Add_def add_up_def add_down_def store_up_def store_down_def Let_def)

subsection \<open>conn.go: streams\<close>

type_synonym go_err = "string option"

text \<open>Read and Write store the size of the last call, they do not add it.\<close>

definition cc_Read :: "nat \<Rightarrow> int \<times> go_err \<Rightarrow> tstore \<Rightarrow> (int \<times> go_err) \<times> tstore" where
  "cc_Read a inner h = (case inner of (n, err) \<Rightarrow> ((n, err), store_up a (i64 n) h))"

definition cc_Write :: "nat \<Rightarrow> int \<times> go_err \<Rightarrow> tstore \<Rightarrow> (int \<times> go_err) \<times> tstore" where
  "cc_Write a inner h = (case inner of (n, err) \<Rightarrow> ((n, err), store_down a (i64 n) h))"

text \<open>The inner ReadBuffer returned err and left bufferLen bytes in the buffer.\<close>

definition cc_ReadBuffer :: "nat \<Rightarrow> go_err \<Rightarrow> int \<Rightarrow> tstore \<Rightarrow> go_err \<times> tstore" where
  "cc_ReadBuffer a err bufferLen h =
     (if err \<noteq> None then (err, h)
      else (None, if bufferLen > 0 then add_up a bufferLen h else h))"

definition cc_WriteBuffer :: "nat \<Rightarrow> int \<Rightarrow> go_err \<Rightarrow> tstore \<Rightarrow> go_err \<times> tstore" where
  "cc_WriteBuffer a dataLen err h =
     (if err \<noteq> None then (err, h)
      else (None, if dataLen > 0 then add_down a dataLen h else h))"

text \<open>The functions handed out by UnwrapReader and UnwrapWriter.\<close>

definition cc_readFunc :: "nat \<Rightarrow> int \<Rightarrow> tstore \<Rightarrow> tstore" where
  "cc_readFunc a n h = add_up a n h"

definition cc_writeFunc :: "nat \<Rightarrow> int \<Rightarrow> tstore \<Rightarrow> tstore" where
  "cc_writeFunc a n h = add_down a n h"

subsection \<open>conn.go: packets\<close>

definition pc_ReadPacket :: "nat \<Rightarrow> go_err \<Rightarrow> int \<Rightarrow> tstore \<Rightarrow> go_err \<times> tstore" where
  "pc_ReadPacket a err buffLen h = (if err \<noteq> None then (err, h) else (None, add_up a buffLen h))"

definition pc_WritePacket :: "nat \<Rightarrow> int \<Rightarrow> go_err \<Rightarrow> tstore \<Rightarrow> go_err \<times> tstore" where
  "pc_WritePacket a n err h =
     (if err \<noteq> None then (err, h) else (None, if n > 0 then add_down a n h else h))"

definition pc_readFunc :: "nat \<Rightarrow> int \<Rightarrow> tstore \<Rightarrow> tstore" where
  "pc_readFunc a n h = add_up a n h"

definition pc_writeFunc :: "nat \<Rightarrow> int \<Rightarrow> tstore \<Rightarrow> tstore" where
  "pc_writeFunc a n h = add_down a n h"

subsection \<open>countreader.go\<close>

text \<open>The inner read returned a buffer of mbLen bytes, or an error.\<close>

definition cr_ReadMultiBuffer :: "field_ptr \<Rightarrow> string + int \<Rightarrow> tstore \<Rightarrow> (string + int) \<times> tstore" where
  "cr_ReadMultiBuffer v inner h =
     (case inner of
        Inl err \<Rightarrow> (Inl err, h)
      | Inr mbLen \<Rightarrow> (Inr mbLen, if mbLen > 0 then snd (xtc_Add v mbLen h) else h))"

definition cr_ReadMultiBufferTimeout :: "field_ptr \<Rightarrow> string + int \<Rightarrow> tstore \<Rightarrow> (string + int) \<times> tstore" where
  "cr_ReadMultiBufferTimeout v inner h =
     (case inner of
        Inl err \<Rightarrow> (Inl err, h)
      | Inr mbLen \<Rightarrow> (Inr mbLen, if mbLen > 0 then snd (xtc_Add v mbLen h) else h))"

subsection \<open>common/rate\<close>

text \<open>What the wrapper asks of the token bucket and of the wrapped writer, in order.\<close>

datatype io_call = Wait int | InnerWrite int

definition rate_Read :: "int \<times> go_err \<Rightarrow> (int \<times> go_err) \<times> io_call list" where
  "rate_Read inner = (case inner of (n, err) \<Rightarrow> ((n, err), if n > 0 then [Wait n] else []))"

definition rate_Write :: "int \<Rightarrow> int \<times> go_err \<Rightarrow> (int \<times> go_err) \<times> io_call list" where
  "rate_Write len inner =
     (case inner of (n, err) \<Rightarrow> ((n, err), InnerWrite len # (if n > 0 then [Wait n] else [])))"

definition rate_WriteMultiBuffer :: "int \<Rightarrow> go_err \<Rightarrow> go_err \<times> io_call list" where
  "rate_WriteMultiBuffer mbLen inner = (inner, [Wait mbLen, InnerWrite mbLen])"

text \<open>Close of the writer closes the wrapped one; the result is its error.\<close>

definition rate_Writer_Close :: "go_err \<Rightarrow> go_err" where
  "rate_Writer_Close inner = inner"

record ('c, 'b) rate_conn =
  rc_Conn :: 'c
  rc_limiter :: 'b

definition NewConnRateLimiter :: "'c \<Rightarrow> 'b \<Rightarrow> ('c, 'b) rate_conn" where
  "NewConnRateLimiter c l = \<lparr>rc_Conn = c, rc_limiter = l\<rparr>"

definition NewRateLimitWriter :: "'c \<Rightarrow> 'b \<Rightarrow> ('c, 'b) rate_conn" where
  "NewRateLimitWriter writer limiter = \<lparr>rc_Conn = writer, rc_limiter = limiter\<rparr>"

subsection \<open>conn.go: construction and unwrapping\<close>

text \<open>
  The wrappers with the functions made for their storage; the unwrapped reader or writer comes
  with the function that its bytes are to be given to. extended is bufio.NewExtendedConn.
\<close>

record 'c ConnCounter =
  cc_conn :: 'c
  cc_storage :: nat
  cc_read :: "int \<Rightarrow> tstore \<Rightarrow> tstore"
  cc_write :: "int \<Rightarrow> tstore \<Rightarrow> tstore"

definition NewConnCounter :: "('d \<Rightarrow> 'c) \<Rightarrow> 'd \<Rightarrow> nat \<Rightarrow> 'c ConnCounter" where
  "NewConnCounter extended conn s =
     \<lparr>cc_conn = extended conn, cc_storage = s, cc_read = cc_readFunc s, cc_write = cc_writeFunc s\<rparr>"

definition cc_UnwrapReader :: "'c ConnCounter \<Rightarrow> 'c \<times> (int \<Rightarrow> tstore \<Rightarrow> tstore) list" where
  "cc_UnwrapReader c = (cc_conn c, [cc_read c])"

definition cc_UnwrapWriter :: "'c ConnCounter \<Rightarrow> 'c \<times> (int \<Rightarrow> tstore \<Rightarrow> tstore) list" where
  "cc_UnwrapWriter c = (cc_conn c, [cc_write c])"

definition cc_Upstream :: "'c ConnCounter \<Rightarrow> 'c" where
  "cc_Upstream c = cc_conn c"

record 'c PacketConnCounter =
  pc_conn :: 'c
  pc_storage :: nat
  pc_read :: "int \<Rightarrow> tstore \<Rightarrow> tstore"
  pc_write :: "int \<Rightarrow> tstore \<Rightarrow> tstore"

definition NewPacketConnCounter :: "'c \<Rightarrow> nat \<Rightarrow> 'c PacketConnCounter" where
  "NewPacketConnCounter conn s =
     \<lparr>pc_conn = conn, pc_storage = s, pc_read = pc_readFunc s, pc_write = pc_writeFunc s\<rparr>"

definition pc_UnwrapReader :: "'c PacketConnCounter \<Rightarrow> 'c \<times> (int \<Rightarrow> tstore \<Rightarrow> tstore) list" where
  "pc_UnwrapReader p = (pc_conn p, [pc_read p])"

definition pc_UnwrapWriter :: "'c PacketConnCounter \<Rightarrow> 'c \<times> (int \<Rightarrow> tstore \<Rightarrow> tstore) list" where
  "pc_UnwrapWriter p = (pc_conn p, [pc_write p])"

definition pc_Upstream :: "'c PacketConnCounter \<Rightarrow> 'c" where
  "pc_Upstream p = pc_conn p"

text \<open>
  Whether a buffer is read and written through the wrapper or past it with the functions of
  the unwrapping, the same is counted.
\<close>

theorem unwrapped_paths_count_alike:
  assumes "0 < n" "c = NewConnCounter extended conn a" "p = NewPacketConnCounter conn' a"
  shows "fold (\<lambda>f. f n) (snd (cc_UnwrapReader c)) h = snd (cc_ReadBuffer a None n h)
    \<and> fold (\<lambda>f. f n) (snd (cc_UnwrapWriter c)) h = snd (cc_WriteBuffer a n None h)
    \<and> fold (\<lambda>f. f n) (snd (pc_UnwrapReader p)) h = snd (pc_ReadPacket a None n h)
    \<and> fold (\<lambda>f. f n) (snd (pc_UnwrapWriter p)) h = snd (pc_WritePacket a n None h)"
  using assms(1)
  by (simp add: assms(2,3) NewConnCounter_def NewPacketConnCounter_def cc_UnwrapReader_def cc_UnwrapWriter_def
      pc_UnwrapReader_def pc_UnwrapWriter_def cc_ReadBuffer_def cc_WriteBuffer_def pc_ReadPacket_def pc_WritePacket_def
      cc_readFunc_def cc_writeFunc_def pc_readFunc_def pc_writeFunc_def)

subsection \<open>What is counted\<close>

datatype conn_event =
    ReadEv int go_err
  | WriteEv int go_err
  | ReadBufferEv go_err int
  | WriteBufferEv int go_err
  | ReadFuncEv int
  | WriteFuncEv int

fun conn_step :: "nat \<Rightarrow> conn_event \<Rightarrow> tstore \<Rightarrow> tstore" where
  "conn_step a (ReadEv n err) h = snd (cc_Read a (n, err) h)"
| "conn_step a (WriteEv n err) h = snd (cc_Write a (n, err) h)"
| "conn_step a (ReadBufferEv err n) h = snd (cc_ReadBuffer a err n h)"
| "conn_step a (WriteBufferEv n err) h = snd (cc_WriteBuffer a n err h)"
| "conn_step a (ReadFuncEv n) h = cc_readFunc a n h"
| "conn_step a (WriteFuncEv n) h = cc_writeFunc a n h"

text \<open>The bytes an event carries upwards, by the paths that add.\<close>

fun ev_up :: "conn_event \<Rightarrow> int" where
  "ev_up (ReadBufferEv err n) = (if err = None \<and> n > 0 then n else 0)"
| "ev_up (ReadFuncEv n) = n"
| "ev_up _ = 0"

fun is_stream_read :: "conn_event \<Rightarrow> bool" where
  "is_stream_read (ReadEv n err) = True"
| "is_stream_read _ = False"

lemma conn_step_up:
  "\<not> is_stream_read e \<Longrightarrow>
    i64 (UpCounter (storages (conn_step a e h) a)) = i64 (UpCounter (storages h a) + ev_up e)"
  by (cases e) (auto simp: cc_Read_def cc_Write_def cc_ReadBuffer_def cc_WriteBuffer_def
      cc_readFunc_def cc_writeFunc_def)

lemma conn_run_up:
  "\<forall>e\<in>set es. \<not> is_stream_read e \<Longrightarrow>
    i64 (UpCounter (storages (fold (conn_step a) es h) a)) =
    i64 (UpCounter (storages h a) + sum_list (map ev_up es))"
proof (induction es arbitrary: h)
  case (Cons e es)
  then have "i64 (UpCounter (storages (fold (conn_step a) (e # es) h) a)) =
      i64 (UpCounter (storages (conn_step a e h) a) + sum_list (map ev_up es))"
    by simp
  also have "\<dots> = i64 (UpCounter (storages h a) + ev_up e + sum_list (map ev_up es))"
    using conn_step_up [of e a h] Cons.prems by (metis i64_add_left list.set_intros(1))
  finally show ?case by (simp add: ac_simps)
qed simp

text \<open>
  A connection that uses the buffer and unwrapped paths is counted exactly: the upload
  counter grows by the bytes read, whatever is written in between. A plain Read, though,
  replaces the counter by the size of its own call, so everything counted for the user before
  it is forgotten.
\<close>

theorem conn_counts_or_forgets:
  assumes "\<forall>e\<in>set es. \<not> is_stream_read e"
  shows "i64 (UpCounter (storages (fold (conn_step a) es h) a)) =
      i64 (UpCounter (storages h a) + sum_list (map ev_up es))
    \<and> UpCounter (storages (fold (conn_step a) (ReadEv n err # es) h) a) =
      UpCounter (storages (fold (conn_step a) es (store_up a (i64 n) h)) a)
    \<and> i64 (UpCounter (storages (fold (conn_step a) (ReadEv n err # es) h) a)) =
      i64 (n + sum_list (map ev_up es))"
  using conn_run_up [OF assms] by (simp add: cc_Read_def)

theorem conn_counts_or_forgets_witness:
  "i64 (UpCounter (storages
      (fold (conn_step 0) [ReadEv 7 None, WriteBufferEv 4 None, ReadBufferEv None 5]
        \<lparr>storages = \<lambda>_. \<lparr>UpCounter = 1000, DownCounter = 0\<rparr>, next_addr = 1\<rparr>) 0)) = 12"
proof -
  have "\<forall>e\<in>set [WriteBufferEv 4 None, ReadBufferEv None 5]. \<not> is_stream_read e" by simp
  note r = conn_counts_or_forgets [OF this, where n = 7 and err = None and a = 0
      and h = "\<lparr>storages = \<lambda>_. \<lparr>UpCounter = 1000, DownCounter = 0\<rparr>, next_addr = 1\<rparr>",
      THEN conjunct2, THEN conjunct2]
  show ?thesis by (rule trans [OF r]) (simp add: i64_def)
qed

end
