(* ===== verification/Counter_Race.thy ===== *)
theory Counter_Race
  imports Traffic_Counter
begin

text \<open>
  Concurrent look-ups of a counter. A sync.Map operation is atomic, everything between two of
  them may interleave. TrafficCounter.GetCounter (common/counter/traffic.go) ends with a
  LoadOrStore; the connection hooks (core/sing/hook.go, core/xray/app/dispatcher/default.go)
  look their node's TrafficCounter up with a Load followed by a separate Store.
\<close>

subsection \<open>The steps of both protocols\<close>

text \<open>
  A thread has not started, or it missed and holds the new object it allocated, or it is done
  and holds the object it will count into.
\<close>

datatype look_pc = Begin | Missed nat | Holding nat

record look_sys =
  shared :: "string \<rightharpoonup> nat"
  fresh :: nat
  pcs :: "nat \<Rightarrow> look_pc"

definition look_init :: look_sys where
  "look_init = \<lparr>shared = Map.empty, fresh = 0, pcs = \<lambda>_. Begin\<rparr>"

text \<open>GetCounter: Load, then LoadOrStore of a new storage.\<close>

inductive gc_step :: "(nat \<Rightarrow> string) \<Rightarrow> look_sys \<Rightarrow> look_sys \<Rightarrow> bool" for key where
  gc_load_hit: "pcs s i = Begin \<Longrightarrow> shared s (key i) = Some a \<Longrightarrow>
    gc_step key s (s\<lparr>pcs := (pcs s)(i := Holding a)\<rparr>)"
| gc_load_miss: "pcs s i = Begin \<Longrightarrow> shared s (key i) = None \<Longrightarrow>
    gc_step key s (s\<lparr>pcs := (pcs s)(i := Missed (fresh s)), fresh := Suc (fresh s)\<rparr>)"
| gc_loaded: "pcs s i = Missed a \<Longrightarrow> shared s (key i) = Some b \<Longrightarrow>
    gc_step key s (s\<lparr>pcs := (pcs s)(i := Holding b)\<rparr>)"
| gc_stored: "pcs s i = Missed a \<Longrightarrow> shared s (key i) = None \<Longrightarrow>
    gc_step key s (s\<lparr>shared := (shared s)(key i \<mapsto> a), pcs := (pcs s)(i := Holding a)\<rparr>)"

text \<open>The hooks: Load, then an unconditional Store of a new TrafficCounter.\<close>

inductive hook_step :: "(nat \<Rightarrow> string) \<Rightarrow> look_sys \<Rightarrow> look_sys \<Rightarrow> bool" for key where
  hook_load_hit: "pcs s i = Begin \<Longrightarrow> shared s (key i) = Some a \<Longrightarrow>
    hook_step key s (s\<lparr>pcs := (pcs s)(i := Holding a)\<rparr>)"
| hook_load_miss: "pcs s i = Begin \<Longrightarrow> shared s (key i) = None \<Longrightarrow>
    hook_step key s (s\<lparr>pcs := (pcs s)(i := Missed (fresh s)), fresh := Suc (fresh s)\<rparr>)"
| hook_store: "pcs s i = Missed a \<Longrightarrow>
    hook_step key s (s\<lparr>shared := (shared s)(key i \<mapsto> a), pcs := (pcs s)(i := Holding a)\<rparr>)"

inductive_cases gc_stepE: "gc_step key s t"
inductive_simps gc_step_iff: "gc_step key s t"

inductive look_reach :: "(look_sys \<Rightarrow> look_sys \<Rightarrow> bool) \<Rightarrow> look_sys \<Rightarrow> bool" for R where
  reach_init: "look_reach R look_init"
| reach_step: "look_reach R s \<Longrightarrow> R s t \<Longrightarrow> look_reach R t"

subsection \<open>GetCounter agrees\<close>

text \<open>
  The invariant: whoever is done holds what the map holds for its key, and nobody's new object
  is in the map under another key.
\<close>

definition look_agree :: "(nat \<Rightarrow> string) \<Rightarrow> look_sys \<Rightarrow> bool" where
  "look_agree key s \<longleftrightarrow>
     (\<forall>i a. pcs s i = Holding a \<longrightarrow> shared s (key i) = Some a) \<and>
     (\<forall>i a. pcs s i = Missed a \<longrightarrow> a < fresh s) \<and>
     (\<forall>k a. shared s k = Some a \<longrightarrow> a < fresh s) \<and>
     (\<forall>i j a. pcs s i = Missed a \<longrightarrow> pcs s j = Missed a \<longrightarrow> i = j) \<and>
     (\<forall>i k a. pcs s i = Missed a \<longrightarrow> shared s k \<noteq> Some a) \<and>
     (\<forall>k k' a. shared s k = Some a \<longrightarrow> shared s k' = Some a \<longrightarrow> k = k')"

lemma look_agreeD:
  assumes "look_agree key s"
  shows "pcs s i = Holding a \<Longrightarrow> shared s (key i) = Some a"
    and "pcs s i = Missed a \<Longrightarrow> a < fresh s"
    and "shared s k = Some a \<Longrightarrow> a < fresh s"
    and "pcs s i = Missed a \<Longrightarrow> pcs s j = Missed a \<Longrightarrow> i = j"
    and "pcs s i = Missed a \<Longrightarrow> shared s k \<noteq> Some a"
    and "shared s k = Some a \<Longrightarrow> shared s k' = Some a \<Longrightarrow> k = k'"
  using assms unfolding look_agree_def by blast+

lemma look_agree_init: "look_agree key look_init"
  by (simp add: look_agree_def look_init_def)

lemma gc_step_agree: "gc_step key s t \<Longrightarrow> look_agree key s \<Longrightarrow> look_agree key t"
proof (induction rule: gc_step.induct)
  case (gc_load_hit s i a)
  then show ?case by (auto simp: look_agree_def)
next
  case (gc_load_miss s i)
  then show ?case by (auto simp: look_agree_def less_Suc_eq)
next
  case (gc_loaded s i a b)
  then show ?case by (auto simp: look_agree_def)
next
  case (gc_stored s i a)
  have n: "pcs s j \<noteq> Holding b" if "key j = key i" for j b
  proof
    assume "pcs s j = Holding b"
    with gc_stored(3) have "shared s (key j) = Some b" by (simp add: look_agree_def)
    with that gc_stored(2) show False by simp
  qed
  define t where "t = s\<lparr>shared := (shared s)(key i \<mapsto> a), pcs := (pcs s)(i := Holding a)\<rparr>"
  have sh: "shared t k = (if k = key i then Some a else shared s k)" for k by (simp add: t_def)
  have pc: "pcs t j = (if j = i then Holding a else pcs s j)" for j by (simp add: t_def)
  have fr: "fresh t = fresh s" by (simp add: t_def)
  note L = look_agreeD [OF gc_stored(3)]
  have "pcs t j = Holding b \<Longrightarrow> shared t (key j) = Some b" for j b
    using L(1) n by (auto simp only: sh pc split: if_splits)
  moreover have "pcs t j = Missed b \<Longrightarrow> b < fresh t" for j b
    using L(2) by (auto simp only: pc fr split: if_splits)
  moreover have "shared t k = Some b \<Longrightarrow> b < fresh t" for k b
    using L(3) L(2) [OF gc_stored(1)] by (auto simp only: sh fr split: if_splits)
  moreover have "pcs t j = Missed b \<Longrightarrow> pcs t j' = Missed b \<Longrightarrow> j = j'" for j j' b
    using L(4) by (auto simp only: pc split: if_splits)
  moreover have "pcs t j = Missed b \<Longrightarrow> shared t k \<noteq> Some b" for j k b
    using L(5) L(4) [OF gc_stored(1)] by (auto simp only: pc sh split: if_splits)
  moreover have "shared t k = Some b \<Longrightarrow> shared t k' = Some b \<Longrightarrow> k = k'" for k k' b
    using L(6) L(5) [OF gc_stored(1)] by (auto simp only: sh split: if_splits)
  ultimately have "look_agree key t" unfolding look_agree_def by blast
  then show ?case by (simp add: t_def)
qed

lemma gc_reach_agree: "look_reach (gc_step key) s \<Longrightarrow> look_agree key s"
  by (induction rule: look_reach.induct) (auto intro: look_agree_init gc_step_agree)

text \<open>
  C32: however the look-ups of any number of connections interleave, two that ask for the same
  user end with the same storage, and two that ask for different users never share one.
\<close>

theorem get_counter_interleavings_agree:
  assumes "look_reach (gc_step key) s" "pcs s i = Holding a" "pcs s j = Holding b"
  shows "a = b \<longleftrightarrow> key i = key j"
proof -
  have "look_agree key s" by (rule gc_reach_agree [OF assms(1)])
  then have "shared s (key i) = Some a" "shared s (key j) = Some b"
    and "\<forall>k k' a. shared s k = Some a \<longrightarrow> shared s k' = Some a \<longrightarrow> k = k'"
    using assms(2,3) unfolding look_agree_def by blast+
  then show ?thesis by auto
qed

subsection \<open>The hooks do not\<close>

text \<open>Two connections load before either stores: the run of the lost counter.\<close>

definition race1 :: look_sys where
  "race1 = look_init\<lparr>pcs := (\<lambda>_. Begin)(0 := Missed 0), fresh := 1\<rparr>"

definition race2 :: look_sys where
  "race2 = look_init\<lparr>pcs := (\<lambda>_. Begin)(0 := Missed 0, 1 := Missed 1), fresh := 2\<rparr>"

lemma race2_reach:
  "look_reach (hook_step key) race2" "look_reach (gc_step key) race2"
proof -
  have "hook_step key look_init race1" "gc_step key look_init race1"
    using hook_load_miss [of look_init 0 key] gc_load_miss [of look_init 0 key]
    by (simp_all add: look_init_def race1_def)
  moreover have "hook_step key race1 race2" "gc_step key race1 race2"
    using hook_load_miss [of race1 1 key] gc_load_miss [of race1 1 key]
    by (simp_all add: look_init_def race1_def race2_def numeral_2_eq_2)
  ultimately show "look_reach (hook_step key) race2" "look_reach (gc_step key) race2"
    by (blast intro: look_reach.intros)+
qed

definition race_end :: look_sys where
  "race_end = \<lparr>shared = [''node'' \<mapsto> 1], fresh = 2,
     pcs = (\<lambda>_. Begin)(0 := Holding 0, 1 := Holding 1)\<rparr>"

lemma race_end_reach: "look_reach (hook_step (\<lambda>_. ''node'')) race_end"
proof -
  let ?t = "race2\<lparr>shared := (shared race2)(''node'' \<mapsto> 0), pcs := (pcs race2)(0 := Holding 0)\<rparr>"
  have "hook_step (\<lambda>_. ''node'') race2 ?t"
    using hook_store [of race2 0 0 "\<lambda>_. ''node''"] by (simp add: race2_def)
  moreover have "hook_step (\<lambda>_. ''node'') ?t race_end"
    using hook_store [of ?t 1 1 "\<lambda>_. ''node''"]
    by (simp add: race2_def race_end_def look_init_def fun_upd_twist)
  ultimately show ?thesis using race2_reach(1) by (blast intro: look_reach.intros)
qed

theorem get_counter_interleavings_agree_witness:
  "\<exists>s. look_reach (gc_step (\<lambda>_. ''u'')) s \<and> pcs s 0 = Holding 0 \<and> pcs s 1 = Holding 0
    \<and> ((0::nat) = 0 \<longleftrightarrow> ''u'' = ''u'')"
proof -
  let ?k = "\<lambda>_::nat. ''u''"
  let ?t = "race2\<lparr>shared := (shared race2)(''u'' \<mapsto> 0), pcs := (pcs race2)(0 := Holding 0)\<rparr>"
  let ?e = "?t\<lparr>pcs := (pcs ?t)(1 := Holding 0)\<rparr>"
  have "gc_step ?k race2 ?t"
    using gc_stored [of race2 0 0 ?k] by (simp add: race2_def look_init_def)
  moreover have "gc_step ?k ?t ?e"
    using gc_loaded [of ?t 1 1 ?k 0] by (simp add: race2_def look_init_def)
  ultimately have r: "look_reach (gc_step ?k) ?e"
    using race2_reach(2) by (blast intro: look_reach.intros)
  have p: "pcs ?e 0 = Holding 0" "pcs ?e 1 = Holding 0" by simp_all
  from get_counter_interleavings_agree [OF r p] r p show ?thesis by blast
qed

text \<open>
  With the hooks' Load and Store two connections of one node can end up counting into
  different TrafficCounters, and only the second is in the map, so the first one's traffic is
  never reported.
\<close>

theorem hook_counter_can_be_lost:
  "\<exists>s a b. look_reach (hook_step (\<lambda>_. ''node'')) s \<and> pcs s 0 = Holding a \<and> pcs s 1 = Holding b
    \<and> a \<noteq> b \<and> (\<forall>k. shared s k \<noteq> Some a)"
proof -
  have "pcs race_end 0 = Holding 0" "pcs race_end 1 = Holding 1" "\<forall>k. shared race_end k \<noteq> Some 0"
    by (simp_all add: race_end_def)
  with race_end_reach show ?thesis by (metis zero_neq_one)
qed

end
