(* ===== verification/Panel_Types.thy ===== *)
theory Panel_Types
  imports Go_Strings
begin

text \<open>
  The data of api/panel: what the panel tells a node about itself (node.go) and about its
  users (user.go). A protocol's struct embeds CommonNode and NodeInfo.Common points into it;
  the model keeps that shared part once, in NodeInfo. A value of type any is what the JSON
  decoder or a caller can put into it; a float64 is its exact dyadic value m / 2 ^ k.
\<close>

datatype any =
    ANil
  | ABool bool
  | AInt int
  | AFloat int nat
  | AStr string
  | AStrs "string list"
  | AList "any list"
  | AObj "(string \<times> any) list"

record UserInfo =
  Id :: int
  Uuid :: string
  SpeedLimit :: int
  DeviceLimit :: int

record OnlineUser =
  UID :: int
  IP :: string

record UserTraffic =
  ut_UID :: int
  Upload :: int
  Download :: int

record Route =
  r_Id :: int
  Match :: any
  Action :: string
  ActionValue :: string

record BaseConfig =
  bc_PushInterval :: any
  bc_PullInterval :: any

record CommonNode =
  Host :: string
  ServerPort :: int
  cn_ServerName :: string
  Routes :: "Route list"
  cn_BaseConfig :: "BaseConfig option"

record TlsSettings =
  ts_ServerName :: string
  Dest :: string
  ts_ServerPort :: string
  ShortId :: string
  PrivateKey :: string
  Mldsa65Seed :: string
  Xver :: "64 word"

record EncSettings =
  Mode :: string
  Ticket :: string
  ServerPadding :: string
  es_PrivateKey :: string

record RealityConfig =
  rc_Xver :: "64 word"
  MinClientVer :: string
  MaxClientVer :: string
  MaxTimeDiff :: string

record VAllssNode =
  v_Tls :: int
  TlsSettings :: TlsSettings
  TlsSettingsBack :: "TlsSettings option"
  Network :: string
  NetworkSettings :: string
  NetworkSettingsBack :: string
  Encryption :: string
  EncryptionSettings :: EncSettings
  v_ServerName :: string
  Flow :: string
  RealityConfig :: RealityConfig

record ShadowsocksNode =
  Cipher :: string
  ServerKey :: string

record TrojanNode =
  tr_Network :: string
  tr_NetworkSettings :: string

record TuicNode =
  CongestionControl :: string
  ZeroRTTHandshake :: bool

record AnyTlsNode =
  PaddingScheme :: "string list"

record HysteriaNode =
  h_UpMbps :: int
  h_DownMbps :: int
  Obfs :: string

record Hysteria2Node =
  Ignore_Client_Bandwidth :: bool
  UpMbps :: int
  DownMbps :: int
  ObfsType :: string
  ObfsPassword :: string

record RawDNS =
  DNSMap :: "string \<rightharpoonup> (string \<times> string list)"
  DNSJson :: string

record Rules =
  Regexp :: "string list"
  Protocol :: "string list"

text \<open>Security type.\<close>

definition None_sec :: int where "None_sec = 0"
definition Tls :: int where "Tls = 1"
definition Reality :: int where "Reality = 2"

record NodeInfo =
  ni_Id :: int
  ni_Type :: string
  Security :: int
  PushInterval :: int
  PullInterval :: int
  ni_RawDNS :: RawDNS
  ni_Rules :: Rules
  VAllss :: "VAllssNode option"
  Shadowsocks :: "ShadowsocksNode option"
  Trojan :: "TrojanNode option"
  Tuic :: "TuicNode option"
  AnyTls :: "AnyTlsNode option"
  Hysteria :: "HysteriaNode option"
  Hysteria2 :: "Hysteria2Node option"
  Common :: "CommonNode option"

text \<open>The panel's part of a node's configuration (conf/node.go).\<close>

record ApiConfig =
  ac_APIHost :: string
  ac_APISendIP :: string
  ac_NodeID :: int
  ac_Key :: string
  ac_NodeType :: string
  ac_Timeout :: int
  ac_RuleListPath :: string

lemmas security_defs = None_sec_def Tls_def Reality_def

end
