(* ===== verification/User_Diff.thy ===== *)
theory User_Diff
  imports Panel_Types
begin

text \<open>
  compareUserList (node/user.go): the users to delete and to add when the panel sends a new
  list. The theory holds the function, what it computes, and the locale of user registries:
  the parts of the program (the limiter and the three cores) that follow the list by deleting
  and adding the difference.
\<close>

subsection \<open>The function\<close>

definition user_key :: "UserInfo \<Rightarrow> string" where
  "user_key user = Uuid user @ itoa (SpeedLimit user)"

definition old_map :: "UserInfo list \<Rightarrow> string \<rightharpoonup> nat" where
  "old_map old = fold (\<lambda>(i, user) m. m(user_key user \<mapsto> i)) (enumerate 0 old) Map.empty"

fun scan_new :: "UserInfo list \<Rightarrow> (string \<rightharpoonup> nat) \<Rightarrow> (string \<rightharpoonup> nat) \<times> UserInfo list" where
  "scan_new [] oldMap = (oldMap, [])"
| "scan_new (user # new) oldMap =
     (let key = user_key user in
      if oldMap key = None
      then (let (m, added) = scan_new new oldMap in (m, user # added))
      else scan_new new (oldMap(key := None)))"

text \<open>The last loop visits the keys left in oldMap in the given order.\<close>

definition compareUserList ::
  "string list \<Rightarrow> UserInfo list \<Rightarrow> UserInfo list \<Rightarrow> UserInfo list \<times> UserInfo list" where
  "compareUserList order old new =
     (let (m, added) = scan_new new (old_map old)
      in (List.map_filter (\<lambda>k. map_option (\<lambda>i. old ! i) (m k)) order, added))"

definition compare_order :: "string list \<Rightarrow> UserInfo list \<Rightarrow> UserInfo list \<Rightarrow> bool" where
  "compare_order order old new \<longleftrightarrow> enumerates order (fst (scan_new new (old_map old)))"

subsection \<open>What it computes\<close>

lemma old_map_snoc: "old_map (old @ [u]) = (old_map old)(user_key u \<mapsto> length old)"
  by (simp add: old_map_def enumerate_append_eq)

lemma old_map_Nil: "old_map [] = Map.empty"
  by (simp add: old_map_def)

lemma old_map_dom: "dom (old_map old) = user_key ` set old"
  by (induction old rule: rev_induct) (simp_all add: old_map_snoc old_map_Nil del: fun_upd_apply)

lemma old_map_last:
  "old_map old k = Some i \<longleftrightarrow>
    i < length old \<and> user_key (old ! i) = k \<and> (\<forall>j. i < j \<and> j < length old \<longrightarrow> user_key (old ! j) \<noteq> k)"
proof (induction old rule: rev_induct)
  case Nil
  then show ?case by (simp add: old_map_def)
next
  case (snoc u old)
  then show ?case
    by (auto simp: old_map_snoc nth_append less_Suc_eq split: if_splits)
qed

lemma scan_new_Cons:
  "scan_new (u # us) m =
    (if m (user_key u) = None then (fst (scan_new us m), u # snd (scan_new us m))
     else scan_new us (m(user_key u := None)))"
  by (simp add: Let_def split: prod.splits)

lemma scan_new_map:
  "fst (scan_new new m) k = (if k \<in> user_key ` set new then None else m k)"
  by (induction new arbitrary: m) (auto simp: scan_new_Cons simp del: scan_new.simps(2))

text \<open>
  A new user is added when its key is not an old one, or was already used up by an earlier
  entry of the new list.
\<close>

fun added_spec :: "string set \<Rightarrow> UserInfo list \<Rightarrow> UserInfo list" where
  "added_spec K [] = []"
| "added_spec K (u # us) =
     (if user_key u \<in> K then added_spec (K - {user_key u}) us else u # added_spec K us)"

lemma scan_new_added: "snd (scan_new new m) = added_spec (dom m) new"
proof (induction new arbitrary: m)
  case (Cons u us)
  have "dom (m(user_key u := None)) = dom m - {user_key u}" by auto
  with Cons show ?case by (simp add: scan_new_Cons domIff del: scan_new.simps(2) fun_upd_apply)
qed simp

lemma added_spec_distinct:
  "distinct (map user_key new) \<Longrightarrow> added_spec K new = filter (\<lambda>u. user_key u \<notin> K) new"
proof (induction new arbitrary: K)
  case (Cons u us)
  have "filter (\<lambda>v. user_key v \<notin> K - {user_key u}) us = filter (\<lambda>v. user_key v \<notin> K) us"
    by (rule filter_cong) (use Cons.prems in \<open>auto simp: image_iff\<close>)
  with Cons show ?case by simp
qed simp

lemma compare_added: "snd (compareUserList order old new) = added_spec (user_key ` set old) new"
  by (simp add: compareUserList_def case_prod_beta scan_new_added old_map_dom)

lemma compare_fst:
  "fst (compareUserList order old new) =
    List.map_filter (\<lambda>k. map_option (\<lambda>i. old ! i) (fst (scan_new new (old_map old)) k)) order"
  by (simp add: compareUserList_def case_prod_beta)

lemma in_map_filter: "x \<in> set (List.map_filter f xs) \<longleftrightarrow> (\<exists>k\<in>set xs. f k = Some x)"
  by (force simp: List.map_filter_def)

lemma compare_deleted:
  assumes "compare_order order old new"
  shows "u \<in> set (fst (compareUserList order old new)) \<longleftrightarrow>
    (\<exists>i. i < length old \<and> old ! i = u \<and> user_key u \<notin> user_key ` set new \<and>
      (\<forall>j. i < j \<and> j < length old \<longrightarrow> user_key (old ! j) \<noteq> user_key u))"
proof -
  let ?m = "fst (scan_new new (old_map old))"
  have "u \<in> set (fst (compareUserList order old new)) \<longleftrightarrow>
      (\<exists>k\<in>dom ?m. \<exists>i. ?m k = Some i \<and> old ! i = u)"
    using assms by (simp add: compare_fst in_map_filter compare_order_def enumerates_def)
  also have "\<dots> \<longleftrightarrow> (\<exists>k i. ?m k = Some i \<and> old ! i = u)" by blast
  also have "\<dots> \<longleftrightarrow> (\<exists>i. old_map old (user_key u) = Some i \<and> old ! i = u) \<and> user_key u \<notin> user_key ` set new"
    using old_map_last [of old] by (auto simp: scan_new_map split: if_splits)
  finally show ?thesis by (auto simp: old_map_last)
qed

lemma compare_deleted_distinct:
  assumes "compare_order order old new" "distinct (map user_key old)"
  shows "set (fst (compareUserList order old new)) = {u \<in> set old. user_key u \<notin> user_key ` set new}"
proof -
  have "user_key (old ! j) \<noteq> user_key (old ! i)" if "i < j" "j < length old" for i j
    using assms(2) that by (simp add: distinct_conv_nth)
  then have "u \<in> set (fst (compareUserList order old new)) \<longleftrightarrow>
      (\<exists>i<length old. old ! i = u) \<and> user_key u \<notin> user_key ` set new" for u
    unfolding compare_deleted [OF assms(1)] by blast
  then show ?thesis by (auto simp: in_set_conv_nth)
qed

text \<open>
  The key concatenates the Uuid and the printed speed limit; among Uuids of one length it
  stands for the pair.
\<close>

lemma user_key_eq:
  assumes "length (Uuid u) = length (Uuid v)"
  shows "user_key u = user_key v \<longleftrightarrow> Uuid u = Uuid v \<and> SpeedLimit u = SpeedLimit v"
  using assms by (auto simp: user_key_def dest: itoa_inj)

definition uniform :: "nat \<Rightarrow> UserInfo list \<Rightarrow> bool" where
  "uniform n us \<longleftrightarrow> distinct (map Uuid us) \<and> (\<forall>u\<in>set us. length (Uuid u) = n)"

lemma uniform_distinct_keys: "uniform n us \<Longrightarrow> distinct (map user_key us)"
  by (auto simp: uniform_def distinct_map inj_on_def) (metis user_key_eq)

definition same_user :: "UserInfo \<Rightarrow> UserInfo \<Rightarrow> bool" where
  "same_user u v \<longleftrightarrow> Uuid u = Uuid v \<and> SpeedLimit u = SpeedLimit v"

lemma key_in_uniform:
  assumes "uniform n us" "length (Uuid u) = n"
  shows "user_key u \<in> user_key ` set us \<longleftrightarrow> (\<exists>v\<in>set us. same_user u v)"
  using assms by (auto simp: uniform_def same_user_def image_iff user_key_eq)

lemma compare_exact:
  assumes "uniform n old" "uniform n new" "compare_order order old new"
    and "compareUserList order old new = (deleted, added)"
  shows "set deleted = {u \<in> set old. \<not> (\<exists>v\<in>set new. same_user u v)}"
    and "added = filter (\<lambda>u. \<not> (\<exists>v\<in>set old. same_user u v)) new"
proof -
  have "set deleted = {u \<in> set old. user_key u \<notin> user_key ` set new}"
    using compare_deleted_distinct [OF assms(3) uniform_distinct_keys [OF assms(1)]] assms(4) by simp
  then show "set deleted = {u \<in> set old. \<not> (\<exists>v\<in>set new. same_user u v)}"
    using assms(1) key_in_uniform [OF assms(2)] by (auto simp: uniform_def)
  have "added = filter (\<lambda>u. user_key u \<notin> user_key ` set old) new"
    using compare_added [of order old new] added_spec_distinct [OF uniform_distinct_keys [OF assms(2)]]
      assms(4) by simp
  also have "\<dots> = filter (\<lambda>u. \<not> (\<exists>v\<in>set old. same_user u v)) new"
    by (rule filter_cong [OF refl]) (use assms(2) key_in_uniform [OF assms(1)] in \<open>auto simp: uniform_def\<close>)
  finally show "added = filter (\<lambda>u. \<not> (\<exists>v\<in>set old. same_user u v)) new" .
qed

subsection \<open>User registries\<close>

text \<open>
  The effect of a difference, whatever takes it: where the deleted users are gone and the added
  ones have their entry, every new user has an entry, made from its own record or from the old
  record of the same Uuid and speed limit, and nobody else has one.
\<close>

lemma distinct_added:
  assumes "uniform n old" "uniform n new" "compare_order order old new" "compareUserList order old new = (deleted, added)"
  shows "distinct (map Uuid added)"
  using assms(2) compare_exact [OF assms] by (simp add: uniform_def distinct_map_filter)

lemma sync_looks_new:
  assumes U: "uniform n old" "uniform n new" "compare_order order old new" "compareUserList order old new = (deleted, added)"
    and del: "\<And>k. mb k = (if k \<in> Uuid ` set deleted then None else ma k)"
    and add: "\<And>u. u \<in> set added \<Longrightarrow> mc (Uuid u) = Some (view u)" "\<And>k. k \<notin> Uuid ` set added \<Longrightarrow> mc k = mb k"
    and held: "\<And>u. u \<in> set old \<Longrightarrow> ma (Uuid u) = Some (view u)"
    and u: "u \<in> set new"
  shows "\<exists>w. mc (Uuid u) = Some (view w) \<and> (w = u \<or> w \<in> set old \<and> same_user u w)"
proof -
  note e = compare_exact [OF U]
  show ?thesis
  proof (cases "\<exists>v\<in>set old. same_user u v")
    case False
    with e(2) u have "u \<in> set added" by simp
    then show ?thesis using add(1) by blast
  next
    case True
    then obtain v where v: "v \<in> set old" "same_user u v" by blast
    have "Uuid u \<notin> Uuid ` set added"
    proof
      assume "Uuid u \<in> Uuid ` set added"
      then obtain w where "w \<in> set added" "Uuid w = Uuid u" by force
      with e(2) u U(2) have "w = u" by (auto simp: uniform_def distinct_map inj_on_def)
      with \<open>w \<in> set added\<close> e(2) True show False by simp
    qed
    moreover have "Uuid u \<notin> Uuid ` set deleted"
    proof
      assume "Uuid u \<in> Uuid ` set deleted"
      then obtain w where w: "w \<in> set deleted" "Uuid w = Uuid v" using v by (force simp: same_user_def)
      with e(1) v(1) U(1) have "w = v" by (auto simp: uniform_def distinct_map inj_on_def)
      with w(1) e(1) u v show False by (auto simp: same_user_def)
    qed
    ultimately have "mc (Uuid u) = ma (Uuid u)" using add(2) del by simp
    also have "\<dots> = Some (view v)" using held [OF v(1)] v(2) by (simp add: same_user_def)
    finally show ?thesis using v by blast
  qed
qed

lemma sync_looks_gone:
  assumes U: "uniform n old" "uniform n new" "compare_order order old new" "compareUserList order old new = (deleted, added)"
    and del: "\<And>k. mb k = (if k \<in> Uuid ` set deleted then None else ma k)"
    and add: "\<And>k. k \<notin> Uuid ` set added \<Longrightarrow> mc k = mb k"
    and none: "\<And>k. k \<notin> Uuid ` set old \<Longrightarrow> ma k = None"
    and k: "k \<notin> Uuid ` set new"
  shows "mc k = None"
proof -
  note e = compare_exact [OF U]
  have "k \<notin> Uuid ` set added" using k e(2) by auto
  then have "mc k = mb k" by (rule add)
  moreover have "k \<in> Uuid ` set deleted" if "k \<in> Uuid ` set old"
    using that k e(1) by (auto simp: same_user_def)
  ultimately show ?thesis using none del by auto
qed

text \<open>
  That a table holds a list: every user of the list has an entry, made from a record with its
  Uuid and speed limit, and nobody else has one. A difference keeps this, so it holds after any
  number of them.
\<close>

definition holds :: "(UserInfo \<Rightarrow> 'v) \<Rightarrow> UserInfo list \<Rightarrow> (string \<Rightarrow> 'v option) \<Rightarrow> bool" where
  "holds view us m \<longleftrightarrow>
     (\<forall>u\<in>set us. \<exists>v. m (Uuid u) = Some (view v) \<and> same_user u v) \<and> (\<forall>k. k \<notin> Uuid ` set us \<longrightarrow> m k = None)"

lemma holdsI:
  assumes "\<And>u. u \<in> set us \<Longrightarrow> m (Uuid u) = Some (view u)" "\<And>k. k \<notin> Uuid ` set us \<Longrightarrow> m k = None"
  shows "holds view us m"
  using assms by (auto simp: holds_def same_user_def)

lemma sync_holds:
  assumes U: "uniform n old" "uniform n new" "compare_order order old new" "compareUserList order old new = (deleted, added)"
    and del: "\<And>k. mb k = (if k \<in> Uuid ` set deleted then None else ma k)"
    and add: "\<And>u. u \<in> set added \<Longrightarrow> mc (Uuid u) = Some (view u)" "\<And>k. k \<notin> Uuid ` set added \<Longrightarrow> mc k = mb k"
    and held: "holds view old ma"
  shows "holds view new mc"
proof -
  note e = compare_exact [OF U]
  have "\<exists>v. mc (Uuid u) = Some (view v) \<and> same_user u v" if u: "u \<in> set new" for u
  proof (cases "u \<in> set added")
    case True
    with add(1) show ?thesis by (auto simp: same_user_def)
  next
    case False
    with e(2) u obtain w where w: "w \<in> set old" "same_user u w" by auto
    obtain v where v: "ma (Uuid w) = Some (view v)" "same_user w v" using held w(1) by (auto simp: holds_def)
    have "Uuid u \<notin> Uuid ` set added"
      using False e(2) U(2) u by (auto simp: uniform_def distinct_map inj_on_def)
    moreover have "Uuid u \<notin> Uuid ` set deleted"
    proof
      assume "Uuid u \<in> Uuid ` set deleted"
      then obtain x where x: "x \<in> set old" "Uuid x = Uuid w" "x \<in> set deleted"
        using e(1) w(2) by (auto simp: same_user_def)
      then have "x = w" using U(1) w(1) by (auto simp: uniform_def distinct_map inj_on_def)
      with x e(1) u w(2) show False by (auto simp: same_user_def)
    qed
    ultimately have "mc (Uuid u) = ma (Uuid w)" using add(2) del w(2) by (simp add: same_user_def)
    with v w(2) show ?thesis by (auto simp: same_user_def)
  qed
  note kept = this
  have none: "ma k = None" if "k \<notin> Uuid ` set old" for k
    using held that by (simp add: holds_def)
  have "mc k = None" if "k \<notin> Uuid ` set new" for k
    by (rule sync_looks_gone [where ma = ma and mb = mb and mc = mc, OF U del add(2) none that])
  with kept show ?thesis by (simp add: holds_def)
qed

text \<open>
  What the controller relies on when it synchronises a limiter or a core with the panel: after
  deleting users their entries are gone, after adding users their entries are made from them,
  and nobody else's entry changes.
\<close>

locale user_registry =
  fixes add :: "UserInfo list \<Rightarrow> 's \<Rightarrow> 's"
    and del :: "UserInfo list \<Rightarrow> 's \<Rightarrow> 's"
    and look :: "'s \<Rightarrow> string \<Rightarrow> 'v option"
    and view :: "UserInfo \<Rightarrow> 'v"
    and reg_inv :: "'s \<Rightarrow> bool"
  assumes add_inv: "reg_inv s \<Longrightarrow> reg_inv (add us s)"
    and del_inv: "reg_inv s \<Longrightarrow> reg_inv (del us s)"
    and look_del: "reg_inv s \<Longrightarrow> look (del us s) k = (if k \<in> Uuid ` set us then None else look s k)"
    and look_add: "reg_inv s \<Longrightarrow> distinct (map Uuid us) \<Longrightarrow> u \<in> set us \<Longrightarrow>
      look (add us s) (Uuid u) = Some (view u)"
    and look_add_other: "reg_inv s \<Longrightarrow> k \<notin> Uuid ` set us \<Longrightarrow> look (add us s) k = look s k"
begin

text \<open>
  A registry that holds the old list and gets the difference holds the new list: every new
  user has an entry, made from its own record or from the old record of the same Uuid and
  speed limit, and nobody else has one.
\<close>

lemma sync_new:
  assumes "reg_inv s" "uniform n old" "uniform n new" "compare_order order old new"
    and c: "compareUserList order old new = (deleted, added)"
    and held: "\<And>u. u \<in> set old \<Longrightarrow> look s (Uuid u) = Some (view u)"
    and u: "u \<in> set new"
  shows "\<exists>w. look (add added (del deleted s)) (Uuid u) = Some (view w)
    \<and> (w = u \<or> w \<in> set old \<and> same_user u w)"
proof (rule sync_looks_new [where ma = "look s" and mb = "look (del deleted s)" and mc = "look (add added (del deleted s))" and view = view and u = u,
    OF assms(2-4) c _ _ _ held u])
  note i = del_inv [OF assms(1)]
  show "look (del deleted s) k = (if k \<in> Uuid ` set deleted then None else look s k)" for k
    by (rule look_del [OF assms(1)])
  show "look (add added (del deleted s)) (Uuid v) = Some (view v)" if "v \<in> set added" for v
    by (rule look_add [OF i distinct_added [OF assms(2-4) c] that])
  show "look (add added (del deleted s)) k = look (del deleted s) k" if "k \<notin> Uuid ` set added" for k
    by (rule look_add_other [OF i that])
qed

lemma sync_gone:
  assumes "reg_inv s" "uniform n old" "uniform n new" "compare_order order old new"
    and c: "compareUserList order old new = (deleted, added)"
    and none: "\<And>k. k \<notin> Uuid ` set old \<Longrightarrow> look s k = None"
    and k: "k \<notin> Uuid ` set new"
  shows "look (add added (del deleted s)) k = None"
proof (rule sync_looks_gone [where ma = "look s" and mb = "look (del deleted s)" and mc = "look (add added (del deleted s))" and k = k,
    OF assms(2-4) c _ _ none k])
  show "look (del deleted s) k = (if k \<in> Uuid ` set deleted then None else look s k)" for k
    by (rule look_del [OF assms(1)])
  show "look (add added (del deleted s)) k = look (del deleted s) k" if "k \<notin> Uuid ` set added" for k
    by (rule look_add_other [OF del_inv [OF assms(1)] that])
qed

lemma reg_holds:
  assumes "reg_inv s" "uniform n old" "uniform n new" "compare_order order old new"
    and c: "compareUserList order old new = (deleted, added)"
    and held: "holds view old (look s)"
  shows "holds view new (look (add added (del deleted s)))"
proof (rule sync_holds [where ma = "look s" and mb = "look (del deleted s)" and view = view, OF assms(2-4) c _ _ _ held])
  note i = del_inv [OF assms(1)]
  show "look (del deleted s) k = (if k \<in> Uuid ` set deleted then None else look s k)" for k
    by (rule look_del [OF assms(1)])
  show "look (add added (del deleted s)) (Uuid v) = Some (view v)" if "v \<in> set added" for v
    by (rule look_add [OF i distinct_added [OF assms(2-4) c] that])
  show "look (add added (del deleted s)) k = look (del deleted s) k" if "k \<notin> Uuid ` set added" for k
    by (rule look_add_other [OF i that])
qed

end

subsection \<open>Properties\<close>

text \<open>
  C20: for two lists whose Uuids are distinct and of one length (as the panel's are), the
  difference is exact: deleted holds the old users that no new user equals in Uuid and speed
  limit, added the new users that no old user equals, in the panel's order.
\<close>

theorem compare_user_list_exact:
  assumes "uniform n old" "uniform n new" "compare_order order old new"
  shows "set (fst (compareUserList order old new)) = {u \<in> set old. \<not> (\<exists>v\<in>set new. same_user u v)}
    \<and> snd (compareUserList order old new) = filter (\<lambda>u. \<not> (\<exists>v\<in>set old. same_user u v)) new"
  using compare_exact [OF assms, of "fst (compareUserList order old new)" "snd (compareUserList order old new)"]
  by simp

definition user_a :: UserInfo where
  "user_a = \<lparr>Id = 1, Uuid = ''aaaa'', SpeedLimit = 10, DeviceLimit = 2\<rparr>"

definition user_b :: UserInfo where
  "user_b = \<lparr>Id = 2, Uuid = ''bbbb'', SpeedLimit = 0, DeviceLimit = 0\<rparr>"

lemma itoa_examples:
  "itoa 10 = ''10''" "itoa 0 = ''0''" "itoa 20 = ''20''" "itoa 1 = ''1''" "itoa 11 = ''11''"
  by code_simp+

theorem compare_user_list_exact_witness:
  "set (fst (compareUserList [''aaaa10''] [user_a, user_b] [user_b, user_a\<lparr>SpeedLimit := 20\<rparr>])) = {user_a}
    \<and> snd (compareUserList [''aaaa10''] [user_a, user_b] [user_b, user_a\<lparr>SpeedLimit := 20\<rparr>])
      = [user_a\<lparr>SpeedLimit := 20\<rparr>]"
proof -
  let ?old = "[user_a, user_b]" and ?new = "[user_b, user_a\<lparr>SpeedLimit := 20\<rparr>]"
  have k: "user_key user_a = ''aaaa10''" "user_key user_b = ''bbbb0''"
    "user_key (user_a\<lparr>SpeedLimit := 20\<rparr>) = ''aaaa20''"
    by (simp_all add: user_key_def user_a_def user_b_def itoa_examples)
  have "uniform 4 ?old" "uniform 4 ?new" by (simp_all add: uniform_def user_a_def user_b_def)
  moreover have "compare_order [''aaaa10''] ?old ?new"
    by (auto simp: compare_order_def enumerates_def old_map_def k)
  ultimately have "set (fst (compareUserList [''aaaa10''] ?old ?new)) = {u \<in> set ?old. \<not> (\<exists>v\<in>set ?new. same_user u v)}
    \<and> snd (compareUserList [''aaaa10''] ?old ?new) = filter (\<lambda>u. \<not> (\<exists>v\<in>set ?old. same_user u v)) ?new"
    by (rule compare_user_list_exact)
  moreover have "{u \<in> set ?old. \<not> (\<exists>v\<in>set ?new. same_user u v)} = {user_a}"
    "filter (\<lambda>u. \<not> (\<exists>v\<in>set ?old. same_user u v)) ?new = [user_a\<lparr>SpeedLimit := 20\<rparr>]"
    by (auto simp: same_user_def user_a_def user_b_def)
  ultimately show ?thesis by simp
qed

text \<open>
  The comparison does not look at the device limit or the Id: whatever device limits the
  panel changes, nobody is deleted and nobody is added, so neither the limiter nor the cores
  see the change.
\<close>

theorem compare_misses_device_limit:
  assumes "distinct (map user_key us)" "compare_order order us (map (\<lambda>u. u\<lparr>DeviceLimit := d u\<rparr>) us)"
  shows "compareUserList order us (map (\<lambda>u. u\<lparr>DeviceLimit := d u\<rparr>) us) = ([], [])"
proof -
  let ?new = "map (\<lambda>u. u\<lparr>DeviceLimit := d u\<rparr>) us"
  have k: "user_key (u\<lparr>DeviceLimit := d u\<rparr>) = user_key u" for u by (simp add: user_key_def)
  have m: "map user_key ?new = map user_key us" by (simp add: k)
  have s: "user_key ` set ?new = user_key ` set us" using m by (metis list.set_map)
  have "set (fst (compareUserList order us ?new)) = {}"
    unfolding compare_deleted_distinct [OF assms(2,1)] s by blast
  moreover have "snd (compareUserList order us ?new) = filter (\<lambda>u. user_key u \<notin> user_key ` set us) ?new"
    unfolding compare_added by (rule added_spec_distinct) (simp only: m assms(1))
  moreover have "filter (\<lambda>u. user_key u \<notin> user_key ` set us) ?new = []"
    by (auto simp: filter_empty_conv k)
  ultimately show ?thesis by (simp add: prod_eq_iff)
qed

theorem compare_misses_device_limit_witness:
  "compareUserList [] [user_a] [user_a\<lparr>DeviceLimit := 1\<rparr>] = ([], [])"
proof -
  have "distinct (map user_key [user_a])" by simp
  moreover have "compare_order [] [user_a] (map (\<lambda>u. u\<lparr>DeviceLimit := (\<lambda>_. 1) u\<rparr>) [user_a])"
    by (simp add: compare_order_def enumerates_Nil old_map_def user_key_def fun_eq_iff)
  ultimately show ?thesis
    using compare_misses_device_limit [of "[user_a]" "[]" "\<lambda>_. 1"] by simp
qed

text \<open>
  The key is ambiguous when Uuids differ in length: a user replaced by another whose printed
  limit completes the shorter Uuid is taken to be the same user.
\<close>

lemma user_key_ambiguous:
  "user_key \<lparr>Id = 1, Uuid = ''a1'', SpeedLimit = 1, DeviceLimit = 0\<rparr> =
   user_key \<lparr>Id = 2, Uuid = ''a'', SpeedLimit = 11, DeviceLimit = 0\<rparr>"
  by (simp add: user_key_def itoa_examples)

end
