(* ===== verification/Limiter.thy ===== *)
theory Limiter
  imports User_Diff
begin

text \<open>
  The package limiter (limiter.go, dynamic.go, rule.go): the registry of limiters, the limits
  of a node's users, the admission of a connection with its device limit and rate, the report
  of the addresses on line, and the routing rules. A UserLimitInfo and the address map of a
  user are only reached through the sync.Map that holds them, so both are kept by value. A
  *ratelimit.Bucket is an element of a type 'b; the bucket NewBucketWithQuantum returns is an
  argument of CheckLimit.
\<close>

subsection \<open>State\<close>

record UserLimitInfo =
  ul_UID :: int
  ul_SpeedLimit :: int
  ul_DeviceLimit :: int
  DynamicSpeedLimit :: int
  ExpireTime :: int
  OverLimit :: bool

definition empty_limit :: UserLimitInfo where
  "empty_limit = \<lparr>ul_UID = 0, ul_SpeedLimit = 0, ul_DeviceLimit = 0, DynamicSpeedLimit = 0,
     ExpireTime = 0, OverLimit = False\<rparr>"

text \<open>A compiled rule is its expression; a nil *regexp.Regexp is None.\<close>

record 'b Limiter =
  DomainRules :: "string option list"
  ProtocolRules :: "string list"
  l_SpeedLimit :: int
  UserOnlineIP :: "string \<rightharpoonup> (string \<rightharpoonup> int)"
  OldUserOnline :: "string \<rightharpoonup> int"
  UUIDtoUID :: "string \<rightharpoonup> int"
  l_UserLimitInfo :: "string \<rightharpoonup> UserLimitInfo"
  SpeedLimiter :: "string \<rightharpoonup> 'b"
  AliveList :: "int \<rightharpoonup> int"

record DynamicSpeedLimitConfig =
  dl_Periodic :: int
  dl_Traffic :: int
  dl_SpeedLimit :: int
  dl_ExpireTime :: int

record LimitConfig =
  EnableRealtime :: bool
  lc_SpeedLimit :: int
  IPLimit :: int
  ConnLimit :: int
  EnableIpRecorder :: bool
  EnableDynamicSpeedLimit :: bool
  lc_DynamicSpeedLimitConfig :: "DynamicSpeedLimitConfig option"

text \<open>The zero value of the struct.\<close>

definition zero_limit_config :: LimitConfig where
  "zero_limit_config =
     \<lparr>EnableRealtime = False, lc_SpeedLimit = 0, IPLimit = 0, ConnLimit = 0, EnableIpRecorder = False,
      EnableDynamicSpeedLimit = False, lc_DynamicSpeedLimitConfig = None\<rparr>"

subsection \<open>dynamic.go: determineSpeedLimit\<close>

definition determineSpeedLimit :: "int \<Rightarrow> int \<Rightarrow> int" where
  "determineSpeedLimit limit1 limit2 =
     (if limit1 = 0 \<or> limit2 = 0 then
        (if limit1 > limit2 then limit1 else if limit1 < limit2 then limit2 else 0)
      else
        (if limit1 > limit2 then limit2 else if limit1 < limit2 then limit1 else limit1))"

subsection \<open>limiter.go: the registry\<close>

text \<open>
  The limiters live in a store, the global map holds their addresses: the controller keeps the
  pointer AddLimiter returned when the entry is replaced or deleted.
\<close>

record 'b limiters =
  registry :: "string \<rightharpoonup> nat"
  lims :: "nat \<Rightarrow> 'b Limiter"
  next_lim :: nat

definition new_limit :: "UserInfo \<Rightarrow> UserLimitInfo" where
  "new_limit user =
     (let userLimit = empty_limit\<lparr>ul_UID := Id user\<rparr>;
          userLimit = (if SpeedLimit user \<noteq> 0 then userLimit\<lparr>ul_SpeedLimit := SpeedLimit user\<rparr> else userLimit);
          userLimit = (if DeviceLimit user \<noteq> 0 then userLimit\<lparr>ul_DeviceLimit := DeviceLimit user\<rparr> else userLimit)
      in userLimit\<lparr>OverLimit := False\<rparr>)"

definition make_limiter :: "string \<Rightarrow> LimitConfig \<Rightarrow> UserInfo list \<Rightarrow> (int \<rightharpoonup> int) \<Rightarrow> 'b Limiter" where
  "make_limiter tag l users aliveList =
     \<lparr>DomainRules = [], ProtocolRules = [], l_SpeedLimit = lc_SpeedLimit l, UserOnlineIP = Map.empty,
      OldUserOnline = Map.empty,
      UUIDtoUID = fold (\<lambda>u m. m(Uuid u \<mapsto> Id u)) users Map.empty,
      l_UserLimitInfo = fold (\<lambda>u m. m(UserTag tag (Uuid u) \<mapsto> new_limit u)) users Map.empty,
      SpeedLimiter = Map.empty, AliveList = aliveList\<rparr>"

definition Init :: "'b limiters \<Rightarrow> 'b limiters" where
  "Init g = g\<lparr>registry := Map.empty\<rparr>"

definition AddLimiter ::
  "string \<Rightarrow> LimitConfig \<Rightarrow> UserInfo list \<Rightarrow> (int \<rightharpoonup> int) \<Rightarrow> 'b limiters \<Rightarrow> nat \<times> 'b limiters" where
  "AddLimiter tag l users aliveList g =
     (let a = next_lim g
      in (a, \<lparr>registry = (registry g)(tag \<mapsto> a),
              lims = (lims g)(a := make_limiter tag l users aliveList), next_lim = Suc a\<rparr>))"

definition GetLimiter :: "string \<Rightarrow> 'b limiters \<Rightarrow> nat result" where
  "GetLimiter tag g = (case registry g tag of None \<Rightarrow> Inl (Err ''not found'') | Some a \<Rightarrow> Inr a)"

definition DeleteLimiter :: "string \<Rightarrow> 'b limiters \<Rightarrow> 'b limiters" where
  "DeleteLimiter tag g = g\<lparr>registry := (registry g)(tag := None)\<rparr>"

subsection \<open>limiter.go and dynamic.go: the users\<close>

definition delete_user :: "string \<Rightarrow> UserInfo \<Rightarrow> 'b Limiter \<Rightarrow> 'b Limiter" where
  "delete_user tag u l =
     (let k = UserTag tag (Uuid u)
      in l\<lparr>l_UserLimitInfo := (l_UserLimitInfo l)(k := None), UserOnlineIP := (UserOnlineIP l)(k := None),
           SpeedLimiter := (SpeedLimiter l)(k := None), UUIDtoUID := (UUIDtoUID l)(Uuid u := None),
           AliveList := (AliveList l)(Id u := None)\<rparr>)"

definition add_user :: "string \<Rightarrow> UserInfo \<Rightarrow> 'b Limiter \<Rightarrow> 'b Limiter" where
  "add_user tag u l =
     l\<lparr>l_UserLimitInfo := (l_UserLimitInfo l)(UserTag tag (Uuid u) \<mapsto> new_limit u),
       UUIDtoUID := (UUIDtoUID l)(Uuid u \<mapsto> Id u)\<rparr>"

definition UpdateUser :: "string \<Rightarrow> UserInfo list \<Rightarrow> UserInfo list \<Rightarrow> 'b Limiter \<Rightarrow> 'b Limiter" where
  "UpdateUser tag added deleted l = fold (add_user tag) added (fold (delete_user tag) deleted l)"

definition UpdateDynamicSpeedLimit ::
  "string \<Rightarrow> string \<Rightarrow> int \<Rightarrow> int \<Rightarrow> 'b Limiter \<Rightarrow> 'b Limiter \<times> unit result" where
  "UpdateDynamicSpeedLimit tag uuid limit expire l =
     (case l_UserLimitInfo l (UserTag tag uuid) of
        Some info \<Rightarrow>
          (l\<lparr>l_UserLimitInfo := (l_UserLimitInfo l)
               (UserTag tag uuid \<mapsto> info\<lparr>DynamicSpeedLimit := limit, ExpireTime := expire\<rparr>)\<rparr>, Inr ())
      | None \<Rightarrow> (l, Inl (Err ''not found'')))"

text \<open>
  time.Now().Add(expire seconds).Unix(), with now in seconds; the product with time.Second
  wraps as a Duration does.
\<close>

definition expire_at :: "int \<Rightarrow> int \<Rightarrow> int" where
  "expire_at now_ns expire = (now_ns + i64 (expire * 1000000000)) div 1000000000"

definition AddDynamicSpeedLimit :: "int \<Rightarrow> string \<Rightarrow> UserInfo \<Rightarrow> int \<Rightarrow> int \<Rightarrow> 'b Limiter \<Rightarrow> 'b Limiter" where
  "AddDynamicSpeedLimit now_ns tag userInfo limitNum expire l =
     l\<lparr>l_UserLimitInfo := (l_UserLimitInfo l)(UserTag tag (Uuid userInfo) \<mapsto>
         empty_limit\<lparr>DynamicSpeedLimit := limitNum, ExpireTime := expire_at now_ns expire\<rparr>)\<rparr>"

subsection \<open>limiter.go: CheckLimit\<close>

text \<open>
  The first part: the user's limits, with the end of an expired dynamic limit. None is the
  early return that rejects an unknown user; otherwise userLimit, deviceLimit and uid.
\<close>

definition check_user :: "int \<Rightarrow> string \<Rightarrow> 'b Limiter \<Rightarrow> 'b Limiter \<times> (int \<times> int \<times> int) option" where
  "check_user now taguuid l =
     (case l_UserLimitInfo l taguuid of
        None \<Rightarrow> (l, None)
      | Some u \<Rightarrow>
          (if ExpireTime u < now \<and> ExpireTime u \<noteq> 0 then
             (if ul_SpeedLimit u \<noteq> 0 then
                (l\<lparr>l_UserLimitInfo := (l_UserLimitInfo l)
                     (taguuid \<mapsto> u\<lparr>DynamicSpeedLimit := 0, ExpireTime := 0\<rparr>)\<rparr>,
                 Some (ul_SpeedLimit u, ul_DeviceLimit u, ul_UID u))
              else
                (l\<lparr>l_UserLimitInfo := (l_UserLimitInfo l)(taguuid := None)\<rparr>,
                 Some (0, ul_DeviceLimit u, ul_UID u)))
           else (l, Some (determineSpeedLimit (ul_SpeedLimit u) (DynamicSpeedLimit u),
                          ul_DeviceLimit u, ul_UID u))))"

text \<open>The second part, for noSSUDP connections: False is the early return that rejects.\<close>

definition check_device :: "string \<Rightarrow> string \<Rightarrow> int \<Rightarrow> int \<Rightarrow> 'b Limiter \<Rightarrow> 'b Limiter \<times> bool" where
  "check_device taguuid ip uid deviceLimit l =
     (let aliveIp = get0 (AliveList l) uid
      in case UserOnlineIP l taguuid of
           Some oldipMap \<Rightarrow>
             (if oldipMap ip \<noteq> None then (l, True)
              else
                (let l1 = l\<lparr>UserOnlineIP := (UserOnlineIP l)(taguuid \<mapsto> oldipMap(ip \<mapsto> uid))\<rparr>
                 in case OldUserOnline l ip of
                      Some v \<Rightarrow>
                        (if v = uid then (l1\<lparr>OldUserOnline := (OldUserOnline l1)(ip := None)\<rparr>, True)
                         else (l1, True))
                    | None \<Rightarrow>
                        (if deviceLimit > 0 \<and> deviceLimit \<le> aliveIp
                         then (l1\<lparr>UserOnlineIP := (UserOnlineIP l1)(taguuid \<mapsto> (oldipMap(ip \<mapsto> uid))(ip := None))\<rparr>, False)
                         else (l1, True))))
         | None \<Rightarrow>
             (let l1 = l\<lparr>UserOnlineIP := (UserOnlineIP l)(taguuid \<mapsto> [ip \<mapsto> uid])\<rparr>
              in case OldUserOnline l ip of
                   Some v \<Rightarrow>
                     (if v = uid then (l1\<lparr>OldUserOnline := (OldUserOnline l1)(ip := None)\<rparr>, True)
                      else (l1, True))
                 | None \<Rightarrow>
                     (if deviceLimit > 0 \<and> deviceLimit \<le> aliveIp
                      then (l1\<lparr>UserOnlineIP := (UserOnlineIP l1)(taguuid := None)\<rparr>, False)
                      else (l1, True))))"

text \<open>The third part: the bucket. newBucket takes the fill interval, the capacity and the quantum.\<close>

definition second_ns :: int where "second_ns = 1000000000"

definition byte_rate :: "int \<Rightarrow> int" where
  "byte_rate limit = i64 (limit * 1000000) sdiv 8"

definition check_speed ::
  "(int \<Rightarrow> int \<Rightarrow> int \<Rightarrow> 'b) \<Rightarrow> string \<Rightarrow> int \<Rightarrow> 'b Limiter \<Rightarrow> 'b Limiter \<times> 'b option" where
  "check_speed newBucket taguuid userLimit l =
     (let limit = byte_rate (determineSpeedLimit (l_SpeedLimit l) userLimit)
      in if limit > 0 then
           (let Bucket = newBucket second_ns limit limit
            in case SpeedLimiter l taguuid of
                 Some v \<Rightarrow> (l, Some v)
               | None \<Rightarrow> (l\<lparr>SpeedLimiter := (SpeedLimiter l)(taguuid \<mapsto> Bucket)\<rparr>, Some Bucket))
         else (l, None))"

definition CheckLimit ::
  "(int \<Rightarrow> int \<Rightarrow> int \<Rightarrow> 'b) \<Rightarrow> int \<Rightarrow> string \<Rightarrow> string \<Rightarrow> bool \<Rightarrow> bool \<Rightarrow> 'b Limiter
   \<Rightarrow> 'b Limiter \<times> 'b option \<times> bool" where
  "CheckLimit newBucket now taguuid ip isTcp noSSUDP l =
     (let ip = trimPrefix ip ''::ffff:''
      in case check_user now taguuid l of
           (l1, None) \<Rightarrow> (l1, None, True)
         | (l1, Some (userLimit, deviceLimit, uid)) \<Rightarrow>
             (let (l2, admit) = (if noSSUDP then check_device taguuid ip uid deviceLimit l1 else (l1, True))
              in if \<not> admit then (l2, None, True)
                 else (let (l3, bucket) = check_speed newBucket taguuid userLimit l2 in (l3, bucket, False))))"

subsection \<open>limiter.go: GetOnlineDevice\<close>

text \<open>
  The ranges visit the users in the order given, and the addresses of user k in the order
  ips k.
\<close>

definition online_visit ::
  "(string \<Rightarrow> string list) \<Rightarrow> string \<Rightarrow> 'b Limiter \<times> OnlineUser list \<Rightarrow> 'b Limiter \<times> OnlineUser list" where
  "online_visit ips k st =
     (case st of (l, out) \<Rightarrow>
       (case UserOnlineIP l k of
          None \<Rightarrow> st
        | Some ipMap \<Rightarrow>
            (let (old, out') = fold (\<lambda>ip (old, out).
                    case ipMap ip of
                      None \<Rightarrow> (old, out)
                    | Some uid \<Rightarrow> (old(ip \<mapsto> uid), out @ [\<lparr>UID = uid, IP = ip\<rparr>]))
                  (ips k) (OldUserOnline l, out)
             in (l\<lparr>OldUserOnline := old, UserOnlineIP := (UserOnlineIP l)(k := None)\<rparr>, out'))))"

definition GetOnlineDevice ::
  "string list \<Rightarrow> (string \<Rightarrow> string list) \<Rightarrow> 'b Limiter \<Rightarrow> 'b Limiter \<times> OnlineUser list" where
  "GetOnlineDevice users ips l = fold (online_visit ips) users (l\<lparr>OldUserOnline := Map.empty\<rparr>, [])"

subsection \<open>rule.go\<close>

fun match_rules :: "(string \<Rightarrow> string \<Rightarrow> bool) \<Rightarrow> string option list \<Rightarrow> string \<Rightarrow> bool result" where
  "match_rules matchString [] destination = Inr False"
| "match_rules matchString (None # rs) destination = Inl (Panic ''nil pointer dereference'')"
| "match_rules matchString (Some r # rs) destination =
     (if matchString r destination then Inr True else match_rules matchString rs destination)"

definition CheckDomainRule :: "(string \<Rightarrow> string \<Rightarrow> bool) \<Rightarrow> string \<Rightarrow> 'b Limiter \<Rightarrow> bool result" where
  "CheckDomainRule matchString destination l = match_rules matchString (DomainRules l) destination"

fun find_protocol :: "string list \<Rightarrow> string \<Rightarrow> bool" where
  "find_protocol [] protocol = False"
| "find_protocol (p # ps) protocol = (if p = protocol then True else find_protocol ps protocol)"

definition CheckProtocolRule :: "string \<Rightarrow> 'b Limiter \<Rightarrow> bool" where
  "CheckProtocolRule protocol l = find_protocol (ProtocolRules l) protocol"

text \<open>
  valid r holds of the expressions regexp.MustCompile accepts; at the first other one it
  panics, with the rules before it set and the rest still nil.
\<close>

definition UpdateRule :: "(string \<Rightarrow> bool) \<Rightarrow> Rules \<Rightarrow> 'b Limiter \<Rightarrow> 'b Limiter \<times> unit result" where
  "UpdateRule valid rule l =
     (let good = takeWhile valid (Regexp rule); n = length (Regexp rule)
      in if length good = n
         then (l\<lparr>DomainRules := map Some good, ProtocolRules := Protocol rule\<rparr>, Inr ())
         else (l\<lparr>DomainRules := map Some good @ replicate (n - length good) None\<rparr>,
               Inl (Panic ''regexp: Compile'')))"

subsection \<open>Speeds\<close>

text \<open>
  What a speed limit means: 0 is no limit. With Unlimited above every limit the code's
  determineSpeedLimit is the minimum of a linear order.
\<close>

datatype speed = Limited int | Unlimited

instantiation speed :: linorder
begin

fun less_eq_speed :: "speed \<Rightarrow> speed \<Rightarrow> bool" where
  "less_eq_speed s Unlimited = True"
| "less_eq_speed Unlimited (Limited b) = False"
| "less_eq_speed (Limited a) (Limited b) = (a \<le> b)"

definition less_speed :: "speed \<Rightarrow> speed \<Rightarrow> bool" where
  "less_speed s t \<longleftrightarrow> s \<le> t \<and> \<not> t \<le> s"

instance
proof
  fix x y z :: speed
  show "x < y \<longleftrightarrow> x \<le> y \<and> \<not> y \<le> x" by (rule less_speed_def)
  show "x \<le> x" by (cases x) simp_all
  show "x \<le> y \<Longrightarrow> y \<le> z \<Longrightarrow> x \<le> z" by (cases x; cases y; cases z) simp_all
  show "x \<le> y \<Longrightarrow> y \<le> x \<Longrightarrow> x = y" by (cases x; cases y) simp_all
  show "x \<le> y \<or> y \<le> x" by (cases x; cases y) auto
qed

end

definition speed_of :: "int \<Rightarrow> speed" where
  "speed_of n = (if n = 0 then Unlimited else Limited n)"

lemma determine_min:
  assumes "0 \<le> a" "0 \<le> b"
  shows "speed_of (determineSpeedLimit a b) = min (speed_of a) (speed_of b)"
  using assms by (auto simp: determineSpeedLimit_def speed_of_def min_def)

lemma determine_nonneg: "0 \<le> a \<Longrightarrow> 0 \<le> b \<Longrightarrow> 0 \<le> determineSpeedLimit a b"
  by (simp add: determineSpeedLimit_def)

lemma determine_comm: "determineSpeedLimit a b = determineSpeedLimit b a"
  by (auto simp: determineSpeedLimit_def)

lemma determine_le: "determineSpeedLimit a b \<le> max a b"
  by (auto simp: determineSpeedLimit_def)

text \<open>One Mbit/s is 125000 byte/s, exactly, as long as the product fits an int64.\<close>

lemma byte_rate_exact:
  assumes "0 \<le> n" "n < 2 ^ 43"
  shows "byte_rate n = n * 125000"
proof -
  have "i64 (n * 1000000) = n * 1000000"
    by (rule i64_nonneg_small) (use assms in simp_all)
  moreover have "(n * 1000000) sdiv 8 = n * 125000"
    using assms by (simp add: signed_divide_int_def sgn_if)
  ultimately show ?thesis by (simp add: byte_rate_def)
qed

subsection \<open>CheckLimit, part by part\<close>

definition expired :: "int \<Rightarrow> UserLimitInfo \<Rightarrow> bool" where
  "expired now u \<longleftrightarrow> ExpireTime u < now \<and> ExpireTime u \<noteq> 0"

text \<open>The user's own limit in force at a time: the dynamic one counts until it expires.\<close>

definition user_speed :: "int \<Rightarrow> UserLimitInfo \<Rightarrow> int" where
  "user_speed now u =
     (if expired now u then ul_SpeedLimit u else determineSpeedLimit (ul_SpeedLimit u) (DynamicSpeedLimit u))"

lemma check_user_result:
  "snd (check_user now k l) =
    map_option (\<lambda>u. (user_speed now u, ul_DeviceLimit u, ul_UID u)) (l_UserLimitInfo l k)"
  by (simp add: check_user_def user_speed_def expired_def split: option.split)

lemma check_user_frame:
  "fst (check_user now k l) = l\<lparr>l_UserLimitInfo := l_UserLimitInfo (fst (check_user now k l))\<rparr>"
  by (simp add: check_user_def split: option.split)

lemma check_user_fields [simp]:
  "UserOnlineIP (fst (check_user now k l)) = UserOnlineIP l"
  "OldUserOnline (fst (check_user now k l)) = OldUserOnline l"
  "AliveList (fst (check_user now k l)) = AliveList l"
  "SpeedLimiter (fst (check_user now k l)) = SpeedLimiter l"
  "l_SpeedLimit (fst (check_user now k l)) = l_SpeedLimit l"
  "UUIDtoUID (fst (check_user now k l)) = UUIDtoUID l"
  by (subst check_user_frame; simp)+

lemma check_user_other: "j \<noteq> k \<Longrightarrow> l_UserLimitInfo (fst (check_user now k l)) j = l_UserLimitInfo l j"
  by (simp add: check_user_def split: option.split)

text \<open>An address is new when the user is not on line from it since the last report.\<close>

definition new_ip :: "string \<Rightarrow> string \<Rightarrow> 'b Limiter \<Rightarrow> bool" where
  "new_ip k ip l \<longleftrightarrow> (case UserOnlineIP l k of None \<Rightarrow> True | Some m \<Rightarrow> m ip = None)"

definition devices_full :: "int \<Rightarrow> int \<Rightarrow> 'b Limiter \<Rightarrow> bool" where
  "devices_full uid deviceLimit l \<longleftrightarrow> deviceLimit > 0 \<and> deviceLimit \<le> get0 (AliveList l) uid"

definition refuses :: "string \<Rightarrow> string \<Rightarrow> int \<Rightarrow> int \<Rightarrow> 'b Limiter \<Rightarrow> bool" where
  "refuses k ip uid deviceLimit l \<longleftrightarrow>
     new_ip k ip l \<and> OldUserOnline l ip = None \<and> devices_full uid deviceLimit l"

definition recorded :: "string \<Rightarrow> string \<Rightarrow> int \<Rightarrow> (string \<rightharpoonup> (string \<rightharpoonup> int)) \<Rightarrow> string \<rightharpoonup> (string \<rightharpoonup> int)" where
  "recorded k ip uid online =
     (case online k of
        None \<Rightarrow> online(k \<mapsto> [ip \<mapsto> uid])
      | Some m \<Rightarrow> online(k \<mapsto> m(ip \<mapsto> (case m ip of None \<Rightarrow> uid | Some v \<Rightarrow> v))))"

lemma check_device_refuses:
  assumes "refuses k ip uid d l"
  shows "check_device k ip uid d l = (l, False)"
proof (cases "UserOnlineIP l k")
  case None
  then have "(UserOnlineIP l)(k \<mapsto> [ip \<mapsto> uid], k := None) = UserOnlineIP l" by (simp add: fun_eq_iff)
  with None assms show ?thesis
    by (simp add: check_device_def refuses_def devices_full_def Let_def del: fun_upd_apply)
next
  case (Some m)
  with assms have m: "m ip = None" by (simp add: refuses_def new_ip_def)
  then have "(UserOnlineIP l)(k \<mapsto> m(ip \<mapsto> uid), k \<mapsto> m(ip \<mapsto> uid, ip := None)) = UserOnlineIP l"
    using Some by (simp add: fun_eq_iff)
  with Some assms m show ?thesis
    by (simp add: check_device_def refuses_def devices_full_def Let_def del: fun_upd_apply)
qed

definition forget_old :: "string \<Rightarrow> int \<Rightarrow> bool \<Rightarrow> (string \<rightharpoonup> int) \<Rightarrow> string \<rightharpoonup> int" where
  "forget_old ip uid fresh old = (if fresh \<and> old ip = Some uid then old(ip := None) else old)"

lemma check_device_admits:
  assumes "\<not> refuses k ip uid d l"
  shows "check_device k ip uid d l =
    (l\<lparr>UserOnlineIP := recorded k ip uid (UserOnlineIP l),
       OldUserOnline := forget_old ip uid (new_ip k ip l) (OldUserOnline l)\<rparr>, True)"
proof (cases "UserOnlineIP l k")
  case None
  with assms show ?thesis
    by (auto simp: check_device_def refuses_def devices_full_def new_ip_def recorded_def forget_old_def Let_def
        simp del: fun_upd_apply split: option.split)
next
  case (Some m)
  show ?thesis
  proof (cases "m ip")
    case None
    with Some assms show ?thesis
      by (auto simp: check_device_def refuses_def devices_full_def new_ip_def recorded_def forget_old_def Let_def
          simp del: fun_upd_apply split: option.split)
  next
    case (Some v)
    then have "m(ip \<mapsto> v) = m" by (rule fun_upd_idem)
    moreover have "(UserOnlineIP l)(k \<mapsto> m) = UserOnlineIP l" using \<open>UserOnlineIP l k = Some m\<close> by (rule fun_upd_idem)
    ultimately show ?thesis using Some \<open>UserOnlineIP l k = Some m\<close>
      by (simp add: check_device_def new_ip_def recorded_def forget_old_def Let_def del: fun_upd_apply)
  qed
qed

lemma check_speed_frame:
  "fst (check_speed nb k u l) = l\<lparr>SpeedLimiter := SpeedLimiter (fst (check_speed nb k u l))\<rparr>"
  by (simp add: check_speed_def Let_def split: option.split)

lemma check_speed_fields [simp]:
  "UserOnlineIP (fst (check_speed nb k u l)) = UserOnlineIP l"
  "OldUserOnline (fst (check_speed nb k u l)) = OldUserOnline l"
  "l_UserLimitInfo (fst (check_speed nb k u l)) = l_UserLimitInfo l"
  "AliveList (fst (check_speed nb k u l)) = AliveList l"
  by (subst check_speed_frame; simp)+

text \<open>CheckLimit as a whole, by the three cases.\<close>

lemma CheckLimit_cases:
  "CheckLimit nb now k ip tcp nossudp l =
    (case l_UserLimitInfo l k of
       None \<Rightarrow> (l, None, True)
     | Some u \<Rightarrow>
         (let l1 = fst (check_user now k l); ip' = trimPrefix ip ''::ffff:'';
              l2 = (if nossudp
                    then l1\<lparr>UserOnlineIP := recorded k ip' (ul_UID u) (UserOnlineIP l1),
                            OldUserOnline := forget_old ip' (ul_UID u) (new_ip k ip' l1) (OldUserOnline l1)\<rparr>
                    else l1);
              (l3, b) = check_speed nb k (user_speed now u) l2
          in if nossudp \<and> refuses k ip' (ul_UID u) (ul_DeviceLimit u) l1 then (l1, None, True)
             else (l3, b, False)))"
proof (cases "l_UserLimitInfo l k")
  case None
  then show ?thesis by (simp add: CheckLimit_def check_user_def)
next
  case (Some u)
  then have c: "check_user now k l =
      (fst (check_user now k l), Some (user_speed now u, ul_DeviceLimit u, ul_UID u))"
    using check_user_result [of now k l] by (simp add: prod_eq_iff)
  let ?l1 = "fst (check_user now k l)" and ?ip = "trimPrefix ip ''::ffff:''"
  show ?thesis
  proof (cases "refuses k ?ip (ul_UID u) (ul_DeviceLimit u) ?l1")
    case True
    then show ?thesis unfolding CheckLimit_def Let_def Some
      by (subst c) (simp add: check_device_refuses split: prod.split)
  next
    case False
    then show ?thesis unfolding CheckLimit_def Let_def Some
      by (subst c) (simp add: check_device_admits split: prod.split)
  qed
qed

end
