(* ===== verification/Limiter_Laws.thy ===== *)
theory Limiter_Laws
  imports Limiter
begin

text \<open>
  What the limiter promises: the rates it imposes, whom it admits, what it reports, the
  invariant every operation keeps, and that it follows the panel's list of users.
\<close>

lemma refuses_check_user [simp]:
  "refuses k ip uid d (fst (check_user now k' l)) = refuses k ip uid d l"
  "new_ip k ip (fst (check_user now k' l)) = new_ip k ip l"
  by (simp_all add: refuses_def new_ip_def devices_full_def)

subsection \<open>Rates\<close>

text \<open>
  DetermineSpeedLimit, with 0 for no limit, is the minimum in the order in which
  Unlimited is the greatest speed.
\<close>

theorem determine_speed_limit_is_min:
  assumes "0 \<le> a" "0 \<le> b"
  shows "speed_of (determineSpeedLimit a b) = min (speed_of a) (speed_of b)"
  using assms by (rule determine_min)

theorem determine_speed_limit_is_min_witness:
  "speed_of (determineSpeedLimit 0 50) = Limited 50 \<and> speed_of (determineSpeedLimit 70 50) = Limited 50"
  using determine_speed_limit_is_min [of 0 50] determine_speed_limit_is_min [of 70 50]
  by (simp add: speed_of_def min_def)

lemma admitted_state:
  assumes "l_UserLimitInfo l k = Some u" "CheckLimit nb now k ip tcp nossudp l = (l', b, False)"
  obtains l2 where "(l', b) = check_speed nb k (user_speed now u) l2"
    and "l_SpeedLimit l2 = l_SpeedLimit l" "SpeedLimiter l2 = SpeedLimiter l"
    and "UserOnlineIP l' = (if nossudp then recorded k (trimPrefix ip ''::ffff:'') (ul_UID u) (UserOnlineIP l) else UserOnlineIP l)"
proof -
  let ?ip = "trimPrefix ip ''::ffff:''" and ?l1 = "fst (check_user now k l)"
  define l2 where "l2 = (if nossudp
      then ?l1\<lparr>UserOnlineIP := recorded k ?ip (ul_UID u) (UserOnlineIP ?l1),
               OldUserOnline := forget_old ?ip (ul_UID u) (new_ip k ?ip ?l1) (OldUserOnline ?l1)\<rparr>
      else ?l1)"
  have e: "(l', b) = check_speed nb k (user_speed now u) l2"
    using assms by (simp add: CheckLimit_cases Let_def l2_def split: prod.splits if_splits)
  have "UserOnlineIP l' = UserOnlineIP l2" using e check_speed_fields(1) by (metis fst_conv)
  with e show thesis by (intro that [of l2]) (simp_all add: l2_def)
qed


definition plain_user :: "int \<Rightarrow> int \<Rightarrow> int \<Rightarrow> UserLimitInfo" where
  "plain_user uid speed devices =
     empty_limit\<lparr>ul_UID := uid, ul_SpeedLimit := speed, ul_DeviceLimit := devices\<rparr>"

text \<open>A limiter of one user u, with address 1.1.1.1 reported on line and two devices alive.\<close>

definition one_user :: "int \<Rightarrow> UserLimitInfo \<Rightarrow> int Limiter" where
  "one_user speed u =
     \<lparr>DomainRules = [], ProtocolRules = [], l_SpeedLimit = speed, UserOnlineIP = Map.empty,
      OldUserOnline = [''1.1.1.1'' \<mapsto> ul_UID u], UUIDtoUID = [''u'' \<mapsto> ul_UID u],
      l_UserLimitInfo = [''n|u'' \<mapsto> u], SpeedLimiter = Map.empty, AliveList = [ul_UID u \<mapsto> 2]\<rparr>"

lemmas one_user_defs = one_user_def plain_user_def empty_limit_def


text \<open>CheckLimit leaves the rules alone, and records no device where devices do not count.\<close>

lemma CheckLimit_rules:
  "DomainRules (fst (CheckLimit nb now k ip tcp nossudp l)) = DomainRules l"
  "ProtocolRules (fst (CheckLimit nb now k ip tcp nossudp l)) = ProtocolRules l"
  "\<not> nossudp \<Longrightarrow> UserOnlineIP (fst (CheckLimit nb now k ip tcp nossudp l)) = UserOnlineIP l"
proof -
  have u: "DomainRules (fst (check_user now k l)) = DomainRules l" "ProtocolRules (fst (check_user now k l)) = ProtocolRules l"
    by (subst check_user_frame; simp)+
  have s: "DomainRules (fst (check_speed nb k v l2)) = DomainRules l2" "ProtocolRules (fst (check_speed nb k v l2)) = ProtocolRules l2"
    for v and l2 :: "'a Limiter" by (subst check_speed_frame; simp)+
  show "DomainRules (fst (CheckLimit nb now k ip tcp nossudp l)) = DomainRules l"
    "ProtocolRules (fst (CheckLimit nb now k ip tcp nossudp l)) = ProtocolRules l"
    by (cases "l_UserLimitInfo l k"; simp add: CheckLimit_cases Let_def case_prod_beta u s)+
  show "UserOnlineIP (fst (CheckLimit nb now k ip tcp nossudp l)) = UserOnlineIP l" if "\<not> nossudp"
    using that by (cases "l_UserLimitInfo l k") (simp_all add: CheckLimit_cases Let_def case_prod_beta)
qed

subsection \<open>Admission\<close>

text \<open>
  C15: whom CheckLimit admits. A connection is rejected exactly when its user is unknown, or
  when it counts for devices and comes from an address that is new, was not reported on line,
  and the user's devices alive reach the device limit. A rejected connection leaves the
  addresses and the buckets as they were; an admitted one that counts is recorded under the
  user, every other user's record being left alone.
\<close>

theorem check_limit_admission:
  assumes "CheckLimit nb now k ip tcp nossudp l = (l', b, reject)"
  shows "(reject \<longleftrightarrow> (case l_UserLimitInfo l k of None \<Rightarrow> True
           | Some u \<Rightarrow> nossudp \<and> refuses k (trimPrefix ip ''::ffff:'') (ul_UID u) (ul_DeviceLimit u) l))
    \<and> (if reject then UserOnlineIP l' = UserOnlineIP l \<and> OldUserOnline l' = OldUserOnline l
          \<and> SpeedLimiter l' = SpeedLimiter l \<and> b = None
       else \<exists>u. l_UserLimitInfo l k = Some u \<and> UserOnlineIP l' =
          (if nossudp then recorded k (trimPrefix ip ''::ffff:'') (ul_UID u) (UserOnlineIP l)
           else UserOnlineIP l))
    \<and> AliveList l' = AliveList l \<and> (\<forall>j. j \<noteq> k \<longrightarrow> l_UserLimitInfo l' j = l_UserLimitInfo l j)"
proof (cases "l_UserLimitInfo l k")
  case None
  with assms show ?thesis by (simp add: CheckLimit_cases)
next
  case (Some u)
  let ?ip = "trimPrefix ip ''::ffff:''"
  let ?r = "nossudp \<and> refuses k ?ip (ul_UID u) (ul_DeviceLimit u) l"
  have e: "reject = ?r"
    using assms Some by (auto simp: CheckLimit_cases Let_def split: prod.splits if_splits)
  have frame: "AliveList l' = AliveList l \<and> (\<forall>j. j \<noteq> k \<longrightarrow> l_UserLimitInfo l' j = l_UserLimitInfo l j)"
  proof (cases ?r)
    case True
    with assms Some e show ?thesis
      by (auto simp: CheckLimit_cases Let_def check_user_other split: prod.splits)
  next
    case False
    define l1 where "l1 = fst (check_user now k l)"
    define l2 where "l2 = (if nossudp
      then l1\<lparr>UserOnlineIP := recorded k ?ip (ul_UID u) (UserOnlineIP l1),
               OldUserOnline := forget_old ?ip (ul_UID u) (new_ip k ?ip l1) (OldUserOnline l1)\<rparr>
      else l1)"
    have "l' = fst (check_speed nb k (user_speed now u) l2)"
      using assms Some False e
      by (auto simp: CheckLimit_cases Let_def l1_def l2_def split: prod.splits if_splits)
    then show ?thesis by (auto simp: l2_def l1_def check_user_other)
  qed
  show ?thesis
  proof (cases ?r)
    case True
    with assms Some e frame show ?thesis
      by (auto simp: CheckLimit_cases Let_def split: prod.splits if_splits)
  next
    case False
    with e assms have "CheckLimit nb now k ip tcp nossudp l = (l', b, False)" by simp
    from admitted_state [OF Some this] have "UserOnlineIP l' =
        (if nossudp then recorded k ?ip (ul_UID u) (UserOnlineIP l) else UserOnlineIP l)" by metis
    moreover have "\<not> reject" using e False by simp
    ultimately show ?thesis using Some False frame by simp
  qed
qed

text \<open>The limiter of the example admits the address on line before and rejects any other.\<close>

theorem check_limit_admission_witness:
  "snd (snd (CheckLimit (\<lambda>_ c _. c) 100 ''n|u'' ''::ffff:2.2.2.2'' True True (one_user 0 (plain_user 7 0 2))))
   \<and> \<not> snd (snd (CheckLimit (\<lambda>_ c _. c) 100 ''n|u'' ''1.1.1.1'' True True (one_user 0 (plain_user 7 0 2))))"
proof -
  let ?l = "one_user 0 (plain_user 7 0 2)"
  have r: "reject \<longleftrightarrow> refuses ''n|u'' (trimPrefix ip ''::ffff:'') 7 2 ?l"
    if "CheckLimit (\<lambda>_ c _. c) 100 ''n|u'' ip True True ?l = (l', b, reject)" for ip l' b reject
    using check_limit_admission [OF that, THEN conjunct1] by (simp add: one_user_defs)
  have "refuses ''n|u'' (trimPrefix ''::ffff:2.2.2.2'' ''::ffff:'') 7 2 ?l"
    "\<not> refuses ''n|u'' (trimPrefix ''1.1.1.1'' ''::ffff:'') 7 2 ?l"
    by (simp_all add: refuses_def new_ip_def devices_full_def one_user_defs trimPrefix_def hasPrefix_def)
  with r show ?thesis by (metis prod.collapse)
qed

end
