(* ===== verification/Limiter_Runs.thy ===== *)
theory Limiter_Runs
  imports Limiter_Laws
begin

text \<open>
  The limiter over time: dynamic limits and their end, the report of the addresses on line,
  the rules, the invariant of every run, the synchronisation with the panel's list.
\<close>

subsection \<open>The end of a dynamic limit\<close>

text \<open>The state an admitted connection hands to the speed check.\<close>

definition after_device :: "int \<Rightarrow> string \<Rightarrow> string \<Rightarrow> bool \<Rightarrow> UserLimitInfo \<Rightarrow> 'b Limiter \<Rightarrow> 'b Limiter" where
  "after_device now k ip nossudp u l =
     (let l1 = fst (check_user now k l); ip' = trimPrefix ip ''::ffff:''
      in if nossudp
         then l1\<lparr>UserOnlineIP := recorded k ip' (ul_UID u) (UserOnlineIP l),
                 OldUserOnline := forget_old ip' (ul_UID u) (new_ip k ip' l) (OldUserOnline l)\<rparr>
         else l1)"

lemma CheckLimit_state:
  assumes "l_UserLimitInfo l k = Some u"
  shows "fst (CheckLimit nb now k ip tcp nossudp l) =
    (if nossudp \<and> refuses k (trimPrefix ip ''::ffff:'') (ul_UID u) (ul_DeviceLimit u) l
     then fst (check_user now k l)
     else fst (check_speed nb k (user_speed now u) (after_device now k ip nossudp u l)))"
  using assms by (simp add: CheckLimit_cases case_prod_beta Let_def after_device_def)

lemma CheckLimit_unknown:
  "l_UserLimitInfo l k = None \<Longrightarrow> CheckLimit nb now k ip tcp nossudp l = (l, None, True)"
  by (simp add: CheckLimit_cases)

lemma after_device_limits [simp]:
  "l_UserLimitInfo (after_device now k ip nossudp u l) = l_UserLimitInfo (fst (check_user now k l))"
  by (simp add: after_device_def Let_def)

lemma CheckLimit_limits:
  "l_UserLimitInfo (fst (CheckLimit nb now k ip tcp nossudp l)) =
   l_UserLimitInfo (fst (check_user now k l))"
proof (cases "l_UserLimitInfo l k")
  case None
  then show ?thesis by (simp add: CheckLimit_unknown check_user_def)
next
  case (Some u)
  then show ?thesis by (simp add: CheckLimit_state)
qed

text \<open>
  C19: AddDynamicSpeedLimit replaces the user's record by one without UID, limit and device
  limit. Once it has expired, the first connection of the user removes the record, and from
  then on the limiter knows the user no more: every connection is rejected, until the panel
  has the user deleted and added again.
\<close>

theorem expired_dynamic_limit_locks_user_out:
  assumes "expire_at start expire < now" "expire_at start expire \<noteq> 0"
    and "l1 = AddDynamicSpeedLimit start tag user limit expire l"
    and "l2 = fst (CheckLimit nb now (UserTag tag (Uuid user)) ip tcp nossudp l1)"
  shows "CheckLimit nb later (UserTag tag (Uuid user)) ip' tcp' nossudp' l2 = (l2, None, True)"
proof (rule CheckLimit_unknown)
  let ?k = "UserTag tag (Uuid user)"
  have "l_UserLimitInfo (fst (check_user now ?k l1)) ?k = None"
    using assms(1-3) by (simp add: AddDynamicSpeedLimit_def check_user_def empty_limit_def)
  then show "l_UserLimitInfo l2 ?k = None" by (simp add: assms(4) CheckLimit_limits)
qed

theorem expired_dynamic_limit_locks_user_out_witness:
  "snd (snd (CheckLimit (\<lambda>_ c _. c) 1000000200 ''n|u'' ''1.1.1.1'' True True
     (fst (CheckLimit (\<lambda>_ c _. c) 1000000100 ''n|u'' ''1.1.1.1'' True True
       (AddDynamicSpeedLimit 1000000000000000000 ''n'' \<lparr>Id = 7, Uuid = ''u'', SpeedLimit = 0, DeviceLimit = 0\<rparr>
         10 60 (one_user 0 (plain_user 7 0 2)))))))"
proof -
  have e: "expire_at 1000000000000000000 60 = 1000000060"
    by (simp add: expire_at_def i64_def)
  then have h: "expire_at 1000000000000000000 60 < 1000000100" "expire_at 1000000000000000000 60 \<noteq> 0"
    by simp_all
  let ?u = "\<lparr>Id = 7, Uuid = ''u'', SpeedLimit = 0, DeviceLimit = 0\<rparr>" and ?nb = "\<lambda>_ c _. c :: int"
  let ?l1 = "AddDynamicSpeedLimit 1000000000000000000 ''n'' ?u 10 60 (one_user 0 (plain_user 7 0 2))"
  have k: "UserTag ''n'' (Uuid ?u) = ''n|u''" by (simp add: UserTag_def)
  have "CheckLimit ?nb 1000000200 (UserTag ''n'' (Uuid ?u)) ''1.1.1.1'' True True
      (fst (CheckLimit ?nb 1000000100 (UserTag ''n'' (Uuid ?u)) ''1.1.1.1'' True True ?l1)) =
      (fst (CheckLimit ?nb 1000000100 (UserTag ''n'' (Uuid ?u)) ''1.1.1.1'' True True ?l1), None, True)"
    by (rule expired_dynamic_limit_locks_user_out [OF h refl refl])
  then show ?thesis unfolding k by simp
qed

subsection \<open>GetOnlineDevice\<close>

definition ip_entries :: "string list \<Rightarrow> (string \<rightharpoonup> int) \<Rightarrow> OnlineUser list" where
  "ip_entries order m = List.map_filter (\<lambda>ip. map_option (\<lambda>uid. \<lparr>UID = uid, IP = ip\<rparr>) (m ip)) order"

definition remember :: "(string \<rightharpoonup> int) \<Rightarrow> string list \<Rightarrow> (string \<rightharpoonup> int) \<Rightarrow> string \<rightharpoonup> int" where
  "remember m = fold (\<lambda>ip old. case m ip of None \<Rightarrow> old | Some uid \<Rightarrow> old(ip \<mapsto> uid))"

lemma online_inner:
  "fold (\<lambda>ip (old, out). case m ip of None \<Rightarrow> (old, out)
       | Some uid \<Rightarrow> (old(ip \<mapsto> uid), out @ [\<lparr>UID = uid, IP = ip\<rparr>])) order (old, out) =
   (remember m order old,
    out @ ip_entries order m)"
proof (induction order arbitrary: old out)
  case Nil
  then show ?case by (simp add: ip_entries_def List.map_filter_def remember_def)
next
  case (Cons ip order)
  then show ?case
    by (cases "m ip") (simp_all add: ip_entries_def List.map_filter_def remember_def del: fun_upd_apply)
qed

lemma old_fold_dom:
  "dom (remember m order old) =
   dom old \<union> (set order \<inter> dom m)"
proof (induction order arbitrary: old)
  case (Cons ip order)
  then show ?case by (cases "m ip") (auto simp: remember_def simp del: fun_upd_apply)
qed (simp add: remember_def)

lemma online_visit_cases:
  "online_visit ips k (l, out) =
    (case UserOnlineIP l k of
       None \<Rightarrow> (l, out)
     | Some m \<Rightarrow>
         (l\<lparr>OldUserOnline := remember m (ips k) (OldUserOnline l),
            UserOnlineIP := (UserOnlineIP l)(k := None)\<rparr>,
          out @ ip_entries (ips k) m))"
  by (simp add: online_visit_def online_inner split: option.split)

definition online_entries :: "(string \<Rightarrow> string list) \<Rightarrow> 'b Limiter \<Rightarrow> string \<Rightarrow> OnlineUser list" where
  "online_entries ips l k = (case UserOnlineIP l k of None \<Rightarrow> [] | Some m \<Rightarrow> ip_entries (ips k) m)"

definition online_ips :: "(string \<Rightarrow> string list) \<Rightarrow> 'b Limiter \<Rightarrow> string \<Rightarrow> string set" where
  "online_ips ips l k = (case UserOnlineIP l k of None \<Rightarrow> {} | Some m \<Rightarrow> set (ips k) \<inter> dom m)"

lemma online_fold:
  assumes "distinct ks" "fold (online_visit ips) ks (l, out) = (l', out')"
  shows "out' = out @ concat (map (online_entries ips l) ks)
    \<and> UserOnlineIP l' = (UserOnlineIP l) |` (- set ks)
    \<and> dom (OldUserOnline l') = dom (OldUserOnline l) \<union> (\<Union>k\<in>set ks. online_ips ips l k)"
  using assms
proof (induction ks arbitrary: l out)
  case Nil
  then show ?case by simp
next
  case (Cons k ks)
  obtain l1 out1 where v: "online_visit ips k (l, out) = (l1, out1)" by (metis prod.collapse)
  have o1: "out1 = out @ online_entries ips l k"
    using v by (auto simp: online_visit_cases online_entries_def split: option.splits)
  have u1: "UserOnlineIP l1 = (UserOnlineIP l)(k := None)"
    using v by (cases "UserOnlineIP l k") (auto simp: online_visit_cases)
  have d1: "dom (OldUserOnline l1) = dom (OldUserOnline l) \<union> online_ips ips l k"
    using arg_cong [OF v, of fst, symmetric]
    by (cases "UserOnlineIP l k") (simp_all add: online_visit_cases online_ips_def old_fold_dom)
  from Cons.prems have nk: "k \<notin> set ks" and d: "distinct ks"
    and f: "fold (online_visit ips) ks (l1, out1) = (l', out')" by (simp_all add: v)
  have e: "map (online_entries ips l1) ks = map (online_entries ips l) ks"
    using nk by (auto simp: online_entries_def u1)
  have i: "(\<Union>j\<in>set ks. online_ips ips l1 j) = (\<Union>j\<in>set ks. online_ips ips l j)"
    by (rule SUP_cong [OF refl]) (use nk in \<open>auto simp: online_ips_def u1\<close>)
  have r: "(UserOnlineIP l1) |` (- set ks) = (UserOnlineIP l) |` (- set (k # ks))"
    by (auto simp: u1 restrict_map_def fun_eq_iff)
  show ?case using Cons.IH [OF d f] by (simp add: e i r o1 d1 Un_assoc)
qed

text \<open>
  The report of the addresses on line. Whatever the order of the two ranges, the report
  lists each recorded address of each user exactly once with the UID it was recorded under;
  afterwards nobody is recorded on line, and the addresses remembered from the report are
  exactly the reported ones.
\<close>

theorem get_online_device_report:
  assumes "enumerates users (UserOnlineIP l)"
    and "\<forall>k m. UserOnlineIP l k = Some m \<longrightarrow> enumerates (ips k) m"
    and "GetOnlineDevice users ips l = (l', out)"
  shows "set out = {\<lparr>UID = uid, IP = ip\<rparr> | uid ip. \<exists>k m. UserOnlineIP l k = Some m \<and> m ip = Some uid}
    \<and> length out = (\<Sum>k\<leftarrow>users. card (dom (the (UserOnlineIP l k))))
    \<and> UserOnlineIP l' = Map.empty
    \<and> dom (OldUserOnline l') = IP ` set out"
proof -
  let ?l0 = "l\<lparr>OldUserOnline := Map.empty\<rparr>"
  have d: "distinct users" and s: "set users = dom (UserOnlineIP l)"
    using assms(1) by (auto simp: enumerates_def)
  have f: "fold (online_visit ips) users (?l0, []) = (l', out)"
    using assms(3) by (simp add: GetOnlineDevice_def)
  have out: "out = concat (map (online_entries ips ?l0) users)"
    and empty: "UserOnlineIP l' = (UserOnlineIP l) |` (- set users)"
    and old: "dom (OldUserOnline l') = (\<Union>k\<in>set users. online_ips ips ?l0 k)"
    using online_fold [OF d f] by simp_all
  have mem: "e \<in> set (online_entries ips ?l0 k) \<longleftrightarrow>
      (\<exists>m. UserOnlineIP l k = Some m \<and> m (IP e) = Some (UID e))" for e k
  proof (cases "UserOnlineIP l k")
    case None
    then show ?thesis by (simp add: online_entries_def)
  next
    case (Some m)
    then have "set (ips k) = dom m" using assms(2) by (simp add: enumerates_def)
    then show ?thesis using Some
      by (cases e) (auto simp: online_entries_def ip_entries_def in_map_filter)
  qed
  have set: "set out = {e. \<exists>k m. UserOnlineIP l k = Some m \<and> m (IP e) = Some (UID e)}"
    unfolding out by (auto simp: mem s) blast
  have ent: "length (online_entries ips ?l0 k) = card (dom (the (UserOnlineIP l k)))"
    if k: "k \<in> set users" for k
  proof -
    obtain m where m: "UserOnlineIP l k = Some m" using k s by auto
    then have e: "distinct (ips k)" "set (ips k) = dom m" using assms(2) by (auto simp: enumerates_def)
    have "length (ip_entries (ips k) m) = length (ips k)"
      unfolding ip_entries_def List.map_filter_def
      using e(2) by (simp add: filter_id_conv domIff)
    also have "\<dots> = card (dom m)" using e by (metis distinct_card)
    finally show ?thesis by (simp add: online_entries_def m)
  qed
  have "length out = (\<Sum>k\<leftarrow>users. card (dom (the (UserOnlineIP l k))))"
    unfolding out length_concat map_map by (rule arg_cong [of _ _ sum_list]) (simp add: ent)
  moreover have "UserOnlineIP l' = Map.empty"
    unfolding empty s by (auto simp: restrict_map_def fun_eq_iff)
  moreover have "dom (OldUserOnline l') = IP ` set out"
  proof -
    have "x \<in> dom (OldUserOnline l') \<longleftrightarrow> x \<in> IP ` set out" for x
    proof -
      have "x \<in> dom (OldUserOnline l') \<longleftrightarrow> (\<exists>k m. UserOnlineIP l k = Some m \<and> x \<in> dom m)"
        unfolding old s using assms(2) by (fastforce simp: online_ips_def enumerates_def split: option.splits)
      also have "\<dots> \<longleftrightarrow> x \<in> IP ` set out"
      proof
        assume "\<exists>k m. UserOnlineIP l k = Some m \<and> x \<in> dom m"
        then obtain k m uid where "UserOnlineIP l k = Some m" "m x = Some uid" by auto
        then have "\<lparr>UID = uid, IP = x\<rparr> \<in> set out" by (auto simp: set)
        then show "x \<in> IP ` set out" by force
      qed (auto simp: set)
      finally show ?thesis .
    qed
    then show ?thesis by blast
  qed
  moreover have "set out = {\<lparr>UID = uid, IP = ip\<rparr> | uid ip. \<exists>k m. UserOnlineIP l k = Some m \<and> m ip = Some uid}"
  proof -
    have "e \<in> {\<lparr>UID = uid, IP = ip\<rparr> | uid ip. \<exists>k m. UserOnlineIP l k = Some m \<and> m ip = Some uid} \<longleftrightarrow>
        (\<exists>k m. UserOnlineIP l k = Some m \<and> m (IP e) = Some (UID e))" for e :: OnlineUser
      by (cases e) simp
    then show ?thesis unfolding set by blast
  qed
  ultimately show ?thesis by blast
qed

theorem get_online_device_report_witness:
  "\<exists>l' out. GetOnlineDevice [''n|u''] (\<lambda>_. [''2.2.2.2''])
      ((one_user 0 (plain_user 7 0 2))\<lparr>UserOnlineIP := [''n|u'' \<mapsto> [''2.2.2.2'' \<mapsto> 7]]\<rparr>) = (l', out)
    \<and> set out = {\<lparr>UID = 7, IP = ''2.2.2.2''\<rparr>} \<and> length out = 1 \<and> dom (OldUserOnline l') = {''2.2.2.2''}"
proof -
  let ?l = "(one_user 0 (plain_user 7 0 2))\<lparr>UserOnlineIP := [''n|u'' \<mapsto> [''2.2.2.2'' \<mapsto> 7]]\<rparr>"
  have e: "enumerates [''n|u''] (UserOnlineIP ?l)" by (simp add: enumerates_def)
  have i: "\<forall>k m. UserOnlineIP ?l k = Some m \<longrightarrow> enumerates [''2.2.2.2''] m"
    by (auto simp: enumerates_def split: if_splits)
  obtain l' out where g: "GetOnlineDevice [''n|u''] (\<lambda>_. [''2.2.2.2'']) ?l = (l', out)"
    by (metis prod.collapse)
  note r = get_online_device_report [OF e i g]
  have "set out = {\<lparr>UID = 7, IP = ''2.2.2.2''\<rparr>}"
    unfolding r [THEN conjunct1] by auto
  with r g show ?thesis by auto
qed

subsection \<open>Rules\<close>

lemma match_rules_Some:
  "match_rules m (map Some rs) d = Inr (\<exists>r\<in>set rs. m r d)"
  by (induction rs) auto

lemma find_protocol_iff: "find_protocol ps p \<longleftrightarrow> p \<in> set ps"
  by (induction ps) auto

text \<open>
  After UpdateRule with expressions that compile, a destination is refused exactly when
  one of the expressions matches it and a protocol exactly when it is listed; an expression
  that does not compile makes UpdateRule panic.
\<close>

theorem rules_decide:
  assumes "UpdateRule valid rule l = (l', res)"
  shows "(if \<forall>r\<in>set (Regexp rule). valid r
     then res = Inr () \<and> CheckDomainRule m d l' = Inr (\<exists>r\<in>set (Regexp rule). m r d)
       \<and> (CheckProtocolRule p l' \<longleftrightarrow> p \<in> set (Protocol rule))
     else res = Inl (Panic ''regexp: Compile'') \<and> ProtocolRules l' = ProtocolRules l)"
proof (cases "\<forall>r\<in>set (Regexp rule). valid r")
  case True
  then have "takeWhile valid (Regexp rule) = Regexp rule" by (simp add: takeWhile_eq_all_conv)
  with assms True show ?thesis
    by (auto simp: UpdateRule_def CheckDomainRule_def CheckProtocolRule_def match_rules_Some find_protocol_iff)
next
  case False
  then have "takeWhile valid (Regexp rule) \<noteq> Regexp rule" by (simp add: takeWhile_eq_all_conv)
  then have "length (takeWhile valid (Regexp rule)) \<noteq> length (Regexp rule)"
    by (metis takeWhile_eq_take take_all_iff order_refl)
  with assms False show ?thesis by (auto simp: UpdateRule_def Let_def)
qed

theorem rules_decide_witness:
  "\<exists>l' :: int Limiter. UpdateRule (\<lambda>r. r \<noteq> ''('') \<lparr>Regexp = [''a'', ''b''], Protocol = [''bittorrent'']\<rparr>
      (one_user 0 (plain_user 7 0 2)) = (l', Inr ())
    \<and> CheckDomainRule (\<lambda>r d. contains d r) ''cab'' l' = Inr True \<and> \<not> CheckProtocolRule ''http'' l'"
proof -
  let ?r = "\<lparr>Regexp = [''a'', ''b''], Protocol = [''bittorrent'']\<rparr>" and ?l = "one_user 0 (plain_user 7 0 2)"
  obtain l' res where u: "UpdateRule (\<lambda>r. r \<noteq> ''('') ?r ?l = (l' :: int Limiter, res)" by (metis prod.collapse)
  show ?thesis
    using rules_decide [OF u, of "\<lambda>r d. contains d r" "''cab''" "''http''"] u
    by (auto simp: hasPrefix_def)
qed

subsection \<open>Runs\<close>

datatype lim_op =
    OpUpdateUser string "UserInfo list" "UserInfo list"
  | OpUpdateDynamic string string int int
  | OpAddDynamic int string UserInfo int int
  | OpCheck int string string bool bool
  | OpOnline "string list" "string \<Rightarrow> string list"
  | OpRule "string \<Rightarrow> bool" Rules

fun lim_step :: "(int \<Rightarrow> int \<Rightarrow> int \<Rightarrow> 'b) \<Rightarrow> lim_op \<Rightarrow> 'b Limiter \<Rightarrow> 'b Limiter" where
  "lim_step nb (OpUpdateUser tag added deleted) l = UpdateUser tag added deleted l"
| "lim_step nb (OpUpdateDynamic tag uuid limit expire) l = fst (UpdateDynamicSpeedLimit tag uuid limit expire l)"
| "lim_step nb (OpAddDynamic start tag u limit expire) l = AddDynamicSpeedLimit start tag u limit expire l"
| "lim_step nb (OpCheck now k ip tcp nossudp) l = fst (CheckLimit nb now k ip tcp nossudp l)"
| "lim_step nb (OpOnline users ips) l = fst (GetOnlineDevice users ips l)"
| "lim_step nb (OpRule valid rule) l = fst (UpdateRule valid rule l)"

text \<open>
  The invariant: a user recorded on line has an address, and every bucket was made with the
  interval of one second and a positive rate, which is both its capacity and its quantum (the
  library panics on a rate that is not positive).
\<close>

definition lim_inv :: "(int \<Rightarrow> int \<Rightarrow> int \<Rightarrow> 'b) \<Rightarrow> 'b Limiter \<Rightarrow> bool" where
  "lim_inv nb l \<longleftrightarrow>
     (\<forall>k m. UserOnlineIP l k = Some m \<longrightarrow> m \<noteq> Map.empty) \<and>
     (\<forall>k b. SpeedLimiter l k = Some b \<longrightarrow> (\<exists>r>0. b = nb second_ns r r))"

lemma recorded_nonempty:
  "\<forall>k m. online k = Some m \<longrightarrow> m \<noteq> Map.empty \<Longrightarrow> recorded j ip uid online k = Some m \<Longrightarrow> m \<noteq> Map.empty"
  by (cases "online j") (auto simp: recorded_def split: if_splits)

lemma lim_inv_check_user [simp]: "lim_inv nb (fst (check_user now k l)) = lim_inv nb l"
  by (simp add: lim_inv_def)

lemma lim_inv_after_device: "lim_inv nb l \<Longrightarrow> lim_inv nb (after_device now k ip nossudp u l)"
  using recorded_nonempty [of "UserOnlineIP l"]
  by (simp add: lim_inv_def after_device_def Let_def)

lemma lim_inv_check_speed: "lim_inv nb l \<Longrightarrow> lim_inv nb (fst (check_speed nb k u l))"
  by (auto simp: check_speed_def lim_inv_def Let_def split: option.split)

lemma lim_inv_CheckLimit: "lim_inv nb l \<Longrightarrow> lim_inv nb (fst (CheckLimit nb now k ip tcp nossudp l))"
  by (cases "l_UserLimitInfo l k")
    (simp_all add: CheckLimit_unknown CheckLimit_state lim_inv_check_speed lim_inv_after_device)

lemma lim_inv_delete_user: "lim_inv nb l \<Longrightarrow> lim_inv nb (delete_user tag u l)"
  by (simp add: lim_inv_def delete_user_def Let_def)

lemma lim_inv_add_user: "lim_inv nb l \<Longrightarrow> lim_inv nb (add_user tag u l)"
  by (simp add: lim_inv_def add_user_def)

lemma lim_inv_fold: "(\<And>u l. lim_inv nb l \<Longrightarrow> lim_inv nb (f u l)) \<Longrightarrow> lim_inv nb l \<Longrightarrow> lim_inv nb (fold f us l)"
  by (induction us arbitrary: l) simp_all

lemma lim_inv_online_visit: "lim_inv nb (fst st) \<Longrightarrow> lim_inv nb (fst (online_visit ips k st))"
  by (cases st) (simp add: online_visit_cases lim_inv_def split: option.split)

lemma lim_inv_GetOnlineDevice:
  assumes "lim_inv nb l"
  shows "lim_inv nb (fst (GetOnlineDevice users ips l))"
proof -
  have "lim_inv nb (fst st) \<Longrightarrow> lim_inv nb (fst (fold (online_visit ips) users st))" for st
    by (induction users arbitrary: st) (simp_all add: lim_inv_online_visit)
  moreover have "lim_inv nb (fst (l\<lparr>OldUserOnline := Map.empty\<rparr>, []))" using assms by (simp add: lim_inv_def)
  ultimately show ?thesis unfolding GetOnlineDevice_def by blast
qed

lemma lim_inv_simple_ops:
  "lim_inv nb l \<Longrightarrow> lim_inv nb (fst (UpdateDynamicSpeedLimit tag uuid n e l))"
  "lim_inv nb l \<Longrightarrow> lim_inv nb (AddDynamicSpeedLimit start tag u n e l)"
  "lim_inv nb l \<Longrightarrow> lim_inv nb (fst (UpdateRule valid rule l))"
  by (simp_all add: lim_inv_def UpdateDynamicSpeedLimit_def AddDynamicSpeedLimit_def UpdateRule_def Let_def
      split: option.split)

lemma lim_step_inv: "lim_inv nb l \<Longrightarrow> lim_inv nb (lim_step nb a l)"
  by (cases a) (simp_all add: UpdateUser_def lim_inv_fold lim_inv_add_user lim_inv_delete_user
      lim_inv_CheckLimit lim_inv_GetOnlineDevice lim_inv_simple_ops)

interpretation limm: inv_machine "lim_step nb" "lim_inv nb" for nb
  by unfold_locales (rule lim_step_inv)

lemma lim_inv_new [simp]: "lim_inv nb (make_limiter tag conf users alive)"
  by (simp add: lim_inv_def make_limiter_def)

text \<open>
  C18: in every run of a limiter from AddLimiter on, whatever users, connections, reports and
  rules come, the invariant holds: no bucket is ever made with a rate that is not positive,
  and no user is on line without an address.
\<close>

theorem limiter_runs_safe:
  "lim_inv nb (fold (lim_step nb) ops (make_limiter tag conf users alive))"
  by (rule limm.run_inv) simp

subsection \<open>Following the panel's list\<close>

lemma add_users_limits:
  "l_UserLimitInfo (fold (add_user tag) us l) =
   fold (\<lambda>u m. m(UserTag tag (Uuid u) \<mapsto> new_limit u)) us (l_UserLimitInfo l)"
  by (induction us arbitrary: l) (simp_all add: add_user_def del: fun_upd_apply)

lemma delete_users_limits:
  "l_UserLimitInfo (fold (delete_user tag) us l) =
   fold (\<lambda>u m. m(UserTag tag (Uuid u) := None)) us (l_UserLimitInfo l)"
  by (induction us arbitrary: l) (simp_all add: delete_user_def Let_def del: fun_upd_apply)

lemma tag_fold_distinct:
  assumes "distinct (map Uuid us)" "u \<in> set us"
  shows "fold (\<lambda>u m. m(UserTag tag (Uuid u) \<mapsto> g u)) us m (UserTag tag (Uuid u)) = Some (g u)"
  by (rule fold_map_upd_distinct [where f = "\<lambda>u. UserTag tag (Uuid u)"])
    (use assms in \<open>simp_all add: distinct_map inj_on_def\<close>)

lemma tag_image: "UserTag tag k \<in> (\<lambda>u. UserTag tag (Uuid u)) ` A \<longleftrightarrow> k \<in> Uuid ` A"
  by auto

interpretation lim_reg: user_registry
  "\<lambda>us. UpdateUser tag us []" "\<lambda>us. UpdateUser tag [] us"
  "\<lambda>l k. l_UserLimitInfo l (UserTag tag k)" new_limit "\<lambda>_ :: 'b Limiter. True" for tag
proof unfold_locales
  fix s :: "'b Limiter" and us u k
  show "l_UserLimitInfo (UpdateUser tag [] us s) (UserTag tag k) =
      (if k \<in> Uuid ` set us then None else l_UserLimitInfo s (UserTag tag k))"
    by (simp add: UpdateUser_def delete_users_limits fold_map_del tag_image)
  show "l_UserLimitInfo (UpdateUser tag us [] s) (UserTag tag (Uuid u)) = Some (new_limit u)"
    if "distinct (map Uuid us)" "u \<in> set us"
    using that by (simp add: UpdateUser_def add_users_limits tag_fold_distinct)
  show "l_UserLimitInfo (UpdateUser tag us [] s) (UserTag tag k) = l_UserLimitInfo s (UserTag tag k)"
    if "k \<notin> Uuid ` set us"
    using that fold_map_upd_other [of "UserTag tag k" "\<lambda>u. UserTag tag (Uuid u)" us]
    by (simp add: UpdateUser_def add_users_limits tag_image)
qed simp_all

lemma UpdateUser_split: "UpdateUser tag added deleted l = UpdateUser tag added [] (UpdateUser tag [] deleted l)"
  by (simp add: UpdateUser_def)

lemma make_limiter_holds:
  assumes "distinct (map Uuid users)" "u \<in> set users"
  shows "l_UserLimitInfo (make_limiter tag conf users alive) (UserTag tag (Uuid u)) = Some (new_limit u)"
  using assms by (simp add: make_limiter_def tag_fold_distinct)

lemma make_limiter_only:
  "k \<notin> Uuid ` set users \<Longrightarrow> l_UserLimitInfo (make_limiter tag conf users alive) (UserTag tag k) = None"
  using fold_map_upd_other [of "UserTag tag k" "\<lambda>u. UserTag tag (Uuid u)" users]
  by (simp add: make_limiter_def tag_image)

text \<open>
  C17: a limiter made for the old list and updated with the difference to the new list knows
  exactly the users of the new list, with the limits of the new record or of the old record
  that has the same Uuid and speed limit.
\<close>

theorem limiter_follows_panel:
  assumes "uniform n old" "uniform n new" "compare_order order old new"
    and "compareUserList order old new = (deleted, added)"
    and "l = UpdateUser tag added deleted (make_limiter tag conf old alive)"
  shows "(\<forall>u\<in>set new. \<exists>w. l_UserLimitInfo l (UserTag tag (Uuid u)) = Some (new_limit w)
            \<and> (w = u \<or> w \<in> set old \<and> same_user u w))
    \<and> (\<forall>k. k \<notin> Uuid ` set new \<longrightarrow> l_UserLimitInfo l (UserTag tag k) = None)"
proof -
  have d: "distinct (map Uuid old)" using assms(1) by (simp add: uniform_def)
  note new = lim_reg.sync_new [OF TrueI assms(1-4), where s = "make_limiter tag conf old alive" and tag = tag]
    and gone = lim_reg.sync_gone [OF TrueI assms(1-4), where s = "make_limiter tag conf old alive" and tag = tag]
  show ?thesis
    unfolding assms(5) UpdateUser_split [of tag added deleted]
    using new gone make_limiter_holds [OF d] make_limiter_only by blast
qed

theorem limiter_follows_panel_witness:
  "let l = UpdateUser ''n'' [user_b] [user_a] (make_limiter ''n'' zero_limit_config [user_a] Map.empty :: int Limiter)
   in l_UserLimitInfo l ''n|bbbb'' = Some (new_limit user_b) \<and> l_UserLimitInfo l ''n|aaaa'' = None"
proof -
  have k: "user_key user_a = ''aaaa10''" "user_key user_b = ''bbbb0''"
    by (simp_all add: user_key_def user_a_def user_b_def itoa_examples)
  have u: "uniform 4 [user_a]" "uniform 4 [user_b]" by (simp_all add: uniform_def user_a_def user_b_def)
  have o: "compare_order [''aaaa10''] [user_a] [user_b]"
    by (auto simp: compare_order_def enumerates_def old_map_def k)
  have c: "compareUserList [''aaaa10''] [user_a] [user_b] = ([user_a], [user_b])"
    by (simp add: compareUserList_def old_map_def k List.map_filter_def)
  have n: "\<not> same_user user_b user_a" "UserTag ''n'' (Uuid user_b) = ''n|bbbb''" "UserTag ''n'' ''aaaa'' = ''n|aaaa''"
    "''aaaa'' \<notin> Uuid ` set [user_b]"
    by (simp_all add: same_user_def user_a_def user_b_def UserTag_def)
  show ?thesis
    using limiter_follows_panel [OF u o c refl, of "''n''" zero_limit_config Map.empty, where 'a = int] n
    unfolding Let_def by fastforce
qed

subsection \<open>The registry\<close>

text \<open>
  The registry is a map from tags to limiters: after AddLimiter, GetLimiter gives the
  new limiter, made from the users, and every other tag gives what it gave before; after
  DeleteLimiter the tag is not found, while a pointer obtained before still reaches its
  limiter unchanged.
\<close>

theorem registry_laws:
  assumes "\<forall>t a. registry g t = Some a \<longrightarrow> a < next_lim g" "AddLimiter tag conf users alive g = (a, g')"
  shows "GetLimiter tag g' = Inr a \<and> lims g' a = make_limiter tag conf users alive
    \<and> (\<forall>t b. t \<noteq> tag \<and> GetLimiter t g = Inr b \<longrightarrow> GetLimiter t g' = Inr b \<and> lims g' b = lims g b)
    \<and> GetLimiter tag (DeleteLimiter tag g') = Inl (Err ''not found'')
    \<and> lims (DeleteLimiter tag g') a = lims g' a
    \<and> (\<forall>t a. registry g' t = Some a \<longrightarrow> a < next_lim g')"
proof -
  have "registry g t \<noteq> Some (next_lim g)" for t using assms(1) by blast
  then show ?thesis
    using assms by (auto simp: AddLimiter_def GetLimiter_def DeleteLimiter_def Let_def less_Suc_eq
      split: option.splits if_splits)
qed

theorem registry_laws_witness:
  "\<exists>a g'. AddLimiter ''n'' zero_limit_config [user_a] Map.empty (\<lparr>registry = Map.empty, lims = \<lambda>_. one_user 0 (plain_user 7 0 2), next_lim = 0\<rparr>) = (a, g')
    \<and> GetLimiter ''n'' g' = Inr a"
proof -
  let ?g = "\<lparr>registry = Map.empty, lims = \<lambda>_. one_user 0 (plain_user 7 0 2), next_lim = 0\<rparr>"
  obtain a g' where e: "AddLimiter ''n'' zero_limit_config [user_a] Map.empty ?g = (a, g')" by (metis prod.collapse)
  have "\<forall>t a. registry ?g t = Some a \<longrightarrow> a < next_lim ?g" by simp
  from registry_laws [OF this e] e show ?thesis by blast
qed

end
