(* ===== verification/Task.thy ===== *)
theory Task
  imports Prelude
begin

text \<open>
  common/task/task.go: the periodic task. Start makes a stop channel and a goroutine, the
  goroutine executes and waits for the interval or the stop channel, Close closes the channel.
  Start, Close and the goroutine's failure branch are atomic, they hold the mutex; everything
  else interleaves, Start and Close being called from anywhere, Execute included. The loop
  reads the field t.stop anew each time it reaches the select. The interval is positive, so
  that the timer is not ready when the select is entered; then the first event wins.
\<close>

subsection \<open>State\<close>

text \<open>
  The goroutine of a loop: about to execute at once, at the select, waiting on a channel,
  inside Execute, in the failure branch, returned. Channels are numbered.
\<close>

datatype loop_pc = First | AtSelect | Waiting nat | Executing | Failing | Finished

record task =
  running :: bool
  stop :: "nat option"
  closed :: "nat set"
  chans :: nat
  loops :: "nat \<Rightarrow> loop_pc option"
  nloops :: nat
  panicked :: bool

definition new_task :: task where
  "new_task = \<lparr>running = False, stop = None, closed = {}, chans = 0, loops = Map.empty, nloops = 0,
     panicked = False\<rparr>"

text \<open>close(t.stop): closing nil or a closed channel panics.\<close>

definition close_stop :: "task \<Rightarrow> task" where
  "close_stop t =
     (case stop t of
        None \<Rightarrow> t\<lparr>panicked := True\<rparr>
      | Some c \<Rightarrow> if c \<in> closed t then t\<lparr>panicked := True\<rparr> else t\<lparr>closed := insert c (closed t)\<rparr>)"

definition Start :: "bool \<Rightarrow> task \<Rightarrow> task" where
  "Start first t =
     (if running t then t
      else t\<lparr>running := True, stop := Some (chans t), chans := Suc (chans t),
             loops := (loops t)(nloops t \<mapsto> (if first then First else AtSelect)),
             nloops := Suc (nloops t)\<rparr>)"

definition Close :: "task \<Rightarrow> task" where
  "Close t = (if running t then close_stop (t\<lparr>running := False\<rparr>) else t)"

definition goto :: "nat \<Rightarrow> loop_pc \<Rightarrow> task \<Rightarrow> task" where
  "goto g pc t = t\<lparr>loops := (loops t)(g \<mapsto> pc)\<rparr>"

text \<open>The failure branch: running = false and close(t.stop), then return.\<close>

definition fail_loop :: "nat \<Rightarrow> task \<Rightarrow> task" where
  "fail_loop g t = goto g Finished (close_stop (t\<lparr>running := False\<rparr>))"

subsection \<open>Steps\<close>

inductive loop_step :: "task \<Rightarrow> task \<Rightarrow> bool" where
  ls_first: "loops t g = Some First \<Longrightarrow> loop_step t (goto g Executing t)"
| ls_ok: "loops t g = Some Executing \<Longrightarrow> loop_step t (goto g AtSelect t)"
| ls_err: "loops t g = Some Executing \<Longrightarrow> loop_step t (goto g Failing t)"
| ls_fail: "loops t g = Some Failing \<Longrightarrow> loop_step t (fail_loop g t)"
| ls_stop: "loops t g = Some AtSelect \<Longrightarrow> stop t = Some c \<Longrightarrow> c \<in> closed t \<Longrightarrow>
    loop_step t (goto g Finished t)"
| ls_wait: "loops t g = Some AtSelect \<Longrightarrow> stop t = Some c \<Longrightarrow> c \<notin> closed t \<Longrightarrow>
    loop_step t (goto g (Waiting c) t)"
| ls_timer: "loops t g = Some (Waiting c) \<Longrightarrow> c \<notin> closed t \<Longrightarrow> loop_step t (goto g Executing t)"
| ls_woken: "loops t g = Some (Waiting c) \<Longrightarrow> c \<in> closed t \<Longrightarrow> loop_step t (goto g Finished t)"

inductive task_step :: "task \<Rightarrow> task \<Rightarrow> bool" where
  ts_start: "\<not> panicked t \<Longrightarrow> task_step t (Start first t)"
| ts_close: "\<not> panicked t \<Longrightarrow> task_step t (Close t)"
| ts_loop: "\<not> panicked t \<Longrightarrow> loop_step t u \<Longrightarrow> task_step t u"

abbreviation task_reach :: "task \<Rightarrow> bool" where
  "task_reach t \<equiv> rtranclp task_step new_task t"

subsection \<open>Invariant\<close>

text \<open>
  While the task runs its channel is open, and every other channel there is, is closed; a loop
  waits on a channel that was made.
\<close>

definition task_inv :: "task \<Rightarrow> bool" where
  "task_inv t \<longleftrightarrow>
     (\<forall>c. c < chans t \<longrightarrow> c \<in> closed t \<or> running t \<and> stop t = Some c) \<and>
     (\<forall>c. stop t = Some c \<longrightarrow> c < chans t) \<and> (\<forall>c\<in>closed t. c < chans t) \<and>
     (running t \<longrightarrow> (\<exists>c. stop t = Some c \<and> c \<notin> closed t)) \<and>
     (\<forall>g c. loops t g = Some (Waiting c) \<longrightarrow> c < chans t) \<and>
     (\<forall>g. loops t g \<noteq> None \<longrightarrow> stop t \<noteq> None \<and> g < nloops t)"

lemma goto_simps [simp]:
  "running (goto g pc t) = running t" "stop (goto g pc t) = stop t" "closed (goto g pc t) = closed t"
  "chans (goto g pc t) = chans t" "nloops (goto g pc t) = nloops t" "panicked (goto g pc t) = panicked t"
  "loops (goto g pc t) = (loops t)(g \<mapsto> pc)"
  by (simp_all add: goto_def)

lemma inv_new: "task_inv new_task"
  by (simp add: task_inv_def new_task_def)

lemma inv_goto:
  assumes "task_inv t" "loops t g \<noteq> None" "\<And>c. pc = Waiting c \<Longrightarrow> c < chans t"
  shows "task_inv (goto g pc t)"
  using assms by (auto simp: task_inv_def)

lemma inv_Start: "task_inv t \<Longrightarrow> task_inv (Start first t)"
  by (auto simp: task_inv_def Start_def less_Suc_eq)

lemma inv_close_stop: "task_inv t \<Longrightarrow> task_inv (close_stop (t\<lparr>running := False\<rparr>))"
  by (auto simp: task_inv_def close_stop_def split: option.split)

lemma inv_Close: "task_inv t \<Longrightarrow> task_inv (Close t)"
  by (simp add: Close_def inv_close_stop)

lemma loops_close_stop [simp]: "loops (close_stop t) = loops t"
  by (simp add: close_stop_def split: option.split)

lemma inv_loop_step: "loop_step t u \<Longrightarrow> task_inv t \<Longrightarrow> task_inv u"
proof (induction rule: loop_step.induct)
  case (ls_fail t g)
  then show ?case unfolding fail_loop_def by (intro inv_goto inv_close_stop) auto
next
  case (ls_wait t g c)
  then show ?case by (intro inv_goto) (auto simp: task_inv_def)
qed (auto intro: inv_goto)

lemma inv_task_step: "task_step t u \<Longrightarrow> task_inv t \<Longrightarrow> task_inv u"
  by (induction rule: task_step.induct) (auto intro: inv_Start inv_Close inv_loop_step)

lemma inv_reach: "task_reach t \<Longrightarrow> task_inv t"
  by (induction rule: rtranclp_induct) (auto intro: inv_new inv_task_step)

lemma inv_running: "task_inv t \<Longrightarrow> running t \<Longrightarrow> \<exists>c. stop t = Some c \<and> c \<notin> closed t"
  by (simp add: task_inv_def)

lemma inv_stopped_closed: "task_inv t \<Longrightarrow> \<not> running t \<Longrightarrow> c < chans t \<Longrightarrow> c \<in> closed t"
  by (auto simp: task_inv_def)

inductive_cases loop_stepE: "loop_step t u"
inductive_cases task_stepE: "task_step t u"

subsection \<open>Properties\<close>


text \<open>A run for the witnesses: one loop, inside Execute.\<close>

definition executing :: task where
  "executing = goto 0 Executing (Start True new_task)"

lemma executing_reach: "task_reach executing"
proof -
  have s: "task_reach (Start True new_task)"
    by (rule r_into_rtranclp, rule ts_start) (simp add: new_task_def)
  have "task_step (Start True new_task) executing"
    unfolding executing_def
    by (rule ts_loop, simp add: Start_def new_task_def, rule ls_first)
      (simp add: Start_def new_task_def)
  with s show ?thesis by (rule rtranclp.rtrancl_into_rtrancl)
qed

lemma executing_simps:
  "loops executing = [0 \<mapsto> Executing]" "running executing" "stop executing = Some 0"
  "closed executing = {}" "\<not> panicked executing" "chans executing = 1" "nloops executing = 1"
  by (simp_all add: executing_def Start_def new_task_def)


definition restart :: "nat \<Rightarrow> task \<Rightarrow> task" where
  "restart g t = goto g AtSelect (Start False (Close t))"

definition both_wait :: "nat \<Rightarrow> nat \<Rightarrow> nat \<Rightarrow> task \<Rightarrow> task" where
  "both_wait g h c t = goto h (Waiting c) (goto g (Waiting c) t)"

text \<open>
  C22: a restart while the task executes leaves two loops. From any reachable state in which a
  loop executes and the task runs, Close and Start(false), then the return of Execute, end in
  a state where the old loop and the new one wait on the same open channel. Each will go on
  executing, so every restart made inside Execute adds a loop.
\<close>

theorem restart_inside_execute_leaves_two_loops:
  assumes "task_reach t" "\<not> panicked t" "running t" "loops t g = Some Executing"
  shows "rtranclp task_step t (both_wait g (nloops t) (chans t) (restart g t))
    \<and> g \<noteq> nloops t \<and> chans t \<notin> closed (restart g t)
    \<and> loops (both_wait g (nloops t) (chans t) (restart g t)) g = Some (Waiting (chans t))
    \<and> loops (both_wait g (nloops t) (chans t) (restart g t)) (nloops t) = Some (Waiting (chans t))"
proof -
  note inv = inv_reach [OF assms(1)]
  obtain c where c: "stop t = Some c" "c \<notin> closed t" using inv_running [OF inv assms(3)] by blast
  have gn: "g < nloops t" using inv assms(4) by (auto simp: task_inv_def)
  have cl: "chans t \<notin> closed t" using inv by (auto simp: task_inv_def)
  have cc: "c < chans t" using inv c by (auto simp: task_inv_def)
  have close: "Close t = t\<lparr>running := False, closed := insert c (closed t)\<rparr>"
    using assms(3) c by (simp add: Close_def close_stop_def)
  let ?t1 = "Close t"
  let ?t2 = "Start False ?t1"
  let ?t3 = "restart g t"
  let ?t4 = "goto g (Waiting (chans t)) ?t3"
  have l2: "loops ?t2 = (loops t)(nloops t \<mapsto> AtSelect)" and s2: "stop ?t2 = Some (chans t)"
    and c2: "closed ?t2 = insert c (closed t)" and p: "\<not> panicked ?t1" "\<not> panicked ?t2"
    using assms(2) by (simp_all add: Start_def close)
  have 1: "task_step t ?t1" by (rule ts_close [OF assms(2)])
  have 2: "task_step ?t1 ?t2" by (rule ts_start [OF p(1)])
  have 3: "task_step ?t2 ?t3"
    unfolding restart_def by (rule ts_loop [OF p(2)], rule ls_ok) (use gn assms(4) in \<open>simp add: l2\<close>)
  have 4: "task_step ?t3 ?t4"
    by (rule ts_loop, simp add: restart_def p, rule ls_wait)
      (use cl cc in \<open>simp_all add: restart_def s2 c2\<close>)
  have 5: "task_step ?t4 (both_wait g (nloops t) (chans t) ?t3)"
    unfolding both_wait_def
    by (rule ts_loop, simp add: restart_def p, rule ls_wait)
      (use cl cc gn in \<open>simp_all add: restart_def s2 c2 l2\<close>)
  have "rtranclp task_step t (both_wait g (nloops t) (chans t) ?t3)"
    using 1 2 3 4 5 by (meson converse_rtranclp_into_rtranclp rtranclp.rtrancl_refl)
  then show ?thesis using gn cl cc by (simp add: both_wait_def restart_def c2)
qed

theorem restart_inside_execute_leaves_two_loops_witness:
  "\<exists>u. rtranclp task_step executing u \<and> loops u 0 = Some (Waiting 1) \<and> loops u 1 = Some (Waiting 1)"
  using restart_inside_execute_leaves_two_loops [OF executing_reach, of 0] by (auto simp: executing_simps)

text \<open>
  A Close while Execute runs and then fails makes the program panic: the failure branch
  closes the channel that Close has closed. This happens from every reachable state in which
  the task executes.
\<close>

theorem close_during_failing_execute_panics:
  assumes "task_reach t" "\<not> panicked t" "running t" "loops t g = Some Executing"
  shows "rtranclp task_step t (fail_loop g (goto g Failing (Close t)))
    \<and> panicked (fail_loop g (goto g Failing (Close t)))"
proof -
  obtain c where c: "stop t = Some c" "c \<notin> closed t"
    using inv_running [OF inv_reach [OF assms(1)] assms(3)] by blast
  have close: "Close t = t\<lparr>running := False, closed := insert c (closed t)\<rparr>"
    using assms(3) c by (simp add: Close_def close_stop_def)
  have 1: "task_step t (Close t)" by (rule ts_close [OF assms(2)])
  have 2: "task_step (Close t) (goto g Failing (Close t))"
    by (rule ts_loop, simp add: close assms(2), rule ls_err) (simp add: close assms(4))
  have 3: "task_step (goto g Failing (Close t)) (fail_loop g (goto g Failing (Close t)))"
    by (rule ts_loop, simp add: close assms(2), rule ls_fail) simp
  have "panicked (fail_loop g (goto g Failing (Close t)))"
    using c by (simp add: fail_loop_def close_stop_def close)
  with 1 2 3 show ?thesis by (meson converse_rtranclp_into_rtranclp rtranclp.rtrancl_refl)
qed

theorem close_during_failing_execute_panics_witness:
  "\<exists>u. task_reach u \<and> panicked u"
  using close_during_failing_execute_panics [OF executing_reach, of 0] executing_reach executing_simps
  by (auto intro: rtranclp_trans)


subsection \<open>A closed task winds down\<close>

text \<open>How many more steps a loop can make when the task does not run.\<close>

fun pc_work :: "loop_pc option \<Rightarrow> nat" where
  "pc_work (Some First) = 3"
| "pc_work (Some Executing) = 2"
| "pc_work (Some AtSelect) = 1"
| "pc_work (Some (Waiting c)) = 1"
| "pc_work (Some Failing) = 1"
| "pc_work (Some Finished) = 0"
| "pc_work None = 0"

definition work :: "task \<Rightarrow> nat" where
  "work t = (\<Sum>g<nloops t. pc_work (loops t g))"

lemma pc_work_le: "pc_work p \<le> 3"
  by (cases p rule: pc_work.cases) auto

lemma work_le: "work t \<le> 3 * nloops t"
proof -
  have "work t \<le> (\<Sum>g<nloops t. 3)" unfolding work_def by (rule sum_mono) (rule pc_work_le)
  then show ?thesis by simp
qed

lemma work_update:
  assumes "loops u = (loops t)(g \<mapsto> pc)" "nloops u = nloops t" "g < nloops t"
    "pc_work (Some pc) < pc_work (loops t g)"
  shows "work u < work t"
  unfolding work_def assms(2)
  by (rule sum_strict_mono_ex1) (use assms in auto)

lemma close_stop_frame [simp]: "running (close_stop t) = running t" "nloops (close_stop t) = nloops t"
  by (simp_all add: close_stop_def split: option.split)

lemma stopped_select: "task_inv t \<Longrightarrow> \<not> running t \<Longrightarrow> loops t g \<noteq> None \<Longrightarrow> \<exists>c. stop t = Some c \<and> c \<in> closed t"
  unfolding task_inv_def by (metis option.exhaust)

lemma stopped_wait: "task_inv t \<Longrightarrow> \<not> running t \<Longrightarrow> loops t g = Some (Waiting c) \<Longrightarrow> c \<in> closed t"
  unfolding task_inv_def by blast

lemma stopped_loop_step:
  assumes "loop_step t u" "task_inv t" "\<not> running t"
  shows "work u < work t \<and> \<not> running u \<and> nloops u = nloops t"
proof -
  have g: "g < nloops t" if "loops t g \<noteq> None" for g using assms(2) that unfolding task_inv_def by blast
  from assms(1) show ?thesis
  proof (cases rule: loop_step.cases)
    case (ls_wait g c)
    with stopped_select [OF assms(2,3), of g] show ?thesis by auto
  next
    case (ls_timer g c)
    with stopped_wait [OF assms(2,3)] show ?thesis by blast
  next
    case (ls_fail g)
    then show ?thesis using assms(3) g [of g]
      by (auto simp: fail_loop_def intro!: work_update [where g = g])
  qed (use assms(3) g in \<open>auto intro!: work_update\<close>)
qed

lemma stopped_progress:
  assumes "task_inv t" "\<not> running t" "loops t g = Some pc" "pc \<noteq> Finished"
  shows "\<exists>u. loop_step t u"
proof (cases pc)
  case (Waiting c)
  with assms stopped_wait [OF assms(1,2)] show ?thesis by (blast intro: ls_woken)
next
  case AtSelect
  with assms stopped_select [OF assms(1,2), of g] show ?thesis by (auto intro: ls_stop)
qed (use assms in \<open>auto intro: loop_step.intros\<close>)

lemma stopped_runs:
  assumes "(loop_step ^^ n) t u" "task_inv t" "\<not> running t"
  shows "task_inv u \<and> \<not> running u \<and> nloops u = nloops t \<and> n + work u \<le> work t"
  using assms
proof (induction n arbitrary: u)
  case (Suc n)
  then obtain v where v: "(loop_step ^^ n) t v" "loop_step v u" by (auto elim: relpowp_Suc_E)
  with Suc have "task_inv v \<and> \<not> running v \<and> nloops v = nloops t \<and> n + work v \<le> work t" by blast
  with v(2) stopped_loop_step [of v u] inv_loop_step [OF v(2)] show ?case by fastforce
qed simp

text \<open>
  C23: a closed task winds down. Once the task does not run, and until it is started again,
  its goroutines make at most three steps each, however many of them there are and however
  they interleave; and as long as one of them has not returned, one of them can step. So
  every execution that Close leaves behind ends with all the goroutines returned, unless one of
  them ends the process first by the panic of closing the channel twice.
\<close>

theorem closed_task_winds_down:
  assumes "task_reach t" "\<not> running t" "(loop_step ^^ n) t u"
  shows "n \<le> 3 * nloops t \<and> \<not> running u
    \<and> ((\<nexists>v. loop_step u v) \<longleftrightarrow> (\<nexists>g pc. loops u g = Some pc \<and> pc \<noteq> Finished))"
proof -
  note inv = inv_reach [OF assms(1)]
  from stopped_runs [OF assms(3) inv assms(2)] have u: "task_inv u" "\<not> running u" "n + work u \<le> work t" by auto
  have "\<exists>v. loop_step u v" if "loops u g = Some pc" "pc \<noteq> Finished" for g pc
    by (rule stopped_progress [OF u(1,2) that])
  moreover have "\<exists>g pc. loops u g = Some pc \<and> pc \<noteq> Finished" if "loop_step u v" for v
    using that by (cases rule: loop_step.cases) auto
  ultimately have "(\<nexists>v. loop_step u v) \<longleftrightarrow> (\<nexists>g pc. loops u g = Some pc \<and> pc \<noteq> Finished)" by blast
  moreover have "n \<le> 3 * nloops t" using u(3) work_le [of t] by simp
  ultimately show ?thesis using u(2) by blast
qed

theorem closed_task_winds_down_witness:
  "\<exists>u. loop_step (Close executing) u \<and> \<not> running u \<and> (1::nat) \<le> 3 * nloops (Close executing)"
proof -
  have r: "task_reach (Close executing)"
    using executing_reach ts_close [OF executing_simps(5)] by (rule rtranclp.rtrancl_into_rtrancl)
  have c: "\<not> running (Close executing)" "loops (Close executing) 0 = Some Executing"
    using executing_simps by (simp_all add: Close_def close_stop_def)
  have s: "loop_step (Close executing) (goto 0 AtSelect (Close executing))" using c(2) by (rule ls_ok)
  then have "(loop_step ^^ 1) (Close executing) (goto 0 AtSelect (Close executing))" by (auto simp: OO_def)
  from closed_task_winds_down [OF r c(1) this] s show ?thesis by blast
qed

end
