(* ===== verification/Json5.thy ===== *)
theory Json5
  imports Prelude
begin

text \<open>
  common/json5/json5.go: the reader that turns a configuration with comments and trailing
  commas into JSON by overwriting bytes with spaces. The buffer is a list of bytes that the
  loops read and update by index, as the code does.
\<close>

definition isNL :: "char \<Rightarrow> bool" where
  "isNL c \<longleftrightarrow> c = CHR 0x0A \<or> c = CHR 0x0D"

definition isWS :: "char \<Rightarrow> bool" where
  "isWS c \<longleftrightarrow> c = CHR '' '' \<or> c = CHR 0x09 \<or> isNL c"

abbreviation sp :: char where "sp \<equiv> CHR '' ''"
abbreviation quote :: char where "quote \<equiv> CHR 0x22"
abbreviation backslash :: char where "backslash \<equiv> CHR 0x5C"

subsection \<open>consumeComment\<close>

function blank_line :: "string \<Rightarrow> nat \<Rightarrow> string \<times> nat" where
  "blank_line s i =
     (if i < length s \<and> \<not> isNL (s ! i) then blank_line (s[i := sp]) (Suc i) else (s, i))"
  by pat_completeness auto
termination by (relation "measure (\<lambda>(s, i). length s - i)") auto

text \<open>The byte after a star that is not a slash is stepped over.\<close>

function blank_block :: "string \<Rightarrow> nat \<Rightarrow> string \<times> nat" where
  "blank_block s i =
     (if i < length s then
        (if s ! i \<noteq> CHR ''*'' then blank_block (s[i := sp]) (Suc i)
         else
           (let s1 = s[i := sp]; i1 = Suc i
            in if i1 < length s1 \<and> s1 ! i1 = CHR ''/'' then (s1[i1 := sp], i1)
               else blank_block s1 (Suc i1)))
      else (s, i))"
  by pat_completeness auto
termination by (relation "measure (\<lambda>(s, i). length s - i)") auto

definition consumeComment :: "string \<Rightarrow> nat \<Rightarrow> string \<times> nat" where
  "consumeComment s i =
     (let (s1, i1) = (if i < length s \<and> s ! i = CHR ''/'' then blank_line (s[i - 1 := sp]) i else (s, i))
      in if i1 < length s1 \<and> s1 ! i1 = CHR ''*''
         then blank_block (s1[i1 - 1 := sp, i1 := sp]) i1 else (s1, i1))"

declare blank_line.simps [simp del] blank_block.simps [simp del]

text \<open>Both loops keep the length and never step back.\<close>

lemma blank_line_len: "length (fst (blank_line s i)) = length s \<and> i \<le> snd (blank_line s i)"
proof (induction s i rule: blank_line.induct)
  case (1 s i)
  show ?case
  proof (cases "i < length s \<and> \<not> isNL (s ! i)")
    case True
    with 1 have "length (fst (blank_line (s[i := sp]) (Suc i))) = length s \<and> Suc i \<le> snd (blank_line (s[i := sp]) (Suc i))"
      by simp
    with True show ?thesis by (subst (1 2) blank_line.simps) simp
  qed (auto simp: blank_line.simps [of s i])
qed

lemma blank_block_len: "length (fst (blank_block s i)) = length s \<and> i \<le> snd (blank_block s i)"
proof (induction s i rule: blank_block.induct)
  case (1 s i)
  have a: "length (fst (blank_block (s[i := sp]) (Suc i))) = length s \<and> Suc i \<le> snd (blank_block (s[i := sp]) (Suc i))"
    if "i < length s" "s ! i \<noteq> CHR ''*''" using "1.IH"(1) that by simp
  have b: "length (fst (blank_block (s[i := sp]) (Suc (Suc i)))) = length s \<and> Suc (Suc i) \<le> snd (blank_block (s[i := sp]) (Suc (Suc i)))"
    if "i < length s" "s ! i = CHR ''*''" "\<not> (Suc i < length s \<and> s[i := sp] ! Suc i = CHR ''/'')"
    using "1.IH"(2) that by simp
  show ?case using a b by (subst (1 2) blank_block.simps) (auto simp: Let_def)
qed

lemma consumeComment_len: "length (fst (consumeComment s i)) = length s \<and> i \<le> snd (consumeComment s i)"
proof -
  have "i \<le> i1" "length s1 = length s" if "blank_line (s[i - 1 := sp]) i = (s1, i1)" for s1 i1
    using that blank_line_len [of "s[i - 1 := sp]" i] by simp_all
  moreover have "i1 \<le> snd (blank_block (s1[i1 - 1 := sp, i1 := sp]) i1)"
    "length (fst (blank_block (s1[i1 - 1 := sp, i1 := sp]) i1)) = length s1" for s1 i1
    using blank_block_len [of "s1[i1 - 1 := sp, i1 := sp]" i1] by simp_all
  ultimately show ?thesis
    by (auto simp: consumeComment_def Let_def split: prod.split) (use order_trans in blast)+
qed

subsection \<open>prep\<close>

function skip_string :: "string \<Rightarrow> nat \<Rightarrow> nat" where
  "skip_string s i =
     (if i < length s then
        (if s ! i = quote then Suc i
         else if s ! i = backslash then skip_string s (Suc (Suc i))
         else skip_string s (Suc i))
      else i)"
  by pat_completeness auto
termination by (relation "measure (\<lambda>(s, i). length s - i)") auto

declare skip_string.simps [simp del]

lemma skip_string_le: "i \<le> skip_string s i"
proof (induction s i rule: skip_string.induct)
  case (1 s i)
  then show ?case by (subst skip_string.simps) auto
qed

function comma_loop :: "nat \<Rightarrow> string \<Rightarrow> nat \<Rightarrow> string \<times> nat" where
  "comma_loop j s i0 =
     (let i = Suc i0
      in if i \<ge> length s then (s, i)
         else if s ! i = CHR ''}'' \<or> s ! i = CHR '']'' then (s[j := sp], i)
         else if s ! i = CHR ''/'' then comma_loop j (fst (consumeComment s (Suc i))) (snd (consumeComment s (Suc i)))
         else if \<not> isWS (s ! i) then (s, i)
         else comma_loop j s i)"
  by pat_completeness auto
termination
proof (relation "measure (\<lambda>(j, s, i). length s - i)")
  fix j i0 i and s :: string assume "i = Suc i0" "\<not> length s \<le> i"
  then show "((j, fst (consumeComment s (Suc i)), snd (consumeComment s (Suc i))), j, s, i0)
      \<in> measure (\<lambda>(j, s, i). length s - i)"
    using consumeComment_len [of s "Suc i"] by (auto simp: case_prod_beta)
qed auto

declare comma_loop.simps [simp del]

lemma comma_loop_len: "length (fst (comma_loop j s i)) = length s \<and> i < snd (comma_loop j s i)"
proof (induction j s i rule: comma_loop.induct)
  case (1 j s i0)
  note c = consumeComment_len [of s "Suc (Suc i0)"]
  from "1.IH" c show ?case by (subst (1 2) comma_loop.simps) (fastforce simp: Let_def)
qed

function prep_loop :: "string \<Rightarrow> nat \<Rightarrow> string" where
  "prep_loop s i =
     (if i < length s then
        (if s ! i = quote then prep_loop s (skip_string s (Suc i))
         else if s ! i = CHR ''/'' then prep_loop (fst (consumeComment s (Suc i))) (snd (consumeComment s (Suc i)))
         else if s ! i = CHR '','' then prep_loop (fst (comma_loop i s i)) (snd (comma_loop i s i))
         else prep_loop s (Suc i))
      else s)"
  by pat_completeness auto
termination
proof (relation "measure (\<lambda>(s, i). length s - i)")
  fix s :: string and i assume "i < length s"
  then show "((s, skip_string s (Suc i)), s, i) \<in> measure (\<lambda>(s, i). length s - i)"
    "((fst (consumeComment s (Suc i)), snd (consumeComment s (Suc i))), s, i) \<in> measure (\<lambda>(s, i). length s - i)"
    "((fst (comma_loop i s i), snd (comma_loop i s i)), s, i) \<in> measure (\<lambda>(s, i). length s - i)"
    using skip_string_le [of "Suc i" s] consumeComment_len [of s "Suc i"] comma_loop_len [of i s i]
    by (auto simp: case_prod_beta)
qed auto

declare prep_loop.simps [simp del]

text \<open>The equations of the loops, one per branch.\<close>

lemma blank_line_eqs:
  "\<not> (i < length s \<and> \<not> isNL (s ! i)) \<Longrightarrow> blank_line s i = (s, i)"
  "i < length s \<Longrightarrow> \<not> isNL (s ! i) \<Longrightarrow> blank_line s i = blank_line (s[i := sp]) (Suc i)"
  by (subst blank_line.simps; auto)+

lemma blank_block_eqs:
  "\<not> i < length s \<Longrightarrow> blank_block s i = (s, i)"
  "i < length s \<Longrightarrow> s ! i \<noteq> CHR ''*'' \<Longrightarrow> blank_block s i = blank_block (s[i := sp]) (Suc i)"
  "i < length s \<Longrightarrow> s ! i = CHR ''*'' \<Longrightarrow> Suc i < length s \<Longrightarrow> s ! Suc i = CHR ''/'' \<Longrightarrow>
    blank_block s i = (s[i := sp, Suc i := sp], Suc i)"
  "i < length s \<Longrightarrow> s ! i = CHR ''*'' \<Longrightarrow> \<not> (Suc i < length s \<and> s ! Suc i = CHR ''/'') \<Longrightarrow>
    blank_block s i = blank_block (s[i := sp]) (Suc (Suc i))"
  by (subst blank_block.simps; auto simp: Let_def)+

lemma skip_string_eqs:
  "\<not> i < length s \<Longrightarrow> skip_string s i = i"
  "i < length s \<Longrightarrow> s ! i = quote \<Longrightarrow> skip_string s i = Suc i"
  "i < length s \<Longrightarrow> s ! i = backslash \<Longrightarrow> skip_string s i = skip_string s (Suc (Suc i))"
  "i < length s \<Longrightarrow> s ! i \<noteq> quote \<Longrightarrow> s ! i \<noteq> backslash \<Longrightarrow> skip_string s i = skip_string s (Suc i)"
  by (subst skip_string.simps; auto)+

lemma comma_loop_eqs:
  "\<not> Suc i < length s \<Longrightarrow> comma_loop j s i = (s, Suc i)"
  "Suc i < length s \<Longrightarrow> s ! Suc i = CHR ''}'' \<or> s ! Suc i = CHR '']'' \<Longrightarrow> comma_loop j s i = (s[j := sp], Suc i)"
  "Suc i < length s \<Longrightarrow> s ! Suc i = CHR ''/'' \<Longrightarrow> comma_loop j s i =
    comma_loop j (fst (consumeComment s (Suc (Suc i)))) (snd (consumeComment s (Suc (Suc i))))"
  "Suc i < length s \<Longrightarrow> s ! Suc i \<noteq> CHR ''}'' \<Longrightarrow> s ! Suc i \<noteq> CHR '']'' \<Longrightarrow> s ! Suc i \<noteq> CHR ''/'' \<Longrightarrow>
    \<not> isWS (s ! Suc i) \<Longrightarrow> comma_loop j s i = (s, Suc i)"
  "Suc i < length s \<Longrightarrow> isWS (s ! Suc i) \<Longrightarrow> comma_loop j s i = comma_loop j s (Suc i)"
  by (subst comma_loop.simps; auto simp: Let_def isWS_def isNL_def)+

lemma prep_loop_eqs:
  "\<not> i < length s \<Longrightarrow> prep_loop s i = s"
  "i < length s \<Longrightarrow> s ! i = quote \<Longrightarrow> prep_loop s i = prep_loop s (skip_string s (Suc i))"
  "i < length s \<Longrightarrow> s ! i = CHR ''/'' \<Longrightarrow> prep_loop s i =
    prep_loop (fst (consumeComment s (Suc i))) (snd (consumeComment s (Suc i)))"
  "i < length s \<Longrightarrow> s ! i = CHR '','' \<Longrightarrow> prep_loop s i = prep_loop (fst (comma_loop i s i)) (snd (comma_loop i s i))"
  "i < length s \<Longrightarrow> s ! i \<noteq> quote \<Longrightarrow> s ! i \<noteq> CHR ''/'' \<Longrightarrow> s ! i \<noteq> CHR '','' \<Longrightarrow> prep_loop s i = prep_loop s (Suc i)"
  by (subst prep_loop.simps; auto)+

text \<open>
  The reader: what io.Copy read, or its error. prep runs once, at the first Read; the bytes it
  leaves are what the later calls of Read hand out.
\<close>

definition prep :: "string result \<Rightarrow> string result" where
  "prep r = (case r of Inl e \<Rightarrow> Inl e | Inr s \<Rightarrow> Inr (prep_loop s 0))"

record TrimNodeReader =
  r_src :: "string result"
  br :: "string option"

definition NewTrimNodeReader :: "string result \<Rightarrow> TrimNodeReader" where
  "NewTrimNodeReader r = \<lparr>r_src = r, br = None\<rparr>"

text \<open>Read into a buffer of n bytes: the bytes, or None at the end of the input.\<close>

definition bytes_Read :: "nat \<Rightarrow> string \<Rightarrow> string option \<times> string" where
  "bytes_Read n rest = (if rest = [] then (None, []) else (Some (take n rest), drop n rest))"

definition Read :: "nat \<Rightarrow> TrimNodeReader \<Rightarrow> TrimNodeReader \<times> string option result" where
  "Read n st =
     (case br st of
        None \<Rightarrow>
          (case prep (r_src st) of
             Inl e \<Rightarrow> (st, Inl e)
           | Inr s \<Rightarrow> (let (out, rest) = bytes_Read n s in (st\<lparr>br := Some rest\<rparr>, Inr out)))
      | Some s \<Rightarrow> (let (out, rest) = bytes_Read n s in (st\<lparr>br := Some rest\<rparr>, Inr out)))"

end
