(* ===== verification/Json5_Laws.thy ===== *)
theory Json5_Laws
  imports Json5
begin

text \<open>
  What the reader of common/json5 does: it only ever overwrites bytes by spaces, so positions
  are kept, and on a text made of JSON tokens, comments and trailing commas it blanks exactly
  the comments and the trailing commas.
\<close>

subsection \<open>Only spaces are written\<close>

definition blanked :: "string \<Rightarrow> string \<Rightarrow> bool" where
  "blanked s t \<longleftrightarrow> list_all2 (\<lambda>c d. d = c \<or> d = sp) s t"

lemma blanked_refl [simp, intro]: "blanked s s"
  by (simp add: blanked_def list_all2_refl)

lemma blanked_trans: "blanked s t \<Longrightarrow> blanked t u \<Longrightarrow> blanked s u"
  unfolding blanked_def by (rule list_all2_trans [where ?P2.0 = "\<lambda>c d. d = c \<or> d = sp"]) auto

lemma blanked_upd: "blanked s t \<Longrightarrow> blanked s (t[i := sp])"
  unfolding blanked_def list_all2_conv_all_nth by (metis length_list_update nth_list_update_eq nth_list_update_neq)

lemma blanked_upd1: "blanked s (s[i := sp])"
  by (simp add: blanked_upd)

lemma blank_line_blanked: "blanked s (fst (blank_line s i))"
proof (induction s i rule: blank_line.induct)
  case (1 s i)
  show ?case
  proof (cases "i < length s \<and> \<not> isNL (s ! i)")
    case True
    with 1 have "blanked (s[i := sp]) (fst (blank_line (s[i := sp]) (Suc i)))" by simp
    with True show ?thesis
      using blanked_trans [OF blanked_upd1] by (simp add: blank_line_eqs(2))
  qed (simp add: blank_line_eqs(1))
qed

lemma blank_block_blanked: "blanked s (fst (blank_block s i))"
proof (induction s i rule: blank_block.induct)
  case (1 s i)
  consider "\<not> i < length s" | "i < length s" "s ! i \<noteq> CHR ''*''"
    | "i < length s" "s ! i = CHR ''*''" "Suc i < length s" "s ! Suc i = CHR ''/''"
    | "i < length s" "s ! i = CHR ''*''" "\<not> (Suc i < length s \<and> s ! Suc i = CHR ''/'')"
    by blast
  then show ?case
  proof cases
    case 1
    then show ?thesis by (simp add: blank_block_eqs(1))
  next
    case 2
    then show ?thesis
      unfolding blank_block_eqs(2) [OF 2] by (rule blanked_trans [OF blanked_upd1 "1.IH"(1)])
  next
    case 3
    then show ?thesis by (simp add: blank_block_eqs(3) blanked_upd)
  next
    case 4
    have "blanked (s[i := sp]) (fst (blank_block (s[i := sp]) (Suc (Suc i))))"
      using "1.IH"(2) 4 by simp
    then show ?thesis unfolding blank_block_eqs(4) [OF 4] by (rule blanked_trans [OF blanked_upd1])
  qed
qed

lemma consumeComment_blanked: "blanked s (fst (consumeComment s i))"
proof -
  have l: "blanked s (fst (if i < length s \<and> s ! i = CHR ''/'' then blank_line (s[i - 1 := sp]) i else (s, i)))"
    using blanked_trans [OF blanked_upd1 blank_line_blanked] by simp
  have b: "blanked s1 (fst (blank_block (s1[k := sp, i1 := sp]) i1))" for s1 k i1
    by (rule blanked_trans [OF _ blank_block_blanked]) (intro blanked_upd blanked_refl)
  show ?thesis unfolding consumeComment_def Let_def case_prod_beta
    using l blanked_trans [OF l b] by simp
qed

lemma comma_loop_blanked: "blanked s (fst (comma_loop j s i))"
proof (induction j s i rule: comma_loop.induct)
  case (1 j s i0)
  let ?c = "s ! Suc i0"
  consider "\<not> Suc i0 < length s" | "Suc i0 < length s" "?c = CHR ''}'' \<or> ?c = CHR '']''"
    | "Suc i0 < length s" "?c = CHR ''/''"
    | "Suc i0 < length s" "?c \<noteq> CHR ''}''" "?c \<noteq> CHR '']''" "?c \<noteq> CHR ''/''" "\<not> isWS ?c"
    | "Suc i0 < length s" "isWS ?c" "?c \<noteq> CHR ''}''" "?c \<noteq> CHR '']''" "?c \<noteq> CHR ''/''"
    by blast
  then show ?case
  proof cases
    case 3
    then have "blanked (fst (consumeComment s (Suc (Suc i0))))
        (fst (comma_loop j (fst (consumeComment s (Suc (Suc i0)))) (snd (consumeComment s (Suc (Suc i0))))))"
      by (intro "1.IH"(1)) auto
    then show ?thesis unfolding comma_loop_eqs(3) [OF 3] by (rule blanked_trans [OF consumeComment_blanked])
  next
    case 5
    then have "blanked s (fst (comma_loop j s (Suc i0)))" by (intro "1.IH"(2)) auto
    then show ?thesis using 5 by (simp add: comma_loop_eqs(5))
  qed (simp_all add: comma_loop_eqs(1,2,4) blanked_upd)
qed

lemma prep_loop_blanked: "blanked s (prep_loop s i)"
proof (induction s i rule: prep_loop.induct)
  case (1 s i)
  consider "\<not> i < length s" | "i < length s" "s ! i = quote" | "i < length s" "s ! i = CHR ''/''"
    | "i < length s" "s ! i = CHR '',''" | "i < length s" "s ! i \<noteq> quote" "s ! i \<noteq> CHR ''/''" "s ! i \<noteq> CHR '',''"
    by blast
  then show ?case
  proof cases
    case 2
    then show ?thesis using "1.IH"(1) by (simp add: prep_loop_eqs(2))
  next
    case 3
    then have "blanked (fst (consumeComment s (Suc i)))
        (prep_loop (fst (consumeComment s (Suc i))) (snd (consumeComment s (Suc i))))"
      by (intro "1.IH"(2)) auto
    then show ?thesis unfolding prep_loop_eqs(3) [OF 3] by (rule blanked_trans [OF consumeComment_blanked])
  next
    case 4
    then have "blanked (fst (comma_loop i s i)) (prep_loop (fst (comma_loop i s i)) (snd (comma_loop i s i)))"
      by (intro "1.IH"(3)) auto
    then show ?thesis unfolding prep_loop_eqs(4) [OF 4] by (rule blanked_trans [OF comma_loop_blanked])
  next
    case 5
    then show ?thesis using "1.IH"(4) by (simp add: prep_loop_eqs(5))
  qed (simp add: prep_loop_eqs(1))
qed

text \<open>
  On any input prep returns (its loops end on every byte string) a text of the same
  length in which every byte is the input's byte or a space, so a position in the cleaned
  text is the position in the file.
\<close>

theorem prep_keeps_positions:
  "\<exists>t. prep (Inr s) = Inr t \<and> length t = length s
    \<and> list_all2 (\<lambda>c d. d = c \<or> d = CHR '' '') s t"
  using prep_loop_blanked [of s 0] list_all2_lengthD [of _ s "prep_loop s 0"]
  by (auto simp: prep_def blanked_def)

subsection \<open>Tokens\<close>

text \<open>
  A text as the reader takes it: strings (their inner bytes), line comments with their line
  break, block comments, commas, and any other byte.
\<close>

datatype jtok = JChar char | JStr string | JLine string char | JBlock string | JComma

fun str_ok :: "string \<Rightarrow> bool" where
  "str_ok [] = True"
| "str_ok (c # cs) =
     (if c = quote then False
      else if c = backslash then (case cs of [] \<Rightarrow> False | _ # ds \<Rightarrow> str_ok ds)
      else str_ok cs)"

fun tok_ok :: "jtok \<Rightarrow> bool" where
  "tok_ok (JChar c) = (c \<noteq> quote \<and> c \<noteq> CHR ''/'' \<and> c \<noteq> CHR '','')"
| "tok_ok (JStr b) = str_ok b"
| "tok_ok (JLine b nl) = (isNL nl \<and> (\<forall>c\<in>set b. \<not> isNL c))"
| "tok_ok (JBlock b) = (CHR ''*'' \<notin> set b)"
| "tok_ok JComma = True"

fun text_of :: "jtok \<Rightarrow> string" where
  "text_of (JChar c) = [c]"
| "text_of (JStr b) = quote # b @ [quote]"
| "text_of (JLine b nl) = ''//'' @ b @ [nl]"
| "text_of (JBlock b) = ''/*'' @ b @ ''*/''"
| "text_of JComma = '',''"

definition render :: "jtok list \<Rightarrow> string" where
  "render ts = concat (map text_of ts)"

text \<open>What a parser that knows the comments sees of a token.\<close>

fun blank_tok :: "jtok \<Rightarrow> bool" where
  "blank_tok (JChar c) = isWS c"
| "blank_tok (JLine b nl) = True"
| "blank_tok (JBlock b) = True"
| "blank_tok _ = False"

definition closes :: "jtok list \<Rightarrow> bool" where
  "closes ts \<longleftrightarrow> ts \<noteq> [] \<and> (hd ts = JChar (CHR ''}'') \<or> hd ts = JChar (CHR '']''))"

definition trailing :: "jtok list \<Rightarrow> bool" where
  "trailing ts \<longleftrightarrow> closes (dropWhile blank_tok ts)"

fun clean :: "jtok list \<Rightarrow> string" where
  "clean [] = []"
| "clean (JComma # ts) = (if trailing ts then sp else CHR '','') # clean ts"
| "clean (JLine b nl # ts) = replicate (length b + 2) sp @ [nl] @ clean ts"
| "clean (JBlock b # ts) = replicate (length b + 4) sp @ clean ts"
| "clean (t # ts) = text_of t @ clean ts"

lemma render_simps [simp]:
  "render [] = []" "render (t # ts) = text_of t @ render ts" "render (ts @ us) = render ts @ render us"
  by (simp_all add: render_def)

subsection \<open>The loops on a token\<close>

lemma upd_append_Cons: "(p @ c # q)[length p := d] = p @ d # q"
  by simp

lemma blank_line_text:
  assumes "\<forall>c\<in>set b. \<not> isNL c" "isNL nl"
  shows "blank_line (p @ b @ nl # q) (length p) = (p @ replicate (length b) sp @ nl # q, length p + length b)"
  using assms
proof (induction b arbitrary: p)
  case Nil
  then show ?case by (simp add: blank_line_eqs(1))
next
  case (Cons c b)
  have "blank_line (p @ (c # b) @ nl # q) (length p) = blank_line ((p @ [sp]) @ b @ nl # q) (length (p @ [sp]))"
    using Cons.prems by (subst blank_line_eqs(2)) simp_all
  also have "\<dots> = ((p @ [sp]) @ replicate (length b) sp @ nl # q, length (p @ [sp]) + length b)"
    using Cons.prems by (intro Cons.IH) simp_all
  finally show ?case by simp
qed

lemma blank_block_text:
  assumes "CHR ''*'' \<notin> set b"
  shows "blank_block (p @ b @ CHR ''*'' # CHR ''/'' # q) (length p) =
    (p @ replicate (length b + 2) sp @ q, length p + length b + 1)"
  using assms
proof (induction b arbitrary: p)
  case Nil
  have "(p @ sp # CHR ''/'' # q) ! Suc (length p) = CHR ''/''"
    by (simp add: nth_append)
  moreover have "(p @ sp # CHR ''/'' # q)[Suc (length p) := sp] = p @ sp # sp # q"
    by (simp add: list_update_append)
  ultimately show ?case by (subst blank_block_eqs(3)) (simp_all add: nth_append)
next
  case (Cons c b)
  have "blank_block (p @ (c # b) @ CHR ''*'' # CHR ''/'' # q) (length p) =
      blank_block ((p @ [sp]) @ b @ CHR ''*'' # CHR ''/'' # q) (length (p @ [sp]))"
    using Cons.prems by (subst blank_block_eqs(2)) auto
  also have "\<dots> = ((p @ [sp]) @ replicate (length b + 2) sp @ q, length (p @ [sp]) + length b + 1)"
    using Cons.prems by (intro Cons.IH) simp
  finally show ?case by simp
qed

lemma consume_line:
  assumes "\<forall>c\<in>set b. \<not> isNL c" "isNL nl"
  shows "consumeComment (p @ text_of (JLine b nl) @ q) (Suc (length p)) =
    (p @ replicate (length b + 2) sp @ nl # q, length p + length b + 2)"
proof -
  let ?s = "p @ text_of (JLine b nl) @ q"
  have g: "?s ! Suc (length p) = CHR ''/''" "Suc (length p) < length ?s" by (simp_all add: nth_append)
  have u: "?s[length p := sp] = (p @ [sp]) @ (CHR ''/'' # b) @ nl # q" by simp
  have "\<forall>c\<in>set (CHR ''/'' # b). \<not> isNL c" using assms by (simp add: isNL_def)
  from blank_line_text [OF this assms(2), of "p @ [sp]" q]
  have l: "blank_line (?s[length p := sp]) (Suc (length p)) =
      (p @ replicate (length b + 2) sp @ nl # q, length p + length b + 2)"
    unfolding u by (simp add: replicate_app_Cons_same)
  have n: "(p @ replicate (length b + 2) sp @ nl # q) ! (length p + length b + 2) = nl"
    by (simp add: nth_append)
  have "nl \<noteq> CHR ''*''" using assms(2) by (auto simp: isNL_def)
  with g l n show ?thesis by (simp add: consumeComment_def Let_def)
qed

lemma consume_block:
  assumes "CHR ''*'' \<notin> set b"
  shows "consumeComment (p @ text_of (JBlock b) @ q) (Suc (length p)) =
    (p @ replicate (length b + 4) sp @ q, length p + length b + 3)"
proof -
  let ?s = "p @ text_of (JBlock b) @ q"
  have g: "?s ! Suc (length p) = CHR ''*''" "Suc (length p) < length ?s" by (simp_all add: nth_append)
  have u: "?s[length p := sp, Suc (length p) := sp] = (p @ [sp]) @ (sp # b) @ CHR ''*'' # CHR ''/'' # q"
    by (simp add: list_update_append)
  have "CHR ''*'' \<notin> set (sp # b)" using assms by simp
  from blank_block_text [OF this, of "p @ [sp]" q]
  have "blank_block (?s[length p := sp, Suc (length p) := sp]) (Suc (length p)) =
      (p @ replicate (length b + 4) sp @ q, length p + length b + 3)"
    unfolding u by (simp add: replicate_app_Cons_same numeral_eq_Suc)
  with g show ?thesis by (simp add: consumeComment_def Let_def)
qed

lemma skip_string_text:
  assumes "str_ok b"
  shows "skip_string (p @ b @ quote # q) (length p) = length p + length b + 1"
  using assms
proof (induction b arbitrary: p rule: str_ok.induct)
  case 1
  then show ?case by (subst skip_string_eqs(2)) simp_all
next
  case (2 c cs)
  show ?case
  proof (cases "c = backslash")
    case True
    with 2 obtain d ds where cs: "cs = d # ds" "str_ok ds" by (auto split: list.splits)
    have "skip_string (p @ (c # cs) @ quote # q) (length p) =
        skip_string ((p @ [c, d]) @ ds @ quote # q) (length (p @ [c, d]))"
      using True cs by (subst skip_string_eqs(3)) simp_all
    also have "\<dots> = length (p @ [c, d]) + length ds + 1"
      using True cs by (intro "2.IH"(1)) auto
    finally show ?thesis using cs by simp
  next
    case False
    with 2 have ok: "c \<noteq> quote" "str_ok cs" by (auto split: if_splits)
    have "skip_string (p @ (c # cs) @ quote # q) (length p) =
        skip_string ((p @ [c]) @ cs @ quote # q) (length (p @ [c]))"
      using False ok by (subst skip_string_eqs(4)) simp_all
    also have "\<dots> = length (p @ [c]) + length cs + 1"
      using False ok by (intro "2.IH"(2)) auto
    finally show ?thesis by simp
  qed
qed

subsection \<open>The loops on a text\<close>

lemma clean_length: "length (clean ts) = length (render ts)"
  by (induction ts rule: clean.induct) simp_all

lemma clean_blank_append: "\<forall>t\<in>set ws. blank_tok t \<Longrightarrow> clean (ws @ ts) = clean ws @ clean ts"
proof (induction ws)
  case (Cons w ws)
  then show ?case by (cases w) simp_all
qed simp

abbreviation blanks_of :: "jtok list \<Rightarrow> jtok list" where
  "blanks_of ts \<equiv> takeWhile blank_tok ts"

abbreviation rest_of :: "jtok list \<Rightarrow> jtok list" where
  "rest_of ts \<equiv> dropWhile blank_tok ts"

lemma nth_len_append [simp]: "(p @ c # q) ! length p = c"
  by simp

definition comma_end :: "nat \<Rightarrow> string \<Rightarrow> jtok list \<Rightarrow> string \<times> nat" where
  "comma_end j p ts =
     ((if closes (rest_of ts) then (p @ clean (blanks_of ts))[j := sp] else p @ clean (blanks_of ts)) @ render (rest_of ts),
      length p + length (render (blanks_of ts)))"

lemma comma_end_blank: "blank_tok t \<Longrightarrow> comma_end j p (t # ts) = comma_end j (p @ clean [t]) ts"
  by (cases t) (simp_all add: comma_end_def)

lemma comma_loop_text:
  assumes "p \<noteq> []" "j < length p" "\<forall>t\<in>set ts. tok_ok t"
  shows "comma_loop j (p @ render ts) (length p - 1) = comma_end j p ts"
  using assms
proof (induction ts arbitrary: p)
  case Nil
  then show ?case by (subst comma_loop_eqs(1)) (simp_all add: comma_end_def closes_def)
next
  case (Cons t ts)
  have len: "Suc (length p - 1) = length p" using Cons.prems(1) by simp
  have IH: "comma_loop j ((p @ r) @ render ts) (length (p @ r) - 1) = comma_end j (p @ r) ts" for r
    using Cons.prems by (intro Cons.IH) auto
  show ?case
  proof (cases "blank_tok t")
    case False
    with Cons.prems len show ?thesis
      by (cases t) (auto simp: comma_end_def closes_def comma_loop_eqs(2,4) isWS_def isNL_def list_update_append)
  next
    case True
    have "comma_loop j (p @ render (t # ts)) (length p - 1) = comma_end j (p @ clean [t]) ts"
    proof (cases t)
      case (JChar c)
      with True len IH [of "[c]"] show ?thesis by (simp add: comma_loop_eqs(5))
    next
      case (JLine b nl)
      with Cons.prems have ok: "\<forall>c\<in>set b. \<not> isNL c" "isNL nl" by auto
      let ?r = "replicate (length b + 2) sp @ [nl]"
      have "comma_loop j (p @ render (t # ts)) (length p - 1) = comma_loop j ((p @ ?r) @ render ts) (length (p @ ?r) - 1)"
        using consume_line [OF ok, of p "render ts"] JLine len by (subst comma_loop_eqs(3)) simp_all
      then show ?thesis using IH [of ?r] JLine by simp
    next
      case (JBlock b)
      with Cons.prems have ok: "CHR ''*'' \<notin> set b" by auto
      let ?r = "replicate (length b + 4) sp"
      have "comma_loop j (p @ render (t # ts)) (length p - 1) = comma_loop j ((p @ ?r) @ render ts) (length (p @ ?r) - 1)"
        using consume_block [OF ok, of p "render ts"] JBlock len by (subst comma_loop_eqs(3)) (simp_all add: ac_simps)
      then show ?thesis using IH [of ?r] JBlock by simp
    qed (use True in auto)
    with True show ?thesis by (simp add: comma_end_blank)
  qed
qed

lemma prep_step:
  "c \<noteq> quote \<Longrightarrow> c \<noteq> CHR ''/'' \<Longrightarrow> c \<noteq> CHR '','' \<Longrightarrow>
    prep_loop (p @ c # q) (length p) = prep_loop (p @ c # q) (Suc (length p))"
  by (subst prep_loop_eqs(5)) simp_all

lemma prep_loop_text:
  "\<forall>t\<in>set ts. tok_ok t \<Longrightarrow> prep_loop (p @ render ts) (length p) = p @ clean ts"
proof (induction ts arbitrary: p rule: length_induct)
  case (1 ts)
  show ?case
  proof (cases ts)
    case Nil
    then show ?thesis by (simp add: prep_loop_eqs(1))
  next
    case (Cons t us)
    have ok: "tok_ok t" "\<forall>t\<in>set us. tok_ok t" using "1.prems" Cons by auto
    have IH: "prep_loop ((p @ r) @ render us) (length (p @ r)) = (p @ r) @ clean us" for r
      using "1.IH" [rule_format, of us "p @ r"] Cons ok(2) by simp
    show ?thesis
    proof (cases t)
      case (JChar c)
      with ok have "prep_loop (p @ render ts) (length p) = prep_loop ((p @ [c]) @ render us) (length (p @ [c]))"
        unfolding Cons by (subst prep_loop_eqs(5)) simp_all
      with IH [of "[c]"] JChar Cons show ?thesis by simp
    next
      case (JStr b)
      with ok have "skip_string ((p @ [quote]) @ b @ quote # render us) (length (p @ [quote])) = length (p @ [quote]) + length b + 1"
        by (intro skip_string_text) simp
      with JStr have "prep_loop (p @ render ts) (length p) = prep_loop ((p @ text_of t) @ render us) (length (p @ text_of t))"
        unfolding Cons by (subst prep_loop_eqs(2)) simp_all
      with IH [of "text_of t"] JStr Cons show ?thesis by simp
    next
      case (JLine b nl)
      let ?r = "replicate (length b + 2) sp"
      from JLine ok have o: "\<forall>c\<in>set b. \<not> isNL c" "isNL nl" by auto
      then have nl: "nl \<noteq> quote" "nl \<noteq> CHR ''/''" "nl \<noteq> CHR '',''" by (auto simp: isNL_def)
      have "prep_loop (p @ render ts) (length p) = prep_loop ((p @ ?r) @ nl # render us) (length (p @ ?r))"
        using JLine consume_line [OF o, of p "render us"] unfolding Cons by (subst prep_loop_eqs(3)) simp_all
      also have "\<dots> = prep_loop ((p @ ?r @ [nl]) @ render us) (length (p @ ?r @ [nl]))"
        unfolding prep_step [OF nl] by simp
      finally show ?thesis using IH [of "?r @ [nl]"] JLine Cons by simp
    next
      case (JBlock b)
      let ?r = "replicate (length b + 3) sp"
      from JBlock ok have o: "CHR ''*'' \<notin> set b" by auto
      have r: "replicate (length b + 4) sp = ?r @ [sp]" by (simp add: numeral_eq_Suc replicate_append_same)
      have "prep_loop (p @ render ts) (length p) = prep_loop ((p @ ?r) @ sp # render us) (length (p @ ?r))"
        using JBlock consume_block [OF o, of p "render us"] r unfolding Cons by (subst prep_loop_eqs(3)) (simp_all add: ac_simps)
      also have "\<dots> = prep_loop ((p @ ?r @ [sp]) @ render us) (length (p @ ?r @ [sp]))"
        by (subst prep_step) (simp_all add: ac_simps)
      finally show ?thesis using IH [of "?r @ [sp]"] JBlock Cons r by simp
    next
      case JComma
      let ?ws = "blanks_of us" and ?rest = "rest_of us"
      let ?c = "if trailing us then sp else CHR '',''"
      let ?p = "p @ ?c # clean ?ws"
      have b: "\<forall>t\<in>set ?ws. blank_tok t" by (auto dest: set_takeWhileD)
      have e: "comma_loop (length p) ((p @ '','') @ render us) (length (p @ '','') - 1) = comma_end (length p) (p @ '','') us"
        by (rule comma_loop_text) (use ok in simp_all)
      have "comma_end (length p) (p @ '','') us = (?p @ render ?rest, length ?p)"
        by (simp add: comma_end_def trailing_def clean_length)
      with e JComma have "prep_loop (p @ render ts) (length p) = prep_loop (?p @ render ?rest) (length ?p)"
        unfolding Cons by (subst prep_loop_eqs(4)) simp_all
      also have "\<dots> = ?p @ clean ?rest"
        by (rule "1.IH" [rule_format])
          (use Cons ok(2) in \<open>auto simp: le_imp_less_Suc length_dropWhile_le dest: set_dropWhileD\<close>)
      also have "\<dots> = p @ clean ts"
        using clean_blank_append [OF b, of ?rest] JComma Cons by simp
      finally show ?thesis .
    qed
  qed
qed


text \<open>The token form of the input [''//'', 1, /*x*/ ] followed by a line comment.\<close>

definition sample :: "jtok list" where
  "sample = [JChar (CHR ''[''), JStr ''//'', JComma, JChar (CHR ''1''), JComma, JBlock ''x'', JChar (CHR '']''),
     JLine ''end'' (CHR 0x0A)]"


lemma blank_block_plain:
  "CHR ''*'' \<notin> set b \<Longrightarrow>
    blank_block (p @ b @ r) (length p) = blank_block (p @ replicate (length b) sp @ r) (length p + length b)"
proof (induction b arbitrary: p)
  case (Cons c b)
  have "blank_block (p @ (c # b) @ r) (length p) = blank_block ((p @ [sp]) @ b @ r) (length (p @ [sp]))"
    using Cons.prems by (subst blank_block_eqs(2)) auto
  also have "\<dots> = blank_block ((p @ [sp]) @ replicate (length b) sp @ r) (length (p @ [sp]) + length b)"
    using Cons.prems by (intro Cons.IH) simp
  finally show ?case by simp
qed simp

lemma blank_block_star:
  assumes "CHR ''*'' \<notin> set b" "c \<noteq> CHR ''/''"
  shows "blank_block (p @ b @ CHR ''*'' # c # q) (length p) =
    blank_block ((p @ replicate (length b + 1) sp @ [c]) @ q) (length (p @ replicate (length b + 1) sp @ [c]))"
proof -
  let ?p = "p @ replicate (length b) sp"
  have "blank_block (p @ b @ CHR ''*'' # c # q) (length p) = blank_block (?p @ CHR ''*'' # c # q) (length ?p)"
    using blank_block_plain [OF assms(1), of p "CHR ''*'' # c # q"] by simp
  also have "\<dots> = blank_block (?p @ sp # c # q) (Suc (Suc (length ?p)))"
    using assms(2) by (subst blank_block_eqs(4)) (auto simp: nth_append list_update_append)
  finally show ?thesis by (simp add: replicate_append_same [symmetric])
qed

lemma prep_open_block:
  assumes "blank_block (sp # sp # r) 1 = (s, i)"
  shows "prep (Inr (''/*'' @ r)) = Inr (prep_loop s i)"
proof -
  have "consumeComment (''/*'' @ r) 1 = (s, i)"
    using assms by (simp add: consumeComment_def)
  then show ?thesis by (simp add: prep_def prep_loop_eqs(3))
qed

text \<open>
  The byte after a star inside a block comment is stepped over. If it is not a star it
  stays in the text, a byte of the comment that the JSON parser then reads; if the comment
  ends in two stars its end is not seen, the second star stays, and everything after the
  comment is blanked.
\<close>

theorem block_comment_stars:
  assumes "CHR ''*'' \<notin> set b" "CHR ''*'' \<notin> set d" "c \<noteq> CHR ''*''" "c \<noteq> CHR ''/''"
  shows "prep (Inr (''/*'' @ b @ [CHR ''*'', c] @ d @ ''*/'')) =
      Inr (replicate (length b + 3) sp @ [c] @ replicate (length d + 2) sp)
    \<and> prep (Inr (''/*'' @ b @ ''**/'' @ d)) =
      Inr (replicate (length b + 3) sp @ [CHR ''*''] @ replicate (length d + 1) sp)"
proof
  have b: "CHR ''*'' \<notin> set (sp # b)" and sl: "CHR ''*'' \<notin> set (CHR ''/'' # d)" using assms by simp_all
  let ?p = "\<lambda>c. [sp] @ replicate (length (sp # b) + 1) sp @ [c]"
  have "blank_block (sp # sp # b @ [CHR ''*'', c] @ d @ ''*/'') 1 =
      blank_block (?p c @ d @ CHR ''*'' # CHR ''/'' # []) (length (?p c))"
    using blank_block_star [OF b assms(4), of "[sp]" "d @ ''*/''"] by simp
  also have "\<dots> = (?p c @ replicate (length d + 2) sp @ [], length (?p c) + length d + 1)"
    by (rule blank_block_text [OF assms(2)])
  finally have "prep (Inr (''/*'' @ (b @ [CHR ''*'', c] @ d @ ''*/''))) =
      Inr (prep_loop (?p c @ replicate (length d + 2) sp @ []) (length (?p c) + length d + 1))"
    by (rule prep_open_block)
  moreover have "prep_loop (?p c @ replicate (length d + 2) sp @ []) (length (?p c) + length d + 1) =
      ?p c @ replicate (length d + 2) sp"
  proof -
    have s: "?p c @ replicate (length d + 2) sp @ [] = (?p c @ replicate (length d + 1) sp) @ sp # []"
      by (simp add: replicate_append_same)
    have n: "length (?p c) + length d + 1 = length (?p c @ replicate (length d + 1) sp)" by simp
    have e: "(?p c @ replicate (length d + 1) sp) @ sp # [] = ?p c @ replicate (length d + 2) sp"
      using s by simp
    show ?thesis unfolding s n by (subst prep_step) (simp_all only: prep_loop_eqs(1) e, simp_all add: prep_loop_eqs(1))
  qed
  ultimately show "prep (Inr (''/*'' @ b @ [CHR ''*'', c] @ d @ ''*/'')) =
      Inr (replicate (length b + 3) sp @ [c] @ replicate (length d + 2) sp)"
    by (simp add: numeral_eq_Suc)
  have "blank_block (sp # sp # b @ ''**/'' @ d) 1 =
      blank_block (?p (CHR ''*'') @ (CHR ''/'' # d) @ []) (length (?p (CHR ''*'')))"
    using blank_block_star [OF b, of "CHR ''*''" "[sp]" "CHR ''/'' # d"] by simp
  also have "\<dots> = blank_block (?p (CHR ''*'') @ replicate (length (CHR ''/'' # d)) sp @ [])
      (length (?p (CHR ''*'')) + length (CHR ''/'' # d))"
    by (rule blank_block_plain [OF sl])
  also have "\<dots> = (?p (CHR ''*'') @ replicate (length d + 1) sp, length (?p (CHR ''*'')) + length d + 1)"
    by (simp add: blank_block_eqs(1))
  finally have "prep (Inr (''/*'' @ (b @ ''**/'' @ d))) =
      Inr (prep_loop (?p (CHR ''*'') @ replicate (length d + 1) sp) (length (?p (CHR ''*'')) + length d + 1))"
    by (rule prep_open_block)
  then show "prep (Inr (''/*'' @ b @ ''**/'' @ d)) =
      Inr (replicate (length b + 3) sp @ [CHR ''*''] @ replicate (length d + 1) sp)"
    by (simp add: prep_loop_eqs(1) numeral_eq_Suc)
qed

theorem block_comment_stars_witness:
  "prep (Inr ''/*a*b*/'') = Inr ''    b  '' \<and> prep (Inr ''/*a**/1'') = Inr ''    *  ''"
  using block_comment_stars [of "''a''" "''''" "CHR ''b''"] block_comment_stars [of "''a''" "''1''" "CHR ''b''"]
  by (simp add: numeral_eq_Suc)

end
