(* ===== verification/Panel_Client.thy ===== *)
theory Panel_Client
  imports Panel_Types
begin

text \<open>
  api/panel: the client of the panel (panel.go, utils.go) and its requests for the node's
  configuration (node.go) and its users (user.go). A request's answer is an input: what resty
  returned. The decoders are parameters; the digest of a body is a parameter too (SHA-256 in
  hexadecimal), the code only compares it.
\<close>

subsection \<open>panel.go and utils.go\<close>

text \<open>The resty client as New configures it.\<close>

record RestClient =
  LocalAddr :: "string option"
  RetryCount :: int
  Timeout :: int
  BaseURL :: string
  QueryParams :: "(string \<times> string) list"
  DebugOn :: bool

record Client =
  rest :: RestClient
  APIHost :: string
  APISendIP :: string
  Token :: string
  NodeType :: string
  NodeId :: int
  nodeEtag :: string
  userEtag :: string
  responseBodyHash :: string
  Alive :: "(int \<rightharpoonup> int) option"

text \<open>New writes the node type it understood back into the configuration.\<close>

definition node_type_of :: "string \<Rightarrow> string option" where
  "node_type_of s =
     (let t = toLower s
      in if t = ''v2ray'' then Some ''vmess''
         else if t \<in> set [''vmess'', ''trojan'', ''shadowsocks'', ''hysteria'', ''hysteria2'', ''tuic'', ''anytls'', ''vless'']
         then Some t else None)"

definition new_rest :: "ApiConfig \<Rightarrow> string \<Rightarrow> RestClient" where
  "new_rest c nodeType =
     \<lparr>LocalAddr = (if ac_APISendIP c \<noteq> '''' then Some (ac_APISendIP c) else None), RetryCount = 3,
      Timeout = (if ac_Timeout c > 0 then i64 (ac_Timeout c * 1000000000) else 5000000000),
      BaseURL = ac_APIHost c,
      QueryParams = [(''node_type'', nodeType), (''node_id'', itoa (ac_NodeID c)), (''token'', ac_Key c)],
      DebugOn = False\<rparr>"

definition New :: "ApiConfig \<Rightarrow> ApiConfig \<times> Client result" where
  "New c =
     (case node_type_of (ac_NodeType c) of
        None \<Rightarrow>
          (c\<lparr>ac_NodeType := toLower (ac_NodeType c)\<rparr>,
           Inl (Err (''unsupported Node type: '' @ toLower (ac_NodeType c))))
      | Some t \<Rightarrow>
          (c\<lparr>ac_NodeType := t\<rparr>,
           Inr \<lparr>rest = new_rest c t, APIHost = ac_APIHost c, APISendIP = ac_APISendIP c, Token = ac_Key c,
                NodeType = t, NodeId = ac_NodeID c, nodeEtag = '''', userEtag = '''', responseBodyHash = '''',
                Alive = None\<rparr>))"

definition Debug :: "Client \<Rightarrow> Client" where
  "Debug c = c\<lparr>rest := (rest c)\<lparr>DebugOn := True\<rparr>\<rparr>"

text \<open>
  What a request returned: the response (None for a nil response) and the error. A response
  without a raw response has status 0 and no body.
\<close>

record response =
  raw_nil :: bool
  StatusCode :: int
  Body :: string
  ETag :: string
  ContentType :: string

type_synonym reply = "response option \<times> string option"

definition assembleURL :: "(string \<Rightarrow> string) \<Rightarrow> Client \<Rightarrow> string \<Rightarrow> string" where
  "assembleURL pathJoin c path = pathJoin (APIHost c @ path)"

definition checkResponse :: "(string \<Rightarrow> string) \<Rightarrow> Client \<Rightarrow> reply \<Rightarrow> string \<Rightarrow> error option" where
  "checkResponse pathJoin c rep path =
     (case snd rep of
        Some err \<Rightarrow> Some (Err (''request '' @ assembleURL pathJoin c path @ '' failed: '' @ err))
      | None \<Rightarrow>
          (case fst rep of
             None \<Rightarrow> Some (Panic ''nil pointer dereference'')
           | Some res \<Rightarrow>
               (if StatusCode res \<ge> 400
                then Some (Err (''request '' @ assembleURL pathJoin c path @ '' failed: '' @ Body res))
                else None)))"

subsection \<open>node.go: the interval\<close>

text \<open>
  A Duration in nanoseconds. A float64 is truncated; one that does not fit gives the least
  int64 (the conversion of amd64). The kinds that reflect's Int does not take panic.
\<close>

definition float_to_i64 :: "int \<Rightarrow> nat \<Rightarrow> int" where
  "float_to_i64 m k = (let t = m sdiv (2 ^ k) in if in_i64 t then t else - (2 ^ 63))"

fun intervalToTime :: "any \<Rightarrow> int result" where
  "intervalToTime (AInt i) = Inr (i64 (i * 1000000000))"
| "intervalToTime (AStr s) = Inr (i64 (fst (atoi s) * 1000000000))"
| "intervalToTime (AFloat m k) = Inr (i64 (float_to_i64 m k * 1000000000))"
| "intervalToTime ANil = Inl (Panic ''nil pointer dereference'')"
| "intervalToTime _ = Inl (Panic ''reflect: call of Value.Int'')"

subsection \<open>node.go: the routes\<close>

fun any_strings :: "any list \<Rightarrow> string list result" where
  "any_strings [] = Inr []"
| "any_strings (AStr s # as) = (case any_strings as of Inl e \<Rightarrow> Inl e | Inr ss \<Rightarrow> Inr (s # ss))"
| "any_strings (a # as) = Inl (Panic ''interface conversion'')"

fun matchs_of :: "any \<Rightarrow> string list result" where
  "matchs_of (AStr s) = Inr (split_on (CHR '','') s)"
| "matchs_of (AStrs ss) = Inr ss"
| "matchs_of (AList as) = any_strings as"
| "matchs_of _ = Inl (Panic ''interface conversion'')"

fun add_rules :: "string list \<Rightarrow> Rules \<Rightarrow> Rules" where
  "add_rules [] r = r"
| "add_rules (v # vs) r =
     add_rules vs
       (if hasPrefix v ''protocol:''
        then r\<lparr>Protocol := Protocol r @ [trimPrefix v ''protocol:'']\<rparr>
        else r\<lparr>Regexp := Regexp r @ [trimPrefix v ''regexp:'']\<rparr>)"

definition add_dns :: "nat \<Rightarrow> string \<Rightarrow> string list \<Rightarrow> RawDNS \<Rightarrow> RawDNS result" where
  "add_dns i actionValue matchs d =
     (case matchs of
        [] \<Rightarrow> Inl (Panic ''index out of range'')
      | m # ms \<Rightarrow>
          (if m \<noteq> ''main'' then Inr (d\<lparr>DNSMap := (DNSMap d)(itoa (int i) \<mapsto> (actionValue, matchs))\<rparr>)
           else Inr (d\<lparr>DNSJson := join '''' ms\<rparr>)))"

definition route_step :: "nat \<Rightarrow> Route \<Rightarrow> Rules \<times> RawDNS \<Rightarrow> (Rules \<times> RawDNS) result" where
  "route_step i r st =
     (case matchs_of (Match r) of
        Inl e \<Rightarrow> Inl e
      | Inr matchs \<Rightarrow>
          (if Action r = ''block'' then Inr (add_rules matchs (fst st), snd st)
           else if Action r = ''dns'' then
             (case add_dns i (ActionValue r) matchs (snd st) of
                Inl e \<Rightarrow> Inl e | Inr d \<Rightarrow> Inr (fst st, d))
           else Inr st))"

fun routes_fold :: "nat \<Rightarrow> Route list \<Rightarrow> Rules \<times> RawDNS \<Rightarrow> (Rules \<times> RawDNS) result" where
  "routes_fold i [] st = Inr st"
| "routes_fold i (r # rs) st =
     (case route_step i r st of Inl e \<Rightarrow> Inl e | Inr st' \<Rightarrow> routes_fold (Suc i) rs st')"

subsection \<open>node.go: GetNodeInfo\<close>

text \<open>json.Unmarshal into each protocol's struct: its own part and the embedded CommonNode.\<close>

record decoders =
  dec_VAllss :: "string \<Rightarrow> string + VAllssNode \<times> CommonNode"
  dec_Shadowsocks :: "string \<Rightarrow> string + ShadowsocksNode \<times> CommonNode"
  dec_Trojan :: "string \<Rightarrow> string + TrojanNode \<times> CommonNode"
  dec_Tuic :: "string \<Rightarrow> string + TuicNode \<times> CommonNode"
  dec_AnyTls :: "string \<Rightarrow> string + AnyTlsNode \<times> CommonNode"
  dec_Hysteria :: "string \<Rightarrow> string + HysteriaNode \<times> CommonNode"
  dec_Hysteria2 :: "string \<Rightarrow> string + Hysteria2Node \<times> CommonNode"

definition new_node :: "Client \<Rightarrow> NodeInfo" where
  "new_node c =
     \<lparr>ni_Id = NodeId c, ni_Type = NodeType c, Security = 0, PushInterval = 0, PullInterval = 0,
      ni_RawDNS = \<lparr>DNSMap = Map.empty, DNSJson = ''''\<rparr>, ni_Rules = \<lparr>Regexp = [], Protocol = []\<rparr>,
      VAllss = None, Shadowsocks = None, Trojan = None, Tuic = None, AnyTls = None, Hysteria = None,
      Hysteria2 = None, Common = None\<rparr>"

definition vallss_fix :: "VAllssNode \<Rightarrow> VAllssNode" where
  "vallss_fix rsp =
     (let rsp = (if length (NetworkSettingsBack rsp) > 0
                 then rsp\<lparr>NetworkSettings := NetworkSettingsBack rsp, NetworkSettingsBack := []\<rparr> else rsp)
      in case TlsSettingsBack rsp of
           None \<Rightarrow> rsp
         | Some b \<Rightarrow> rsp\<lparr>TlsSettings := b, TlsSettingsBack := None\<rparr>)"

definition decode_err :: "string \<Rightarrow> string \<Rightarrow> error" where
  "decode_err what e = Err (''decode '' @ what @ '' params error: '' @ e)"

text \<open>The switch on the node type; None is the nil CommonNode of a type it does not list.\<close>

definition parse_params :: "decoders \<Rightarrow> string \<Rightarrow> string \<Rightarrow> NodeInfo \<Rightarrow> (NodeInfo \<times> CommonNode option) result" where
  "parse_params D t body node =
     (if t = ''vmess'' \<or> t = ''vless'' then
        (case dec_VAllss D body of
           Inl e \<Rightarrow> Inl (decode_err ''v2ray'' e)
         | Inr (v, cm) \<Rightarrow> Inr (node\<lparr>VAllss := Some (vallss_fix v), Security := v_Tls (vallss_fix v)\<rparr>, Some cm))
      else if t = ''shadowsocks'' then
        (case dec_Shadowsocks D body of
           Inl e \<Rightarrow> Inl (decode_err ''shadowsocks'' e)
         | Inr (v, cm) \<Rightarrow> Inr (node\<lparr>Shadowsocks := Some v, Security := None_sec\<rparr>, Some cm))
      else if t = ''trojan'' then
        (case dec_Trojan D body of
           Inl e \<Rightarrow> Inl (decode_err ''trojan'' e)
         | Inr (v, cm) \<Rightarrow> Inr (node\<lparr>Trojan := Some v, Security := Tls\<rparr>, Some cm))
      else if t = ''tuic'' then
        (case dec_Tuic D body of
           Inl e \<Rightarrow> Inl (decode_err ''tuic'' e)
         | Inr (v, cm) \<Rightarrow> Inr (node\<lparr>Tuic := Some v, Security := Tls\<rparr>, Some cm))
      else if t = ''anytls'' then
        (case dec_AnyTls D body of
           Inl e \<Rightarrow> Inl (decode_err ''anytls'' e)
         | Inr (v, cm) \<Rightarrow> Inr (node\<lparr>AnyTls := Some v, Security := Tls\<rparr>, Some cm))
      else if t = ''hysteria'' then
        (case dec_Hysteria D body of
           Inl e \<Rightarrow> Inl (decode_err ''hysteria'' e)
         | Inr (v, cm) \<Rightarrow> Inr (node\<lparr>Hysteria := Some v, Security := Tls\<rparr>, Some cm))
      else if t = ''hysteria2'' then
        (case dec_Hysteria2 D body of
           Inl e \<Rightarrow> Inl (decode_err ''hysteria2'' e)
         | Inr (v, cm) \<Rightarrow> Inr (node\<lparr>Hysteria2 := Some v, Security := Tls\<rparr>, Some cm))
      else Inr (node, None))"

text \<open>From the decoded parameters to the node: routes, intervals, and the cleared fields.\<close>

definition finish_node :: "NodeInfo \<Rightarrow> CommonNode option \<Rightarrow> NodeInfo result" where
  "finish_node node cm =
     (case cm of
        None \<Rightarrow> Inl (Panic ''nil pointer dereference'')
      | Some cm \<Rightarrow>
          (case routes_fold 0 (Routes cm) (ni_Rules node, ni_RawDNS node) of
             Inl e \<Rightarrow> Inl e
           | Inr (rules, dns) \<Rightarrow>
               (case cn_BaseConfig cm of
                  None \<Rightarrow> Inl (Panic ''nil pointer dereference'')
                | Some bc \<Rightarrow>
                    (case intervalToTime (bc_PushInterval bc) of
                       Inl e \<Rightarrow> Inl e
                     | Inr push \<Rightarrow>
                         (case intervalToTime (bc_PullInterval bc) of
                            Inl e \<Rightarrow> Inl e
                          | Inr pull \<Rightarrow>
                              Inr (node\<lparr>ni_Rules := rules, ni_RawDNS := dns, PushInterval := push,
                                PullInterval := pull,
                                Common := Some (cm\<lparr>Routes := [], cn_BaseConfig := None\<rparr>)\<rparr>))))))"

definition node_path :: string where
  "node_path = ''/api/v1/server/UniProxy/config''"

definition GetNodeInfo ::
  "(string \<Rightarrow> string) \<Rightarrow> (string \<Rightarrow> string) \<Rightarrow> decoders \<Rightarrow> reply \<Rightarrow> Client \<Rightarrow> Client \<times> NodeInfo option result" where
  "GetNodeInfo digest pathJoin D rep c =
     (case fst rep of
        None \<Rightarrow> (c, Inl (Panic ''nil pointer dereference''))
      | Some r \<Rightarrow>
          (if StatusCode r = 304 then (c, Inr None)
           else if responseBodyHash c = digest (Body r) then (c, Inr None)
           else
             (let c' = c\<lparr>responseBodyHash := digest (Body r), nodeEtag := ETag r\<rparr>
              in case checkResponse pathJoin c' rep node_path of
                   Some e \<Rightarrow> (c', Inl e)
                 | None \<Rightarrow>
                     (case parse_params D (NodeType c') (Body r) (new_node c') of
                        Inl e \<Rightarrow> (c', Inl e)
                      | Inr (node, cm) \<Rightarrow>
                          (case finish_node node cm of
                             Inl e \<Rightarrow> (c', Inl e)
                           | Inr n \<Rightarrow> (c', Inr (Some n)))))))"

subsection \<open>user.go: GetUserList\<close>

text \<open>
  The JSON branch reads the body with a streaming decoder. The decoder is represented by its
  answers in order: a token (its kind and text), a whole value, an error; when they are used
  up it answers with the error of the end of the input.
\<close>

datatype dec_answer = Tok char string | Val string | DErr string

definition dec_error :: "string \<Rightarrow> error" where
  "dec_error m = Err (''decode user list error: '' @ m)"

fun find_users :: "dec_answer list \<Rightarrow> dec_answer list result" where
  "find_users [] = Inl (dec_error ''EOF'')"
| "find_users (Tok k s # as) = (if k = CHR 0x22 \<and> s = ''users'' then Inr as else find_users as)"
| "find_users (Val v # as) = find_users as"
| "find_users (DErr e # as) = Inl (dec_error e)"

text \<open>The loop until the array is closed; PeekKind looks at the next answer.\<close>

fun read_users :: "(string \<Rightarrow> string + UserInfo) \<Rightarrow> dec_answer list \<Rightarrow> UserInfo list result" where
  "read_users unm [] = Inl (dec_error ''read user object: EOF'')"
| "read_users unm (Tok k s # as) =
     (if k = CHR '']'' then Inr [] else Inl (dec_error ''read user object: unexpected token''))"
| "read_users unm (DErr e # as) = Inl (dec_error (''read user object: '' @ e))"
| "read_users unm (Val v # as) =
     (case unm v of
        Inl e \<Rightarrow> Inl (dec_error (''unmarshal user error: '' @ e))
      | Inr u \<Rightarrow> (case read_users unm as of Inl e \<Rightarrow> Inl e | Inr us \<Rightarrow> Inr (u # us)))"

definition json_users :: "(string \<Rightarrow> string + UserInfo) \<Rightarrow> dec_answer list \<Rightarrow> UserInfo list result" where
  "json_users unm as =
     (case find_users as of
        Inl e \<Rightarrow> Inl e
      | Inr [] \<Rightarrow> Inl (dec_error ''EOF'')
      | Inr (DErr e # _) \<Rightarrow> Inl (dec_error e)
      | Inr (Tok k s # as') \<Rightarrow>
          (if k \<noteq> CHR ''['' then Inl (dec_error ''expected \"users\" array'') else read_users unm as')
      | Inr (Val v # _) \<Rightarrow> Inl (dec_error ''expected \"users\" array''))"

definition user_path :: string where
  "user_path = ''/api/v1/server/UniProxy/user''"

text \<open>
  The list is None where the code returns a nil slice: an unchanged list (304), or an empty
  JSON array, nothing being appended.
\<close>

definition GetUserList ::
  "(string \<Rightarrow> string) \<Rightarrow> (string \<Rightarrow> string + UserInfo list option) \<Rightarrow> (string \<Rightarrow> dec_answer list)
   \<Rightarrow> (string \<Rightarrow> string + UserInfo) \<Rightarrow> reply \<Rightarrow> Client \<Rightarrow> Client \<times> UserInfo list option result" where
  "GetUserList pathJoin msgpack answers unm rep c =
     (case fst rep of
        None \<Rightarrow> (c, Inl (Err ''received nil response or raw response''))
      | Some r \<Rightarrow>
          (if raw_nil r then (c, Inl (Err ''received nil response or raw response''))
           else if StatusCode r = 304 then (c, Inr None)
           else
             (case checkResponse pathJoin c rep user_path of
                Some e \<Rightarrow> (c, Inl e)
              | None \<Rightarrow>
                  (case (if contains (ContentType r) ''application/x-msgpack''
                         then (case msgpack (Body r) of Inl e \<Rightarrow> Inl (dec_error e) | Inr us \<Rightarrow> Inr us)
                         else (case json_users unm (answers (Body r)) of
                                 Inl e \<Rightarrow> Inl e
                               | Inr us \<Rightarrow> Inr (if us = [] then None else Some us))) of
                     Inl e \<Rightarrow> (c, Inl e)
                   | Inr us \<Rightarrow> (c\<lparr>userEtag := ETag r\<rparr>, Inr us)))))"

subsection \<open>user.go: the other requests\<close>

text \<open>The map the JSON decoder gives; None inside is the nil map of a body without it.\<close>

definition GetUserAlive ::
  "(string \<Rightarrow> string + (int \<rightharpoonup> int) option) \<Rightarrow> reply \<Rightarrow> Client \<Rightarrow> Client \<times> (int \<rightharpoonup> int) option result" where
  "GetUserAlive unm rep c =
     (let empty = (c\<lparr>Alive := Some Map.empty\<rparr>, Inr (Some Map.empty))
      in case rep of
           (_, Some err) \<Rightarrow> empty
         | (None, None) \<Rightarrow> (c\<lparr>Alive := None\<rparr>, Inl (Panic ''nil pointer dereference''))
         | (Some r, None) \<Rightarrow>
             (if StatusCode r \<ge> 399 then empty
              else if raw_nil r then empty
              else (case unm (Body r) of
                      Inl e \<Rightarrow> empty
                    | Inr a \<Rightarrow> (c\<lparr>Alive := a\<rparr>, Inr a))))"

definition push_data :: "UserTraffic list \<Rightarrow> int \<rightharpoonup> int \<times> int" where
  "push_data ts = fold (\<lambda>t m. m(ut_UID t \<mapsto> (Upload t, Download t))) ts Map.empty"

definition push_path :: string where
  "push_path = ''/api/v1/server/UniProxy/push''"

text \<open>The body sent, and the result given the answer.\<close>

definition ReportUserTraffic ::
  "(string \<Rightarrow> string) \<Rightarrow> reply \<Rightarrow> UserTraffic list \<Rightarrow> Client \<Rightarrow> (int \<rightharpoonup> int \<times> int) \<times> unit result" where
  "ReportUserTraffic pathJoin rep ts c =
     (push_data ts,
      case checkResponse pathJoin c rep push_path of Some e \<Rightarrow> Inl e | None \<Rightarrow> Inr ())"

definition ReportNodeOnlineUsers ::
  "(string \<Rightarrow> string) \<Rightarrow> reply \<Rightarrow> (int \<rightharpoonup> string list) \<Rightarrow> Client \<Rightarrow> (int \<rightharpoonup> string list) \<times> unit result" where
  "ReportNodeOnlineUsers pathJoin rep data c =
     (data,
      case checkResponse pathJoin c rep ''/api/v1/server/UniProxy/alive'' of
        Some (Panic m) \<Rightarrow> Inl (Panic m) | Some (Err m) \<Rightarrow> Inr () | None \<Rightarrow> Inr ())"

end
