(* ===== verification/Panel_Laws.thy ===== *)
theory Panel_Laws
  imports Panel_Client
begin

text \<open>
  What the panel client makes of the panel's answers: which answers it can use and which make
  it panic, the rules it reads from the routes, and what it takes for a change.
\<close>

subsection \<open>Which configurations are readable\<close>

definition is_string :: "any \<Rightarrow> bool" where
  "is_string a \<longleftrightarrow> (\<exists>s. a = AStr s)"

lemma any_strings_ok: "is_ok (any_strings as) \<longleftrightarrow> (\<forall>a\<in>set as. is_string a)"
  by (induction as rule: any_strings.induct) (auto simp: is_string_def split: sum.split)

text \<open>The values a route's match may have: a string, or a list of strings.\<close>

definition match_readable :: "any \<Rightarrow> bool" where
  "match_readable a \<longleftrightarrow>
     (case a of AStr _ \<Rightarrow> True | AStrs _ \<Rightarrow> True | AList as \<Rightarrow> \<forall>a\<in>set as. is_string a | _ \<Rightarrow> False)"

definition empty_match :: "any \<Rightarrow> bool" where
  "empty_match a \<longleftrightarrow> a = AStrs [] \<or> a = AList []"

definition route_readable :: "Route \<Rightarrow> bool" where
  "route_readable r \<longleftrightarrow> match_readable (Match r) \<and> (Action r = ''dns'' \<longrightarrow> \<not> empty_match (Match r))"

definition interval_readable :: "any \<Rightarrow> bool" where
  "interval_readable a \<longleftrightarrow> (case a of AInt _ \<Rightarrow> True | AFloat _ _ \<Rightarrow> True | AStr _ \<Rightarrow> True | _ \<Rightarrow> False)"

lemma matchs_ok: "is_ok (matchs_of a) \<longleftrightarrow> match_readable a"
  by (cases a) (simp_all add: match_readable_def any_strings_ok)

lemma matchs_empty: "matchs_of a = Inr [] \<longleftrightarrow> empty_match a"
proof (cases a)
  case (AList as)
  then show ?thesis
    by (cases as rule: any_strings.cases) (auto simp: empty_match_def split: sum.splits)
qed (simp_all add: empty_match_def)

lemma interval_ok: "is_ok (intervalToTime a) \<longleftrightarrow> interval_readable a"
  by (cases a) (simp_all add: interval_readable_def)

lemma route_step_ok: "is_ok (route_step i r st) \<longleftrightarrow> route_readable r"
proof (cases "matchs_of (Match r)")
  case (Inl e)
  then show ?thesis using matchs_ok [of "Match r"] by (simp add: route_step_def route_readable_def)
next
  case (Inr ms)
  then have "match_readable (Match r)" using matchs_ok [of "Match r"] by simp
  with Inr matchs_empty [of "Match r"] show ?thesis
    by (cases ms) (auto simp: route_step_def route_readable_def add_dns_def)
qed

lemma routes_fold_ok: "is_ok (routes_fold i rs st) \<longleftrightarrow> (\<forall>r\<in>set rs. route_readable r)"
proof (induction i rs st rule: routes_fold.induct)
  case (2 i r rs st)
  then show ?case using route_step_ok [of i r st] by (cases "route_step i r st") simp_all
qed simp

definition config_readable :: "CommonNode \<Rightarrow> bool" where
  "config_readable cm \<longleftrightarrow> (\<forall>r\<in>set (Routes cm). route_readable r) \<and>
     (\<exists>bc. cn_BaseConfig cm = Some bc \<and> interval_readable (bc_PushInterval bc) \<and> interval_readable (bc_PullInterval bc))"

lemma finish_node_ok: "is_ok (finish_node node (Some cm)) \<longleftrightarrow> config_readable cm"
proof -
  let ?f = "routes_fold 0 (Routes cm) (ni_Rules node, ni_RawDNS node)"
  note r = routes_fold_ok [of 0 "Routes cm" "(ni_Rules node, ni_RawDNS node)"]
  show ?thesis
  proof (cases ?f)
    case (Inl e)
    with r show ?thesis by (simp add: finish_node_def config_readable_def)
  next
    case (Inr p)
    with r have "\<forall>r\<in>set (Routes cm). route_readable r" by simp
    with Inr show ?thesis
      by (auto simp: finish_node_def config_readable_def interval_ok [symmetric] split: option.split sum.split prod.split)
  qed
qed

lemma finish_node_error: "finish_node node cm = Inl e \<Longrightarrow> \<exists>m. e = Panic m"
proof -
  have as: "any_strings as = Inl e \<Longrightarrow> \<exists>m. e = Panic m" for as e
    by (induction as rule: any_strings.induct) (auto split: sum.splits)
  have m: "matchs_of a = Inl e \<Longrightarrow> \<exists>m. e = Panic m" for a e
    by (cases a) (auto dest: as)
  have i: "intervalToTime a = Inl e \<Longrightarrow> \<exists>m. e = Panic m" for a e
    by (cases a) auto
  have s: "route_step i r st = Inl e \<Longrightarrow> \<exists>m. e = Panic m" for i r st e
    by (auto simp: route_step_def add_dns_def dest: m split: sum.splits if_splits list.splits)
  have f: "routes_fold i rs st = Inl e \<Longrightarrow> \<exists>m. e = Panic m" for i rs st e
    by (induction i rs st rule: routes_fold.induct) (auto dest: s split: sum.splits)
  show "finish_node node cm = Inl e \<Longrightarrow> \<exists>m. e = Panic m"
    by (auto simp: finish_node_def dest: f i split: option.splits sum.splits)
qed

text \<open>
  Which decoded configurations GetNodeInfo can use: exactly those whose routes match a
  string or a list of strings (not empty for a dns route), and that have a base_config with
  two intervals given as a number or a string. Everything else makes it panic, it never
  returns an error for them.
\<close>

theorem node_config_readable_or_panics:
  "(if config_readable cm then \<exists>n. finish_node node (Some cm) = Inr n
    else \<exists>m. finish_node node (Some cm) = Inl (Panic m))"
proof (cases "finish_node node (Some cm)")
  case (Inl e)
  then have "\<not> config_readable cm" using finish_node_ok [of node cm] by simp
  with Inl finish_node_error [OF Inl] show ?thesis by auto
next
  case (Inr n)
  then have "config_readable cm" using finish_node_ok [of node cm] by simp
  with Inr show ?thesis by simp
qed

subsection \<open>The rules\<close>

fun matches :: "Route \<Rightarrow> string list" where
  "matches r = (case matchs_of (Match r) of Inl _ \<Rightarrow> [] | Inr ms \<Rightarrow> ms)"

definition block_matches :: "Route list \<Rightarrow> string list" where
  "block_matches rs = concat (map matches (filter (\<lambda>r. Action r = ''block'') rs))"

abbreviation is_protocol :: "string \<Rightarrow> bool" where
  "is_protocol v \<equiv> hasPrefix v ''protocol:''"

lemma add_rules_result:
  "add_rules vs r =
    r\<lparr>Regexp := Regexp r @ map (\<lambda>v. trimPrefix v ''regexp:'') (filter (\<lambda>v. \<not> is_protocol v) vs),
      Protocol := Protocol r @ map (\<lambda>v. trimPrefix v ''protocol:'') (filter is_protocol vs)\<rparr>"
  by (induction vs arbitrary: r) simp_all

lemma add_rules_append: "add_rules (us @ vs) r = add_rules vs (add_rules us r)"
  by (induction us arbitrary: r) simp_all

lemma routes_fold_rules:
  "routes_fold i rs st = Inr (rules, dns) \<Longrightarrow> rules = add_rules (block_matches rs) (fst st)"
proof (induction i rs st rule: routes_fold.induct)
  case (1 i st)
  then show ?case by (auto simp: block_matches_def)
next
  case (2 i r rs st)
  from "2.prems" obtain st' where s: "route_step i r st = Inr st'" and f: "routes_fold (Suc i) rs st' = Inr (rules, dns)"
    by (auto split: sum.splits)
  then have "rules = add_rules (block_matches rs) (fst st')" using "2.IH" by blast
  moreover have "fst st' = (if Action r = ''block'' then add_rules (matches r) (fst st) else fst st)"
    using s by (auto simp: route_step_def split: sum.splits if_splits)
  ultimately show ?case by (auto simp: block_matches_def add_rules_append)
qed

text \<open>
  The rules of a node. From a readable configuration GetNodeInfo collects the matches of
  the block routes, in order: those with the prefix protocol: become the protocol rules, all
  others the domain rules, each without its prefix; the intervals are those of base_config,
  and the routes are cleared.
\<close>

theorem node_rules_from_routes:
  assumes "finish_node (new_node c) (Some cm) = Inr n"
  shows "Regexp (ni_Rules n) = map (\<lambda>v. trimPrefix v ''regexp:'') (filter (\<lambda>v. \<not> is_protocol v) (block_matches (Routes cm)))
    \<and> Protocol (ni_Rules n) = map (\<lambda>v. trimPrefix v ''protocol:'') (filter is_protocol (block_matches (Routes cm)))
    \<and> (\<exists>bc. cn_BaseConfig cm = Some bc \<and> intervalToTime (bc_PushInterval bc) = Inr (PushInterval n)
         \<and> intervalToTime (bc_PullInterval bc) = Inr (PullInterval n))
    \<and> Common n = Some (cm\<lparr>Routes := [], cn_BaseConfig := None\<rparr>) \<and> ni_Id n = NodeId c \<and> ni_Type n = NodeType c"
proof -
  obtain rules dns bc push pull where
    f: "routes_fold 0 (Routes cm) (ni_Rules (new_node c), ni_RawDNS (new_node c)) = Inr (rules, dns)"
    and bc: "cn_BaseConfig cm = Some bc" "intervalToTime (bc_PushInterval bc) = Inr push"
      "intervalToTime (bc_PullInterval bc) = Inr pull"
    and n: "n = (new_node c)\<lparr>ni_Rules := rules, ni_RawDNS := dns, PushInterval := push, PullInterval := pull,
        Common := Some (cm\<lparr>Routes := [], cn_BaseConfig := None\<rparr>)\<rparr>"
    using assms by (auto simp: finish_node_def split: option.splits sum.splits prod.splits)
  from routes_fold_rules [OF f] have "rules = add_rules (block_matches (Routes cm)) \<lparr>Regexp = [], Protocol = []\<rparr>"
    by (simp add: new_node_def)
  with bc n show ?thesis by (simp add: add_rules_result new_node_def)
qed

definition example_common :: CommonNode where
  "example_common =
     \<lparr>Host = ''h'', ServerPort = 443, cn_ServerName = ''h'',
      Routes = [\<lparr>r_Id = 1, Match = AList [AStr ''regexp:a.*'', AStr ''protocol:bittorrent''], Action = ''block'', ActionValue = ''''\<rparr>,
                \<lparr>r_Id = 2, Match = AStr ''b,c'', Action = ''dns'', ActionValue = ''1.1.1.1''\<rparr>],
      cn_BaseConfig = Some \<lparr>bc_PushInterval = AFloat 60 0, bc_PullInterval = AStr ''30''\<rparr>\<rparr>"

definition example_client :: Client where
  "example_client =
     \<lparr>rest = \<lparr>LocalAddr = None, RetryCount = 3, Timeout = 5000000000, BaseURL = ''http://p'', QueryParams = [], DebugOn = False\<rparr>,
      APIHost = ''http://p'', APISendIP = '''', Token = ''t'', NodeType = ''trojan'', NodeId = 1,
      nodeEtag = '''', userEtag = '''', responseBodyHash = ''cfg'', Alive = None\<rparr>"

theorem node_rules_from_routes_witness:
  "\<exists>n. finish_node (new_node example_client) (Some example_common) = Inr n
    \<and> Regexp (ni_Rules n) = [''a.*''] \<and> Protocol (ni_Rules n) = [''bittorrent'']"
proof -
  have "config_readable example_common"
    by (simp add: config_readable_def example_common_def route_readable_def match_readable_def is_string_def
        interval_readable_def empty_match_def)
  then obtain n where n: "finish_node (new_node example_client) (Some example_common) = Inr n"
    using finish_node_ok [of "new_node example_client" example_common] by (auto simp: is_ok_iff)
  have b: "block_matches (Routes example_common) = [''regexp:a.*'', ''protocol:bittorrent'']"
    by (simp add: block_matches_def example_common_def)
  show ?thesis
    using node_rules_from_routes [OF n] n by (simp add: b hasPrefix_def trimPrefix_def)
qed

subsection \<open>What counts as a change\<close>

lemma GetNodeInfo_same:
  "fst rep = Some r \<Longrightarrow> StatusCode r = 304 \<or> responseBodyHash c = digest (Body r) \<Longrightarrow>
    GetNodeInfo digest pathJoin D rep c = (c, Inr None)"
  by (auto simp: GetNodeInfo_def)

lemma checkResponse_cong:
  "APIHost c = APIHost d \<Longrightarrow> checkResponse pathJoin c rep p = checkResponse pathJoin d rep p"
  unfolding checkResponse_def assembleURL_def by metis

lemma GetNodeInfo_new:
  assumes "fst rep = Some r" "StatusCode r \<noteq> 304" "responseBodyHash c \<noteq> digest (Body r)"
    and "checkResponse pathJoin c rep node_path = None"
    and "parse_params D (NodeType c) (Body r) (new_node c) = Inr (node, cm)" "finish_node node cm = Inr n"
  shows "GetNodeInfo digest pathJoin D rep c =
    (c\<lparr>responseBodyHash := digest (Body r), nodeEtag := ETag r\<rparr>, Inr (Some n))"
proof -
  let ?c = "c\<lparr>responseBodyHash := digest (Body r), nodeEtag := ETag r\<rparr>"
  have "checkResponse pathJoin ?c rep node_path = checkResponse pathJoin c rep node_path"
    by (rule checkResponse_cong) simp
  moreover have "new_node ?c = new_node c" by (simp add: new_node_def)
  ultimately show ?thesis using assms by (simp add: GetNodeInfo_def Let_def)
qed

lemma GetNodeInfo_error:
  assumes "fst rep = Some r" "StatusCode r \<noteq> 304" "responseBodyHash c \<noteq> digest (Body r)"
    and "checkResponse pathJoin c rep node_path = Some e"
  shows "GetNodeInfo digest pathJoin D rep c =
    (c\<lparr>responseBodyHash := digest (Body r), nodeEtag := ETag r\<rparr>, Inl e)"
proof -
  let ?c = "c\<lparr>responseBodyHash := digest (Body r), nodeEtag := ETag r\<rparr>"
  have "checkResponse pathJoin ?c rep node_path = checkResponse pathJoin c rep node_path"
    by (rule checkResponse_cong) simp
  then show ?thesis using assms by (simp add: GetNodeInfo_def Let_def)
qed

text \<open>
  C34: an outage of the panel makes the node reload. The client remembers the digest of every
  body, errors included: after a failed request (bad) the first poll gives the error, the
  following ones report that nothing has changed, and when the panel answers again with the
  configuration the node already has (good), it is taken for a new one.
\<close>

theorem outage_then_same_config_is_a_change:
  assumes "fst bad = Some b" "StatusCode b \<noteq> 304" "checkResponse pathJoin c bad node_path = Some e"
    and "fst good = Some g" "StatusCode g \<noteq> 304" "checkResponse pathJoin c good node_path = None"
    and "responseBodyHash c = digest (Body g)" "digest (Body b) \<noteq> digest (Body g)"
    and "parse_params D (NodeType c) (Body g) (new_node c) = Inr (node, cm)" "finish_node node cm = Inr n"
    and "c1 = fst (GetNodeInfo digest pathJoin D bad c)"
  shows "snd (GetNodeInfo digest pathJoin D good c) = Inr None
    \<and> snd (GetNodeInfo digest pathJoin D bad c) = Inl e
    \<and> GetNodeInfo digest pathJoin D bad c1 = (c1, Inr None)
    \<and> snd (GetNodeInfo digest pathJoin D good c1) = Inr (Some n)"
proof -
  have b: "GetNodeInfo digest pathJoin D bad c =
      (c\<lparr>responseBodyHash := digest (Body b), nodeEtag := ETag b\<rparr>, Inl e)"
    by (rule GetNodeInfo_error [OF assms(1,2) _ assms(3)]) (use assms(7,8) in simp)
  then have c1: "c1 = c\<lparr>responseBodyHash := digest (Body b), nodeEtag := ETag b\<rparr>" by (simp add: assms(11))
  have chk: "checkResponse pathJoin c1 good node_path = None"
    using assms(6) checkResponse_cong [of c1 c] by (simp add: c1)
  have par: "parse_params D (NodeType c1) (Body g) (new_node c1) = Inr (node, cm)"
    using assms(9) by (simp add: c1 new_node_def)
  have hash: "responseBodyHash c1 = digest (Body b)" by (simp add: c1)
  have g: "GetNodeInfo digest pathJoin D good c1 =
      (c1\<lparr>responseBodyHash := digest (Body g), nodeEtag := ETag g\<rparr>, Inr (Some n))"
    by (rule GetNodeInfo_new [OF assms(4,5) _ chk par assms(10)]) (use assms(8) hash in simp)
  have same: "GetNodeInfo digest pathJoin D good c = (c, Inr None)"
    by (rule GetNodeInfo_same [OF assms(4)]) (simp add: assms(7))
  have again: "GetNodeInfo digest pathJoin D bad c1 = (c1, Inr None)"
    by (rule GetNodeInfo_same [OF assms(1)]) (simp add: hash)
  show ?thesis using b g same again by simp
qed

definition ok_reply :: "string \<Rightarrow> reply" where
  "ok_reply body =
     (Some \<lparr>raw_nil = False, StatusCode = 200, Body = body, ETag = ''e'', ContentType = ''application/json''\<rparr>, None)"

definition failed_reply :: reply where
  "failed_reply =
     (Some \<lparr>raw_nil = True, StatusCode = 0, Body = '''', ETag = '''', ContentType = ''''\<rparr>, Some ''timeout'')"

definition example_decoders :: "CommonNode \<Rightarrow> decoders" where
  "example_decoders cm =
     \<lparr>dec_VAllss = \<lambda>_. Inl ''x'', dec_Shadowsocks = \<lambda>_. Inl ''x'',
      dec_Trojan = \<lambda>_. Inr (\<lparr>tr_Network = ''tcp'', tr_NetworkSettings = ''''\<rparr>, cm),
      dec_Tuic = \<lambda>_. Inl ''x'', dec_AnyTls = \<lambda>_. Inl ''x'', dec_Hysteria = \<lambda>_. Inl ''x'', dec_Hysteria2 = \<lambda>_. Inl ''x''\<rparr>"

theorem outage_then_same_config_is_a_change_witness:
  "\<exists>n. snd (GetNodeInfo (\<lambda>b. b) (\<lambda>p. p) (example_decoders example_common) (ok_reply ''cfg'') example_client) = Inr None
    \<and> snd (GetNodeInfo (\<lambda>b. b) (\<lambda>p. p) (example_decoders example_common) (ok_reply ''cfg'')
        (fst (GetNodeInfo (\<lambda>b. b) (\<lambda>p. p) (example_decoders example_common) failed_reply example_client))) = Inr (Some n)"
proof -
  let ?node = "(new_node example_client)\<lparr>Trojan := Some \<lparr>tr_Network = ''tcp'', tr_NetworkSettings = ''''\<rparr>, Security := Tls\<rparr>"
  have "config_readable example_common"
    by (simp add: config_readable_def example_common_def route_readable_def match_readable_def is_string_def
        interval_readable_def empty_match_def)
  then obtain n where n: "finish_node ?node (Some example_common) = Inr n"
    using finish_node_ok [of ?node example_common] by (auto simp: is_ok_iff)
  obtain b where b: "fst failed_reply = Some b" "StatusCode b \<noteq> 304" "Body b = ''''" by (simp add: failed_reply_def)
  obtain g where g: "fst (ok_reply ''cfg'') = Some g" "StatusCode g \<noteq> 304" "Body g = ''cfg''" by (simp add: ok_reply_def)
  have e: "checkResponse (\<lambda>p. p) example_client failed_reply node_path =
      Some (Err (''request http://p'' @ node_path @ '' failed: timeout''))"
    by (simp add: checkResponse_def failed_reply_def assembleURL_def example_client_def)
  have k: "checkResponse (\<lambda>p. p) example_client (ok_reply ''cfg'') node_path = None"
    by (simp add: checkResponse_def ok_reply_def)
  have h: "responseBodyHash example_client = (\<lambda>b. b) (Body g)" "(\<lambda>b. b) (Body b) \<noteq> (\<lambda>b. b) (Body g)"
    by (simp_all add: b g example_client_def)
  have p: "parse_params (example_decoders example_common) (NodeType example_client) (Body g) (new_node example_client) =
      Inr (?node, Some example_common)"
    by (simp add: parse_params_def example_decoders_def example_client_def)
  show ?thesis
    using outage_then_same_config_is_a_change [OF b(1,2) e g(1,2) k h p n refl] by blast
qed

text \<open>
  New makes a client exactly for the node types it lists, in any mixture of upper and lower
  case, v2ray being another name of vmess; the type it stores is one that GetNodeInfo parses.
\<close>

theorem new_client_accepts:
  "(\<exists>c'. snd (New c) = Inr c' \<and> NodeType c' = t) \<longleftrightarrow>
    (t \<in> {''vmess'', ''trojan'', ''shadowsocks'', ''hysteria'', ''hysteria2'', ''tuic'', ''anytls'', ''vless''}
     \<and> (toLower (ac_NodeType c) = t \<or> toLower (ac_NodeType c) = ''v2ray'' \<and> t = ''vmess''))"
proof (cases "node_type_of (ac_NodeType c)")
  case None
  then show ?thesis by (auto simp: New_def node_type_of_def Let_def split: if_splits)
next
  case (Some u)
  then have "(\<exists>c'. snd (New c) = Inr c' \<and> NodeType c' = t) \<longleftrightarrow> u = t" by (simp add: New_def)
  with Some show ?thesis by (auto simp: node_type_of_def Let_def split: if_splits)
qed

lemma parse_params_known:
  assumes "parse_params D t body node = Inr (n, cm)"
    and "t \<in> {''vmess'', ''trojan'', ''shadowsocks'', ''hysteria'', ''hysteria2'', ''tuic'', ''anytls'', ''vless''}"
  shows "cm \<noteq> None"
  using assms(2,1) by (elim insertE emptyE) (auto simp: parse_params_def split: sum.splits prod.splits)

subsection \<open>The reports\<close>

lemma push_data_last:
  "distinct (map ut_UID ts) \<Longrightarrow> t \<in> set ts \<Longrightarrow> push_data ts (ut_UID t) = Some (Upload t, Download t)"
  unfolding push_data_def by (rule fold_map_upd_distinct [where f = ut_UID])

lemma push_data_dom: "dom (push_data ts) = ut_UID ` set ts"
  unfolding push_data_def fold_map_upd_dom by simp

end
