(* ===== verification/Conf.thy ===== *)
theory Conf
  imports Limiter Json5
begin

text \<open>
  The configuration (conf/node.go, conf/core.go, conf/cert.go, conf/xray.go, conf/sing.go,
  conf/hy.go) with its decoding. json.Unmarshal into a struct is a parameter: it takes the text
  and the struct's old value and gives the new one and the error; what the code does around
  those calls (defaults, includes, the part that depends on the core) is the model.
\<close>

subsection \<open>Data\<close>

record CertConfig =
  CertMode :: string
  RejectUnknownSni :: bool
  CertDomain :: string
  CertFile :: string
  KeyFile :: string
  Provider :: string
  Email :: string
  DNSEnv :: "string \<rightharpoonup> string"

definition NewCertConfig :: CertConfig where
  "NewCertConfig =
     \<lparr>CertMode = ''none'', RejectUnknownSni = False, CertDomain = '''', CertFile = '''', KeyFile = '''',
      Provider = '''', Email = '''', DNSEnv = Map.empty\<rparr>"

record FallBackConfigForXray =
  fx_SNI :: string
  fx_Alpn :: string
  fx_Path :: string
  fx_Dest :: string
  ProxyProtocolVer :: "64 word"

record XrayOptions =
  EnableProxyProtocol :: bool
  xo_EnableDNS :: bool
  DNSType :: string
  EnableUot :: bool
  EnableTFO :: bool
  DisableIVCheck :: bool
  DisableSniffing :: bool
  EnableFallback :: bool
  FallBackConfigs :: "FallBackConfigForXray list option"

definition NewXrayOptions :: XrayOptions where
  "NewXrayOptions =
     \<lparr>EnableProxyProtocol = False, xo_EnableDNS = False, DNSType = ''AsIs'', EnableUot = False, EnableTFO = False,
      DisableIVCheck = False, DisableSniffing = False, EnableFallback = False, FallBackConfigs = None\<rparr>"

record FallBack =
  fb_Server :: string
  fb_ServerPort :: string

record FallBackConfigForSing =
  fs_FallBack :: FallBack
  FallBackForALPN :: "(string \<times> FallBack) list"

record BrutalOptions =
  br_Enabled :: bool
  br_UpMbps :: int
  br_DownMbps :: int

record MultiplexConfig =
  mx_Enabled :: bool
  Padding :: bool
  Brutal :: BrutalOptions

record SingOptions =
  TCPFastOpen :: bool
  SniffEnabled :: bool
  SniffOverrideDestination :: bool
  so_EnableDNS :: bool
  DomainStrategy :: int
  so_FallBackConfigs :: "FallBackConfigForSing option"
  Multiplex :: "MultiplexConfig option"

definition NewSingOptions :: SingOptions where
  "NewSingOptions =
     \<lparr>TCPFastOpen = False, SniffEnabled = True, SniffOverrideDestination = True, so_EnableDNS = False,
      DomainStrategy = 0,
      so_FallBackConfigs = Some \<lparr>fs_FallBack = \<lparr>fb_Server = '''', fb_ServerPort = ''''\<rparr>, FallBackForALPN = []\<rparr>,
      Multiplex = Some \<lparr>mx_Enabled = False, Padding = False,
        Brutal = \<lparr>br_Enabled = False, br_UpMbps = 0, br_DownMbps = 0\<rparr>\<rparr>\<rparr>"

record Options =
  Name :: string
  o_Core :: string
  CoreName :: string
  ListenIP :: string
  SendIP :: string
  DeviceOnlineMinTraffic :: int
  ReportMinTraffic :: int
  o_LimitConfig :: LimitConfig
  RawOptions :: string
  o_XrayOptions :: "XrayOptions option"
  o_SingOptions :: "SingOptions option"
  Hysteria2ConfigPath :: string
  o_CertConfig :: "CertConfig option"

text \<open>The defaults that NodeConfig sets before it decodes the options.\<close>

definition default_options :: Options where
  "default_options =
     \<lparr>Name = '''', o_Core = '''', CoreName = '''', ListenIP = ''0.0.0.0'', SendIP = ''0.0.0.0'',
      DeviceOnlineMinTraffic = 0, ReportMinTraffic = 0, o_LimitConfig = zero_limit_config, RawOptions = '''',
      o_XrayOptions = None, o_SingOptions = None, Hysteria2ConfigPath = '''', o_CertConfig = Some NewCertConfig\<rparr>"

subsection \<open>Options\<close>

text \<open>A call of json.Unmarshal: the new value and the error.\<close>

type_synonym 'a unmarshal = "string \<Rightarrow> 'a \<Rightarrow> 'a \<times> string option"

definition Options_UnmarshalJSON ::
  "Options unmarshal \<Rightarrow> XrayOptions unmarshal \<Rightarrow> SingOptions unmarshal \<Rightarrow> string \<Rightarrow> Options \<Rightarrow> Options \<times> string option" where
  "Options_UnmarshalJSON dec decX decS data o0 =
     (case dec data o0 of
        (opt, Some err) \<Rightarrow> (opt, Some err)
      | (opt, None) \<Rightarrow>
          (if o_Core opt = ''xray'' then
             (case decX data NewXrayOptions of (x, err) \<Rightarrow> (opt\<lparr>o_XrayOptions := Some x\<rparr>, err))
           else if o_Core opt = ''sing'' then
             (case decS data NewSingOptions of (x, err) \<Rightarrow> (opt\<lparr>o_SingOptions := Some x\<rparr>, err))
           else if o_Core opt = ''hysteria2'' then (opt\<lparr>RawOptions := data\<rparr>, None)
           else (opt\<lparr>o_Core := '''', RawOptions := data\<rparr>, None)))"

subsection \<open>Nodes\<close>

definition default_api :: ApiConfig where
  "default_api =
     \<lparr>ac_APIHost = ''http://127.0.0.1'', ac_APISendIP = '''', ac_NodeID = 0, ac_Key = '''', ac_NodeType = '''',
      ac_Timeout = 30, ac_RuleListPath = ''''\<rparr>"

record rawNodeConfig =
  Include :: string
  ApiRaw :: string
  OptRaw :: string

record NodeConfig =
  nc_ApiConfig :: ApiConfig
  nc_Options :: Options

text \<open>Where an include is read from: http.Get, or os.Open.\<close>

datatype include_source = HttpGet string | OpenFile string

definition include_source :: "string \<Rightarrow> include_source" where
  "include_source inc =
     (let file = trimPrefix inc '':''
      in if file = ''http'' \<or> file = ''https'' then HttpGet file else OpenFile inc)"

text \<open>fetch gives the error of opening the source, or a reader of its bytes.\<close>

definition read_include :: "(include_source \<Rightarrow> string + string result) \<Rightarrow> string \<Rightarrow> string result" where
  "read_include fetch inc =
     (case fetch (include_source inc) of
        Inl err \<Rightarrow>
          (case include_source inc of
             HttpGet _ \<Rightarrow> Inl (Err err) | OpenFile _ \<Rightarrow> Inl (Err (''open include file error: '' @ err)))
      | Inr reader \<Rightarrow>
          (case prep reader of Inl e \<Rightarrow> Inl (wrap_err ''open include file error: '' e) | Inr s \<Rightarrow> Inr s))"

record node_decoders =
  dec_raw :: "rawNodeConfig unmarshal"
  dec_api :: "ApiConfig unmarshal"
  dec_options :: "string \<Rightarrow> Options \<Rightarrow> Options \<times> string option"

text \<open>The data to decode: the text itself, or the include's; and the raw parts.\<close>

definition node_source ::
  "(include_source \<Rightarrow> string + string result) \<Rightarrow> node_decoders \<Rightarrow> string \<Rightarrow> (string \<times> rawNodeConfig) result" where
  "node_source fetch D data =
     (case dec_raw D data \<lparr>Include = '''', ApiRaw = '''', OptRaw = ''''\<rparr> of
        (rn, Some err) \<Rightarrow> Inl (Err err)
      | (rn, None) \<Rightarrow>
          (if length (Include rn) \<noteq> 0 then
             (case read_include fetch (Include rn) of
                Inl e \<Rightarrow> Inl e
              | Inr data' \<Rightarrow>
                  (case dec_raw D data' rn of
                     (rn', Some err) \<Rightarrow> Inl (Err (''unmarshal include file error: '' @ err))
                   | (rn', None) \<Rightarrow> Inr (data', rn')))
           else Inr (data, rn)))"

definition NodeConfig_UnmarshalJSON ::
  "(include_source \<Rightarrow> string + string result) \<Rightarrow> node_decoders \<Rightarrow> string \<Rightarrow> NodeConfig \<Rightarrow> NodeConfig \<times> error option" where
  "NodeConfig_UnmarshalJSON fetch D data n =
     (case node_source fetch D data of
        Inl e \<Rightarrow> (n, Some e)
      | Inr (data', rn) \<Rightarrow>
          (case dec_api D (if length (ApiRaw rn) > 0 then ApiRaw rn else data') default_api of
             (api, Some err) \<Rightarrow> (n\<lparr>nc_ApiConfig := api\<rparr>, Some (Err err))
           | (api, None) \<Rightarrow>
               (case dec_options D (if length (OptRaw rn) > 0 then OptRaw rn else data') default_options of
                  (opt, err) \<Rightarrow> (n\<lparr>nc_ApiConfig := api, nc_Options := opt\<rparr>, map_option Err err))))"

subsection \<open>Properties\<close>

text \<open>
  An include given as a URL is never fetched: the source is HTTP only for the four texts
  http, https, :http and :https, which are no URLs, and everything else, a URL included, is
  opened as a file.
\<close>

theorem include_url_is_opened_as_file:
  "include_source (''http'' @ s) = (if s = '''' then HttpGet ''http'' else if s = ''s'' then HttpGet ''https''
     else OpenFile (''http'' @ s))
   \<and> (\<exists>u. include_source inc = HttpGet u) = (inc \<in> {''http'', ''https'', '':http'', '':https''})"
proof
  have "trimPrefix (''http'' @ s) '':'' = ''http'' @ s" by (simp add: trimPrefix_def hasPrefix_def)
  then show "include_source (''http'' @ s) = (if s = '''' then HttpGet ''http'' else if s = ''s'' then HttpGet ''https''
     else OpenFile (''http'' @ s))"
    by (simp add: include_source_def)
  show "(\<exists>u. include_source inc = HttpGet u) = (inc \<in> {''http'', ''https'', '':http'', '':https''})"
  proof (cases inc)
    case Nil
    then show ?thesis by (simp add: include_source_def trimPrefix_def hasPrefix_def)
  next
    case (Cons c cs)
    then show ?thesis by (auto simp: include_source_def trimPrefix_def hasPrefix_def Let_def)
  qed
qed

text \<open>
  Decoding the options leaves them fit for a core: on success the options name the xray
  core and hold its options (the defaults overwritten by the text), or the sing core and its
  options, or the hysteria2 core, or no core, any unknown name being erased; in the last two
  cases the text is kept for the core that is chosen later.
\<close>

theorem options_fit_their_core:
  assumes "Options_UnmarshalJSON dec decX decS data o0 = (opt, None)"
  shows "o_Core opt = ''xray'' \<and> (\<exists>x. o_XrayOptions opt = Some x \<and> decX data NewXrayOptions = (x, None))
    \<or> o_Core opt = ''sing'' \<and> (\<exists>x. o_SingOptions opt = Some x \<and> decS data NewSingOptions = (x, None))
    \<or> (o_Core opt = ''hysteria2'' \<or> o_Core opt = '''') \<and> RawOptions opt = data"
  using assms by (auto simp: Options_UnmarshalJSON_def split: prod.splits option.splits if_splits)

theorem options_fit_their_core_witness:
  "\<exists>opt. Options_UnmarshalJSON (\<lambda>d o1. (o1\<lparr>o_Core := d\<rparr>, None)) (\<lambda>d x. (x, None)) (\<lambda>d x. (x, None)) ''v8'' default_options
      = (opt, None) \<and> o_Core opt = '''' \<and> RawOptions opt = ''v8''"
proof -
  let ?u = "Options_UnmarshalJSON (\<lambda>d o1. (o1\<lparr>o_Core := d\<rparr>, None)) (\<lambda>d x. (x, None)) (\<lambda>d x. (x, None)) ''v8'' default_options"
  obtain opt where e: "?u = (opt, None)" and c: "o_Core opt = ''''"
    by (simp add: Options_UnmarshalJSON_def)
  from options_fit_their_core [OF e] e c show ?thesis by auto
qed

end
