(* ===== verification/Traffic_Slice.thy ===== *)
theory Traffic_Slice
  imports Traffic_Counter Panel_Types
begin

text \<open>
  The traffic report of a node. The three cores (core/xray/user.go, core/sing/user.go,
  core/hy2/user.go) collect it with the same callback over the node's TrafficCounter: a user
  whose traffic exceeds the node's threshold is reported and, on request, reset; one with no
  UID any more is dropped. The theory holds the callback, its functional description, and the
  locale of traffic sources, whose client lemma is that no counted byte is lost or reported
  twice.
\<close>

definition slice_visit ::
  "int \<Rightarrow> (string \<Rightarrow> int) \<Rightarrow> bool \<Rightarrow> string
   \<Rightarrow> TrafficCounter \<times> tstore \<times> UserTraffic list \<Rightarrow> TrafficCounter \<times> tstore \<times> UserTraffic list" where
  "slice_visit minBytes uid reset key st =
     (case st of (c, h, out) \<Rightarrow>
       (case c key of
          None \<Rightarrow> st
        | Some a \<Rightarrow>
            (let up = UpCounter (storages h a); down = DownCounter (storages h a)
             in if i64 (up + down) > minBytes then
                  (let h' = (if reset then store_down a 0 (store_up a 0 h) else h)
                   in if uid key = 0 then (Delete key c, h', out)
                      else (c, h', out @ [\<lparr>ut_UID = uid key, Upload = up, Download = down\<rparr>]))
                else st)))"

definition slice_range ::
  "int \<Rightarrow> (string \<Rightarrow> int) \<Rightarrow> bool \<Rightarrow> string list \<Rightarrow> TrafficCounter \<Rightarrow> tstore
   \<Rightarrow> TrafficCounter \<times> tstore \<times> UserTraffic list" where
  "slice_range minBytes uid reset order c h = fold (slice_visit minBytes uid reset) order (c, h, [])"

subsection \<open>What one range does\<close>

definition exceeds :: "int \<Rightarrow> TrafficCounter \<Rightarrow> tstore \<Rightarrow> string \<Rightarrow> bool" where
  "exceeds minBytes c h k \<longleftrightarrow> c k \<noteq> None \<and> i64 (GetUpCount k c h + GetDownCount k c h) > minBytes"

definition slice_entry :: "(string \<Rightarrow> int) \<Rightarrow> TrafficCounter \<Rightarrow> tstore \<Rightarrow> string \<Rightarrow> UserTraffic" where
  "slice_entry uid c h k = \<lparr>ut_UID = uid k, Upload = GetUpCount k c h, Download = GetDownCount k c h\<rparr>"

lemma exceeds_delete: "k \<noteq> j \<Longrightarrow> exceeds m (Delete j c) h k = exceeds m c h k"
  by (simp add: exceeds_def Delete_counts) (simp add: Delete_def)

lemma slice_visit_cases:
  "slice_visit m uid reset k (c, h, out) =
     (if exceeds m c h k then
        (if uid k = 0 then Delete k c else c,
         if reset then Reset k c h else h,
         if uid k = 0 then out else out @ [slice_entry uid c h k])
      else (c, h, out))"
  by (auto simp: slice_visit_def exceeds_def slice_entry_def GetUpCount_def GetDownCount_def
      Reset_def split: option.splits)

lemma slice_visit_wf:
  assumes "tc_wf c h" "slice_visit m uid reset k (c, h, out) = (c', h', out')"
  shows "tc_wf c' h'"
  using assms by (auto simp: slice_visit_cases Reset_counts tc_wf_Delete split: if_splits)

text \<open>
  Visiting a key changes the counts of that key only, and leaves the others' membership alone.
\<close>

lemma slice_visit_other:
  assumes "tc_wf c h" "slice_visit m uid reset k (c, h, out) = (c', h', out')" "j \<noteq> k"
  shows "c' j = c j" "GetUpCount j c' h' = GetUpCount j c h" "GetDownCount j c' h' = GetDownCount j c h"
    and "exceeds m c' h' j = exceeds m c h j" "slice_entry uid c' h' j = slice_entry uid c h j"
proof -
  show m: "c' j = c j"
    and u: "GetUpCount j c' h' = GetUpCount j c h"
    and d: "GetDownCount j c' h' = GetDownCount j c h"
    using assms
    by (auto simp: slice_visit_cases Reset_counts Delete_counts tc_wf_Delete split: if_splits)
      (auto simp: Delete_def GetUpCount_def GetDownCount_def Reset_def
        dest: tc_wf_inj split: option.splits)
  show "exceeds m c' h' j = exceeds m c h j" "slice_entry uid c' h' j = slice_entry uid c h j"
    using m u d by (simp_all add: exceeds_def slice_entry_def)
qed

lemma slice_visit_self:
  assumes "tc_wf c h" "slice_visit m uid reset k (c, h, out) = (c', h', out')"
  shows "c' k = (if exceeds m c h k \<and> uid k = 0 then None else c k)"
    and "GetUpCount k c' h' =
      (if exceeds m c h k \<and> (reset \<or> uid k = 0) then 0 else GetUpCount k c h)"
    and "GetDownCount k c' h' =
      (if exceeds m c h k \<and> (reset \<or> uid k = 0) then 0 else GetDownCount k c h)"
    and "out' = out @ (if exceeds m c h k \<and> uid k \<noteq> 0 then [slice_entry uid c h k] else [])"
proof -
  have r: "GetUpCount k c (Reset k c h) = 0" "GetDownCount k c (Reset k c h) = 0"
    using Reset_counts(2,3) [OF assms(1), where k = k and uuid = k] by simp_all
  have d: "Delete k c k = None" by (simp add: Delete_def)
  show "c' k = (if exceeds m c h k \<and> uid k = 0 then None else c k)"
    using assms(2) d by (auto simp: slice_visit_cases split: if_splits)
  show "GetUpCount k c' h' =
      (if exceeds m c h k \<and> (reset \<or> uid k = 0) then 0 else GetUpCount k c h)"
    "GetDownCount k c' h' =
      (if exceeds m c h k \<and> (reset \<or> uid k = 0) then 0 else GetDownCount k c h)"
    using assms(2) r by (auto simp: slice_visit_cases Delete_counts split: if_splits)
  show "out' = out @ (if exceeds m c h k \<and> uid k \<noteq> 0 then [slice_entry uid c h k] else [])"
    using assms(2) by (auto simp: slice_visit_cases split: if_splits)
qed

text \<open>
  How the counters stand after the keys ks were visited: a key that exceeded the threshold is
  dropped if it has no UID and zeroed if it was reset.
\<close>

definition slice_end ::
  "int \<Rightarrow> (string \<Rightarrow> int) \<Rightarrow> bool \<Rightarrow> string set \<Rightarrow> TrafficCounter \<Rightarrow> tstore \<Rightarrow> TrafficCounter \<Rightarrow> tstore \<Rightarrow> bool" where
  "slice_end m uid reset ks c h c' h' \<longleftrightarrow> (\<forall>j.
     c' j = (if j \<in> ks \<and> exceeds m c h j \<and> uid j = 0 then None else c j) \<and>
     GetUpCount j c' h' = (if j \<in> ks \<and> exceeds m c h j \<and> (reset \<or> uid j = 0) then 0 else GetUpCount j c h) \<and>
     GetDownCount j c' h' = (if j \<in> ks \<and> exceeds m c h j \<and> (reset \<or> uid j = 0) then 0 else GetDownCount j c h))"

definition slice_out :: "int \<Rightarrow> (string \<Rightarrow> int) \<Rightarrow> string list \<Rightarrow> TrafficCounter \<Rightarrow> tstore \<Rightarrow> UserTraffic list" where
  "slice_out m uid ks c h = map (slice_entry uid c h) (filter (\<lambda>k. exceeds m c h k \<and> uid k \<noteq> 0) ks)"

lemma slice_end_Cons:
  assumes "tc_wf c h" "slice_visit m uid reset k (c, h, out) = (c1, h1, out1)"
    and "k \<notin> ks" "slice_end m uid reset ks c1 h1 c' h'"
  shows "slice_end m uid reset (insert k ks) c h c' h'"
  unfolding slice_end_def
proof (intro allI)
  fix j
  note self = slice_visit_self(1-3) [OF assms(1,2)] and oth = slice_visit_other [OF assms(1,2)]
  show "c' j = (if j \<in> insert k ks \<and> exceeds m c h j \<and> uid j = 0 then None else c j) \<and>
    GetUpCount j c' h' = (if j \<in> insert k ks \<and> exceeds m c h j \<and> (reset \<or> uid j = 0) then 0 else GetUpCount j c h) \<and>
    GetDownCount j c' h' = (if j \<in> insert k ks \<and> exceeds m c h j \<and> (reset \<or> uid j = 0) then 0 else GetDownCount j c h)"
  proof (cases "j = k")
    case True
    then have "c' j = c1 j" "GetUpCount j c' h' = GetUpCount j c1 h1" "GetDownCount j c' h' = GetDownCount j c1 h1"
      using assms(3,4) by (simp_all add: slice_end_def)
    with True self show ?thesis by auto
  next
    case False
    then show ?thesis using assms(4) oth(1-4) [OF False] by (auto simp: slice_end_def)
  qed
qed

lemma slice_out_Cons:
  assumes "tc_wf c h" "slice_visit m uid reset k (c, h, out) = (c1, h1, out1)" "k \<notin> set ks"
  shows "out1 @ slice_out m uid ks c1 h1 = out @ slice_out m uid (k # ks) c h"
proof -
  have "exceeds m c1 h1 j = exceeds m c h j" "slice_entry uid c1 h1 j = slice_entry uid c h j"
    if "j \<in> set ks" for j
    using that slice_visit_other(4,5) [OF assms(1,2)] assms(3) by metis+
  then have "slice_out m uid ks c1 h1 = slice_out m uid ks c h"
    unfolding slice_out_def by (intro map_cong filter_cong) auto
  then show ?thesis using slice_visit_self(4) [OF assms(1,2)] by (simp add: slice_out_def)
qed

text \<open>
  The whole range, whatever the order: the entries are those of the users with a UID that
  exceed the threshold, in the order visited.
\<close>

lemma slice_fold:
  assumes "tc_wf c h" "distinct order" "fold (slice_visit m uid reset) order (c, h, out) = (c', h', out')"
  shows "tc_wf c' h' \<and> out' = out @ slice_out m uid order c h \<and> slice_end m uid reset (set order) c h c' h'"
  using assms
proof (induction order arbitrary: c h out)
  case Nil
  then show ?case by (simp add: slice_out_def slice_end_def)
next
  case (Cons k order)
  obtain c1 h1 out1 where v: "slice_visit m uid reset k (c, h, out) = (c1, h1, out1)"
    by (metis prod_cases3)
  have "tc_wf c' h' \<and> out' = out1 @ slice_out m uid order c1 h1 \<and> slice_end m uid reset (set order) c1 h1 c' h'"
    by (rule Cons.IH [OF slice_visit_wf [OF Cons.prems(1) v]]) (use Cons.prems v in auto)
  with Cons.prems(1,2) v show ?case by (auto simp: slice_out_Cons intro: slice_end_Cons)
qed

lemma slice_range_result:
  assumes "tc_wf c h" "distinct order" "slice_range m uid reset order c h = (c', h', out)"
  shows "tc_wf c' h'" "out = slice_out m uid order c h" "slice_end m uid reset (set order) c h c' h'"
  using slice_fold [OF assms(1,2), where out = "[]"] assms(3) by (auto simp: slice_range_def)

subsection \<open>Conservation\<close>

datatype dir = Up | Down

fun amount :: "dir \<Rightarrow> UserTraffic \<Rightarrow> int" where
  "amount Up t = Upload t"
| "amount Down t = Download t"

fun count_of :: "dir \<Rightarrow> string \<Rightarrow> TrafficCounter \<Rightarrow> tstore \<Rightarrow> int" where
  "count_of Up k c h = GetUpCount k c h"
| "count_of Down k c h = GetDownCount k c h"

definition reported :: "dir \<Rightarrow> UserTraffic list \<Rightarrow> int" where
  "reported d out = sum_list (map (amount d) out)"

text \<open>The traffic counted but not yet reported, of the users that have a UID.\<close>

definition pending :: "dir \<Rightarrow> (string \<Rightarrow> int) \<Rightarrow> TrafficCounter \<Rightarrow> tstore \<Rightarrow> int" where
  "pending d uid c h = (\<Sum>k \<in> {k \<in> dom c. uid k \<noteq> 0}. count_of d k c h)"

lemma reported_simps [simp]:
  "reported d [] = 0" "reported d (xs @ ys) = reported d xs + reported d ys"
  by (simp_all add: reported_def)

lemma amount_entry [simp]: "amount d (slice_entry uid c h k) = count_of d k c h"
  by (cases d) (simp_all add: slice_entry_def)

lemma reported_slice_out:
  assumes "distinct ks"
  shows "reported d (slice_out m uid ks c h) =
    (\<Sum>k \<in> {k \<in> set ks. uid k \<noteq> 0}. if exceeds m c h k then count_of d k c h else 0)"
proof -
  have "reported d (slice_out m uid ks c h) =
      sum_list (map (\<lambda>k. count_of d k c h) (filter (\<lambda>k. exceeds m c h k \<and> uid k \<noteq> 0) ks))"
    by (simp add: reported_def slice_out_def comp_def)
  also have "\<dots> = (\<Sum>k \<in> {k \<in> set ks. exceeds m c h k \<and> uid k \<noteq> 0}. count_of d k c h)"
    using assms by (subst sum_list_distinct_conv_sum_set) auto
  also have "\<dots> = (\<Sum>k \<in> {k \<in> set ks. uid k \<noteq> 0}. if exceeds m c h k then count_of d k c h else 0)"
    by (simp add: sum.If_cases Int_def conj_ac)
  finally show ?thesis .
qed

text \<open>One collection with reset moves traffic from pending to reported, and loses none.\<close>

lemma slice_conserves:
  assumes "tc_wf c h" "enumerates order c" "slice_range m uid True order c h = (c', h', out)"
  shows "pending d uid c' h' + reported d out = pending d uid c h"
proof -
  have o: "distinct order" "set order = dom c" using assms(2) by (auto simp: enumerates_def)
  note r = slice_range_result [OF assms(1) o(1) assms(3)]
  have dom: "{k \<in> dom c'. uid k \<noteq> 0} = {k \<in> dom c. uid k \<noteq> 0}"
    using r(3) by (auto simp: slice_end_def domIff split: if_splits)
  have cnt: "count_of d k c' h' = (if exceeds m c h k then 0 else count_of d k c h)"
    if "k \<in> dom c" for k
    using r(3) that o by (cases d) (simp_all add: slice_end_def)
  have "pending d uid c' h' =
      (\<Sum>k \<in> {k \<in> dom c. uid k \<noteq> 0}. if exceeds m c h k then 0 else count_of d k c h)"
    unfolding pending_def dom by (rule sum.cong) (auto simp: cnt)
  moreover have "reported d out =
      (\<Sum>k \<in> {k \<in> dom c. uid k \<noteq> 0}. if exceeds m c h k then count_of d k c h else 0)"
    using reported_slice_out [OF o(1)] r(2) o(2) by simp
  ultimately show ?thesis
    unfolding pending_def by (simp add: sum.distrib [symmetric]) (rule sum.cong; auto)
qed

subsection \<open>Traffic sources\<close>

text \<open>
  The contract between a core and the controller's traffic task: counting n bytes for a user
  with a UID adds them to the pending traffic (modulo the width of the counter), and a
  collection moves traffic from pending to reported. A history of countings and collections
  then neither loses a byte nor reports one twice.
\<close>

datatype 'o traffic_event = Count dir string int | Collect 'o

fun counted :: "dir \<Rightarrow> 'o traffic_event list \<Rightarrow> int" where
  "counted d [] = 0"
| "counted d (Count e u n # es) = (if d = e then n else 0) + counted d es"
| "counted d (Collect w # es) = counted d es"

text \<open>
  A history of events on a source, with what it reported so far: None where a user without a
  UID is counted or an order is not one of the map's.
\<close>

fun play ::
  "(dir \<Rightarrow> string \<Rightarrow> int \<Rightarrow> 's \<Rightarrow> 's) \<Rightarrow> ('o \<Rightarrow> 's \<Rightarrow> 's \<times> UserTraffic list)
   \<Rightarrow> ('s \<Rightarrow> string \<Rightarrow> bool) \<Rightarrow> ('o \<Rightarrow> 's \<Rightarrow> bool)
   \<Rightarrow> 'o traffic_event list \<Rightarrow> 's \<Rightarrow> UserTraffic list \<Rightarrow> ('s \<times> UserTraffic list) option" where
  "play count collect has_uid order_ok [] s out = Some (s, out)"
| "play count collect has_uid order_ok (Count d u n # es) s out =
     (if has_uid s u then play count collect has_uid order_ok es (count d u n s) out else None)"
| "play count collect has_uid order_ok (Collect w # es) s out =
     (if order_ok w s
      then play count collect has_uid order_ok es (fst (collect w s)) (out @ snd (collect w s))
      else None)"

locale traffic_source =
  fixes count :: "dir \<Rightarrow> string \<Rightarrow> int \<Rightarrow> 's \<Rightarrow> 's"
    and collect :: "'o \<Rightarrow> 's \<Rightarrow> 's \<times> UserTraffic list"
    and left :: "dir \<Rightarrow> 's \<Rightarrow> int"
    and has_uid :: "'s \<Rightarrow> string \<Rightarrow> bool"
    and order_ok :: "'o \<Rightarrow> 's \<Rightarrow> bool"
    and src_inv :: "'s \<Rightarrow> bool"
  assumes count_inv: "src_inv s \<Longrightarrow> has_uid s u \<Longrightarrow> src_inv (count e u n s)"
    and collect_inv: "src_inv s \<Longrightarrow> order_ok w s \<Longrightarrow> src_inv (fst (collect w s))"
    and count_left: "src_inv s \<Longrightarrow> has_uid s u \<Longrightarrow>
      i64 (left d (count e u n s)) = i64 (left d s + (if d = e then n else 0))"
    and collect_left: "src_inv s \<Longrightarrow> order_ok w s \<Longrightarrow>
      left d (fst (collect w s)) + reported d (snd (collect w s)) = left d s"
begin

lemma play_conserves:
  assumes "src_inv s" "play count collect has_uid order_ok es s out = Some (s', out')"
  shows "i64 (left d s' + reported d out') = i64 (left d s + reported d out + counted d es)
    \<and> src_inv s'"
  using assms
proof (induction es arbitrary: s out)
  case (Cons e es)
  show ?case
  proof (cases e)
    case (Count d' u n)
    with Cons.prems have ok: "has_uid s u" and p: "play count collect has_uid order_ok es (count d' u n s) out = Some (s', out')"
      by (auto split: if_splits)
    have IH: "i64 (left d s' + reported d out') =
        i64 (left d (count d' u n s) + reported d out + counted d es) \<and> src_inv s'"
      by (rule Cons.IH [OF count_inv [OF Cons.prems(1) ok] p])
    also have "i64 (left d (count d' u n s) + (reported d out + counted d es)) =
        i64 (left d s + (if d = d' then n else 0) + (reported d out + counted d es))"
      using count_left [OF Cons.prems(1) ok, of d d' n] by (metis i64_add_left)
    ultimately show ?thesis using Count by (simp add: ac_simps)
  next
    case (Collect w)
    with Cons.prems have ok: "order_ok w s"
      and p: "play count collect has_uid order_ok es (fst (collect w s)) (out @ snd (collect w s)) = Some (s', out')"
      by (auto split: if_splits)
    show ?thesis
      using Cons.IH [OF collect_inv [OF Cons.prems(1) ok] p] collect_left [OF Cons.prems(1) ok, of d]
        Collect by (simp add: algebra_simps)
  qed
qed simp

end

subsection \<open>Counting\<close>

text \<open>What every core does to count: Tx for the upload, Rx for the download.\<close>

fun count_dir :: "dir \<Rightarrow> string \<Rightarrow> int \<Rightarrow> TrafficCounter \<times> tstore \<Rightarrow> TrafficCounter \<times> tstore" where
  "count_dir Up u n (c, h) = Tx u n c h"
| "count_dir Down u n (c, h) = Rx u n c h"

lemma count_dir_counts:
  assumes "tc_wf c h" "count_dir e u n (c, h) = (c', h')"
  shows "tc_wf c' h'"
    and "count_of d k c' h' = (if k = u \<and> d = e then i64 (count_of d k c h + n) else count_of d k c h)"
  using assms Tx_counts [of c h u n c' h'] Rx_counts [of c h u n c' h']
  by (cases e; cases d; simp)+

lemma count_dir_dom:
  assumes "count_dir e u n (c, h) = (c', h')"
  shows "dom c' = insert u (dom c)"
proof -
  obtain a c1 h1 where g: "GetCounter u c h = (a, c1, h1)" by (metis prod_cases3)
  with assms have "c' = c1" by (cases e) (auto simp: Tx_def Rx_def)
  with GetCounter_map [OF g] show ?thesis by simp
qed

lemma pending_change:
  assumes "finite (dom c)" "uid u \<noteq> 0" "dom c' = insert u (dom c)"
    and cnt: "\<And>k. count_of d k c' h' = (if k = u \<and> d = e then i64 (count_of d k c h + n) else count_of d k c h)"
  shows "i64 (pending d uid c' h') = i64 (pending d uid c h + (if d = e then n else 0))"
proof -
  let ?A = "{k \<in> dom c. uid k \<noteq> 0}"
  have fin: "finite ?A" using assms(1) by simp
  have A': "{k \<in> dom c'. uid k \<noteq> 0} = insert u ?A" using assms(2,3) by auto
  have rest: "(\<Sum>k \<in> ?A - {u}. count_of d k c' h') = (\<Sum>k \<in> ?A - {u}. count_of d k c h)"
    by (rule sum.cong) (auto simp: cnt)
  have new: "pending d uid c' h' = count_of d u c' h' + (\<Sum>k \<in> ?A - {u}. count_of d k c h)"
    unfolding pending_def A' using fin rest by (simp add: sum.insert_remove)
  have old: "pending d uid c h = count_of d u c h + (\<Sum>k \<in> ?A - {u}. count_of d k c h)"
  proof (cases "u \<in> dom c")
    case True
    then have "?A = insert u ?A" using assms(2) by auto
    then show ?thesis unfolding pending_def using fin by (metis (no_types, lifting) sum.insert_remove)
  next
    case False
    then have "count_of d u c h = 0" by (cases d) (simp_all add: GetUpCount_def GetDownCount_def domIff)
    with False show ?thesis unfolding pending_def by (simp add: Diff_insert0)
  qed
  show ?thesis
  proof (cases "d = e")
    case True
    have "i64 (i64 (count_of d u c h + n) + (\<Sum>k \<in> ?A - {u}. count_of d k c h)) =
        i64 (count_of d u c h + n + (\<Sum>k \<in> ?A - {u}. count_of d k c h))"
      by (rule i64_add_left)
    with True show ?thesis unfolding new old cnt by (simp add: ac_simps)
  next
    case False
    then show ?thesis unfolding new old cnt by simp
  qed
qed

lemma pending_count:
  assumes "tc_wf c h" "finite (dom c)" "uid u \<noteq> 0" "count_dir e u n (c, h) = (c', h')"
  shows "i64 (pending d uid c' h') = i64 (pending d uid c h + (if d = e then n else 0))"
proof (rule pending_change [where u = u and c = c and h = h])
  show "finite (dom c)" "uid u \<noteq> 0" by (rule assms(2), rule assms(3))
  show "dom c' = insert u (dom c)" by (rule count_dir_dom [OF assms(4)])
  show "count_of d k c' h' = (if k = u \<and> d = e then i64 (count_of d k c h + n) else count_of d k c h)" for k
    by (rule count_dir_counts(2) [OF assms(1,4)])
qed

text \<open>
  A connection that holds the storage's address counts through it, without a look-up.
\<close>

fun add_dir :: "dir \<Rightarrow> nat \<Rightarrow> int \<Rightarrow> tstore \<Rightarrow> tstore" where
  "add_dir Up a n h = add_up a n h"
| "add_dir Down a n h = add_down a n h"

lemma tc_wf_add_dir [simp]: "tc_wf c (add_dir d a n h) = tc_wf c h"
  by (cases d) simp_all

lemma pending_alias:
  assumes "tc_wf c h" "finite (dom c)" "uid u \<noteq> 0" "c u = Some a"
  shows "i64 (pending d uid c (add_dir e a n h)) = i64 (pending d uid c h + (if d = e then n else 0))"
proof (rule pending_change [where u = u and c = c and h = h])
  show "finite (dom c)" "uid u \<noteq> 0" by (rule assms(2), rule assms(3))
  show "dom c = insert u (dom c)" using assms(4) by auto
  fix k
  have "c k = Some a \<longleftrightarrow> k = u" using assms(1,4) tc_wf_inj by metis
  then show "count_of d k c (add_dir e a n h) = (if k = u \<and> d = e then i64 (count_of d k c h + n) else count_of d k c h)"
    using assms(4) by (cases d; cases e) (auto simp: GetUpCount_def GetDownCount_def split: option.split)
qed

lemma slice_range_dom:
  assumes "tc_wf c h" "enumerates order c" "slice_range m uid reset order c h = (c', h', out)"
  shows "dom c' \<subseteq> dom c"
proof -
  have "distinct order" using assms(2) by (simp add: enumerates_def)
  from slice_range_result(3) [OF assms(1) this assms(3)]
  have "c' j = (if j \<in> set order \<and> exceeds m c h j \<and> uid j = 0 then None else c j)" for j
    unfolding slice_end_def by blast
  then show ?thesis by (force simp: domIff split: if_splits)
qed

subsection \<open>Nodes whose connections hold their storage\<close>

text \<open>
  What a core promises of a node's counter: it is read and replaced as a whole, a collection
  is a slice_range over it, and a connection adds to the storage it was given. That makes the
  node a traffic source.
\<close>

locale counted_node =
  fixes cnt :: "'s \<Rightarrow> TrafficCounter option"
    and st :: "'s \<Rightarrow> tstore"
    and uid :: "'s \<Rightarrow> string \<Rightarrow> int"
    and thr :: "'s \<Rightarrow> int"
    and put :: "TrafficCounter \<Rightarrow> tstore \<Rightarrow> 's \<Rightarrow> 's"
    and add :: "dir \<Rightarrow> string \<Rightarrow> int \<Rightarrow> 's \<Rightarrow> 's"
    and take_all :: "string list \<Rightarrow> 's \<Rightarrow> 's \<times> UserTraffic list"
  assumes put_cnt: "cnt (put c h s) = Some c"
    and put_st: "st (put c h s) = h"
    and put_uid: "uid (put c h s) = uid s"
    and add_held: "cnt s = Some c \<Longrightarrow> c u = Some a \<Longrightarrow> add d u n s = put c (add_dir d a n (st s)) s"
    and take_none: "cnt s = None \<Longrightarrow> take_all order s = (s, [])"
    and take_some: "cnt s = Some c \<Longrightarrow> slice_range (thr s) (uid s) True order c (st s) = (c', h', out) \<Longrightarrow>
      take_all order s = (put c' h' s, out)"
begin

definition held :: "'s \<Rightarrow> TrafficCounter" where
  "held s = (case cnt s of None \<Rightarrow> NewTrafficCounter | Some c \<Rightarrow> c)"

lemma held_put [simp]: "held (put c h s) = c"
  by (simp add: held_def put_cnt)

lemma held_some: "cnt s = Some c \<Longrightarrow> held s = c"
  by (simp add: held_def)

lemma held_user: "held s u \<noteq> None \<Longrightarrow> \<exists>c a. cnt s = Some c \<and> c u = Some a"
  by (auto simp: held_def NewTrafficCounter_def split: option.splits)

lemma add_cases:
  assumes "held s u \<noteq> None"
  obtains a where "held s u = Some a" "held (add d u n s) = held s" "uid (add d u n s) = uid s"
    "st (add d u n s) = add_dir d a n (st s)"
proof -
  obtain c a where ca: "cnt s = Some c" "c u = Some a" using held_user [OF assms] by blast
  show thesis
    by (rule that [of a]) (simp_all add: add_held [OF ca] put_uid put_st held_some [OF ca(1)] ca(2))
qed

lemma take_cases:
  assumes "tc_wf (held s) (st s)" "enumerates order (held s)"
  obtains "uid (fst (take_all order s)) = uid s" "tc_wf (held (fst (take_all order s))) (st (fst (take_all order s)))"
    "dom (held (fst (take_all order s))) \<subseteq> dom (held s)"
    "\<And>d. pending d (uid s) (held (fst (take_all order s))) (st (fst (take_all order s)))
        + reported d (snd (take_all order s)) = pending d (uid s) (held s) (st s)"
proof (cases "cnt s")
  case None
  show thesis by (rule that) (simp_all add: take_none [OF None] assms(1))
next
  case (Some c)
  have w: "tc_wf c (st s)" "enumerates order c" "distinct order"
    using assms by (simp_all add: held_some [OF Some] enumerates_def)
  obtain c' h' out where r: "slice_range (thr s) (uid s) True order c (st s) = (c', h', out)" by (metis prod_cases3)
  note t = take_some [OF Some r]
  show thesis
    by (rule that) (simp_all add: t put_uid put_st held_some [OF Some] slice_range_result(1) [OF w(1,3) r]
      slice_range_dom [OF w(1,2) r] slice_conserves [OF w(1,2) r])
qed

end

sublocale counted_node \<subseteq> source: traffic_source add take_all "\<lambda>d s. pending d (uid s) (held s) (st s)"
  "\<lambda>s u. uid s u \<noteq> 0 \<and> held s u \<noteq> None" "\<lambda>order s. enumerates order (held s)"
  "\<lambda>s. tc_wf (held s) (st s) \<and> finite (dom (held s))"
proof unfold_locales
  fix s u e n d order
  show "tc_wf (held (add e u n s)) (st (add e u n s)) \<and> finite (dom (held (add e u n s)))"
    if "tc_wf (held s) (st s) \<and> finite (dom (held s))" "uid s u \<noteq> 0 \<and> held s u \<noteq> None"
    by (rule add_cases [where u = u and s = s and d = e and n = n]) (use that in simp_all)
  show "i64 (pending d (uid (add e u n s)) (held (add e u n s)) (st (add e u n s))) =
      i64 (pending d (uid s) (held s) (st s) + (if d = e then n else 0))"
    if "tc_wf (held s) (st s) \<and> finite (dom (held s))" "uid s u \<noteq> 0 \<and> held s u \<noteq> None"
  proof (rule add_cases [where u = u and s = s and d = e and n = n])
    show "held s u \<noteq> None" using that by simp
  next
    fix a assume a: "held s u = Some a" "held (add e u n s) = held s" "uid (add e u n s) = uid s"
      "st (add e u n s) = add_dir e a n (st s)"
    show ?thesis unfolding a(2-4) by (rule pending_alias [where u = u]) (use that a(1) in simp_all)
  qed
  show "tc_wf (held (fst (take_all order s))) (st (fst (take_all order s)))
      \<and> finite (dom (held (fst (take_all order s))))"
    if "tc_wf (held s) (st s) \<and> finite (dom (held s))" "enumerates order (held s)"
    by (rule take_cases [where s = s and order = order]) (use that in \<open>auto dest: finite_subset\<close>)
  show "pending d (uid (fst (take_all order s))) (held (fst (take_all order s))) (st (fst (take_all order s)))
      + reported d (snd (take_all order s)) = pending d (uid s) (held s) (st s)"
    if "tc_wf (held s) (st s) \<and> finite (dom (held s))" "enumerates order (held s)"
    by (rule take_cases [where s = s and order = order]) (use that in simp_all)
qed

end
