(* ===== verification/Hy2.thy ===== *)
theory Hy2
  imports Traffic_Slice Limiter_Runs Conf "HOL-Library.Multiset"
begin

text \<open>
  The hysteria2 core: core/hy2/hy2.go, node.go, user.go, hook.go and the event handlers of
  logger.go. The server of the hysteria library (its NewServer and Close) is a parameter; a
  node is its traffic hook, whose tag is the node's.
\<close>

subsection \<open>State\<close>

record hy_hook =
  hk_Tag :: string
  hk_Counter :: "string \<rightharpoonup> TrafficCounter"
  ReportMinTrafficBytes :: int

record hy2 =
  Hy2nodes :: "string \<rightharpoonup> hy_hook"
  usersMap :: "string \<rightharpoonup> int"
  hy_store :: tstore

text \<open>hy2.go: New checks the log level; the other fields are empty maps.\<close>

definition log_levels :: "string list" where
  "log_levels = [''debug'', ''info'', ''warn'', ''error'']"

text \<open>logger.go: initLogger; build is the error of zap's Build, if any.\<close>

definition initLogger :: "(string \<Rightarrow> string \<Rightarrow> string option) \<Rightarrow> string \<Rightarrow> string \<Rightarrow> (string \<times> string) result" where
  "initLogger build logLevel logFormat =
     (if toLower logLevel \<notin> set log_levels then Inl (Err (''unsupported log level: '' @ logLevel))
      else if toLower logFormat \<notin> {''console'', ''json''} then Inl (Err (''unsupported log format: '' @ logFormat))
      else case build (toLower logLevel) (toLower logFormat) of
             Some e \<Rightarrow> Inl (Err (''failed to initialize logger: '' @ e))
           | None \<Rightarrow> Inr (toLower logLevel, toLower logFormat))"

definition hy_New :: "(string \<Rightarrow> string \<Rightarrow> string option) \<Rightarrow> string \<Rightarrow> tstore \<Rightarrow> hy2 result" where
  "hy_New build level h =
     (case initLogger build (if level \<noteq> '''' then level else ''error'') ''console'' of
        Inl e \<Rightarrow> Inl e
      | Inr _ \<Rightarrow> Inr \<lparr>Hy2nodes = Map.empty, usersMap = Map.empty, hy_store = h\<rparr>)"

definition hy_Protocols :: "string list" where
  "hy_Protocols = [''hysteria2'']"

definition hy_Type :: string where
  "hy_Type = ''hysteria2''"

text \<open>Close closes the servers in the order of the range and stops at the first error.\<close>

fun hy_Close :: "(string \<Rightarrow> string option) \<Rightarrow> string list \<Rightarrow> unit result" where
  "hy_Close closeErr [] = Inr ()"
| "hy_Close closeErr (tag # tags) = (case closeErr tag of Some e \<Rightarrow> Inl (Err e) | None \<Rightarrow> hy_Close closeErr tags)"

subsection \<open>node.go\<close>

text \<open>serve is the result of getHyConfig and NewServer: the error, if any.\<close>

definition hy_AddNode :: "error option \<Rightarrow> string \<Rightarrow> Options \<Rightarrow> hy2 \<Rightarrow> hy2 \<times> unit result" where
  "hy_AddNode serve tag config s =
     (case serve of
        Some e \<Rightarrow> (s, Inl e)
      | None \<Rightarrow>
          (s\<lparr>Hy2nodes := (Hy2nodes s)(tag \<mapsto>
              \<lparr>hk_Tag = tag, hk_Counter = Map.empty, ReportMinTrafficBytes = i64 (ReportMinTraffic config * 1024)\<rparr>)\<rparr>,
           Inr ()))"

definition hy_DelNode :: "(string \<Rightarrow> string option) \<Rightarrow> string \<Rightarrow> hy2 \<Rightarrow> hy2 \<times> unit result" where
  "hy_DelNode closeErr tag s =
     (case Hy2nodes s tag of
        None \<Rightarrow> (s, Inl (Panic ''nil pointer dereference''))
      | Some _ \<Rightarrow>
          (case closeErr tag of
             Some e \<Rightarrow> (s, Inl (Err e))
           | None \<Rightarrow> (s\<lparr>Hy2nodes := (Hy2nodes s)(tag := None)\<rparr>, Inr ())))"

subsection \<open>user.go\<close>

definition Authenticate :: "string \<Rightarrow> hy2 \<Rightarrow> bool \<times> string" where
  "Authenticate auth s = (case usersMap s auth of Some _ \<Rightarrow> (True, auth) | None \<Rightarrow> (False, ''''))"

text \<open>
  Each user is written by a goroutine of its own under the mutex: order is the order in which
  they get it.
\<close>

definition hy_AddUsers :: "UserInfo list \<Rightarrow> UserInfo list \<Rightarrow> hy2 \<Rightarrow> hy2 \<times> int" where
  "hy_AddUsers order users s =
     (s\<lparr>usersMap := fold (\<lambda>u m. m(Uuid u \<mapsto> Id u)) order (usersMap s)\<rparr>, int (length users))"

definition drop_counts :: "string \<Rightarrow> UserInfo list \<Rightarrow> hy_hook \<Rightarrow> hy_hook" where
  "drop_counts tag users hook =
     (case hk_Counter hook tag of
        None \<Rightarrow> hook
      | Some c \<Rightarrow> hook\<lparr>hk_Counter := (hk_Counter hook)(tag \<mapsto> fold (\<lambda>u. Delete (Uuid u)) users c)\<rparr>)"

definition hy_DelUsers :: "UserInfo list \<Rightarrow> UserInfo list \<Rightarrow> string \<Rightarrow> hy2 \<Rightarrow> hy2 \<times> unit result" where
  "hy_DelUsers order users tag s =
     (if users = [] then (s, Inr ())
      else case Hy2nodes s tag of
             None \<Rightarrow> (s, Inl (Panic ''interface conversion''))
           | Some hook \<Rightarrow>
               (s\<lparr>Hy2nodes := (Hy2nodes s)(tag \<mapsto> drop_counts tag users hook),
                  usersMap := fold (\<lambda>u m. m(Uuid u := None)) order (usersMap s)\<rparr>, Inr ()))"

definition hy_GetUserTrafficSlice :: "string list \<Rightarrow> string \<Rightarrow> bool \<Rightarrow> hy2 \<Rightarrow> hy2 \<times> UserTraffic list" where
  "hy_GetUserTrafficSlice order tag reset s =
     (case Hy2nodes s tag of
        None \<Rightarrow> (s, [])
      | Some hook \<Rightarrow>
          (case hk_Counter hook tag of
             None \<Rightarrow> (s, [])
           | Some c \<Rightarrow>
               (let (c', h', out) =
                  slice_range (ReportMinTrafficBytes hook) (get0 (usersMap s)) reset order c (hy_store s)
                in (s\<lparr>Hy2nodes := (Hy2nodes s)(tag \<mapsto> hook\<lparr>hk_Counter := (hk_Counter hook)(tag \<mapsto> c')\<rparr>),
                      hy_store := h'\<rparr>, out))))"

subsection \<open>hook.go\<close>

definition upd_limiter :: "nat \<Rightarrow> ('b Limiter \<Rightarrow> 'b Limiter) \<Rightarrow> 'b limiters \<Rightarrow> 'b limiters" where
  "upd_limiter a f g = g\<lparr>lims := (lims g)(a := f (lims g a))\<rparr>"

definition set_over :: "string \<Rightarrow> bool \<Rightarrow> 'b Limiter \<Rightarrow> 'b Limiter" where
  "set_over k v l =
     (case l_UserLimitInfo l k of
        None \<Rightarrow> l
      | Some u \<Rightarrow> l\<lparr>l_UserLimitInfo := (l_UserLimitInfo l)(k \<mapsto> u\<lparr>OverLimit := v\<rparr>)\<rparr>)"

definition is_over :: "string \<Rightarrow> 'b Limiter \<Rightarrow> bool" where
  "is_over k l = (case l_UserLimitInfo l k of None \<Rightarrow> False | Some u \<Rightarrow> OverLimit u)"

definition LogTraffic ::
  "string \<Rightarrow> 64 word \<Rightarrow> 64 word \<Rightarrow> hy_hook \<Rightarrow> tstore \<Rightarrow> 'b limiters \<Rightarrow> (hy_hook \<times> tstore \<times> 'b limiters) \<times> bool" where
  "LogTraffic uuid tx rx hook h g =
     (case GetLimiter (hk_Tag hook) g of
        Inl _ \<Rightarrow> ((hook, h, g), False)
      | Inr a \<Rightarrow>
          (let k = UserTag (hk_Tag hook) uuid
           in if is_over k (lims g a) then ((hook, h, upd_limiter a (set_over k False) g), False)
              else
                (let c = (case hk_Counter hook (hk_Tag hook) of None \<Rightarrow> NewTrafficCounter | Some c \<Rightarrow> c);
                     (c1, h1) = Rx uuid (sint rx) c h;
                     (c2, h2) = Tx uuid (sint tx) c1 h1
                 in ((hook\<lparr>hk_Counter := (hk_Counter hook)(hk_Tag hook \<mapsto> c2)\<rparr>, h2, g), True))))"

subsection \<open>logger.go: the event handlers\<close>

datatype net_addr = TCPAddr string | UDPAddr string | IPAddr string | OtherAddr

fun extractIPFromAddr :: "net_addr \<Rightarrow> string" where
  "extractIPFromAddr (TCPAddr ip) = ip"
| "extractIPFromAddr (UDPAddr ip) = ip"
| "extractIPFromAddr (IPAddr ip) = ip"
| "extractIPFromAddr OtherAddr = ''''"

fun is_tcp :: "net_addr \<Rightarrow> bool" where
  "is_tcp (TCPAddr _) = True"
| "is_tcp _ = False"

text \<open>The check the three handlers begin with; a missing limiter is zap's Panic.\<close>

definition mark_over ::
  "(int \<Rightarrow> int \<Rightarrow> int \<Rightarrow> 'b) \<Rightarrow> int \<Rightarrow> string \<Rightarrow> net_addr \<Rightarrow> string \<Rightarrow> 'b limiters \<Rightarrow> 'b limiters result" where
  "mark_over newBucket now tag addr uuid g =
     (case GetLimiter tag g of
        Inl _ \<Rightarrow> Inl (Panic ''Get limiter error'')
      | Inr a \<Rightarrow>
          (let k = UserTag tag uuid;
               (l, _, reject) = CheckLimit newBucket now k (extractIPFromAddr addr) (is_tcp addr) True (lims g a)
           in Inr (g\<lparr>lims := (lims g)(a := set_over k reject l)\<rparr>)))"

definition Connect ::
  "(int \<Rightarrow> int \<Rightarrow> int \<Rightarrow> 'b) \<Rightarrow> int \<Rightarrow> string \<Rightarrow> net_addr \<Rightarrow> string \<Rightarrow> 'b limiters \<Rightarrow> 'b limiters result" where
  "Connect newBucket now tag addr uuid g = mark_over newBucket now tag addr uuid g"

definition TCPRequest ::
  "(int \<Rightarrow> int \<Rightarrow> int \<Rightarrow> 'b) \<Rightarrow> int \<Rightarrow> string \<Rightarrow> net_addr \<Rightarrow> string \<Rightarrow> string \<Rightarrow> 'b limiters \<Rightarrow> 'b limiters result" where
  "TCPRequest newBucket now tag addr uuid reqAddr g = mark_over newBucket now tag addr uuid g"

definition UDPRequest ::
  "(int \<Rightarrow> int \<Rightarrow> int \<Rightarrow> 'b) \<Rightarrow> int \<Rightarrow> string \<Rightarrow> net_addr \<Rightarrow> string \<Rightarrow> 32 word \<Rightarrow> string \<Rightarrow> 'b limiters \<Rightarrow> 'b limiters result" where
  "UDPRequest newBucket now tag addr uuid sessionId reqAddr g = mark_over newBucket now tag addr uuid g"

subsection \<open>Users\<close>

lemma hy_AddUsers_order:
  assumes "distinct (map Uuid us)" "mset order = mset us"
  shows "hy_AddUsers order us s = hy_AddUsers us us s"
proof -
  have "distinct (map Uuid order)"
    using assms mset_eq_imp_distinct_iff [of "map Uuid order" "map Uuid us"] by simp
  moreover have "set order = set us" using assms(2) by (rule mset_eq_setD)
  ultimately have "fold (\<lambda>u m. m(Uuid u \<mapsto> Id u)) order (usersMap s) = fold (\<lambda>u m. m(Uuid u \<mapsto> Id u)) us (usersMap s)"
    using assms(1) by (intro fold_map_upd_perm) auto
  then show ?thesis by (simp only: hy_AddUsers_def)
qed

lemma hy_AddUsers_fields [simp]:
  "Hy2nodes (fst (hy_AddUsers order us s)) = Hy2nodes s" "hy_store (fst (hy_AddUsers order us s)) = hy_store s"
  by (simp_all add: hy_AddUsers_def)

text \<open>The state with node tag present, as the controller keeps it while the node runs.\<close>

definition hy_has :: "string \<Rightarrow> hy2 \<Rightarrow> bool" where
  "hy_has tag s \<longleftrightarrow> Hy2nodes s tag \<noteq> None"

lemma hy_DelUsers_users:
  "hy_has tag s \<Longrightarrow> usersMap (fst (hy_DelUsers us us tag s)) k = (if k \<in> Uuid ` set us then None else usersMap s k)"
  by (auto simp: hy_DelUsers_def hy_has_def fold_map_del)

lemma hy_DelUsers_has: "hy_has tag s \<Longrightarrow> hy_has tag (fst (hy_DelUsers us us tag s))"
  by (auto simp: hy_DelUsers_def hy_has_def)

interpretation hy_reg: user_registry
  "\<lambda>us s. fst (hy_AddUsers us us s)" "\<lambda>us s. fst (hy_DelUsers us us tag s)" usersMap Id "hy_has tag" for tag
proof unfold_locales
  fix s us u k
  show "hy_has tag s \<Longrightarrow> hy_has tag (fst (hy_AddUsers us us s))" by (simp add: hy_has_def)
  show "hy_has tag s \<Longrightarrow> hy_has tag (fst (hy_DelUsers us us tag s))" by (rule hy_DelUsers_has)
  show "hy_has tag s \<Longrightarrow> usersMap (fst (hy_DelUsers us us tag s)) k = (if k \<in> Uuid ` set us then None else usersMap s k)"
    by (rule hy_DelUsers_users)
  show "distinct (map Uuid us) \<Longrightarrow> u \<in> set us \<Longrightarrow> usersMap (fst (hy_AddUsers us us s)) (Uuid u) = Some (Id u)"
    by (simp add: hy_AddUsers_def fold_map_upd_distinct)
  show "k \<notin> Uuid ` set us \<Longrightarrow> usersMap (fst (hy_AddUsers us us s)) k = usersMap s k"
    by (simp add: hy_AddUsers_def fold_map_upd_other)
qed

text \<open>
  The hysteria2 core follows the panel's list: after AddUsers of the old list and the
  difference to the new one, in whatever order the goroutines take the mutex, a password
  authenticates exactly when it is the Uuid of a user of the new list, and stands for that
  user's Id or the Id of the old user with the same Uuid and speed limit.
\<close>

theorem hy2_follows_panel:
  assumes "hy_has tag s0" "usersMap s0 = Map.empty"
    and "uniform n old" "uniform n new" "compare_order order old new"
    and "compareUserList order old new = (deleted, added)"
    and "mset o1 = mset old" "mset o2 = mset added"
    and "s1 = fst (hy_AddUsers o1 old s0)" "s2 = fst (hy_DelUsers deleted deleted tag s1)"
    and "s = fst (hy_AddUsers o2 added s2)"
  shows "(\<forall>u\<in>set new. Authenticate (Uuid u) s = (True, Uuid u) \<and>
            (\<exists>w. usersMap s (Uuid u) = Some (Id w) \<and> (w = u \<or> w \<in> set old \<and> same_user u w)))
    \<and> (\<forall>k. k \<notin> Uuid ` set new \<longrightarrow> Authenticate k s = (False, ''''))"
proof -
  have dold: "distinct (map Uuid old)" using assms(3) by (simp add: uniform_def)
  have dadd: "distinct (map Uuid added)"
    using assms(4) compare_exact(2) [OF assms(3-6)] by (simp add: uniform_def distinct_map_filter)
  have s1: "s1 = fst (hy_AddUsers old old s0)"
    using hy_AddUsers_order [OF dold assms(7)] assms(9) by simp
  have s: "s = fst (hy_AddUsers added added s2)"
    using hy_AddUsers_order [OF dadd assms(8)] assms(11) by simp
  have has: "hy_has tag s1" using assms(1) by (simp add: s1 hy_has_def)
  have held: "usersMap s1 (Uuid u) = Some (Id u)" if "u \<in> set old" for u
    unfolding s1 by (rule hy_reg.look_add [OF assms(1) dold that])
  have none: "usersMap s1 k = None" if "k \<notin> Uuid ` set old" for k
    unfolding s1 using hy_reg.look_add_other [OF assms(1) that] assms(2) by simp
  have new: "\<exists>w. usersMap s (Uuid u) = Some (Id w) \<and> (w = u \<or> w \<in> set old \<and> same_user u w)"
    if "u \<in> set new" for u
    unfolding s assms(10) by (rule hy_reg.sync_new [OF has assms(3-6) held that])
  have gone: "usersMap s k = None" if "k \<notin> Uuid ` set new" for k
    unfolding s assms(10) by (rule hy_reg.sync_gone [OF has assms(3-6) none that])
  have "Authenticate (Uuid u) s = (True, Uuid u)" if "u \<in> set new" for u
    using new [OF that] by (auto simp: Authenticate_def)
  with new gone show ?thesis by (auto simp: Authenticate_def)
qed

definition hy_one :: hy2 where
  "hy_one =
     \<lparr>Hy2nodes = [''n'' \<mapsto> \<lparr>hk_Tag = ''n'', hk_Counter = Map.empty, ReportMinTrafficBytes = 0\<rparr>],
      usersMap = Map.empty, hy_store = \<lparr>storages = \<lambda>_. new_storage, next_addr = 0\<rparr>\<rparr>"

theorem hy2_follows_panel_witness:
  "let s = fst (hy_AddUsers [user_b] [user_b] (fst (hy_DelUsers [user_a] [user_a] ''n'' (fst (hy_AddUsers [user_a] [user_a] hy_one)))))
   in Authenticate ''bbbb'' s = (True, ''bbbb'') \<and> Authenticate ''aaaa'' s = (False, '''')"
proof -
  have k: "user_key user_a = ''aaaa10''" "user_key user_b = ''bbbb0''"
    by (simp_all add: user_key_def user_a_def user_b_def itoa_examples)
  have u: "uniform 4 [user_a]" "uniform 4 [user_b]" by (simp_all add: uniform_def user_a_def user_b_def)
  have o: "compare_order [''aaaa10''] [user_a] [user_b]"
    by (auto simp: compare_order_def enumerates_def old_map_def k)
  have c: "compareUserList [''aaaa10''] [user_a] [user_b] = ([user_a], [user_b])"
    by (simp add: compareUserList_def old_map_def k List.map_filter_def)
  have h: "hy_has ''n'' hy_one" "usersMap hy_one = Map.empty" by (simp_all add: hy_has_def hy_one_def)
  have ids: "Uuid user_b = ''bbbb''" "''aaaa'' \<notin> Uuid ` set [user_b]" by (simp_all add: user_b_def)
  show ?thesis
    using hy2_follows_panel [OF h u o c refl refl refl refl refl] ids unfolding Let_def by fastforce
qed

end
