(* ===== verification/Hy2_Traffic.thy ===== *)
theory Hy2_Traffic
  imports Hy2
begin

text \<open>
  The traffic of a hysteria2 node: the core as a traffic source, what a rejected connection
  does to the traffic after it, and what deleting a user does to other nodes.
\<close>

subsection \<open>The core as a traffic source\<close>

definition hy_hook_of :: "string \<Rightarrow> hy2 \<Rightarrow> hy_hook" where
  "hy_hook_of tag s = the (Hy2nodes s tag)"

definition hook_counter :: "string \<Rightarrow> hy_hook \<Rightarrow> TrafficCounter" where
  "hook_counter tag hook = (case hk_Counter hook tag of None \<Rightarrow> NewTrafficCounter | Some c \<Rightarrow> c)"

definition hy_put :: "string \<Rightarrow> TrafficCounter \<times> tstore \<Rightarrow> hy2 \<Rightarrow> hy2" where
  "hy_put tag ch s =
     s\<lparr>Hy2nodes := (Hy2nodes s)(tag \<mapsto> (hy_hook_of tag s)\<lparr>hk_Counter := (hk_Counter (hy_hook_of tag s))(tag \<mapsto> fst ch)\<rparr>),
       hy_store := snd ch\<rparr>"

definition hy_counter :: "string \<Rightarrow> hy2 \<Rightarrow> TrafficCounter" where
  "hy_counter tag s = hook_counter tag (hy_hook_of tag s)"

definition hy_count :: "string \<Rightarrow> dir \<Rightarrow> string \<Rightarrow> int \<Rightarrow> hy2 \<Rightarrow> hy2" where
  "hy_count tag d u n s = hy_put tag (count_dir d u n (hy_counter tag s, hy_store s)) s"

definition hy_collect :: "string \<Rightarrow> string list \<Rightarrow> hy2 \<Rightarrow> hy2 \<times> UserTraffic list" where
  "hy_collect tag order s = hy_GetUserTrafficSlice order tag True s"

definition hy_left :: "string \<Rightarrow> dir \<Rightarrow> hy2 \<Rightarrow> int" where
  "hy_left tag d s = pending d (get0 (usersMap s)) (hy_counter tag s) (hy_store s)"

definition hy_has_uid :: "hy2 \<Rightarrow> string \<Rightarrow> bool" where
  "hy_has_uid s u \<longleftrightarrow> get0 (usersMap s) u \<noteq> 0"

definition hy_order_ok :: "string \<Rightarrow> string list \<Rightarrow> hy2 \<Rightarrow> bool" where
  "hy_order_ok tag order s \<longleftrightarrow> enumerates order (hy_counter tag s)"

definition hy_inv :: "string \<Rightarrow> hy2 \<Rightarrow> bool" where
  "hy_inv tag s \<longleftrightarrow> hy_has tag s \<and> tc_wf (hy_counter tag s) (hy_store s) \<and> finite (dom (hy_counter tag s))"

lemma hy_put_simps [simp]:
  "hy_counter tag (hy_put tag ch s) = fst ch" "hy_store (hy_put tag ch s) = snd ch"
  "usersMap (hy_put tag ch s) = usersMap s" "hy_has tag (hy_put tag ch s)"
  by (simp_all add: hy_put_def hy_counter_def hook_counter_def hy_hook_of_def hy_has_def)

lemma hy_count_dom: "dom (hy_counter tag (hy_count tag d u n s)) = insert u (dom (hy_counter tag s))"
  using count_dir_dom [of d u n "hy_counter tag s" "hy_store s"] unfolding hy_count_def
  by (metis hy_put_simps(1) prod.collapse)

lemma hy_count_users [simp]: "usersMap (hy_count tag d u n s) = usersMap s"
  by (simp add: hy_count_def)

text \<open>LogTraffic, when it counts, is the two countings.\<close>

lemma LogTraffic_counts:
  assumes "GetLimiter (hk_Tag hook) g = Inr a" "\<not> is_over (UserTag (hk_Tag hook) u) (lims g a)"
    and "count_dir Down u (sint rx) (hook_counter (hk_Tag hook) hook, h) = ch1"
    and "count_dir Up u (sint tx) ch1 = (c2, h2)"
  shows "LogTraffic u tx rx hook h g = ((hook\<lparr>hk_Counter := (hk_Counter hook)(hk_Tag hook \<mapsto> c2)\<rparr>, h2, g), True)"
  using assms by (cases ch1) (simp add: LogTraffic_def hook_counter_def Let_def split: prod.splits)

lemma hy_collect_some:
  assumes "hy_has tag s" "hy_counter tag s = c" "slice_range (ReportMinTrafficBytes (hy_hook_of tag s)) (get0 (usersMap s)) True order c (hy_store s) = (c', h', out)"
    and "hk_Counter (hy_hook_of tag s) tag \<noteq> None"
  shows "hy_collect tag order s = (hy_put tag (c', h') s, out)"
proof -
  obtain hook where hook: "Hy2nodes s tag = Some hook" using assms(1) by (auto simp: hy_has_def)
  then have ho: "hy_hook_of tag s = hook" by (simp add: hy_hook_of_def)
  obtain c0 where c0: "hk_Counter hook tag = Some c0" using assms(4) ho by auto
  then have "c0 = c" using assms(2) by (simp add: hy_counter_def hook_counter_def ho)
  with hook ho c0 assms(3) show ?thesis
    by (simp add: hy_collect_def hy_GetUserTrafficSlice_def hy_put_def)
qed

lemma hy_collect_none:
  assumes "hk_Counter (hy_hook_of tag s) tag = None"
  shows "hy_collect tag order s = (s, [])"
  using assms by (auto simp: hy_collect_def hy_GetUserTrafficSlice_def hy_hook_of_def split: option.split)

text \<open>A collection, whether or not the node has a counter yet.\<close>

lemma hy_collect_cases:
  assumes "hy_inv tag s" "hy_order_ok tag order s"
  obtains c' h' where "hy_counter tag (fst (hy_collect tag order s)) = c'" "hy_store (fst (hy_collect tag order s)) = h'"
    and "usersMap (fst (hy_collect tag order s)) = usersMap s" "hy_has tag (fst (hy_collect tag order s))"
    and "tc_wf c' h'" "dom c' \<subseteq> dom (hy_counter tag s)"
    and "\<And>d. pending d (get0 (usersMap s)) c' h' + reported d (snd (hy_collect tag order s)) =
      pending d (get0 (usersMap s)) (hy_counter tag s) (hy_store s)"
proof -
  let ?c = "hy_counter tag s" and ?u = "get0 (usersMap s)"
  obtain c' h' out where r: "slice_range (ReportMinTrafficBytes (hy_hook_of tag s)) ?u True order ?c (hy_store s) = (c', h', out)"
    by (metis prod_cases3)
  have inv: "hy_has tag s" "tc_wf ?c (hy_store s)" using assms(1) by (simp_all add: hy_inv_def)
  have en: "enumerates order ?c" using assms(2) by (simp add: hy_order_ok_def)
  have d: "distinct order" using en by (simp add: enumerates_def)
  note wf = slice_range_result(1) [OF inv(2) d r] and sub = slice_range_dom [OF inv(2) en r]
    and con = slice_conserves [OF inv(2) en r]
  show thesis
  proof (cases "hk_Counter (hy_hook_of tag s) tag")
    case None
    then have "hy_collect tag order s = (s, [])" by (rule hy_collect_none)
    then show thesis using inv by (intro that [of ?c "hy_store s"]) simp_all
  next
    case (Some c)
    then have "hy_collect tag order s = (hy_put tag (c', h') s, out)"
      using hy_collect_some [OF inv(1) refl r] by simp
    then show thesis using wf sub con by (intro that [of c' h']) simp_all
  qed
qed

interpretation hy_src: traffic_source
  "hy_count tag" "hy_collect tag" "hy_left tag" hy_has_uid "hy_order_ok tag" "hy_inv tag" for tag
proof unfold_locales
  fix s u e d and n :: int and order
  show "hy_inv tag (hy_count tag e u n s)" if "hy_inv tag s" "hy_has_uid s u"
  proof -
    obtain c' h' where c: "count_dir e u n (hy_counter tag s, hy_store s) = (c', h')" by (metis prod.collapse)
    with that count_dir_counts(1) [OF _ c] count_dir_dom [OF c] show ?thesis
      by (simp add: hy_inv_def hy_count_def)
  qed
  show "i64 (hy_left tag d (hy_count tag e u n s)) = i64 (hy_left tag d s + (if d = e then n else 0))"
    if "hy_inv tag s" "hy_has_uid s u"
  proof -
    obtain c' h' where c: "count_dir e u n (hy_counter tag s, hy_store s) = (c', h')" by (metis prod.collapse)
    have "get0 (usersMap s) u \<noteq> 0" "tc_wf (hy_counter tag s) (hy_store s)" "finite (dom (hy_counter tag s))"
      using that by (simp_all add: hy_has_uid_def hy_inv_def)
    with pending_count [OF _ _ _ c, of "get0 (usersMap s)" d] c show ?thesis
      by (simp add: hy_left_def hy_count_def)
  qed
  show "hy_inv tag (fst (hy_collect tag order s))" if "hy_inv tag s" "hy_order_ok tag order s"
    using that(1) by (rule_tac hy_collect_cases [OF that]) (auto simp: hy_inv_def dest: finite_subset)
  show "hy_left tag d (fst (hy_collect tag order s)) + reported d (snd (hy_collect tag order s)) = hy_left tag d s"
    if "hy_inv tag s" "hy_order_ok tag order s"
    by (rule hy_collect_cases [OF that]) (simp add: hy_left_def)
qed



subsection \<open>A rejected connection\<close>

text \<open>
  What a rejection does. A connection event that CheckLimit rejects marks the user; the
  next traffic of a marked user is refused once, which disconnects, and the mark is taken off.
  A user the limiter does not know cannot be marked: although the event is rejected, the
  traffic is let through and counted.
\<close>

theorem hy2_rejection:
  assumes "GetLimiter tag g = Inr a" "hk_Tag hook = tag"
    and "CheckLimit nb now (UserTag tag u) (extractIPFromAddr addr) (is_tcp addr) True (lims g a) = (l, b, True)"
    and "Connect nb now tag addr u g = Inr g1"
  shows "if l_UserLimitInfo l (UserTag tag u) = None
     then snd (LogTraffic u tx rx hook h g1)
     else \<not> snd (LogTraffic u tx rx hook h g1)
       \<and> fst (fst (LogTraffic u tx rx hook h g1)) = hook
       \<and> snd (LogTraffic u tx rx hook h (snd (snd (fst (LogTraffic u tx rx hook h g1)))))"
proof -
  let ?k = "UserTag tag u"
  have g1: "g1 = g\<lparr>lims := (lims g)(a := set_over ?k True l)\<rparr>"
    using assms(1,3,4) by (simp add: Connect_def mark_over_def Let_def)
  have l1: "GetLimiter tag g1 = Inr a" "lims g1 a = set_over ?k True l"
    using assms(1) by (simp_all add: g1 GetLimiter_def)
  show ?thesis
  proof (cases "l_UserLimitInfo l ?k")
    case None
    then have "\<not> is_over ?k (lims g1 a)" by (simp add: l1 set_over_def is_over_def)
    with None l1 assms(2) show ?thesis by (simp add: LogTraffic_def Let_def split: prod.split)
  next
    case (Some v)
    then have o: "is_over ?k (lims g1 a)" by (simp add: l1 set_over_def is_over_def)
    let ?g2 = "upd_limiter a (set_over ?k False) g1"
    have first: "LogTraffic u tx rx hook h g1 = ((hook, h, ?g2), False)"
      using l1 o assms(2) by (simp add: LogTraffic_def)
    have l2: "GetLimiter tag ?g2 = Inr a" "\<not> is_over ?k (lims ?g2 a)"
      using l1 Some by (simp_all add: upd_limiter_def GetLimiter_def set_over_def is_over_def)
    have "snd (LogTraffic u tx rx hook h ?g2)"
      using l2 assms(2) by (simp add: LogTraffic_def Let_def split: prod.split)
    with Some first show ?thesis by simp
  qed
qed

text \<open>The example: a user with as many devices alive as allowed, and an unknown one.\<close>

definition full_registry :: "int limiters" where
  "full_registry =
     \<lparr>registry = [''n'' \<mapsto> 0], lims = \<lambda>_. one_user 0 (plain_user 7 0 2), next_lim = 1\<rparr>"

definition hook_n :: hy_hook where
  "hook_n = \<lparr>hk_Tag = ''n'', hk_Counter = Map.empty, ReportMinTrafficBytes = 0\<rparr>"

theorem hy2_rejection_witness:
  "\<exists>g1. Connect (\<lambda>_ c _. c) 100 ''n'' (UDPAddr ''2.2.2.2'') ''u'' full_registry = Inr g1
    \<and> \<not> snd (LogTraffic ''u'' 1 1 hook_n \<lparr>storages = \<lambda>_. new_storage, next_addr = 0\<rparr> g1)"
proof -
  let ?l = "one_user 0 (plain_user 7 0 2) :: int Limiter" and ?nb = "\<lambda>_ c _. c :: int"
  have k: "UserTag ''n'' ''u'' = ''n|u''" by (simp add: UserTag_def)
  have r: "refuses ''n|u'' (trimPrefix ''2.2.2.2'' ''::ffff:'') 7 2 ?l"
    by (simp add: refuses_def new_ip_def devices_full_def one_user_defs trimPrefix_def hasPrefix_def)
  have u: "l_UserLimitInfo ?l ''n|u'' = Some (plain_user 7 0 2)" by (simp add: one_user_def)
  have p: "ul_UID (plain_user 7 0 2) = 7" "ul_DeviceLimit (plain_user 7 0 2) = 2" by (simp_all add: plain_user_def)
  have c: "CheckLimit ?nb 100 (UserTag ''n'' ''u'') (extractIPFromAddr (UDPAddr ''2.2.2.2'')) (is_tcp (UDPAddr ''2.2.2.2'')) True
      (lims full_registry 0) = (fst (check_user 100 ''n|u'' ?l), None, True)"
    using r u p by (simp add: CheckLimit_cases full_registry_def k case_prod_beta Let_def)
  have e: "GetLimiter ''n'' full_registry = Inr 0" "hk_Tag hook_n = ''n''"
    by (simp_all add: GetLimiter_def full_registry_def hook_n_def)
  obtain g1 where g: "Connect ?nb 100 ''n'' (UDPAddr ''2.2.2.2'') ''u'' full_registry = Inr g1"
    using e c by (simp add: Connect_def mark_over_def Let_def)
  have "l_UserLimitInfo (fst (check_user 100 ''n|u'' ?l)) (UserTag ''n'' ''u'') \<noteq> None"
    by (simp add: k check_user_def one_user_defs)
  with hy2_rejection [OF e c g, of 1 1 "\<lparr>storages = \<lambda>_. new_storage, next_addr = 0\<rparr>"] g show ?thesis by auto
qed

subsection \<open>Nodes share the users\<close>

text \<open>
  The users are kept by Uuid for all nodes of the core together, so deleting a user from
  one node deletes it from every node: it no longer authenticates anywhere, and traffic it has
  on another node above the threshold is dropped at the next report instead of being reported.
\<close>

theorem hy2_delete_reaches_other_nodes:
  assumes "hy_has tag s" "tag \<noteq> other" "u \<in> set users"
    and "s1 = fst (hy_DelUsers users users tag s)" "hy_has other s"
    and "hy_inv other s1" "hy_order_ok other order s1"
    and "hk_Counter (hy_hook_of other s1) other \<noteq> None"
    and "exceeds (ReportMinTrafficBytes (hy_hook_of other s1)) (hy_counter other s1) (hy_store s1) (Uuid u)"
  shows "Authenticate (Uuid u) s1 = (False, '''')
    \<and> hy_counter other s1 = hy_counter other s
    \<and> hy_counter other (fst (hy_collect other order s1)) (Uuid u) = None"
proof -
  have um: "usersMap s1 (Uuid u) = None"
    using hy_DelUsers_users [OF assms(1), of users "Uuid u"] assms(3,4) by auto
  have same: "hy_counter other s1 = hy_counter other s"
    using assms(1-4) by (auto simp: hy_DelUsers_def hy_has_def hy_counter_def hy_hook_of_def)
  let ?c = "hy_counter other s1"
  obtain c' h' out where r: "slice_range (ReportMinTrafficBytes (hy_hook_of other s1)) (get0 (usersMap s1)) True order ?c (hy_store s1) = (c', h', out)"
    by (metis prod_cases3)
  have inv: "hy_has other s1" "tc_wf ?c (hy_store s1)" using assms(6) by (simp_all add: hy_inv_def)
  have en: "enumerates order ?c" using assms(7) by (simp add: hy_order_ok_def)
  have d: "distinct order" "set order = dom ?c" using en by (simp_all add: enumerates_def)
  have "Uuid u \<in> set order" using assms(9) d by (auto simp: exceeds_def)
  with slice_range_result(3) [OF inv(2) d(1) r] assms(9) um have "c' (Uuid u) = None"
    by (simp add: slice_end_def)
  moreover have "hy_collect other order s1 = (hy_put other (c', h') s1, out)"
    by (rule hy_collect_some [OF inv(1) refl r assms(8)])
  ultimately show ?thesis using um same by (simp add: Authenticate_def)
qed

definition hy_two :: hy2 where
  "hy_two =
     \<lparr>Hy2nodes = [''n'' \<mapsto> hook_n,
        ''m'' \<mapsto> \<lparr>hk_Tag = ''m'', hk_Counter = [''m'' \<mapsto> [''aaaa'' \<mapsto> 0]], ReportMinTrafficBytes = 0\<rparr>],
      usersMap = [''aaaa'' \<mapsto> 1],
      hy_store = \<lparr>storages = \<lambda>_. \<lparr>UpCounter = 100, DownCounter = 0\<rparr>, next_addr = 1\<rparr>\<rparr>"

theorem hy2_delete_reaches_other_nodes_witness:
  "let s1 = fst (hy_DelUsers [user_a] [user_a] ''n'' hy_two)
   in Authenticate ''aaaa'' s1 = (False, '''') \<and> hy_counter ''m'' (fst (hy_collect ''m'' [''aaaa''] s1)) ''aaaa'' = None"
proof -
  let ?s1 = "fst (hy_DelUsers [user_a] [user_a] ''n'' hy_two)"
  have id: "Uuid user_a = ''aaaa''" by (simp add: user_a_def)
  have s1: "?s1 = hy_two\<lparr>Hy2nodes := (Hy2nodes hy_two)(''n'' \<mapsto> hook_n), usersMap := (usersMap hy_two)(''aaaa'' := None)\<rparr>"
    by (simp add: hy_DelUsers_def hy_two_def drop_counts_def hook_n_def id)
  have m: "Hy2nodes ?s1 ''m'' = Some \<lparr>hk_Tag = ''m'', hk_Counter = [''m'' \<mapsto> [''aaaa'' \<mapsto> 0]], ReportMinTrafficBytes = 0\<rparr>"
    unfolding s1 by (simp add: hy_two_def)
  have c: "hy_counter ''m'' ?s1 = [''aaaa'' \<mapsto> 0]" by (simp add: hy_counter_def hook_counter_def hy_hook_of_def m)
  have st: "hy_store ?s1 = \<lparr>storages = \<lambda>_. \<lparr>UpCounter = 100, DownCounter = 0\<rparr>, next_addr = 1\<rparr>"
    unfolding s1 by (simp add: hy_two_def)
  have h: "hy_has ''n'' hy_two" "hy_has ''m'' hy_two" by (simp_all add: hy_has_def hy_two_def)
  have inv: "hy_inv ''m'' ?s1"
    unfolding hy_inv_def c st by (simp add: tc_wf_def hy_has_def m)
  have ok: "hy_order_ok ''m'' [''aaaa''] ?s1" by (simp add: hy_order_ok_def c enumerates_def)
  have cn: "hk_Counter (hy_hook_of ''m'' ?s1) ''m'' \<noteq> None" by (simp add: hy_hook_of_def m)
  have ex: "exceeds (ReportMinTrafficBytes (hy_hook_of ''m'' ?s1)) (hy_counter ''m'' ?s1) (hy_store ?s1) (Uuid user_a)"
    unfolding c st id by (simp add: exceeds_def hy_hook_of_def m GetUpCount_def GetDownCount_def i64_def)
  have n: "''n'' \<noteq> ''m''" "user_a \<in> set [user_a]" by simp_all
  show ?thesis
    using hy2_delete_reaches_other_nodes [OF h(1) n refl h(2) inv ok cn ex] by (simp add: Let_def id)
qed

end
