(* ===== verification/Xray_Core.thy ===== *)
theory Xray_Core
  imports Traffic_Slice Limiter_Runs Conf
begin

text \<open>
  The xray core: core/xray/user.go, node.go, ss.go, vmess.go, trojan.go, and of its dispatcher
  linkmanager.go and the user's part of default.go (getLink, DispatchLink, routedDispatch).
  xray's handler managers are parameters: the user manager of an inbound has a state of type
  'm on which AddUser and RemoveUser act.
\<close>

subsection \<open>The accounts: vmess.go, trojan.go, ss.go\<close>

datatype cipher = AES_128_GCM | AES_256_GCM | CHACHA20_POLY1305 | NONE_cipher | UNKNOWN_cipher

datatype account =
    VMessAccount string string
  | VlessAccount string string
  | TrojanAccount string
  | SSAccount string cipher
  | SS2022Account string

record xuser =
  Level :: nat
  xu_Email :: string
  Account :: account

definition buildVmessUser :: "string \<Rightarrow> UserInfo \<Rightarrow> xuser" where
  "buildVmessUser tag userInfo =
     \<lparr>Level = 0, xu_Email = UserTag tag (Uuid userInfo), Account = VMessAccount (Uuid userInfo) ''auto''\<rparr>"

definition buildVmessUsers :: "string \<Rightarrow> UserInfo list \<Rightarrow> xuser list" where
  "buildVmessUsers tag userInfo = map (buildVmessUser tag) userInfo"

definition buildVlessUser :: "string \<Rightarrow> string \<Rightarrow> UserInfo \<Rightarrow> xuser" where
  "buildVlessUser tag flow userInfo =
     \<lparr>Level = 0, xu_Email = UserTag tag (Uuid userInfo), Account = VlessAccount (Uuid userInfo) flow\<rparr>"

definition buildVlessUsers :: "string \<Rightarrow> UserInfo list \<Rightarrow> string \<Rightarrow> xuser list" where
  "buildVlessUsers tag userInfo flow = map (buildVlessUser tag flow) userInfo"

definition buildTrojanUser :: "string \<Rightarrow> UserInfo \<Rightarrow> xuser" where
  "buildTrojanUser tag userInfo =
     \<lparr>Level = 0, xu_Email = UserTag tag (Uuid userInfo), Account = TrojanAccount (Uuid userInfo)\<rparr>"

definition buildTrojanUsers :: "string \<Rightarrow> UserInfo list \<Rightarrow> xuser list" where
  "buildTrojanUsers tag userInfo = map (buildTrojanUser tag) userInfo"

definition getCipherFromString :: "string \<Rightarrow> cipher" where
  "getCipherFromString c =
     (let s = toLower c
      in if s \<in> {''aes-128-gcm'', ''aead_aes_128_gcm''} then AES_128_GCM
         else if s \<in> {''aes-256-gcm'', ''aead_aes_256_gcm''} then AES_256_GCM
         else if s \<in> {''chacha20-poly1305'', ''aead_chacha20_poly1305'', ''chacha20-ietf-poly1305''} then CHACHA20_POLY1305
         else if s \<in> {''none'', ''plain''} then NONE_cipher
         else UNKNOWN_cipher)"

definition ss_key_length :: "string \<Rightarrow> nat" where
  "ss_key_length cypher =
     (if cypher = ''2022-blake3-aes-128-gcm'' then 16
      else if cypher = ''2022-blake3-aes-256-gcm'' then 32
      else if cypher = ''2022-blake3-chacha20-poly1305'' then 32
      else 0)"

text \<open>base64 is the standard encoding; slicing past the end of the Uuid panics.\<close>

definition buildSSUser :: "(string \<Rightarrow> string) \<Rightarrow> string \<Rightarrow> string \<Rightarrow> string \<Rightarrow> UserInfo \<Rightarrow> xuser result" where
  "buildSSUser base64 tag cypher serverKey userInfo =
     (if serverKey = '''' then
        Inr \<lparr>Level = 0, xu_Email = UserTag tag (Uuid userInfo),
             Account = SSAccount (Uuid userInfo) (getCipherFromString cypher)\<rparr>
      else if ss_key_length cypher > length (Uuid userInfo) then Inl (Panic ''slice bounds out of range'')
      else
        Inr \<lparr>Level = 0, xu_Email = UserTag tag (Uuid userInfo),
             Account = SS2022Account (base64 (take (ss_key_length cypher) (Uuid userInfo)))\<rparr>)"

fun buildSSUsers :: "(string \<Rightarrow> string) \<Rightarrow> string \<Rightarrow> UserInfo list \<Rightarrow> string \<Rightarrow> string \<Rightarrow> xuser list result" where
  "buildSSUsers base64 tag [] cypher serverKey = Inr []"
| "buildSSUsers base64 tag (u # us) cypher serverKey =
     (case buildSSUser base64 tag cypher serverKey u of
        Inl e \<Rightarrow> Inl e
      | Inr x \<Rightarrow>
          (case buildSSUsers base64 tag us cypher serverKey of Inl e \<Rightarrow> Inl e | Inr xs \<Rightarrow> Inr (x # xs)))"

subsection \<open>State\<close>

text \<open>
  An inbound's handler: absent, without users, or with a user manager. A link manager is
  reached by pointers, so it lives in a store; it maps the writers of a user's connections to
  their readers, all of them numbered.
\<close>

datatype 'm handler = NoInbound | NoUsers | Manager 'm

record 'm xray =
  inbounds :: "string \<Rightarrow> 'm handler"
  outbounds :: "string set"
  x_Counter :: "string \<rightharpoonup> TrafficCounter"
  x_store :: tstore
  LinkManagers :: "string \<rightharpoonup> nat"
  lm_links :: "nat \<Rightarrow> (nat \<rightharpoonup> nat)"
  next_lm :: nat
  closed_writers :: "nat set"
  interrupted :: "nat set"
  uidMap :: "string \<rightharpoonup> int"
  nodeReportMinTrafficBytes :: "string \<rightharpoonup> int"

definition x_Protocols :: "string list" where
  "x_Protocols = [''vmess'', ''vless'', ''shadowsocks'', ''trojan'']"

definition x_Type :: string where
  "x_Type = ''xray''"

text \<open>What the core relies on of a user manager.\<close>

record 'm user_ops =
  ToMemoryUser :: "xuser \<Rightarrow> string option"
  um_AddUser :: "xuser \<Rightarrow> 'm \<Rightarrow> string + 'm"
  um_RemoveUser :: "string \<Rightarrow> 'm \<Rightarrow> string + 'm"

subsection \<open>linkmanager.go\<close>

definition AddLink :: "nat \<Rightarrow> nat \<Rightarrow> nat \<Rightarrow> 'm xray \<Rightarrow> 'm xray" where
  "AddLink lm writer reader x = x\<lparr>lm_links := (lm_links x)(lm := (lm_links x lm)(writer \<mapsto> reader))\<rparr>"

definition RemoveWriter :: "nat \<Rightarrow> nat \<Rightarrow> 'm xray \<Rightarrow> 'm xray" where
  "RemoveWriter lm writer x = x\<lparr>lm_links := (lm_links x)(lm := (lm_links x lm)(writer := None))\<rparr>"

text \<open>ManagedWriter.Close, for a writer of the given manager.\<close>

definition mw_Close :: "nat \<Rightarrow> nat \<Rightarrow> 'm xray \<Rightarrow> 'm xray" where
  "mw_Close lm writer x =
     (RemoveWriter lm writer x)\<lparr>closed_writers := insert writer (closed_writers x)\<rparr>"

definition CloseAll :: "nat list \<Rightarrow> nat \<Rightarrow> 'm xray \<Rightarrow> 'm xray" where
  "CloseAll order lm x =
     fold (\<lambda>w x. case lm_links x lm w of
              None \<Rightarrow> x
            | Some r \<Rightarrow> (mw_Close lm w x)\<lparr>interrupted := insert r (interrupted x)\<rparr>) order x"

subsection \<open>user.go\<close>

definition GetUserManager :: "string \<Rightarrow> 'm xray \<Rightarrow> 'm result" where
  "GetUserManager tag x =
     (case inbounds x tag of
        NoInbound \<Rightarrow> Inl (Err ''no such inbound tag'')
      | NoUsers \<Rightarrow> Inl (Err (''handler '' @ tag @ '' is not implement proxy.UserManager''))
      | Manager m \<Rightarrow> Inr m)"

text \<open>What DelUsers does for a user once its manager has removed it.\<close>

definition forget_user :: "(string \<Rightarrow> nat list) \<Rightarrow> string \<Rightarrow> string \<Rightarrow> 'm xray \<Rightarrow> 'm xray" where
  "forget_user orders tag user x =
     (let x1 = x\<lparr>uidMap := (uidMap x)(user := None)\<rparr>;
          x2 = (case x_Counter x1 tag of
                  None \<Rightarrow> x1
                | Some tc \<Rightarrow> x1\<lparr>x_Counter := (x_Counter x1)(tag \<mapsto> Delete user tc)\<rparr>)
      in case LinkManagers x2 user of
           None \<Rightarrow> x2
         | Some lm \<Rightarrow> (let x3 = CloseAll (orders user) lm x2 in x3\<lparr>LinkManagers := (LinkManagers x3)(user := None)\<rparr>))"

fun del_users ::
  "'m user_ops \<Rightarrow> (string \<Rightarrow> nat list) \<Rightarrow> string \<Rightarrow> UserInfo list \<Rightarrow> 'm \<Rightarrow> 'm xray \<Rightarrow> 'm xray \<times> unit result" where
  "del_users U orders tag [] m x = (x, Inr ())"
| "del_users U orders tag (u # us) m x =
     (let user = UserTag tag (Uuid u)
      in case um_RemoveUser U user m of
           Inl e \<Rightarrow> (x, Inl (Err e))
         | Inr m' \<Rightarrow>
             del_users U orders tag us m'
               (forget_user orders tag user (x\<lparr>inbounds := (inbounds x)(tag := Manager m')\<rparr>)))"

text \<open>orders gives the order in which CloseAll meets the writers of a user.\<close>

definition x_DelUsers ::
  "'m user_ops \<Rightarrow> (string \<Rightarrow> nat list) \<Rightarrow> UserInfo list \<Rightarrow> string \<Rightarrow> 'm xray \<Rightarrow> 'm xray \<times> unit result" where
  "x_DelUsers U orders users tag x =
     (case GetUserManager tag x of
        Inl e \<Rightarrow> (x, Inl (wrap_err ''get user manager error: '' e))
      | Inr m \<Rightarrow> del_users U orders tag users m x)"

definition x_GetUserTrafficSlice :: "string list \<Rightarrow> string \<Rightarrow> bool \<Rightarrow> 'm xray \<Rightarrow> 'm xray \<times> UserTraffic list" where
  "x_GetUserTrafficSlice order tag reset x =
     (case x_Counter x tag of
        None \<Rightarrow> (x, [])
      | Some c \<Rightarrow>
          (let (c', h', out) =
             slice_range (get0 (nodeReportMinTrafficBytes x) tag) (get0 (uidMap x)) reset order c (x_store x)
           in (x\<lparr>x_Counter := (x_Counter x)(tag \<mapsto> c'), x_store := h'\<rparr>, out)))"

definition build_users :: "(string \<Rightarrow> string) \<Rightarrow> string \<Rightarrow> UserInfo list \<Rightarrow> NodeInfo \<Rightarrow> xuser list result" where
  "build_users base64 tag us info =
     (if ni_Type info = ''vmess'' then Inr (buildVmessUsers tag us)
      else if ni_Type info = ''vless'' then
        (case VAllss info of
           None \<Rightarrow> Inl (Panic ''nil pointer dereference'') | Some v \<Rightarrow> Inr (buildVlessUsers tag us (Flow v)))
      else if ni_Type info = ''trojan'' then Inr (buildTrojanUsers tag us)
      else if ni_Type info = ''shadowsocks'' then
        (case Shadowsocks info of
           None \<Rightarrow> Inl (Panic ''nil pointer dereference'')
         | Some v \<Rightarrow> buildSSUsers base64 tag us (Cipher v) (ServerKey v))
      else Inl (Err (''unsupported node type: '' @ ni_Type info)))"

fun add_all :: "'m user_ops \<Rightarrow> string \<Rightarrow> xuser list \<Rightarrow> 'm \<Rightarrow> 'm xray \<Rightarrow> 'm xray \<times> unit result" where
  "add_all U tag [] m x = (x, Inr ())"
| "add_all U tag (u # us) m x =
     (case ToMemoryUser U u of
        Some e \<Rightarrow> (x, Inl (Err e))
      | None \<Rightarrow>
          (case um_AddUser U u m of
             Inl e \<Rightarrow> (x, Inl (Err e))
           | Inr m' \<Rightarrow> add_all U tag us m' (x\<lparr>inbounds := (inbounds x)(tag := Manager m')\<rparr>)))"

definition x_AddUsers ::
  "'m user_ops \<Rightarrow> (string \<Rightarrow> string) \<Rightarrow> string \<Rightarrow> UserInfo list \<Rightarrow> NodeInfo \<Rightarrow> 'm xray \<Rightarrow> 'm xray \<times> int result" where
  "x_AddUsers U base64 tag us info x =
     (let x1 = x\<lparr>uidMap := fold (\<lambda>u m. m(UserTag tag (Uuid u) \<mapsto> Id u)) us (uidMap x)\<rparr>
      in case build_users base64 tag us info of
           Inl e \<Rightarrow> (x1, Inl e)
         | Inr xs \<Rightarrow>
             (case GetUserManager tag x1 of
                Inl e \<Rightarrow> (x1, Inl (wrap_err ''get user manager error: '' e))
              | Inr m \<Rightarrow>
                  (case add_all U tag xs m x1 of
                     (x2, Inl e) \<Rightarrow> (x2, Inl e)
                   | (x2, Inr ()) \<Rightarrow> (x2, Inr (int (length xs))))))"

subsection \<open>node.go\<close>

text \<open>
  AddNode: the builders (updateDNSConfig, buildInbound, buildOutbound) and xray's AddHandler
  are given by their results: the error, or the handler of the inbound.
\<close>

record 'm node_build =
  nb_dns :: "error option"
  nb_inbound :: "error + 'm handler"
  nb_add_inbound :: "error option"
  nb_outbound :: "error option"
  nb_add_outbound :: "error option"

definition x_AddNode :: "'m node_build \<Rightarrow> string \<Rightarrow> Options \<Rightarrow> 'm xray \<Rightarrow> 'm xray \<times> unit result" where
  "x_AddNode B tag config x0 =
     (let x = x0\<lparr>nodeReportMinTrafficBytes := (nodeReportMinTrafficBytes x0)(tag \<mapsto> i64 (ReportMinTraffic config * 1024))\<rparr>
      in case nb_dns B of
           Some e \<Rightarrow> (x, Inl (wrap_err ''build dns error: '' e))
         | None \<Rightarrow>
             (case nb_inbound B of
                Inl e \<Rightarrow> (x, Inl (wrap_err ''build inbound error: '' e))
              | Inr hdl \<Rightarrow>
                  (case nb_add_inbound B of
                     Some e \<Rightarrow> (x, Inl (wrap_err ''add inbound error: '' e))
                   | None \<Rightarrow>
                       (let x = x\<lparr>inbounds := (inbounds x)(tag := hdl)\<rparr>
                        in case nb_outbound B of
                             Some e \<Rightarrow> (x, Inl (wrap_err ''build outbound error: '' e))
                           | None \<Rightarrow>
                               (case nb_add_outbound B of
                                  Some e \<Rightarrow> (x, Inl (wrap_err ''add outbound error: '' e))
                                | None \<Rightarrow> (x\<lparr>outbounds := insert tag (outbounds x)\<rparr>, Inr ()))))))"

text \<open>rin and rout are what RemoveHandler of the two managers returns for the tag.\<close>

definition x_DelNode :: "string option \<Rightarrow> string option \<Rightarrow> string \<Rightarrow> 'm xray \<Rightarrow> 'm xray \<times> unit result" where
  "x_DelNode rin rout tag x =
     (case rin of
        Some e \<Rightarrow> (x, Inl (Err (''remove in error: '' @ e)))
      | None \<Rightarrow>
          (let x = x\<lparr>inbounds := (inbounds x)(tag := NoInbound)\<rparr>
           in case rout of
                Some e \<Rightarrow> (x, Inl (Err (''remove out error: '' @ e)))
              | None \<Rightarrow> (x\<lparr>outbounds := outbounds x - {tag}\<rparr>, Inr ())))"

subsection \<open>default.go: a user's connection\<close>

record link =
  ln_writer :: nat
  ln_reader :: nat
  ln_storage :: nat

text \<open>
  The bookkeeping of a connection that the limiter admitted: the link manager and the traffic
  counter of the user are looked up or made, the link is added, the storage is looked up.
\<close>

definition open_link :: "string \<Rightarrow> string \<Rightarrow> nat \<Rightarrow> nat \<Rightarrow> 'm xray \<Rightarrow> 'm xray \<times> link" where
  "open_link tag email writer reader x =
     (let (lm, x1) = (case LinkManagers x email of
             Some lm \<Rightarrow> (lm, x)
           | None \<Rightarrow> (next_lm x, x\<lparr>LinkManagers := (LinkManagers x)(email \<mapsto> next_lm x),
                lm_links := (lm_links x)(next_lm x := Map.empty), next_lm := Suc (next_lm x)\<rparr>));
          x2 = AddLink lm writer reader x1;
          tc = (case x_Counter x2 tag of Some c \<Rightarrow> c | None \<Rightarrow> NewTrafficCounter);
          (a, tc', h') = GetCounter email tc (x_store x2)
      in (x2\<lparr>x_Counter := (x_Counter x2)(tag \<mapsto> tc'), x_store := h'\<rparr>,
          \<lparr>ln_writer = writer, ln_reader = reader, ln_storage = a\<rparr>))"

text \<open>
  getLink for a session with a user, with the ids of the uplink writer, the uplink reader and
  the downlink writer and reader; a refused connection closes both writers and interrupts both
  readers. The result holds the bucket of the connection, if it is limited.
\<close>

definition getLink ::
  "(int \<Rightarrow> int \<Rightarrow> int \<Rightarrow> 'b) \<Rightarrow> int \<Rightarrow> string \<Rightarrow> string \<Rightarrow> string \<Rightarrow> bool \<Rightarrow> bool \<Rightarrow> nat \<times> nat \<Rightarrow> nat \<times> nat
   \<Rightarrow> 'm xray \<times> 'b limiters \<Rightarrow> ('m xray \<times> 'b limiters) \<times> (link \<times> 'b option \<times> nat) option result" where
  "getLink newBucket now tag email ip isTcp srcTcp up down st =
     (case st of (x, g) \<Rightarrow>
        (let refuse = x\<lparr>closed_writers := {fst up, fst down} \<union> closed_writers x,
                        interrupted := {snd up, snd down} \<union> interrupted x\<rparr>
         in if email = '''' then ((x, g), Inr None)
            else case GetLimiter tag g of
                   Inl e \<Rightarrow> ((refuse, g), Inl (wrap_err (''get limiter '' @ tag @ '' error: '') e))
                 | Inr a \<Rightarrow>
                     (let (l, w, reject) = CheckLimit newBucket now email ip isTcp srcTcp (lims g a);
                          g' = g\<lparr>lims := (lims g)(a := l)\<rparr>
                      in if reject then ((refuse, g'), Inl (Err (''Limited '' @ email @ '' by conn or ip'')))
                         else (let (x', ln) = open_link tag email (fst up) (snd up) x
                               in ((x', g'), Inr (Some (ln, w, a)))))))"

text \<open>
  routedDispatch: the rules of the limiter, then the choice of the outbound handler. forced is
  the tag forced by the context, route what the router picked, handlers the outbound tags.
\<close>

datatype verdict = RejectedByRule | NoHandler | DispatchTo string

definition rule_rejects ::
  "(string \<Rightarrow> string \<Rightarrow> bool) \<Rightarrow> string \<Rightarrow> string \<Rightarrow> 'b Limiter option \<Rightarrow> bool result" where
  "rule_rejects matchString destStr protocol limit =
     (case limit of
        None \<Rightarrow> Inr False
      | Some l \<Rightarrow>
          (case CheckDomainRule matchString destStr l of
             Inl e \<Rightarrow> Inl e
           | Inr True \<Rightarrow> Inr True
           | Inr False \<Rightarrow> Inr (protocol \<noteq> '''' \<and> CheckProtocolRule protocol l)))"

definition pick_handler :: "string set \<Rightarrow> string option \<Rightarrow> string \<Rightarrow> string option \<Rightarrow> verdict" where
  "pick_handler handlers dflt forced route =
     (if forced \<noteq> '''' then (if forced \<in> handlers then DispatchTo forced else NoHandler)
      else case route of
             Some t \<Rightarrow> (if t \<in> handlers then DispatchTo t else NoHandler)
           | None \<Rightarrow> (case dflt of Some d \<Rightarrow> DispatchTo d | None \<Rightarrow> NoHandler))"

definition routedDispatch ::
  "(string \<Rightarrow> string \<Rightarrow> bool) \<Rightarrow> string set \<Rightarrow> string option \<Rightarrow> string \<Rightarrow> string option
   \<Rightarrow> bool \<Rightarrow> string \<Rightarrow> string \<Rightarrow> string \<Rightarrow> nat option \<Rightarrow> 'b limiters \<Rightarrow> verdict result" where
  "routedDispatch matchString handlers dflt forced route hasUser tag destStr protocol l g =
     (let limit = (if \<not> hasUser then None
                   else case l of
                          Some a \<Rightarrow> Some (lims g a)
                        | None \<Rightarrow> (case GetLimiter tag g of Inl _ \<Rightarrow> None | Inr a \<Rightarrow> Some (lims g a)))
      in case rule_rejects matchString destStr protocol limit of
           Inl e \<Rightarrow> Inl e
         | Inr True \<Rightarrow> Inr RejectedByRule
         | Inr False \<Rightarrow> Inr (pick_handler handlers dflt forced route))"

end
