(* ===== verification/Xray_Laws.thy ===== *)
theory Xray_Laws
  imports Xray_Core Conn_Counter
begin

text \<open>
  What the xray core promises: a deleted user is cut off, every counted byte is reported once,
  and the connections the limiter refuses leave no trace.
\<close>

subsection \<open>Closing a user's links\<close>

definition close_step :: "nat \<Rightarrow> nat \<Rightarrow> 'm xray \<Rightarrow> 'm xray" where
  "close_step lm w x =
     (case lm_links x lm w of
        None \<Rightarrow> x
      | Some r \<Rightarrow> (mw_Close lm w x)\<lparr>interrupted := insert r (interrupted x)\<rparr>)"

lemma CloseAll_fold: "CloseAll order lm x = fold (close_step lm) order x"
  by (simp add: CloseAll_def close_step_def [abs_def])

lemma mw_Close_eq:
  "mw_Close lm w x = x\<lparr>lm_links := (lm_links x)(lm := (lm_links x lm)(w := None)),
     closed_writers := insert w (closed_writers x)\<rparr>"
  by (simp add: mw_Close_def RemoveWriter_def)

lemma close_step_frame:
  "inbounds (close_step lm w x) = inbounds x" "outbounds (close_step lm w x) = outbounds x"
  "x_Counter (close_step lm w x) = x_Counter x" "x_store (close_step lm w x) = x_store x"
  "LinkManagers (close_step lm w x) = LinkManagers x" "uidMap (close_step lm w x) = uidMap x"
  "nodeReportMinTrafficBytes (close_step lm w x) = nodeReportMinTrafficBytes x"
  "next_lm (close_step lm w x) = next_lm x"
  by (simp_all add: close_step_def mw_Close_eq split: option.split)

lemma CloseAll_frame [simp]:
  "inbounds (CloseAll order lm x) = inbounds x" "outbounds (CloseAll order lm x) = outbounds x"
  "x_Counter (CloseAll order lm x) = x_Counter x" "x_store (CloseAll order lm x) = x_store x"
  "LinkManagers (CloseAll order lm x) = LinkManagers x" "uidMap (CloseAll order lm x) = uidMap x"
  "nodeReportMinTrafficBytes (CloseAll order lm x) = nodeReportMinTrafficBytes x"
  "next_lm (CloseAll order lm x) = next_lm x"
  unfolding CloseAll_fold by (induction order arbitrary: x; simp add: close_step_frame)+

lemma close_step_links:
  "lm_links (close_step lm w x) k = (if k = lm then (lm_links x lm)(w := None) else lm_links x k)"
  by (auto simp: close_step_def mw_Close_eq fun_eq_iff split: option.split)

lemma close_step_closed:
  "closed_writers (close_step lm w x) = closed_writers x \<union> (if w \<in> dom (lm_links x lm) then {w} else {})"
  "interrupted (close_step lm w x) = interrupted x \<union> (case lm_links x lm w of None \<Rightarrow> {} | Some r \<Rightarrow> {r})"
  by (auto simp: close_step_def mw_Close_eq split: option.split)

lemma CloseAll_other: "k \<noteq> lm \<Longrightarrow> lm_links (CloseAll order lm x) k = lm_links x k"
  unfolding CloseAll_fold by (induction order arbitrary: x) (simp_all add: close_step_links)

lemma CloseAll_mono:
  "closed_writers x \<subseteq> closed_writers (CloseAll order lm x)" "interrupted x \<subseteq> interrupted (CloseAll order lm x)"
  unfolding CloseAll_fold
  by (induction order arbitrary: x) (force simp: close_step_closed)+

lemma CloseAll_closes:
  assumes "lm_links x lm w = Some r" "w \<in> set order"
  shows "w \<in> closed_writers (CloseAll order lm x) \<and> r \<in> interrupted (CloseAll order lm x)"
  using assms
proof (induction order arbitrary: x)
  case (Cons v order)
  let ?x = "close_step lm v x"
  show ?case
  proof (cases "v = w")
    case True
    with Cons.prems(1) have "w \<in> closed_writers ?x" "r \<in> interrupted ?x" by (auto simp: close_step_closed)
    with CloseAll_mono [where x = ?x and order = order and lm = lm] show ?thesis by (auto simp: CloseAll_fold)
  next
    case False
    with Cons.prems have "lm_links ?x lm w = Some r" "w \<in> set order" by (auto simp: close_step_links)
    from Cons.IH [OF this] show ?thesis by (simp add: CloseAll_fold)
  qed
qed simp

subsection \<open>Deleting users\<close>

text \<open>Two users never share a link manager.\<close>

definition links_inv :: "'m xray \<Rightarrow> bool" where
  "links_inv x \<longleftrightarrow> inj_on (LinkManagers x) (dom (LinkManagers x)) \<and> (\<forall>e lm. LinkManagers x e = Some lm \<longrightarrow> lm < next_lm x)"

definition orders_ok :: "(string \<Rightarrow> nat list) \<Rightarrow> 'm xray \<Rightarrow> bool" where
  "orders_ok orders x \<longleftrightarrow> (\<forall>e lm. LinkManagers x e = Some lm \<longrightarrow> enumerates (orders e) (lm_links x lm))"

lemma forget_user_maps:
  "uidMap (forget_user orders tag e x) = (uidMap x)(e := None)"
  "LinkManagers (forget_user orders tag e x) = (LinkManagers x)(e := None)"
  "x_Counter (forget_user orders tag e x) =
    (case x_Counter x tag of None \<Rightarrow> x_Counter x | Some tc \<Rightarrow> (x_Counter x)(tag \<mapsto> Delete e tc))"
  "inbounds (forget_user orders tag e x) = inbounds x"
  by (auto simp: forget_user_def Let_def fun_eq_iff split: option.split)

lemma forget_user_links:
  assumes "LinkManagers x j = Some k" "e \<noteq> j" "links_inv x"
  shows "lm_links (forget_user orders tag e x) k = lm_links x k"
proof -
  have "LinkManagers x e \<noteq> Some k"
    using assms by (auto simp: links_inv_def dest: inj_onD [where x = e and y = j])
  then show ?thesis by (auto simp: forget_user_def Let_def CloseAll_other split: option.split)
qed

lemma forget_user_mono:
  "closed_writers x \<subseteq> closed_writers (forget_user orders tag e x)"
  "interrupted x \<subseteq> interrupted (forget_user orders tag e x)"
  using CloseAll_mono by (fastforce simp: forget_user_def Let_def split: option.split)+

lemma forget_user_closes:
  fixes x :: "'m xray"
  assumes "LinkManagers x e = Some lm" "lm_links x lm w = Some r" "orders_ok orders x"
  shows "w \<in> closed_writers (forget_user orders tag e x) \<and> r \<in> interrupted (forget_user orders tag e x)"
proof -
  have "w \<in> set (orders e)" using assms by (auto simp: orders_ok_def enumerates_def)
  then have "w \<in> closed_writers (CloseAll (orders e) lm y) \<and> r \<in> interrupted (CloseAll (orders e) lm y)"
    if "lm_links y lm = lm_links x lm" for y :: "'m xray"
    using that assms(2) by (intro CloseAll_closes) simp_all
  then show ?thesis using assms(1) by (auto simp: forget_user_def Let_def split: option.split)
qed

lemma forget_user_inv:
  assumes "links_inv x"
  shows "links_inv (forget_user orders tag e x)"
proof -
  have "next_lm (forget_user orders tag e x) = next_lm x"
    by (auto simp: forget_user_def Let_def split: option.split)
  with assms show ?thesis by (auto simp: links_inv_def forget_user_maps inj_on_def)
qed

lemma forget_user_orders:
  assumes "links_inv x" "orders_ok orders x"
  shows "orders_ok orders (forget_user orders tag e x)"
  unfolding orders_ok_def
proof (intro allI impI)
  fix j k assume "LinkManagers (forget_user orders tag e x) j = Some k"
  then have j: "LinkManagers x j = Some k" "e \<noteq> j" by (auto simp: forget_user_maps split: if_splits)
  with forget_user_links [OF j assms(1)] assms(2) show "enumerates (orders j) (lm_links (forget_user orders tag e x) k)"
    by (simp add: orders_ok_def)
qed

lemma inbounds_upd_simps [simp]:
  "links_inv (x\<lparr>inbounds := i\<rparr>) = links_inv x" "orders_ok orders (x\<lparr>inbounds := i\<rparr>) = orders_ok orders x"
  by (simp_all add: links_inv_def orders_ok_def)

definition counter_of :: "string \<Rightarrow> 'm xray \<Rightarrow> TrafficCounter" where
  "counter_of tag x = (case x_Counter x tag of None \<Rightarrow> NewTrafficCounter | Some c \<Rightarrow> c)"

text \<open>What stays of a user e once it is forgotten, and is kept while others are.\<close>

definition gone :: "string \<Rightarrow> string \<Rightarrow> nat set \<Rightarrow> nat set \<Rightarrow> 'm xray \<Rightarrow> bool" where
  "gone tag e ws rs x \<longleftrightarrow> uidMap x e = None \<and> LinkManagers x e = None \<and> counter_of tag x e = None
     \<and> ws \<subseteq> closed_writers x \<and> rs \<subseteq> interrupted x"

definition writers_of :: "string \<Rightarrow> 'm xray \<Rightarrow> nat set" where
  "writers_of e x = (case LinkManagers x e of None \<Rightarrow> {} | Some lm \<Rightarrow> dom (lm_links x lm))"

definition readers_of :: "string \<Rightarrow> 'm xray \<Rightarrow> nat set" where
  "readers_of e x = (case LinkManagers x e of None \<Rightarrow> {} | Some lm \<Rightarrow> ran (lm_links x lm))"

lemma links_of_inbounds [simp]:
  "writers_of e (x\<lparr>inbounds := i\<rparr>) = writers_of e x" "readers_of e (x\<lparr>inbounds := i\<rparr>) = readers_of e x"
  by (simp_all add: writers_of_def readers_of_def split: option.split)

lemma forget_user_gone:
  assumes "links_inv x" "orders_ok orders x"
  shows "gone tag e (writers_of e x) (readers_of e x) (forget_user orders tag e x)"
proof -
  have "counter_of tag (forget_user orders tag e x) e = None"
    by (simp add: counter_of_def forget_user_maps NewTrafficCounter_def Delete_def split: option.split)
  moreover have "w \<in> closed_writers (forget_user orders tag e x)" "r \<in> interrupted (forget_user orders tag e x)"
    if "LinkManagers x e = Some lm" "lm_links x lm w = Some r" for lm w r
    using forget_user_closes [OF that assms(2)] by simp_all
  ultimately show ?thesis
    by (auto simp: gone_def forget_user_maps writers_of_def readers_of_def ran_def split: option.split)
qed

lemma forget_user_keeps_gone: "gone tag e ws rs x \<Longrightarrow> gone tag e ws rs (forget_user orders tag j x)"
  using forget_user_mono [of x orders tag j]
  by (auto simp: gone_def forget_user_maps counter_of_def Delete_def NewTrafficCounter_def split: option.splits)

lemma gone_inbounds [simp]: "gone tag e ws rs (x\<lparr>inbounds := i\<rparr>) = gone tag e ws rs x"
  by (simp add: gone_def counter_of_def)

lemma del_users_keeps_gone:
  "gone tag e ws rs x \<Longrightarrow> gone tag e ws rs (fst (del_users U orders tag us m x))"
proof (induction U orders tag us m x rule: del_users.induct)
  case (2 U orders tag u us m x)
  then show ?case by (cases "um_RemoveUser U (UserTag tag (Uuid u)) m") (simp_all add: Let_def forget_user_keeps_gone)
qed simp

lemma forget_user_others:
  assumes "links_inv x" "e \<noteq> j"
  shows "writers_of j (forget_user orders tag e x) = writers_of j x"
    and "readers_of j (forget_user orders tag e x) = readers_of j x"
  using assms forget_user_links [of x j _ e orders tag]
  by (auto simp: writers_of_def readers_of_def forget_user_maps split: option.splits)

lemma del_users_gone:
  assumes "links_inv x" "orders_ok orders x" "del_users U orders tag us m x = (x', Inr ())" "u \<in> set us"
  shows "gone tag (UserTag tag (Uuid u)) (writers_of (UserTag tag (Uuid u)) x) (readers_of (UserTag tag (Uuid u)) x) x'"
  using assms
proof (induction U orders tag us m x rule: del_users.induct)
  case (2 U orders tag v us m x)
  let ?e = "UserTag tag (Uuid u)" and ?j = "UserTag tag (Uuid v)"
  from "2.prems"(3) obtain m' where m: "um_RemoveUser U ?j m = Inr m'"
    by (cases "um_RemoveUser U ?j m") (auto simp: Let_def)
  let ?y = "x\<lparr>inbounds := (inbounds x)(tag := Manager m')\<rparr>"
  let ?x = "forget_user orders tag ?j ?y"
  have d: "del_users U orders tag us m' ?x = (x', Inr ())" using "2.prems"(3) m by (simp add: Let_def)
  have inv: "links_inv ?x" "orders_ok orders ?x"
    using "2.prems"(1,2) by (simp_all add: forget_user_inv forget_user_orders)
  show ?case
  proof (cases "?j = ?e")
    case True
    have "gone tag ?e (writers_of ?e x) (readers_of ?e x) ?x"
      using forget_user_gone [of ?y orders tag ?e] "2.prems"(1,2) True by simp
    from del_users_keeps_gone [OF this, of U orders us m'] d show ?thesis by simp
  next
    case False
    with "2.prems"(4) have u: "u \<in> set us" by auto
    have "gone tag ?e (writers_of ?e ?x) (readers_of ?e ?x) x'" by (rule "2.IH" [OF refl m inv d u])
    moreover have "writers_of ?e ?x = writers_of ?e x" "readers_of ?e ?x = readers_of ?e x"
      using forget_user_others [of ?y ?j ?e orders tag] "2.prems"(1) False by simp_all
    ultimately show ?thesis by simp
  qed
qed simp


definition ok_ops :: "(xuser \<Rightarrow> 'm \<Rightarrow> 'm) \<Rightarrow> (string \<Rightarrow> 'm \<Rightarrow> 'm) \<Rightarrow> 'm user_ops" where
  "ok_ops add rem = \<lparr>ToMemoryUser = \<lambda>_. None, um_AddUser = \<lambda>u m. Inr (add u m), um_RemoveUser = \<lambda>e m. Inr (rem e m)\<rparr>"

definition x_one :: "string list xray" where
  "x_one =
     \<lparr>inbounds = (\<lambda>_. NoInbound)(''n'' := Manager [''n|aaaa'']), outbounds = {''n''}, x_Counter = [''n'' \<mapsto> [''n|aaaa'' \<mapsto> 0]],
      x_store = \<lparr>storages = \<lambda>_. new_storage, next_addr = 1\<rparr>, LinkManagers = [''n|aaaa'' \<mapsto> 0],
      lm_links = (\<lambda>_. Map.empty)(0 := [3 \<mapsto> 4]), next_lm = 1, closed_writers = {}, interrupted = {},
      uidMap = [''n|aaaa'' \<mapsto> 1], nodeReportMinTrafficBytes = Map.empty\<rparr>"


subsection \<open>The core as a traffic source\<close>

text \<open>
  A connection counts through the storage its link was given, with the counters handed to
  xray's writers.
\<close>

definition field_of :: "dir \<Rightarrow> nat \<Rightarrow> field_ptr" where
  "field_of d a = (case d of Up \<Rightarrow> UpField a | Down \<Rightarrow> DownField a)"

definition x_count :: "string \<Rightarrow> dir \<Rightarrow> string \<Rightarrow> int \<Rightarrow> 'm xray \<Rightarrow> 'm xray" where
  "x_count tag d e n x =
     (case counter_of tag x e of
        None \<Rightarrow> x
      | Some a \<Rightarrow> x\<lparr>x_store := snd (xtc_Add (field_of d a) n (x_store x))\<rparr>)"

definition x_collect :: "string \<Rightarrow> string list \<Rightarrow> 'm xray \<Rightarrow> 'm xray \<times> UserTraffic list" where
  "x_collect tag order x = x_GetUserTrafficSlice order tag True x"

definition x_left :: "string \<Rightarrow> dir \<Rightarrow> 'm xray \<Rightarrow> int" where
  "x_left tag d x = pending d (get0 (uidMap x)) (counter_of tag x) (x_store x)"

definition x_counts_for :: "string \<Rightarrow> 'm xray \<Rightarrow> string \<Rightarrow> bool" where
  "x_counts_for tag x e \<longleftrightarrow> get0 (uidMap x) e \<noteq> 0 \<and> counter_of tag x e \<noteq> None"

definition x_order_ok :: "string \<Rightarrow> string list \<Rightarrow> 'm xray \<Rightarrow> bool" where
  "x_order_ok tag order x \<longleftrightarrow> enumerates order (counter_of tag x)"

definition x_inv :: "string \<Rightarrow> 'm xray \<Rightarrow> bool" where
  "x_inv tag x \<longleftrightarrow> tc_wf (counter_of tag x) (x_store x) \<and> finite (dom (counter_of tag x))"

lemma xtc_add_dir: "snd (xtc_Add (field_of d a) n h) = add_dir d a n h"
  by (cases d) (simp_all add: field_of_def xtc_Add_is_add)

lemma x_store_simps [simp]: "counter_of tag (x\<lparr>x_store := h\<rparr>) = counter_of tag x"
  by (simp add: counter_of_def)

interpretation x_node: counted_node "\<lambda>x. x_Counter x tag" x_store "\<lambda>x. get0 (uidMap x)"
  "\<lambda>x. get0 (nodeReportMinTrafficBytes x) tag" "\<lambda>c h x. x\<lparr>x_Counter := (x_Counter x)(tag \<mapsto> c), x_store := h\<rparr>"
  "x_count tag" "x_collect tag" for tag
proof unfold_locales
  show "x_count tag d u n x = x\<lparr>x_Counter := (x_Counter x)(tag \<mapsto> c), x_store := add_dir d a n (x_store x)\<rparr>"
    if "x_Counter x tag = Some c" "c u = Some a" for x :: "'m xray" and c u a d n
    using that by (simp add: x_count_def counter_of_def xtc_add_dir fun_upd_idem)
qed (simp_all add: x_collect_def x_GetUserTrafficSlice_def)

lemma counter_of_held: "counter_of tag x = x_node.held tag x"
  by (simp add: counter_of_def x_node.held_def)

lemma x_source:
  "x_left tag = (\<lambda>d x. pending d (get0 (uidMap x)) (x_node.held tag x) (x_store x))"
  "x_counts_for tag = (\<lambda>x e. get0 (uidMap x) e \<noteq> 0 \<and> x_node.held tag x e \<noteq> None)"
  "x_order_ok tag = (\<lambda>order x. enumerates order (x_node.held tag x))"
  "x_inv tag = (\<lambda>x. tc_wf (x_node.held tag x) (x_store x) \<and> finite (dom (x_node.held tag x)))"
  by (simp_all add: fun_eq_iff x_left_def x_counts_for_def x_order_ok_def x_inv_def counter_of_held)



subsection \<open>Admission\<close>

lemma open_link_result:
  assumes "open_link tag e w r x = (x', ln)"
  shows "counter_of tag x' e = Some (ln_storage ln)" "w \<in> writers_of e x'" "r \<in> readers_of e x'"
    and "uidMap x' = uidMap x" "closed_writers x' = closed_writers x"
proof -
  obtain lm x1 where lm: "(case LinkManagers x e of Some lm \<Rightarrow> (lm, x) | None \<Rightarrow> (next_lm x, x\<lparr>LinkManagers := (LinkManagers x)(e \<mapsto> next_lm x),
                lm_links := (lm_links x)(next_lm x := Map.empty), next_lm := Suc (next_lm x)\<rparr>)) = (lm, x1)"
    by (metis prod.collapse)
  then have l1: "LinkManagers x1 e = Some lm" "uidMap x1 = uidMap x" "closed_writers x1 = closed_writers x"
    by (auto split: option.splits)
  let ?x2 = "AddLink lm w r x1"
  let ?tc = "case x_Counter ?x2 tag of Some c \<Rightarrow> c | None \<Rightarrow> NewTrafficCounter"
  obtain a tc' h' where g: "GetCounter e ?tc (x_store ?x2) = (a, tc', h')" by (metis prod_cases3)
  have e: "x' = ?x2\<lparr>x_Counter := (x_Counter ?x2)(tag \<mapsto> tc'), x_store := h'\<rparr>"
    "ln = \<lparr>ln_writer = w, ln_reader = r, ln_storage = a\<rparr>"
    using assms lm g by (simp_all add: open_link_def Let_def)
  show "counter_of tag x' e = Some (ln_storage ln)" using GetCounter_lookup [OF g] by (simp add: e counter_of_def)
  show "w \<in> writers_of e x'" "r \<in> readers_of e x'"
    by (auto simp: e writers_of_def readers_of_def AddLink_def l1 ran_def)
  show "uidMap x' = uidMap x" "closed_writers x' = closed_writers x" by (simp_all add: e AddLink_def l1)
qed

text \<open>
  A user's connection. getLink admits it exactly when the node has a limiter and CheckLimit
  admits it; then it is a link of its user, counts in a storage of the user's counter, and is
  limited by the bucket CheckLimit gave. Otherwise both writers are closed and both readers
  interrupted, and no link, counter or UID changes.
\<close>

theorem xray_connection_admission:
  assumes "e \<noteq> ''''" "getLink nb now tag e ip tcp src (w1, r1) (w2, r2) (x, g) = ((x', g'), res)"
  shows "case registry g tag of
      None \<Rightarrow> (\<exists>m. res = Inl m) \<and> {w1, w2} \<subseteq> closed_writers x' \<and> {r1, r2} \<subseteq> interrupted x'
        \<and> x_Counter x' = x_Counter x \<and> LinkManagers x' = LinkManagers x \<and> lm_links x' = lm_links x
    | Some a \<Rightarrow>
        (if snd (snd (CheckLimit nb now e ip tcp src (lims g a)))
         then (\<exists>m. res = Inl m) \<and> {w1, w2} \<subseteq> closed_writers x' \<and> {r1, r2} \<subseteq> interrupted x'
           \<and> x_Counter x' = x_Counter x \<and> LinkManagers x' = LinkManagers x \<and> lm_links x' = lm_links x
         else \<exists>ln. res = Inr (Some (ln, fst (snd (CheckLimit nb now e ip tcp src (lims g a))), a))
           \<and> ln_writer ln = w1 \<and> ln_reader ln = r1
           \<and> w1 \<in> writers_of e x' \<and> r1 \<in> readers_of e x' \<and> counter_of tag x' e = Some (ln_storage ln))"
proof (cases "registry g tag")
  case None
  with assms show ?thesis by (auto simp: getLink_def GetLimiter_def)
next
  case (Some a)
  obtain l b rej where c: "CheckLimit nb now e ip tcp src (lims g a) = (l, b, rej)" by (metis prod_cases3)
  show ?thesis
  proof (cases rej)
    case True
    with assms Some c show ?thesis by (auto simp: getLink_def GetLimiter_def Let_def)
  next
    case False
    obtain y ln where o: "open_link tag e w1 r1 x = (y, ln)" by (metis prod.collapse)
    have "x' = y" "res = Inr (Some (ln, b, a))"
      using assms Some c False o by (auto simp: getLink_def GetLimiter_def Let_def)
    moreover have "ln_writer ln = w1" "ln_reader ln = r1"
      using o by (auto simp: open_link_def Let_def split: prod.splits)
    ultimately show ?thesis using Some c False open_link_result [OF o] by simp
  qed
qed

theorem xray_connection_admission_witness:
  "\<exists>x' g' m. getLink (\<lambda>_ c _. c) 100 ''n'' ''n|u'' ''2.2.2.2'' True True (1, 2) (3, 4)
      (x_one, \<lparr>registry = [''n'' \<mapsto> 0], lims = \<lambda>_. one_user 0 (plain_user 7 0 2), next_lim = 1\<rparr>) = ((x', g'), Inl m)
    \<and> {1, 3} \<subseteq> closed_writers x'"
proof -
  let ?l = "one_user 0 (plain_user 7 0 2) :: int Limiter"
  let ?g = "\<lparr>registry = [''n'' \<mapsto> 0], lims = \<lambda>_. ?l, next_lim = 1\<rparr>"
  obtain x' g' res where g: "getLink (\<lambda>_ c _. c) 100 ''n'' ''n|u'' ''2.2.2.2'' True True (1, 2) (3, 4) (x_one, ?g) = ((x', g'), res)"
    by (metis prod.collapse)
  have r: "refuses ''n|u'' (trimPrefix ''2.2.2.2'' ''::ffff:'') 7 2 ?l"
    by (simp add: refuses_def new_ip_def devices_full_def one_user_defs trimPrefix_def hasPrefix_def)
  have u: "l_UserLimitInfo ?l ''n|u'' = Some (plain_user 7 0 2)" by (simp add: one_user_def)
  have p: "ul_UID (plain_user 7 0 2) = 7" "ul_DeviceLimit (plain_user 7 0 2) = 2" by (simp_all add: plain_user_def)
  have "snd (snd (CheckLimit (\<lambda>_ c _. c) 100 ''n|u'' ''2.2.2.2'' True True (lims ?g 0)))"
    using r u p by (simp add: CheckLimit_cases case_prod_beta Let_def)
  with xray_connection_admission [OF _ g] g show ?thesis by auto
qed

end
