(* ===== verification/Xray_Sniff.thy ===== *)
theory Xray_Sniff
  imports Go_Strings
begin

text \<open>
  Sniffing in the xray dispatcher: core/xray/app/dispatcher/sniffer.go, fakednssniffer.go and,
  of default.go, the cached reader and the function sniffer. The protocol sniffers of xray
  (HTTP, TLS, QUIC, bittorrent) and its fake DNS engine are parameters.
\<close>

subsection \<open>Results\<close>

text \<open>A result of xray's sniffers, the two of the fake DNS, and a composite one.\<close>

datatype sniff_result =
    Sniffed string string
  | FakeDNSResult string
  | DNSThenOthersResult string string
  | CompositeResult sniff_result sniff_result

fun sr_Protocol :: "sniff_result \<Rightarrow> string" where
  "sr_Protocol (Sniffed protocol domain) = protocol"
| "sr_Protocol (FakeDNSResult domain) = ''fakedns''"
| "sr_Protocol (DNSThenOthersResult domain original) = ''fakedns+others''"
| "sr_Protocol (CompositeResult domainResult protocolResult) = sr_Protocol protocolResult"

fun sr_Domain :: "sniff_result \<Rightarrow> string" where
  "sr_Domain (Sniffed protocol domain) = domain"
| "sr_Domain (FakeDNSResult domain) = domain"
| "sr_Domain (DNSThenOthersResult domain original) = domain"
| "sr_Domain (CompositeResult domainResult protocolResult) = sr_Domain domainResult"

text \<open>The methods that only some results have.\<close>

fun ProtocolForDomainResult :: "sniff_result \<Rightarrow> string option" where
  "ProtocolForDomainResult (CompositeResult domainResult protocolResult) = Some (sr_Protocol domainResult)"
| "ProtocolForDomainResult _ = None"

fun IsProtoSubsetOf :: "sniff_result \<Rightarrow> string \<Rightarrow> bool option" where
  "IsProtoSubsetOf (DNSThenOthersResult domain original) p = Some (hasPrefix p original)"
| "IsProtoSubsetOf _ p = None"

datatype sniff_err = ErrNoClue | ErrProtoNeedMoreData | ErrUnknownContent | ErrSniffingTimeout | ErrRead string | ErrOther string

type_synonym sniff_outcome = "sniff_err + sniff_result"

subsection \<open>sniffer.go\<close>

datatype net_kind = TCP | UDP

text \<open>
  A sniffer's function on the bytes (None for the nil body of a metadata sniffer), and its
  network (None for the zero value of xray's type, which is no network).
\<close>

record psniffer =
  protocolSniffer :: "string option \<Rightarrow> sniff_outcome"
  metadataSniffer :: bool
  ps_network :: "net_kind option"

text \<open>
  One pass over the sniffers: those that apply are asked in turn, those without a clue stay
  pending, and the first result ends the pass. A sniffer with any other error is dropped.
\<close>

fun sniff_pass :: "string \<Rightarrow> net_kind \<Rightarrow> psniffer list \<Rightarrow> sniff_result option \<times> psniffer list" where
  "sniff_pass payload network [] = (None, [])"
| "sniff_pass payload network (si # sis) =
     (if metadataSniffer si \<or> ps_network si \<noteq> Some network then sniff_pass payload network sis
      else case protocolSniffer si (Some payload) of
             Inl ErrNoClue \<Rightarrow> (let (r, pend) = sniff_pass payload network sis in (r, si # pend))
           | Inl _ \<Rightarrow> sniff_pass payload network sis
           | Inr result \<Rightarrow> (Some result, []))"

definition after_pass :: "psniffer list \<Rightarrow> sniff_result option \<times> psniffer list \<Rightarrow> psniffer list \<times> sniff_outcome" where
  "after_pass s r =
     (case r of
        (Some result, _) \<Rightarrow> (s, Inr result)
      | (None, pend) \<Rightarrow> if pend \<noteq> [] then (pend, Inl ErrNoClue) else (s, Inl ErrUnknownContent))"

definition Sniff :: "string \<Rightarrow> net_kind \<Rightarrow> psniffer list \<Rightarrow> psniffer list \<times> sniff_outcome" where
  "Sniff payload network s = after_pass s (sniff_pass payload network s)"

fun metadata_pass :: "psniffer list \<Rightarrow> sniff_result option \<times> psniffer list" where
  "metadata_pass [] = (None, [])"
| "metadata_pass (si # sis) =
     (if \<not> metadataSniffer si then (let (r, pend) = metadata_pass sis in (r, si # pend))
      else case protocolSniffer si None of
             Inl ErrNoClue \<Rightarrow> (let (r, pend) = metadata_pass sis in (r, si # pend))
           | Inl _ \<Rightarrow> metadata_pass sis
           | Inr result \<Rightarrow> (Some result, []))"

definition SniffMetadata :: "psniffer list \<Rightarrow> psniffer list \<times> sniff_outcome" where
  "SniffMetadata s = after_pass s (metadata_pass s)"

subsection \<open>fakednssniffer.go\<close>

text \<open>
  The engine for the target of the connection: the domain it knows for it (empty if none),
  and, if it can tell, whether the address is in its pool.
\<close>

record fake_dns =
  fd_network :: "net_kind option"
  fd_domain :: string
  fd_in_pool :: "bool option"

text \<open>The result, and what is set of the option in the context.\<close>

definition fakeDNSSniffer :: "fake_dns \<Rightarrow> sniff_outcome \<times> bool option" where
  "fakeDNSSniffer F =
     (if fd_network F \<noteq> None \<and> fd_domain F \<noteq> '''' then (Inr (FakeDNSResult (fd_domain F)), None)
      else (Inl ErrNoClue, fd_in_pool F))"

fun first_other :: "psniffer list \<Rightarrow> string option \<Rightarrow> sniff_outcome" where
  "first_other [] bytes = Inl ErrNoClue"
| "first_other (v # vs) bytes =
     (if metadataSniffer v \<or> bytes \<noteq> None then
        (case protocolSniffer v bytes of
           Inr result \<Rightarrow> Inr (DNSThenOthersResult (sr_Domain result) (sr_Protocol result))
         | Inl _ \<Rightarrow> first_other vs bytes)
      else first_other vs bytes)"

definition fakeDNSThenOthers :: "fake_dns \<Rightarrow> psniffer list \<Rightarrow> string option \<Rightarrow> sniff_outcome" where
  "fakeDNSThenOthers F others bytes =
     (case fakeDNSSniffer F of
        (Inr result, _) \<Rightarrow> Inr result
      | (Inl _, Some True) \<Rightarrow> first_other others bytes
      | (Inl _, _) \<Rightarrow> Inl ErrNoClue)"

text \<open>basic are the five sniffers of xray; the two of the fake DNS name no network.\<close>

definition NewSniffer :: "psniffer list \<Rightarrow> fake_dns option \<Rightarrow> psniffer list" where
  "NewSniffer basic fdns =
     (case fdns of
        None \<Rightarrow> basic
      | Some F \<Rightarrow>
          \<lparr>protocolSniffer = fakeDNSThenOthers F basic, metadataSniffer = False, ps_network = None\<rparr>
          # basic
          @ [\<lparr>protocolSniffer = \<lambda>_. fst (fakeDNSSniffer F), metadataSniffer = True, ps_network = None\<rparr>])"

subsection \<open>default.go: the cached reader\<close>

text \<open>
  Cache appends what the inner reader gave to the cache and shows its first bytes, as many as
  the payload buffer holds; the reading methods empty the cache first.
\<close>

definition Cache :: "nat \<Rightarrow> string \<Rightarrow> string \<Rightarrow> string \<times> string" where
  "Cache cap mb cache = (let c = cache @ mb in (c, take cap c))"

definition readInternal :: "string \<Rightarrow> string \<times> string option" where
  "readInternal cache = (if cache \<noteq> '''' then ('''', Some cache) else (cache, None))"

definition ReadMultiBuffer :: "string + string \<Rightarrow> string \<Rightarrow> string \<times> (string + string)" where
  "ReadMultiBuffer inner cache =
     (case readInternal cache of (c, Some mb) \<Rightarrow> (c, Inr mb) | (c, None) \<Rightarrow> (c, inner))"

definition ReadMultiBufferTimeout :: "string + string \<Rightarrow> string \<Rightarrow> string \<times> (string + string)" where
  "ReadMultiBufferTimeout inner cache =
     (case readInternal cache of (c, Some mb) \<Rightarrow> (c, Inr mb) | (c, None) \<Rightarrow> (c, inner))"

definition Interrupt :: "string \<Rightarrow> string" where
  "Interrupt cache = ''''"

subsection \<open>default.go: sniffer\<close>

text \<open>
  The attempts of the loop: whether the context is done, what the inner reader gives (an
  error, such as a timeout, or bytes, possibly none) and the time that took.
\<close>

record attempt =
  at_done :: bool
  at_read :: "string + string"
  at_elapsed :: int

definition cache_deadline :: int where
  "cache_deadline = 200000000"

text \<open>The attempts counted after an outcome, if the loop may go on.\<close>

definition attempts_after :: "nat \<Rightarrow> sniff_outcome \<Rightarrow> nat option" where
  "attempts_after tries r =
     (case r of Inl ErrNoClue \<Rightarrow> Some (tries + 1) | Inl ErrProtoNeedMoreData \<Rightarrow> Some tries | _ \<Rightarrow> None)"

text \<open>Sniffing never asks for more data: a sniffer that does is dropped.\<close>

lemma Sniff_outcome: "snd (Sniff payload network s) \<noteq> Inl ErrProtoNeedMoreData"
  by (auto simp: Sniff_def after_pass_def split: prod.splits option.splits)

lemma attempts_after_Sniff: "attempts_after tries (snd (Sniff payload network s)) = Some t \<Longrightarrow> t = Suc tries"
  using Sniff_outcome [of payload network s] by (auto simp: attempts_after_def split: sum.splits sniff_err.splits)

text \<open>One attempt: the sniffers, the cache and the outcome to return, or the number of attempts.\<close>

definition sniff_attempt ::
  "nat \<Rightarrow> net_kind \<Rightarrow> attempt \<Rightarrow> nat \<Rightarrow> int \<Rightarrow> psniffer list \<Rightarrow> string \<Rightarrow> psniffer list \<times> string \<times> (sniff_outcome + nat)" where
  "sniff_attempt cap network a tries deadline s cache =
     (if at_done a then (s, cache, Inl (Inl (ErrOther ''context'')))
      else case at_read a of
             Inl e \<Rightarrow> (s, cache, Inl (Inl (ErrRead e)))
           | Inr mb \<Rightarrow>
               (let (cache', payload) = Cache cap mb cache;
                    (s', r) = (if payload \<noteq> '''' then Sniff payload network s else (s, Inl ErrNoClue))
                in case attempts_after tries r of
                     None \<Rightarrow> (s', cache', Inl r)
                   | Some t \<Rightarrow>
                       (s', cache', if t \<ge> 2 \<or> deadline - at_elapsed a \<le> 0 then Inl (Inl ErrSniffingTimeout) else Inr t)))"

lemma sniff_attempt_counts:
  assumes "sniff_attempt cap network a tries deadline s cache = (s', cache', Inr t)"
  shows "t = Suc tries" "t < 2"
proof -
  obtain mb where m: "\<not> at_done a" "at_read a = Inr mb"
    using assms by (auto simp: sniff_attempt_def split: if_splits sum.splits)
  obtain c p where c: "Cache cap mb cache = (c, p)" by (metis prod.collapse)
  obtain s1 r where r: "(if p \<noteq> '''' then Sniff p network s else (s, Inl ErrNoClue)) = (s1, r)" by (metis prod.collapse)
  have g: "attempts_after tries r = Some t" "t < 2"
    using assms m c r by (auto simp: sniff_attempt_def split: option.splits if_splits)
  show "t < 2" by (rule g(2))
  show "t = Suc tries"
  proof (cases "p = ''''")
    case True
    with r have "r = Inl ErrNoClue" by simp
    with g(1) show ?thesis by (simp add: attempts_after_def)
  next
    case False
    then have "r = snd (Sniff p network s)" using r by simp
    with g(1) show ?thesis by (simp add: attempts_after_Sniff)
  qed
qed

text \<open>The loop from attempt k on.\<close>

function content_loop ::
  "nat \<Rightarrow> net_kind \<Rightarrow> (nat \<Rightarrow> attempt) \<Rightarrow> nat \<Rightarrow> nat \<Rightarrow> int \<Rightarrow> psniffer list \<Rightarrow> string
   \<Rightarrow> psniffer list \<times> string \<times> sniff_outcome" where
  "content_loop cap network env k tries deadline s cache =
     (case sniff_attempt cap network (env k) tries deadline s cache of
        (s', cache', Inl r) \<Rightarrow> (s', cache', r)
      | (s', cache', Inr t) \<Rightarrow>
          content_loop cap network env (k + 1) t (deadline - at_elapsed (env k)) s' cache')"
  by pat_completeness auto

termination
proof (relation "measure (\<lambda>(cap, network, env, k, tries, deadline, s, cache). 2 - tries)")
  fix cap network and env :: "nat \<Rightarrow> attempt" and k tries deadline s cache x y xa ya and b :: nat
  assume "(x, y) = sniff_attempt cap network (env k) tries deadline s cache" "(xa, ya) = y" "ya = Inr b"
  then have "sniff_attempt cap network (env k) tries deadline s cache = (x, xa, Inr b)" by simp
  from sniff_attempt_counts [OF this]
  show "((cap, network, env, k + 1, b, deadline - at_elapsed (env k), x, xa), cap, network, env, k, tries, deadline, s, cache)
      \<in> measure (\<lambda>(cap, network, env, k, tries, deadline, s, cache). 2 - tries)" by simp
qed simp

declare content_loop.simps [simp del]

definition sniffer ::
  "nat \<Rightarrow> net_kind \<Rightarrow> bool \<Rightarrow> (nat \<Rightarrow> attempt) \<Rightarrow> psniffer list \<Rightarrow> string \<Rightarrow> string \<times> sniff_outcome" where
  "sniffer cap network metadataOnly env s cache =
     (case SniffMetadata s of
        (s1, metaresult) \<Rightarrow>
          (if metadataOnly then (cache, metaresult)
           else case content_loop cap network env 0 0 cache_deadline s1 cache of
                  (_, cache', contentResult) \<Rightarrow>
                    (cache', case (contentResult, metaresult) of
                       (Inl _, Inr m) \<Rightarrow> Inr m
                     | (Inr c, Inr m) \<Rightarrow> Inr (CompositeResult m c)
                     | (c, Inl _) \<Rightarrow> c)))"

subsection \<open>Properties\<close>

lemma loop_end:
  "sniff_attempt cap network (env k) tries deadline s cache = (s', cache', Inl r) \<Longrightarrow>
    content_loop cap network env k tries deadline s cache = (s', cache', r)"
  by (subst content_loop.simps) simp

lemma loop_next:
  "sniff_attempt cap network (env k) tries deadline s cache = (s', cache', Inr t) \<Longrightarrow>
    content_loop cap network env k tries deadline s cache =
      content_loop cap network env (k + 1) t (deadline - at_elapsed (env k)) s' cache'"
  by (subst content_loop.simps) simp

lemma no_third_attempt: "sniff_attempt cap network a (Suc 0) deadline s cache \<noteq> (s', cache', Inr t)"
  using sniff_attempt_counts [of cap network a "Suc 0" deadline s cache s' cache' t] by auto


text \<open>Examples: a sniffer that wants more data, one without a clue, and attempts that read.\<close>

definition hungry :: psniffer where
  "hungry =
     \<lparr>protocolSniffer = \<lambda>b. if b = Some ''ab'' then Inr (Sniffed ''tls'' ''d'') else Inl ErrProtoNeedMoreData,
      metadataSniffer = False, ps_network = Some TCP\<rparr>"

definition clueless :: psniffer where
  "clueless = \<lparr>protocolSniffer = \<lambda>b. Inl ErrNoClue, metadataSniffer = False, ps_network = Some TCP\<rparr>"

definition reads :: "string list \<Rightarrow> nat \<Rightarrow> attempt" where
  "reads bs k = \<lparr>at_done = False, at_read = Inr (if k < length bs then bs ! k else ''''), at_elapsed = 1000\<rparr>"


subsubsection \<open>Sniffers that need more data\<close>

lemma pass_pending:
  "si \<in> set (snd (sniff_pass payload network s)) \<Longrightarrow>
    si \<in> set s \<and> protocolSniffer si (Some payload) = Inl ErrNoClue"
  by (induction payload network s rule: sniff_pass.induct)
    (auto simp: Let_def split: if_splits sum.splits sniff_err.splits prod.splits)

lemma pass_result:
  "fst (sniff_pass payload network s) = Some r \<Longrightarrow>
    \<exists>si\<in>set s. \<not> metadataSniffer si \<and> ps_network si = Some network \<and> protocolSniffer si (Some payload) = Inr r"
  by (induction payload network s rule: sniff_pass.induct)
    (auto simp: Let_def split: if_splits sum.splits sniff_err.splits prod.splits)

text \<open>
  A sniffer that needs more data is dropped. Sniff never reports that more data is
  needed, and once it has gone on without a clue the sniffers it keeps are those that had no
  clue on the bytes: one that recognised its protocol in a first fragment and asked for the
  rest is not asked again. What a pass finds was found by a sniffer for the network.
\<close>

theorem hungry_sniffer_is_dropped:
  "snd (Sniff payload network s) \<noteq> Inl ErrProtoNeedMoreData
   \<and> (snd (Sniff payload network s) = Inl ErrNoClue \<longrightarrow>
        (\<forall>si\<in>set (fst (Sniff payload network s)). protocolSniffer si (Some payload) = Inl ErrNoClue))
   \<and> (\<forall>r. snd (Sniff payload network s) = Inr r \<longrightarrow>
        (\<exists>si\<in>set s. ps_network si = Some network \<and> protocolSniffer si (Some payload) = Inr r))"
proof (intro conjI allI impI ballI)
  show "snd (Sniff payload network s) \<noteq> Inl ErrProtoNeedMoreData" by (rule Sniff_outcome)
  obtain r pend where p: "sniff_pass payload network s = (r, pend)" by (metis prod.collapse)
  show "protocolSniffer si (Some payload) = Inl ErrNoClue"
    if "snd (Sniff payload network s) = Inl ErrNoClue" "si \<in> set (fst (Sniff payload network s))" for si
    using that p pass_pending [of si payload network s]
    by (auto simp: Sniff_def after_pass_def split: option.splits if_splits)
  show "\<exists>si\<in>set s. ps_network si = Some network \<and> protocolSniffer si (Some payload) = Inr x"
    if "snd (Sniff payload network s) = Inr x" for x
    using that p pass_result [of payload network s x]
    by (auto simp: Sniff_def after_pass_def split: option.splits if_splits)
qed

theorem hungry_sniffer_is_dropped_witness:
  "hungry \<notin> set (fst (Sniff ''a'' TCP [hungry, clueless])) \<and> snd (Sniff ''a'' TCP [hungry, clueless]) = Inl ErrNoClue"
proof -
  have n: "snd (Sniff ''a'' TCP [hungry, clueless]) = Inl ErrNoClue"
    by (simp add: Sniff_def after_pass_def hungry_def clueless_def)
  have "protocolSniffer hungry (Some ''a'') \<noteq> Inl ErrNoClue" by (simp add: hungry_def)
  with hungry_sniffer_is_dropped [of "''a''" TCP "[hungry, clueless]"] n show ?thesis by auto
qed

subsubsection \<open>No byte is lost\<close>

fun read_bytes :: "attempt \<Rightarrow> string" where
  "read_bytes a = (if at_done a then '''' else case at_read a of Inl _ \<Rightarrow> '''' | Inr mb \<Rightarrow> mb)"

lemma sniff_attempt_cache:
  "sniff_attempt cap network a tries deadline s cache = (s', cache', r) \<Longrightarrow> cache' = cache @ read_bytes a"
  by (auto simp: sniff_attempt_def Cache_def Let_def split: if_splits sum.splits prod.splits option.splits)

lemma content_loop_cache:
  "content_loop cap network env k tries deadline s cache = (s', cache', r) \<Longrightarrow>
    \<exists>n. cache' = cache @ concat (map (\<lambda>i. read_bytes (env (k + i))) [0..<n])"
proof (induction cap network env k tries deadline s cache rule: content_loop.induct)
  case (1 cap network env k tries deadline s cache)
  obtain s1 c1 o1 where a: "sniff_attempt cap network (env k) tries deadline s cache = (s1, c1, o1)" by (metis prod_cases3)
  note c1 = sniff_attempt_cache [OF a]
  show ?case
  proof (cases o1)
    case (Inl out)
    with a "1.prems" have "cache' = c1" by (simp add: loop_end)
    then show ?thesis using c1 by (intro exI [of _ 1]) simp
  next
    case (Inr t)
    with a "1.prems" have "content_loop cap network env (k + 1) t (deadline - at_elapsed (env k)) s1 c1 = (s', cache', r)"
      by (simp add: loop_next)
    from "1.IH" [OF a [symmetric] refl Inr this]
    obtain n where "cache' = c1 @ concat (map (\<lambda>i. read_bytes (env (k + 1 + i))) [0..<n])" by blast
    moreover have "concat (map (\<lambda>i. read_bytes (env (k + i))) [0..<Suc n]) =
        read_bytes (env k) @ concat (map (\<lambda>i. read_bytes (env (k + 1 + i))) [0..<n])"
      by (subst upt_conv_Cons) (simp_all add: map_Suc_upt [symmetric] comp_def del: upt_Suc read_bytes.simps)
    ultimately show ?thesis using c1 by (intro exI [of _ "Suc n"]) simp
  qed
qed

text \<open>
  Sniffing takes no byte from the connection. After it the cache holds exactly the bytes
  that the attempts read, in their order, after those it held before; the next read hands
  them all over, and only then the connection's own.
\<close>

theorem sniffing_loses_no_byte:
  assumes "sniffer cap network metadataOnly env s cache = (cache', r)"
  shows "\<exists>n. cache' = cache @ concat (map (\<lambda>i. read_bytes (env i)) [0..<n])
    \<and> ReadMultiBuffer inner cache' = (if cache' = '''' then ('''', inner) else ('''', Inr cache'))
    \<and> ReadMultiBufferTimeout inner cache' = ReadMultiBuffer inner cache'"
proof -
  have rd: "ReadMultiBuffer inner cache' = (if cache' = '''' then ('''', inner) else ('''', Inr cache'))"
    "ReadMultiBufferTimeout inner cache' = ReadMultiBuffer inner cache'"
    by (simp_all add: ReadMultiBuffer_def ReadMultiBufferTimeout_def readInternal_def)
  obtain s1 m where m: "SniffMetadata s = (s1, m)" by (metis prod.collapse)
  show ?thesis
  proof (cases metadataOnly)
    case True
    with assms m have "cache' = cache" by (simp add: sniffer_def)
    then show ?thesis using rd by (intro exI [of _ 0]) simp
  next
    case False
    obtain s2 c out where l: "content_loop cap network env 0 0 cache_deadline s1 cache = (s2, c, out)" by (metis prod_cases3)
    with False assms m have "cache' = c" by (simp add: sniffer_def)
    with content_loop_cache [OF l] rd show ?thesis by simp
  qed
qed

theorem sniffing_loses_no_byte_witness:
  "\<exists>c r n. sniffer 100 TCP False (reads [''a'', ''x'']) [clueless] '''' = (c, r)
    \<and> c = concat (map (\<lambda>i. read_bytes (reads [''a'', ''x''] i)) [0..<n])"
proof -
  obtain c r where s: "sniffer 100 TCP False (reads [''a'', ''x'']) [clueless] '''' = (c, r)" by (metis prod.collapse)
  from sniffing_loses_no_byte [OF s, of "Inr ''''"] s show ?thesis by auto
qed

end
