(* ===== verification/Xray_Dispatch.thy ===== *)
theory Xray_Dispatch
  imports Xray_Laws Xray_Sniff
begin

text \<open>
  The dispatcher of the xray core as a whole (core/xray/app/dispatcher/default.go): Dispatch
  and DispatchLink, with shouldOverride between sniffing and the rules. The goroutine of
  Dispatch is run to its end; its link was made before.
\<close>

subsection \<open>Requests and destinations\<close>

datatype xaddr = DomainAddr string | IPAddr string

record destination =
  d_Address :: xaddr
  d_valid :: bool
  d_Network :: net_kind

record sniffing_request =
  sq_Enabled :: bool
  MetadataOnly :: bool
  RouteOnly :: bool
  ExcludeForDomain :: "string list"
  OverrideDestinationForProtocol :: "string list"

text \<open>
  What the dispatcher asks elsewhere: compiling and matching an expression, whether the fake
  DNS has an address in its pool (None without such an engine), and parsing an address.
\<close>

record dispatch_std =
  compiles :: "string \<Rightarrow> bool"
  matches :: "string \<Rightarrow> string \<Rightarrow> bool"
  in_pool :: "xaddr \<Rightarrow> bool option"
  parse_addr :: "string \<Rightarrow> xaddr"

definition excludes :: "dispatch_std \<Rightarrow> string \<Rightarrow> string \<Rightarrow> bool" where
  "excludes D domain d =
     (if hasPrefix d ''regexp:'' then compiles D (drop 7 d) \<and> matches D (drop 7 d) domain
      else toLower domain = d)"

definition is_ip :: "xaddr \<Rightarrow> bool" where
  "is_ip a = (case a of IPAddr _ \<Rightarrow> True | DomainAddr _ \<Rightarrow> False)"

definition protocol_for_domain :: "sniff_result \<Rightarrow> string" where
  "protocol_for_domain r = (case ProtocolForDomainResult r of Some p \<Rightarrow> p | None \<Rightarrow> sr_Protocol r)"

definition overrides :: "dispatch_std \<Rightarrow> sniff_result \<Rightarrow> xaddr \<Rightarrow> string \<Rightarrow> bool" where
  "overrides D r address p =
     (let protocolString = protocol_for_domain r
      in if hasPrefix protocolString p \<or> hasPrefix p protocolString then True
         else if protocolString \<noteq> ''bittorrent'' \<and> p = ''fakedns'' \<and> is_ip address \<and> in_pool D address = Some True
         then True
         else (case IsProtoSubsetOf r p of Some b \<Rightarrow> b | None \<Rightarrow> False))"

definition shouldOverride :: "dispatch_std \<Rightarrow> sniff_result \<Rightarrow> sniffing_request \<Rightarrow> destination \<Rightarrow> bool" where
  "shouldOverride D r req dest =
     (if sr_Domain r = '''' then False
      else if \<exists>d\<in>set (ExcludeForDomain req). excludes D (sr_Domain r) d then False
      else \<exists>p\<in>set (OverrideDestinationForProtocol req). overrides D r (d_Address dest) p)"

subsection \<open>After sniffing\<close>

text \<open>
  The destination that the rules see, the target and the route target of the outbound, and
  the protocol of the content. checkIP says whether the pool is asked for IP targets only,
  which Dispatch does and DispatchLink does not.
\<close>

record outbound_target =
  ob_Target :: destination
  ob_RouteTarget :: "destination option"

definition after_sniffing ::
  "dispatch_std \<Rightarrow> bool \<Rightarrow> sniffing_request \<Rightarrow> sniff_outcome \<Rightarrow> destination \<Rightarrow> string
   \<Rightarrow> destination \<times> outbound_target \<times> string" where
  "after_sniffing D checkIP req outcome dest protocol =
     (let ob = \<lparr>ob_Target = dest, ob_RouteTarget = None\<rparr>
      in case outcome of
           Inl _ \<Rightarrow> (dest, ob, protocol)
         | Inr r \<Rightarrow>
             (if shouldOverride D r req dest then
                (let dest' = dest\<lparr>d_Address := parse_addr D (sr_Domain r)\<rparr>;
                     p = protocol_for_domain r;
                     isFakeIP = ((checkIP \<longrightarrow> is_ip (d_Address dest)) \<and> in_pool D (d_Address dest) = Some True)
                 in if RouteOnly req \<and> p \<noteq> ''fakedns'' \<and> p \<noteq> ''fakedns+others'' \<and> \<not> isFakeIP
                    then (dest', ob\<lparr>ob_RouteTarget := Some dest'\<rparr>, sr_Protocol r)
                    else (dest', ob\<lparr>ob_Target := dest'\<rparr>, sr_Protocol r))
              else (dest, ob, sr_Protocol r)))"

definition addr_str :: "xaddr \<Rightarrow> string" where
  "addr_str a = (case a of DomainAddr s \<Rightarrow> s | IPAddr s \<Rightarrow> s)"

subsection \<open>Dispatch\<close>

text \<open>
  The session of a connection: the inbound's tag, its user's email (empty without a user), the
  source's address and whether it came over TCP, whether there is a user at all, and the
  routing that xray does. sniff is the outcome of sniffing, content the protocol that the
  content had before.
\<close>

record dsession =
  ds_tag :: string
  ds_email :: string
  ds_ip :: string
  ds_srcTcp :: bool
  ds_hasUser :: bool
  ds_handlers :: "string set"
  ds_default :: "string option"
  ds_forced :: string
  ds_route :: "outbound_target \<Rightarrow> string \<Rightarrow> string option"
  ds_content :: string

definition ruled ::
  "(string \<Rightarrow> string \<Rightarrow> bool) \<Rightarrow> dsession \<Rightarrow> destination \<Rightarrow> outbound_target \<Rightarrow> string \<Rightarrow> string \<Rightarrow> nat option
   \<Rightarrow> 'b limiters \<Rightarrow> verdict result" where
  "ruled matchString c dest ob routeProtocol protocol l g =
     routedDispatch matchString (ds_handlers c) (ds_default c) (ds_forced c) (ds_route c ob routeProtocol)
       (ds_hasUser c) (ds_tag c) (addr_str (d_Address dest)) protocol l g"

definition dispatched ::
  "(string \<Rightarrow> string \<Rightarrow> bool) \<Rightarrow> dispatch_std \<Rightarrow> bool \<Rightarrow> dsession \<Rightarrow> sniffing_request \<Rightarrow> sniff_outcome \<Rightarrow> destination
   \<Rightarrow> nat option \<Rightarrow> 'b limiters \<Rightarrow> verdict result" where
  "dispatched matchString D checkIP c req outcome dest l g =
     (if \<not> sq_Enabled req
      then ruled matchString c dest \<lparr>ob_Target = dest, ob_RouteTarget = None\<rparr> (ds_content c) '''' l g
      else case after_sniffing D checkIP req outcome dest (ds_content c) of
             (dest', ob, protocol) \<Rightarrow> ruled matchString c dest' ob protocol protocol l g)"

definition limiter_of :: "(link \<times> 'b option \<times> nat) option \<Rightarrow> nat option" where
  "limiter_of r = map_option (\<lambda>(ln, w, a). a) r"

definition Dispatch ::
  "(int \<Rightarrow> int \<Rightarrow> int \<Rightarrow> 'b) \<Rightarrow> int \<Rightarrow> (string \<Rightarrow> string \<Rightarrow> bool) \<Rightarrow> dispatch_std \<Rightarrow> dsession \<Rightarrow> sniffing_request
   \<Rightarrow> sniff_outcome \<Rightarrow> destination \<Rightarrow> nat \<times> nat \<Rightarrow> nat \<times> nat \<Rightarrow> 'm xray \<times> 'b limiters
   \<Rightarrow> ('m xray \<times> 'b limiters) \<times> verdict result" where
  "Dispatch newBucket now matchString D c req outcome dest up down st =
     (if \<not> d_valid dest then (st, Inl (Panic ''Dispatcher: Invalid destination.''))
      else case getLink newBucket now (ds_tag c) (ds_email c) (ds_ip c) (d_Network dest = TCP) (ds_srcTcp c) up down st of
             (st', Inl e) \<Rightarrow> (st', Inl e)
           | (st', Inr r) \<Rightarrow> (st', dispatched matchString D True c req outcome dest (limiter_of r) (snd st')))"

subsection \<open>DispatchLink\<close>

text \<open>
  The link is given here: its writer is wrapped and its reader counted, and a refusal closes
  the one and interrupts the other.
\<close>

definition adopt_link ::
  "(int \<Rightarrow> int \<Rightarrow> int \<Rightarrow> 'b) \<Rightarrow> int \<Rightarrow> string \<Rightarrow> string \<Rightarrow> string \<Rightarrow> bool \<Rightarrow> bool \<Rightarrow> nat \<times> nat
   \<Rightarrow> 'm xray \<times> 'b limiters \<Rightarrow> ('m xray \<times> 'b limiters) \<times> (link \<times> 'b option \<times> nat) option result" where
  "adopt_link newBucket now tag email ip isTcp srcTcp outb st =
     (case st of (x, g) \<Rightarrow>
        (let refuse = x\<lparr>closed_writers := insert (fst outb) (closed_writers x),
                        interrupted := insert (snd outb) (interrupted x)\<rparr>
         in if email = '''' then ((x, g), Inr None)
            else case GetLimiter tag g of
                   Inl e \<Rightarrow> ((refuse, g), Inl (wrap_err (''get limiter '' @ tag @ '' error: '') e))
                 | Inr a \<Rightarrow>
                     (let (l, w, reject) = CheckLimit newBucket now email ip isTcp srcTcp (lims g a);
                          g' = g\<lparr>lims := (lims g)(a := l)\<rparr>
                      in if reject then ((refuse, g'), Inl (Err (''Limited '' @ email @ '' by conn or ip'')))
                         else (let (x', ln) = open_link tag email (fst outb) (snd outb) x
                               in ((x', g'), Inr (Some (ln, w, a)))))))"

definition DispatchLink ::
  "(int \<Rightarrow> int \<Rightarrow> int \<Rightarrow> 'b) \<Rightarrow> int \<Rightarrow> (string \<Rightarrow> string \<Rightarrow> bool) \<Rightarrow> dispatch_std \<Rightarrow> dsession \<Rightarrow> sniffing_request
   \<Rightarrow> sniff_outcome \<Rightarrow> destination \<Rightarrow> nat \<times> nat \<Rightarrow> 'm xray \<times> 'b limiters
   \<Rightarrow> ('m xray \<times> 'b limiters) \<times> verdict result" where
  "DispatchLink newBucket now matchString D c req outcome dest outb st =
     (if \<not> d_valid dest then (st, Inl (Err ''Dispatcher: Invalid destination.''))
      else case adopt_link newBucket now (ds_tag c) (ds_email c) (ds_ip c) (d_Network dest = TCP) (ds_srcTcp c) outb st of
             (st', Inl e) \<Rightarrow> (st', Inl e)
           | (st', Inr r) \<Rightarrow> (st', dispatched matchString D False c req outcome dest (limiter_of r) (snd st')))"

subsection \<open>Properties\<close>

text \<open>
  Without sniffing there are no protocol rules. A connection of a node whose sniffing is
  off, or whose first bytes say nothing where the content has no protocol yet, is judged by
  the domain rules on its literal destination alone: the protocol rules of the panel are not
  consulted, whatever the connection carries.
\<close>

theorem no_sniffing_no_protocol_rules:
  assumes "\<not> sq_Enabled req \<or> (\<exists>e. outcome = Inl e) \<and> ds_content c = ''''"
  shows "dispatched ms D checkIP c req outcome dest l g =
      dispatched ms D checkIP c req outcome dest l
        (g\<lparr>lims := \<lambda>a. (lims g a)\<lparr>ProtocolRules := ps\<rparr>\<rparr>)"
proof -
  let ?g = "g\<lparr>lims := \<lambda>a. (lims g a)\<lparr>ProtocolRules := ps\<rparr>\<rparr>"
  have r: "rule_rejects ms d '''' (Some (L\<lparr>ProtocolRules := ps\<rparr>)) = rule_rejects ms d '''' (Some L)" for d and L :: "'a Limiter"
    by (simp add: rule_rejects_def CheckDomainRule_def split: sum.split bool.split)
  have "ruled ms c dest ob rp '''' l ?g = ruled ms c dest ob rp '''' l g" for ob rp
  proof -
    have "GetLimiter (ds_tag c) ?g = GetLimiter (ds_tag c) g" by (simp add: GetLimiter_def)
    then show ?thesis
      by (cases l; cases "GetLimiter (ds_tag c) g") (simp_all add: ruled_def routedDispatch_def r Let_def)
  qed
  with assms show ?thesis by (auto simp: dispatched_def after_sniffing_def)
qed

definition tls_conn :: dsession where
  "tls_conn =
     \<lparr>ds_tag = ''n'', ds_email = ''n|u'', ds_ip = ''1.1.1.1'', ds_srcTcp = True, ds_hasUser = True, ds_handlers = {''n''},
      ds_default = Some ''n'', ds_forced = '''', ds_route = \<lambda>_ _. None, ds_content = ''''\<rparr>"

definition no_sniffing :: sniffing_request where
  "no_sniffing =
     \<lparr>sq_Enabled = False, MetadataOnly = False, RouteOnly = False, ExcludeForDomain = [],
      OverrideDestinationForProtocol = []\<rparr>"

definition some_dest :: destination where
  "some_dest = \<lparr>d_Address = IPAddr ''9.9.9.9'', d_valid = True, d_Network = TCP\<rparr>"

definition plain_dispatch :: dispatch_std where
  "plain_dispatch =
     \<lparr>compiles = \<lambda>s. True, matches = \<lambda>s d. False, in_pool = \<lambda>a. None, parse_addr = DomainAddr\<rparr>"

definition open_registry :: "int limiters" where
  "open_registry = \<lparr>registry = [''n'' \<mapsto> 0], lims = \<lambda>_. one_user 100 (plain_user 7 30 0), next_lim = 1\<rparr>"

theorem no_sniffing_no_protocol_rules_witness:
  "dispatched (\<lambda>_ _. False) plain_dispatch True tls_conn no_sniffing (Inr (Sniffed ''bittorrent'' '''')) some_dest (Some 0) open_registry =
   dispatched (\<lambda>_ _. False) plain_dispatch True tls_conn no_sniffing (Inr (Sniffed ''bittorrent'' '''')) some_dest (Some 0)
     (open_registry\<lparr>lims := \<lambda>a. (lims open_registry a)\<lparr>ProtocolRules := [''bittorrent'']\<rparr>\<rparr>)"
proof -
  have "\<not> sq_Enabled no_sniffing \<or> (\<exists>e. Inr (Sniffed ''bittorrent'' '''') = (Inl e :: sniff_outcome)) \<and> ds_content tls_conn = ''''"
    by (simp add: no_sniffing_def)
  from no_sniffing_no_protocol_rules [OF this] show ?thesis .
qed

text \<open>The destination and the protocol that the rules are asked about.\<close>

definition judged :: "dispatch_std \<Rightarrow> bool \<Rightarrow> dsession \<Rightarrow> sniffing_request \<Rightarrow> sniff_outcome \<Rightarrow> destination \<Rightarrow> string \<times> string" where
  "judged D checkIP c req outcome dest =
     (if sq_Enabled req
      then (case after_sniffing D checkIP req outcome dest (ds_content c) of (d, ob, p) \<Rightarrow> (addr_str (d_Address d), p))
      else (addr_str (d_Address dest), ''''))"

lemma routedDispatch_to:
  assumes "routedDispatch ms hs dflt forced route True tag d p (Some a) g = Inr (DispatchTo h)"
  shows "rule_rejects ms d p (Some (lims g a)) = Inr False" "pick_handler hs dflt forced route = DispatchTo h"
  using assms by (auto simp: routedDispatch_def Let_def split: sum.splits bool.splits)

lemma dispatched_to:
  assumes "dispatched ms D k c req outcome dest (Some a) g = Inr (DispatchTo h)" "ds_hasUser c"
  shows "rule_rejects ms (fst (judged D k c req outcome dest)) (snd (judged D k c req outcome dest)) (Some (lims g a)) = Inr False"
proof (cases "sq_Enabled req")
  case True
  obtain d ob p where a: "after_sniffing D k req outcome dest (ds_content c) = (d, ob, p)" by (metis prod_cases3)
  have "ruled ms c d ob p p (Some a) g = Inr (DispatchTo h)" using assms(1) True a by (simp add: dispatched_def)
  then show ?thesis using routedDispatch_to(1) assms(2) True a by (simp add: ruled_def judged_def)
next
  case False
  then have "ruled ms c dest \<lparr>ob_Target = dest, ob_RouteTarget = None\<rparr> (ds_content c) '''' (Some a) g = Inr (DispatchTo h)"
    using assms(1) by (simp add: dispatched_def)
  then show ?thesis using routedDispatch_to(1) assms(2) False by (simp add: ruled_def judged_def)
qed



end
