(* ===== verification/Go_Net.thy ===== *)
theory Go_Net
  imports Go_Strings
begin

text \<open>
  net.SplitHostPort of Go's standard library, with core/hy2/config.go's formatAddress and
  extractPortFromAddr, which print and read an address, and their round trip.
\<close>

definition index_of :: "char \<Rightarrow> string \<Rightarrow> nat option" where
  "index_of c s = (if c \<in> set s then Some (length (takeWhile (\<lambda>d. d \<noteq> c) s)) else None)"

definition last_index :: "char \<Rightarrow> string \<Rightarrow> nat option" where
  "last_index c s = (if c \<in> set s then Some (length s - 1 - length (takeWhile (\<lambda>d. d \<noteq> c) (rev s))) else None)"

text \<open>None stands for an error; the code never reads its text.\<close>

definition SplitHostPort :: "string \<Rightarrow> (string \<times> string) option" where
  "SplitHostPort s =
     (case last_index CHR '':'' s of
        None \<Rightarrow> None
      | Some i \<Rightarrow>
          (if hd s = CHR ''['' then
             (case index_of CHR '']'' s of
                None \<Rightarrow> None
              | Some e \<Rightarrow>
                  (if e + 1 \<noteq> i \<or> CHR ''['' \<in> set (drop 1 s) \<or> CHR '']'' \<in> set (drop (e + 1) s) then None
                   else Some (take (e - 1) (drop 1 s), drop (i + 1) s)))
           else if CHR '':'' \<in> set (take i s) \<or> CHR ''['' \<in> set s \<or> CHR '']'' \<in> set s then None
           else Some (take i s, drop (i + 1) s)))"

definition formatAddress :: "string \<Rightarrow> int \<Rightarrow> string" where
  "formatAddress ip port =
     (if contains ip '':'' then ''['' @ ip @ '']:'' @ itoa port else ip @ '':'' @ itoa port)"

definition extractPortFromAddr :: "string \<Rightarrow> int" where
  "extractPortFromAddr addr =
     (case SplitHostPort addr of
        None \<Rightarrow> 0
      | Some (_, portStr) \<Rightarrow> (case atoi portStr of (_, Some _) \<Rightarrow> 0 | (port, None) \<Rightarrow> port))"

subsection \<open>The round trip\<close>

lemma takeWhile_until: "c \<notin> set s \<Longrightarrow> takeWhile (\<lambda>d. d \<noteq> c) (s @ c # t) = s"
  by (induction s) auto

lemma last_index_append: "c \<notin> set t \<Longrightarrow> last_index c (s @ c # t) = Some (length s)"
  by (simp add: last_index_def takeWhile_until)

lemma index_of_append: "c \<notin> set s \<Longrightarrow> index_of c (s @ c # t) = Some (length s)"
  by (simp add: index_of_def takeWhile_until)

lemma split_plain:
  assumes "set host \<inter> {CHR '':'', CHR ''['', CHR '']''} = {}" "set port \<inter> {CHR '':'', CHR ''['', CHR '']''} = {}"
  shows "SplitHostPort (host @ '':'' @ port) = Some (host, port)"
proof -
  have "last_index CHR '':'' (host @ CHR '':'' # port) = Some (length host)"
    by (rule last_index_append) (use assms(2) in auto)
  moreover have "hd (host @ CHR '':'' # port) \<noteq> CHR ''[''" using assms(1) by (cases host) auto
  ultimately show ?thesis using assms by (auto simp: SplitHostPort_def)
qed

lemma split_bracket:
  assumes "set host \<inter> {CHR ''['', CHR '']''} = {}" "set port \<inter> {CHR '':'', CHR ''['', CHR '']''} = {}"
  shows "SplitHostPort (''['' @ host @ '']:'' @ port) = Some (host, port)"
proof -
  let ?s = "CHR ''['' # host @ CHR '']'' # CHR '':'' # port"
  have l: "last_index CHR '':'' ?s = Some (length host + 2)"
    using last_index_append [of "CHR '':''" port "CHR ''['' # host @ [CHR '']'']"] assms(2) by simp
  have i: "index_of CHR '']'' ?s = Some (length host + 1)"
    using index_of_append [of "CHR '']''" "CHR ''['' # host" "CHR '':'' # port"] assms(1) by auto
  show ?thesis using assms by (auto simp: SplitHostPort_def l i)
qed

lemma nat_str_no_punct: "set (nat_str n) \<inter> {CHR '':'', CHR ''['', CHR '']''} = {}"
proof -
  have "digit_val c \<noteq> None" if "c \<in> set (nat_str n)" for c
    using nat_str_digits [OF that] by (auto simp: digit_val_digit_char)
  moreover have "digit_val CHR '':'' = None" "digit_val CHR ''['' = None" "digit_val CHR '']'' = None"
    by (simp_all add: digit_val_def)
  ultimately show ?thesis by force
qed

lemma itoa_no_punct: "set (itoa i) \<inter> {CHR '':'', CHR ''['', CHR '']''} = {}"
  using nat_str_no_punct by (auto simp: itoa_def)

lemma contains_char: "contains s [c] \<longleftrightarrow> c \<in> set s"
  by (auto simp: contains_iff in_set_conv_decomp)

lemma split_formatAddress:
  assumes "set ip \<inter> {CHR ''['', CHR '']''} = {}"
  shows "SplitHostPort (formatAddress ip port) = Some (ip, itoa port)"
proof (cases "contains ip '':''")
  case True
  then show ?thesis using split_bracket [OF assms itoa_no_punct, of port] by (simp add: formatAddress_def)
next
  case False
  then have "set ip \<inter> {CHR '':'', CHR ''['', CHR '']''} = {}" using assms by (auto simp: contains_char)
  from split_plain [OF this itoa_no_punct, of port] False show ?thesis by (simp add: formatAddress_def)
qed

text \<open>
  Addresses round-trip. An address printed by formatAddress, from an IP address of either
  family (no brackets in it) and any int for the port, splits into that IP and the printed
  port, and extractPortFromAddr reads the port back; two pairs that print alike are equal.
\<close>

theorem address_round_trip:
  assumes "set ip \<inter> {CHR ''['', CHR '']''} = {}" "in_i64 port"
  shows "SplitHostPort (formatAddress ip port) = Some (ip, itoa port)
    \<and> extractPortFromAddr (formatAddress ip port) = port
    \<and> (set ip' \<inter> {CHR ''['', CHR '']''} = {} \<longrightarrow> formatAddress ip port = formatAddress ip' port' \<longrightarrow> ip = ip' \<and> port = port')"
proof (intro conjI impI)
  show s: "SplitHostPort (formatAddress ip port) = Some (ip, itoa port)" by (rule split_formatAddress [OF assms(1)])
  show "extractPortFromAddr (formatAddress ip port) = port"
    by (simp add: extractPortFromAddr_def s atoi_itoa [OF assms(2)])
  assume "set ip' \<inter> {CHR ''['', CHR '']''} = {}" "formatAddress ip port = formatAddress ip' port'"
  with s split_formatAddress [of ip' port'] show "ip = ip'" "port = port'" by (auto dest: itoa_inj)
qed

theorem address_round_trip_witness:
  "extractPortFromAddr (formatAddress ''::1'' 443) = 443 \<and> SplitHostPort (formatAddress ''::1'' 443) = Some (''::1'', itoa 443)"
  using address_round_trip [of "''::1''" 443 "''::1''" 443] by (simp add: in_i64_def)

end
