(* ===== verification/Go_Base64.thy ===== *)
theory Go_Base64
  imports Go_Strings
begin

text \<open>
  encoding/base64's standard encoding, which the cores use for the keys of shadowsocks users:
  EncodeToString and the decoding that a client of such a key performs, with the round trip.
\<close>

definition b64_alphabet :: string where
  "b64_alphabet = ''ABCDEFGHIJKLMNOPQRSTUVWXYZabcdefghijklmnopqrstuvwxyz0123456789+/''"

definition b64_char :: "nat \<Rightarrow> char" where
  "b64_char n = b64_alphabet ! n"

definition byte_of :: "char \<Rightarrow> nat" where
  "byte_of c = of_char c"

text \<open>Three bytes give four digits; the last one or two bytes give two or three and padding.\<close>

fun EncodeToString :: "string \<Rightarrow> string" where
  "EncodeToString [] = []"
| "EncodeToString [a] =
     [b64_char (byte_of a div 4), b64_char (byte_of a mod 4 * 16), CHR ''='', CHR ''='']"
| "EncodeToString [a, b] =
     [b64_char (byte_of a div 4), b64_char (byte_of a mod 4 * 16 + byte_of b div 16),
      b64_char (byte_of b mod 16 * 4), CHR ''='']"
| "EncodeToString (a # b # c # s) =
     b64_char (byte_of a div 4) # b64_char (byte_of a mod 4 * 16 + byte_of b div 16)
     # b64_char (byte_of b mod 16 * 4 + byte_of c div 64) # b64_char (byte_of c mod 64) # EncodeToString s"

subsection \<open>Decoding\<close>

definition b64_digit :: "char \<Rightarrow> nat" where
  "b64_digit c = length (takeWhile (\<lambda>d. d \<noteq> c) b64_alphabet)"

fun b64_decode :: "string \<Rightarrow> string" where
  "b64_decode (p # q # r # s # t) =
     (if r = CHR ''='' then [char_of (b64_digit p * 4 + b64_digit q div 16)]
      else if s = CHR ''='' then
        [char_of (b64_digit p * 4 + b64_digit q div 16), char_of (b64_digit q mod 16 * 16 + b64_digit r div 4)]
      else char_of (b64_digit p * 4 + b64_digit q div 16) # char_of (b64_digit q mod 16 * 16 + b64_digit r div 4)
        # char_of (b64_digit r mod 4 * 64 + b64_digit s) # b64_decode t)"
| "b64_decode _ = []"

lemma b64_alphabet_ok: "distinct b64_alphabet \<and> length b64_alphabet = 64 \<and> CHR ''='' \<notin> set b64_alphabet"
  unfolding b64_alphabet_def by code_simp

lemma b64_char_neq_pad [simp]: "n < 64 \<Longrightarrow> b64_char n \<noteq> CHR ''=''"
  using b64_alphabet_ok nth_mem [of n b64_alphabet] by (metis b64_char_def)

lemma takeWhile_nth_distinct:
  assumes "distinct xs" "n < length xs"
  shows "length (takeWhile (\<lambda>d. d \<noteq> xs ! n) xs) = n"
  using assms
proof (induction xs arbitrary: n)
  case (Cons x xs)
  then show ?case by (cases n) auto
qed simp

lemma b64_digit_char [simp]: "n < 64 \<Longrightarrow> b64_digit (b64_char n) = n"
  using b64_alphabet_ok takeWhile_nth_distinct [of b64_alphabet n] by (simp add: b64_digit_def b64_char_def)

lemma byte_of_less [simp]: "byte_of c < 256"
  unfolding byte_of_def by (metis of_char_mod_256 mod_less_divisor zero_less_numeral)

lemma char_of_byte [simp]: "char_of (byte_of c) = c"
  by (simp add: byte_of_def)

text \<open>The digits of a group, and the bytes read back from them.\<close>

lemma b64_digits_less:
  "byte_of a div 4 < 64" "byte_of a mod 4 * 16 + byte_of b div 16 < 64"
  "byte_of a mod 16 * 4 + byte_of b div 64 < 64" "byte_of a mod 64 < 64"
  "byte_of a mod 4 * 16 < 64" "byte_of a mod 16 * 4 < 64"
  using byte_of_less [of a] byte_of_less [of b] by linarith+

lemma byte_parts [simp]:
  "byte_of b div 16 div 16 = 0" "byte_of b div 16 mod 16 = byte_of b div 16"
  "byte_of b div 64 div 4 = 0" "byte_of b div 64 mod 4 = byte_of b div 64"
  using byte_of_less [of b] by (simp_all add: div_mult2_eq [symmetric] less_mult_imp_div_less)

lemma b64_decode_encode: "b64_decode (EncodeToString s) = s"
  by (induction s rule: EncodeToString.induct) (simp_all add: b64_digits_less)

lemma EncodeToString_inj: "EncodeToString s = EncodeToString t \<longleftrightarrow> s = t"
  by (metis b64_decode_encode)

lemma EncodeToString_length: "length (EncodeToString s) = 4 * ((length s + 2) div 3)"
proof (induction s rule: EncodeToString.induct)
  case (4 a b c s)
  have "length (a # b # c # s) + 2 = length s + 2 + 3" by simp
  then show ?case using 4 by (simp only: div_add_self2) simp
qed simp_all

subsection \<open>DecodeString\<close>

text \<open>
  The decoder skips line ends, wants groups of four digits and allows one or two signs of
  padding at the end. None stands for its error, of which only the fact is used.
\<close>

definition b64_clean :: "string \<Rightarrow> string" where
  "b64_clean s = filter (\<lambda>c. c \<noteq> CHR 0x0A \<and> c \<noteq> CHR 0x0D) s"

definition b64_valid :: "string \<Rightarrow> bool" where
  "b64_valid t \<longleftrightarrow> length t mod 4 = 0
     \<and> (\<forall>c\<in>set (takeWhile (\<lambda>c. c \<noteq> CHR ''='') t). c \<in> set b64_alphabet)
     \<and> dropWhile (\<lambda>c. c \<noteq> CHR ''='') t \<in> {'''', ''='', ''==''}"

definition DecodeString :: "string \<Rightarrow> string option" where
  "DecodeString s = (if b64_valid (b64_clean s) then Some (b64_decode (b64_clean s)) else None)"

text \<open>The encoding without padding for URLs.\<close>

definition RawURLEncode :: "string \<Rightarrow> string" where
  "RawURLEncode s =
     map (\<lambda>c. if c = CHR ''+'' then CHR ''-'' else if c = CHR ''/'' then CHR ''_'' else c)
       (filter (\<lambda>c. c \<noteq> CHR ''='') (EncodeToString s))"

lemma b64_char_in [simp]: "n < 64 \<Longrightarrow> b64_char n \<in> set b64_alphabet"
  using b64_alphabet_ok by (simp add: b64_char_def)

lemma EncodeToString_shape:
  "\<exists>b p. EncodeToString s = b @ replicate p CHR ''='' \<and> p \<le> 2 \<and> set b \<subseteq> set b64_alphabet"
proof (induction s rule: EncodeToString.induct)
  case (2 a)
  have "EncodeToString [a] = [b64_char (byte_of a div 4), b64_char (byte_of a mod 4 * 16)] @ replicate 2 CHR ''=''"
    by (simp add: numeral_2_eq_2)
  moreover have "set [b64_char (byte_of a div 4), b64_char (byte_of a mod 4 * 16)] \<subseteq> set b64_alphabet"
    by (simp add: b64_digits_less)
  ultimately show ?case by blast
next
  case (3 a b)
  let ?d = "[b64_char (byte_of a div 4), b64_char (byte_of a mod 4 * 16 + byte_of b div 16), b64_char (byte_of b mod 16 * 4)]"
  have "EncodeToString [a, b] = ?d @ replicate (Suc 0) CHR ''=''" by simp
  moreover have "set ?d \<subseteq> set b64_alphabet" by (simp add: b64_digits_less)
  ultimately show ?case by (intro exI [of _ ?d] exI [of _ "Suc 0"]) simp
next
  case (4 a b c s)
  let ?d = "[b64_char (byte_of a div 4), b64_char (byte_of a mod 4 * 16 + byte_of b div 16),
    b64_char (byte_of b mod 16 * 4 + byte_of c div 64), b64_char (byte_of c mod 64)]"
  from 4 obtain t p where t: "EncodeToString s = t @ replicate p CHR ''=''" "p \<le> 2" "set t \<subseteq> set b64_alphabet" by blast
  then have "EncodeToString (a # b # c # s) = (?d @ t) @ replicate p CHR ''=''" by simp
  moreover have "set (?d @ t) \<subseteq> set b64_alphabet" using t(3) by (simp add: b64_digits_less)
  ultimately show ?case using t(2) by blast
qed simp

lemma b64_no_line_end: "CHR 0x0A \<notin> set b64_alphabet \<and> CHR 0x0D \<notin> set b64_alphabet"
  unfolding b64_alphabet_def by code_simp

lemma DecodeString_EncodeToString: "DecodeString (EncodeToString s) = Some s"
proof -
  obtain b p where e: "EncodeToString s = b @ replicate p CHR ''=''" and p: "p \<le> 2" and b: "set b \<subseteq> set b64_alphabet"
    using EncodeToString_shape by blast
  have nl: "\<forall>c\<in>set b. c \<noteq> CHR 0x0A \<and> c \<noteq> CHR 0x0D \<and> c \<noteq> CHR ''=''"
    using b b64_no_line_end b64_alphabet_ok by (metis in_mono)
  have "\<forall>c\<in>set (b @ replicate p CHR ''=''). c \<noteq> CHR 0x0A \<and> c \<noteq> CHR 0x0D"
    unfolding set_append ball_Un using nl by (simp add: set_replicate_conv_if)
  then have c: "b64_clean (EncodeToString s) = EncodeToString s"
    unfolding b64_clean_def e filter_id_conv .
  have "takeWhile (\<lambda>c. c \<noteq> CHR ''='') (EncodeToString s) = b \<and> dropWhile (\<lambda>c. c \<noteq> CHR ''='') (EncodeToString s) = replicate p CHR ''=''"
    unfolding e using nl by (cases p) (simp_all add: takeWhile_append2 dropWhile_append2)
  moreover have "replicate p CHR ''='' \<in> {'''', ''='', ''==''}"
  proof -
    from p have "p = 0 \<or> p = Suc 0 \<or> p = Suc (Suc 0)" by linarith
    then show ?thesis by auto
  qed
  ultimately have "b64_valid (EncodeToString s)"
    using b unfolding b64_valid_def by (simp add: EncodeToString_length subset_iff)
  then show ?thesis by (simp add: DecodeString_def c b64_decode_encode)
qed

end
