(* ===== verification/Xray_Inbound.thy ===== *)
theory Xray_Inbound
  imports Xray_Core Go_Net Go_Base64
begin

text \<open>
  What the xray core asks xray to run for a node: core/xray/inbound.go and outbound.go. The
  JSON of the transports is decoded into values of a type 'j the code does not look into, but
  for the proxy protocol flag of tcp and ws; the settings that the code marshals (which cannot
  fail for these structs) are kept as their structs. The Build methods of xray are parameters.
\<close>

subsection \<open>Data\<close>

record xfallback =
  xf_Name :: string
  xf_Alpn :: string
  xf_Path :: string
  xf_Dest :: string
  xf_Xver :: "64 word"

record xss_settings =
  xs_Cipher :: string
  xs_Password :: string
  xs_Users :: "(string \<times> string) list"
  NetworkList :: "string list"
  IVCheck :: bool

datatype xsettings =
    NoSettings
  | VLessInbound string "xfallback list"
  | VMessInbound
  | TrojanServer "xfallback list"
  | EmptyObject
  | ShadowsocksServer xss_settings

record 'j proxied =
  AcceptProxyProtocol :: bool
  OtherSettings :: 'j

record xtls =
  xt_CertFile :: string
  xt_KeyFile :: string
  OcspStapling :: nat
  RejectUnknownSNI :: bool

record xreality =
  xr_Dest :: string
  xr_Xver :: "64 word"
  ServerNames :: "string list"
  xr_PrivateKey :: string
  xr_MinClientVer :: string
  xr_MaxClientVer :: string
  xr_MaxTimeDiff :: "64 word"
  ShortIds :: "string list"
  xr_Mldsa65Seed :: string

record 'j xstream =
  xm_Network :: string
  TCPSettings :: "'j proxied option"
  WSSettings :: "'j proxied option"
  GRPCSettings :: "'j option"
  HTTPUPGRADESettings :: "'j option"
  SplitHTTPSettings :: "'j option"
  SocketSettings :: "(bool \<times> bool) option"
  xm_Security :: string
  TLSSettings :: "xtls option"
  REALITYSettings :: "xreality option"

definition new_stream :: "string \<Rightarrow> 'j xstream" where
  "new_stream network =
     \<lparr>xm_Network = network, TCPSettings = None, WSSettings = None, GRPCSettings = None, HTTPUPGRADESettings = None,
      SplitHTTPSettings = None, SocketSettings = None, xm_Security = '''', TLSSettings = None, REALITYSettings = None\<rparr>"

record 'j xinbound =
  xi_Protocol :: string
  xi_Settings :: xsettings
  StreamSetting :: "'j xstream option"
  PortFrom :: "32 word"
  PortTo :: "32 word"
  ListenOn :: string
  SniffingEnabled :: bool
  DestOverride :: "string list"
  xi_Tag :: string

text \<open>Decoders: an error, or the value, None for the JSON null.\<close>

record 'j xray_std =
  dec_tcp :: "string \<Rightarrow> string + 'j proxied option"
  dec_ws :: "string \<Rightarrow> string + 'j proxied option"
  dec_grpc :: "string \<Rightarrow> string + 'j option"
  dec_httpupgrade :: "string \<Rightarrow> string + 'j option"
  dec_xhttp :: "string \<Rightarrow> string + 'j option"
  zero_json :: 'j
  ParseAddress :: "string \<Rightarrow> string"
  xr_ParseDuration :: "string \<Rightarrow> int"
  xr_rand :: "nat \<Rightarrow> string + string"
  hex_encode :: "string \<Rightarrow> string"

definition decoded :: "string \<Rightarrow> string + 'a \<Rightarrow> 'a result" where
  "decoded what r = (case r of Inl e \<Rightarrow> Inl (Err (''unmarshal '' @ what @ '' settings error: '' @ e)) | Inr v \<Rightarrow> Inr v)"

subsection \<open>Fallbacks\<close>

fun fallback_list :: "FallBackConfigForXray list \<Rightarrow> xfallback list result" where
  "fallback_list [] = Inr []"
| "fallback_list (c # cs) =
     (if fx_Dest c = '''' then Inl (Err ''dest is required for fallback fialed'')
      else bind_res (fallback_list cs) (\<lambda>fs.
        Inr (\<lparr>xf_Name = fx_SNI c, xf_Alpn = fx_Alpn c, xf_Path = fx_Path c, xf_Dest = fx_Dest c,
              xf_Xver = ProxyProtocolVer c\<rparr> # fs)))"

text \<open>None stands for a nil slice.\<close>

definition buildVlessFallbacks :: "FallBackConfigForXray list option \<Rightarrow> xfallback list result" where
  "buildVlessFallbacks cs =
     (case cs of None \<Rightarrow> Inl (Err ''you must provide FallBackConfigs'') | Some l \<Rightarrow> fallback_list l)"

definition buildTrojanFallbacks :: "FallBackConfigForXray list option \<Rightarrow> xfallback list result" where
  "buildTrojanFallbacks cs =
     (case cs of None \<Rightarrow> Inl (Err ''you must provide FallBackConfigs'') | Some l \<Rightarrow> fallback_list l)"


subsection \<open>buildV2ray\<close>

definition vless_decryption :: "VAllssNode \<Rightarrow> string result" where
  "vless_decryption v =
     (if Encryption v = '''' then Inr ''none''
      else if Encryption v = ''mlkem768x25519plus'' then
        (let e = EncryptionSettings v
         in Inr (join ''.'' ([''mlkem768x25519plus'', Mode e, Ticket e]
              @ (if ServerPadding e \<noteq> '''' then [ServerPadding e] else []) @ [es_PrivateKey e])))
      else Inl (Err (''vless decryption method '' @ Encryption v @ '' is not support'')))"

definition v2ray_settings :: "XrayOptions option \<Rightarrow> string \<Rightarrow> VAllssNode \<Rightarrow> (string \<times> xsettings) result" where
  "v2ray_settings xo typ v =
     (if typ = ''vless'' then
        bind_res (deref xo) (\<lambda>o1.
          if EnableFallback o1 then
            bind_res (buildVlessFallbacks (FallBackConfigs o1)) (\<lambda>fs. Inr (''vless'', VLessInbound ''none'' fs))
          else bind_res (vless_decryption v) (\<lambda>d. Inr (''vless'', VLessInbound d [])))
      else Inr (''vmess'', VMessInbound))"

definition v2ray_stream :: "'j xray_std \<Rightarrow> VAllssNode \<Rightarrow> 'j xstream option result" where
  "v2ray_stream X v =
     (let s = NetworkSettings v; st = new_stream (Network v)
      in if s = '''' then Inr None
         else if Network v = ''tcp'' then
           bind_res (decoded ''tcp'' (dec_tcp X s)) (\<lambda>t. Inr (Some (st\<lparr>TCPSettings := t\<rparr>)))
         else if Network v = ''ws'' then
           bind_res (decoded ''ws'' (dec_ws X s)) (\<lambda>t. Inr (Some (st\<lparr>WSSettings := t\<rparr>)))
         else if Network v = ''grpc'' then
           bind_res (decoded ''grpc'' (dec_grpc X s)) (\<lambda>t. Inr (Some (st\<lparr>GRPCSettings := t\<rparr>)))
         else if Network v = ''httpupgrade'' then
           bind_res (decoded ''httpupgrade'' (dec_httpupgrade X s)) (\<lambda>t. Inr (Some (st\<lparr>HTTPUPGRADESettings := t\<rparr>)))
         else if Network v = ''splithttp'' \<or> Network v = ''xhttp'' then
           bind_res (decoded ''xhttp'' (dec_xhttp X s)) (\<lambda>t. Inr (Some (st\<lparr>SplitHTTPSettings := t\<rparr>)))
         else Inl (Err ''the network type is not vail''))"

definition buildV2ray :: "'j xray_std \<Rightarrow> Options \<Rightarrow> NodeInfo \<Rightarrow> 'j xinbound \<Rightarrow> 'j xinbound result" where
  "buildV2ray X config info inb =
     bind_res (deref (VAllss info)) (\<lambda>v.
     bind_res (v2ray_settings (o_XrayOptions config) (ni_Type info) v) (\<lambda>(protocol, settings).
     bind_res (v2ray_stream X v) (\<lambda>st.
     Inr (inb\<lparr>xi_Protocol := protocol, xi_Settings := settings, StreamSetting := st\<rparr>))))"

subsection \<open>buildTrojan and buildShadowsocks\<close>

definition trojan_network :: "TrojanNode \<Rightarrow> string" where
  "trojan_network v = (if tr_Network v = '''' then ''tcp'' else tr_Network v)"

definition trojan_stream :: "'j xray_std \<Rightarrow> TrojanNode \<Rightarrow> 'j xstream result" where
  "trojan_stream X v =
     (let s = tr_NetworkSettings v; network = trojan_network v; st = new_stream network
      in if network = ''tcp'' then
           bind_res (decoded ''tcp'' (dec_tcp X s)) (\<lambda>t. Inr (st\<lparr>TCPSettings := t\<rparr>))
         else if network = ''ws'' then
           bind_res (decoded ''ws'' (dec_ws X s)) (\<lambda>t. Inr (st\<lparr>WSSettings := t\<rparr>))
         else if network = ''grpc'' then
           bind_res (decoded ''grpc'' (dec_grpc X s)) (\<lambda>t. Inr (st\<lparr>GRPCSettings := t\<rparr>))
         else Inl (Err ''the network type is not vail''))"

definition buildTrojan :: "'j xray_std \<Rightarrow> Options \<Rightarrow> NodeInfo \<Rightarrow> 'j xinbound \<Rightarrow> 'j xinbound result" where
  "buildTrojan X config info inb =
     bind_res (deref (o_XrayOptions config)) (\<lambda>o1.
     bind_res (if EnableFallback o1 then
                 bind_res (buildTrojanFallbacks (FallBackConfigs o1)) (\<lambda>fs. Inr (TrojanServer fs))
               else Inr EmptyObject) (\<lambda>settings.
     bind_res (deref (Trojan info)) (\<lambda>v.
     bind_res (trojan_stream X v) (\<lambda>st.
     Inr (inb\<lparr>xi_Protocol := ''trojan'', xi_Settings := settings, StreamSetting := Some st\<rparr>)))))"

definition buildShadowsocks :: "'j xray_std \<Rightarrow> Options \<Rightarrow> NodeInfo \<Rightarrow> 'j xinbound \<Rightarrow> 'j xinbound result" where
  "buildShadowsocks X config info inb =
     bind_res (deref (Shadowsocks info)) (\<lambda>s.
     case xr_rand X 32 of
       Inl err \<Rightarrow> Inl (Err (''generate random password error: '' @ err))
     | Inr p \<Rightarrow>
         bind_res (deref (o_XrayOptions config)) (\<lambda>o1.
         (let key = (ServerKey s \<noteq> '''');
              randomPasswd = (if key then EncodeToString (hex_encode X p) else hex_encode X p)
          in Inr (inb\<lparr>xi_Protocol := ''shadowsocks'',
               xi_Settings := ShadowsocksServer
                 \<lparr>xs_Cipher = Cipher s, xs_Password = ServerKey s,
                  xs_Users = [(if key then '''' else Cipher s, randomPasswd)],
                  NetworkList = [''tcp'', ''udp''], IVCheck = \<not> DisableIVCheck o1\<rparr>,
               StreamSetting := Some (new_stream ''tcp'')\<rparr>))))"

subsection \<open>buildInbound\<close>

text \<open>The network is read even where the builder failed, so a nil node panics in any case.\<close>

definition build_protocol :: "'j xray_std \<Rightarrow> Options \<Rightarrow> NodeInfo \<Rightarrow> 'j xinbound \<Rightarrow> ('j xinbound \<times> string) result" where
  "build_protocol X config info inb =
     (if ni_Type info = ''vmess'' \<or> ni_Type info = ''vless'' then
        bind_res (deref (VAllss info)) (\<lambda>v. bind_res (buildV2ray X config info inb) (\<lambda>i. Inr (i, Network v)))
      else if ni_Type info = ''trojan'' then
        bind_res (deref (Trojan info)) (\<lambda>v. bind_res (buildTrojan X config info inb) (\<lambda>i. Inr (i, trojan_network v)))
      else if ni_Type info = ''shadowsocks'' then
        bind_res (buildShadowsocks X config info inb) (\<lambda>i. Inr (i, ''tcp''))
      else Inl (Err (''unsupported node type: '' @ ni_Type info @ '', Only support: V2ray, Trojan, Shadowsocks'')))"

text \<open>The proxy protocol, where the network has it, and otherwise on the socket.\<close>

definition with_proxy :: "'j xray_std \<Rightarrow> XrayOptions \<Rightarrow> string \<Rightarrow> 'j xstream \<Rightarrow> 'j xstream" where
  "with_proxy X o1 network st =
     (let set_proxy = (\<lambda>s. Some (case s of
            Some t \<Rightarrow> t\<lparr>AcceptProxyProtocol := EnableProxyProtocol o1\<rparr>
          | None \<Rightarrow> \<lparr>AcceptProxyProtocol = EnableProxyProtocol o1, OtherSettings = zero_json X\<rparr>))
      in if network = ''tcp'' then st\<lparr>TCPSettings := set_proxy (TCPSettings st)\<rparr>
         else if network = ''ws'' then st\<lparr>WSSettings := set_proxy (WSSettings st)\<rparr>
         else st\<lparr>SocketSettings := Some (EnableProxyProtocol o1, EnableTFO o1)\<rparr>)"

definition xreality_settings :: "'j xray_std \<Rightarrow> VAllssNode \<Rightarrow> xreality" where
  "xreality_settings X v =
     (let ts = TlsSettings v; rc = RealityConfig v;
          dest = (if Dest ts = '''' then ts_ServerName ts else Dest ts)
      in \<lparr>xr_Dest = dest @ '':'' @ ts_ServerPort ts, xr_Xver = (if Xver ts = 0 then rc_Xver rc else Xver ts),
          ServerNames = [ts_ServerName ts], xr_PrivateKey = PrivateKey ts, xr_MinClientVer = MinClientVer rc,
          xr_MaxClientVer = MaxClientVer rc,
          xr_MaxTimeDiff = word_of_int (xr_ParseDuration X (MaxTimeDiff rc) sdiv 1000),
          ShortIds = [ShortId ts], xr_Mldsa65Seed = Mldsa65Seed ts\<rparr>)"

definition with_security :: "'j xray_std \<Rightarrow> Options \<Rightarrow> NodeInfo \<Rightarrow> 'j xstream \<Rightarrow> 'j xstream result" where
  "with_security X config info st =
     (if Security info = Tls then
        (case o_CertConfig config of
           None \<Rightarrow> Inl (Err ''the CertConfig is not vail'')
         | Some cc \<Rightarrow>
             Inr (if CertMode cc \<in> {''none'', ''''} then st
                  else st\<lparr>xm_Security := ''tls'',
                    TLSSettings := Some \<lparr>xt_CertFile = CertFile cc, xt_KeyFile = KeyFile cc, OcspStapling = 3600,
                      RejectUnknownSNI = RejectUnknownSni cc\<rparr>\<rparr>))
      else if Security info = Reality then
        bind_res (deref (VAllss info)) (\<lambda>v.
          Inr (st\<lparr>xm_Security := ''reality'', REALITYSettings := Some (xreality_settings X v)\<rparr>))
      else Inr st)"

definition zero_inbound :: "'j xinbound" where
  "zero_inbound =
     \<lparr>xi_Protocol = '''', xi_Settings = NoSettings, StreamSetting = None, PortFrom = 0, PortTo = 0, ListenOn = '''',
      SniffingEnabled = False, DestOverride = [], xi_Tag = ''''\<rparr>"

text \<open>Following a nil StreamSetting panics.\<close>

definition inbound_config :: "'j xray_std \<Rightarrow> Options \<Rightarrow> NodeInfo \<Rightarrow> string \<Rightarrow> 'j xinbound result" where
  "inbound_config X option info tag =
     bind_res (build_protocol X option info zero_inbound) (\<lambda>(i, network).
     bind_res (deref (Common info)) (\<lambda>cn.
     bind_res (deref (o_XrayOptions option)) (\<lambda>o1.
     bind_res (deref (StreamSetting i)) (\<lambda>st.
     bind_res (with_security X option info (with_proxy X o1 network st)) (\<lambda>st'.
     Inr (i\<lparr>StreamSetting := Some st', PortFrom := word_of_int (ServerPort cn), PortTo := word_of_int (ServerPort cn),
       ListenOn := ParseAddress X (ListenIP option), SniffingEnabled := \<not> DisableSniffing o1,
       DestOverride := [''http'', ''tls''], xi_Tag := tag\<rparr>))))))"

definition buildInbound ::
  "'j xray_std \<Rightarrow> ('j xinbound \<Rightarrow> string + 'h) \<Rightarrow> Options \<Rightarrow> NodeInfo \<Rightarrow> string \<Rightarrow> 'h result" where
  "buildInbound X Build option info tag =
     bind_res (inbound_config X option info tag) (\<lambda>i. case Build i of Inl e \<Rightarrow> Inl (Err e) | Inr h \<Rightarrow> Inr h)"

subsection \<open>outbound.go\<close>

record xoutbound =
  xo_Protocol :: string
  xo_Tag :: string
  SendThrough :: "string option"
  xo_DomainStrategy :: string

definition outbound_config :: "Options \<Rightarrow> string \<Rightarrow> xoutbound result" where
  "outbound_config config tag =
     bind_res (deref (o_XrayOptions config)) (\<lambda>o1.
     Inr \<lparr>xo_Protocol = ''freedom'', xo_Tag = tag,
       SendThrough = (if SendIP config \<noteq> '''' then Some (SendIP config) else None),
       xo_DomainStrategy = (if xo_EnableDNS o1 then (if DNSType o1 \<noteq> '''' then DNSType o1 else ''UseIP'') else ''Asis'')\<rparr>)"

definition buildOutbound :: "(xoutbound \<Rightarrow> string + 'h) \<Rightarrow> Options \<Rightarrow> string \<Rightarrow> 'h result" where
  "buildOutbound Build config tag =
     bind_res (outbound_config config tag) (\<lambda>ob. case Build ob of Inl e \<Rightarrow> Inl (Err e) | Inr h \<Rightarrow> Inr h)"

end
