(* ===== verification/Core_Api.thy ===== *)
theory Core_Api
  imports Conf
begin

text \<open>
  The interface of a core (core/interface.go), the configuration of a core (conf/core.go and
  the core parts of conf/xray.go, conf/sing.go and conf/hy.go) and the registry of core
  constructors (core/core.go). A value of the Go interface is a state with a record of its
  methods, so that the selector and the controller call a core as the code does, without
  knowing which one it is.
\<close>

subsection \<open>conf: core configurations\<close>

record XrayLogConfig =
  xl_Level :: string
  xl_AccessPath :: string
  xl_ErrorPath :: string

record XrayConnectionConfig =
  Handshake :: "32 word"
  ConnIdle :: "32 word"
  UplinkOnly :: "32 word"
  DownlinkOnly :: "32 word"
  BufferSize :: "32 word"

record XrayConfig =
  xc_LogConfig :: "XrayLogConfig option"
  AssetPath :: string
  DnsConfigPath :: string
  RouteConfigPath :: string
  ConnectionConfig :: "XrayConnectionConfig option"
  InboundConfigPath :: string
  OutboundConfigPath :: string

definition NewXrayConfig :: XrayConfig where
  "NewXrayConfig =
     \<lparr>xc_LogConfig = Some \<lparr>xl_Level = ''warning'', xl_AccessPath = '''', xl_ErrorPath = ''''\<rparr>,
      AssetPath = ''/etc/V2bX/'', DnsConfigPath = '''', RouteConfigPath = '''',
      ConnectionConfig = Some \<lparr>Handshake = 4, ConnIdle = 30, UplinkOnly = 2, DownlinkOnly = 4, BufferSize = 64\<rparr>,
      InboundConfigPath = '''', OutboundConfigPath = ''''\<rparr>"

record SingLogConfig =
  sl_Disabled :: bool
  sl_Level :: string
  sl_Output :: string
  sl_Timestamp :: bool

record SingNtpConfig =
  Enable :: bool
  nt_Server :: string
  nt_ServerPort :: "16 word"

record SingConfig =
  sc_LogConfig :: SingLogConfig
  NtpConfig :: SingNtpConfig
  OriginalPath :: string

definition NewSingConfig :: SingConfig where
  "NewSingConfig =
     \<lparr>sc_LogConfig = \<lparr>sl_Disabled = False, sl_Level = ''error'', sl_Output = '''', sl_Timestamp = True\<rparr>,
      NtpConfig = \<lparr>Enable = False, nt_Server = ''time.apple.com'', nt_ServerPort = 0\<rparr>, OriginalPath = ''''\<rparr>"

record Hysteria2Config =
  hc_Level :: string

definition NewHysteria2Config :: Hysteria2Config where
  "NewHysteria2Config = \<lparr>hc_Level = ''error''\<rparr>"

record CoreConfig =
  ct_Type :: string
  ct_Name :: string
  ct_XrayConfig :: "XrayConfig option"
  ct_SingConfig :: "SingConfig option"
  ct_Hysteria2Config :: "Hysteria2Config option"

definition CoreConfig_UnmarshalJSON ::
  "CoreConfig unmarshal \<Rightarrow> XrayConfig unmarshal \<Rightarrow> SingConfig unmarshal \<Rightarrow> Hysteria2Config unmarshal
   \<Rightarrow> string \<Rightarrow> CoreConfig \<Rightarrow> CoreConfig \<times> string option" where
  "CoreConfig_UnmarshalJSON dec decX decS decH b c0 =
     (case dec b c0 of
        (c, Some err) \<Rightarrow> (c, Some err)
      | (c, None) \<Rightarrow>
          (if ct_Type c = ''xray'' then
             (case decX b NewXrayConfig of (x, err) \<Rightarrow> (c\<lparr>ct_XrayConfig := Some x\<rparr>, err))
           else if ct_Type c = ''sing'' then
             (case decS b NewSingConfig of (x, err) \<Rightarrow> (c\<lparr>ct_SingConfig := Some x\<rparr>, err))
           else if ct_Type c = ''hysteria2'' then
             (case decH b NewHysteria2Config of (x, err) \<Rightarrow> (c\<lparr>ct_Hysteria2Config := Some x\<rparr>, err))
           else (c, None)))"

subsection \<open>interface.go\<close>

record AddUsersParams =
  aup_Tag :: string
  aup_Users :: "UserInfo list"
  aup_NodeInfo :: NodeInfo

text \<open>
  The methods of a core whose state is of type 'c. AddNode gets the options by reference and
  may change them.
\<close>

record 'c core_ops =
  op_Start :: "'c \<Rightarrow> 'c \<times> string option"
  op_Close :: "'c \<Rightarrow> 'c \<times> string option"
  op_AddNode :: "string \<Rightarrow> NodeInfo \<Rightarrow> Options \<Rightarrow> 'c \<Rightarrow> ('c \<times> Options) \<times> unit result"
  op_DelNode :: "string \<Rightarrow> 'c \<Rightarrow> 'c \<times> unit result"
  op_AddUsers :: "AddUsersParams \<Rightarrow> 'c \<Rightarrow> 'c \<times> int result"
  op_GetUserTrafficSlice :: "string \<Rightarrow> bool \<Rightarrow> 'c \<Rightarrow> 'c \<times> UserTraffic list result"
  op_DelUsers :: "UserInfo list \<Rightarrow> string \<Rightarrow> NodeInfo \<Rightarrow> 'c \<Rightarrow> 'c \<times> unit result"
  op_Protocols :: "'c \<Rightarrow> string list"
  op_Type :: "'c \<Rightarrow> string"

subsection \<open>core.go\<close>

text \<open>The constructors by their registered names.\<close>

type_synonym 'c core_registry = "string \<rightharpoonup> (CoreConfig \<Rightarrow> 'c result)"

definition RegisterCore :: "string \<Rightarrow> (CoreConfig \<Rightarrow> 'c result) \<Rightarrow> 'c core_registry \<Rightarrow> 'c core_registry" where
  "RegisterCore t f cores = cores(t \<mapsto> f)"

definition RegisteredCore :: "string list \<Rightarrow> 'c core_registry \<Rightarrow> string list" where
  "RegisteredCore order cores = fold (\<lambda>k cs. cs @ [k]) order []"

end
