(* ===== verification/Xray_Setup.thy ===== *)
theory Xray_Setup
  imports Xray_Inbound Core_Api
begin

text \<open>
  The rest of what the xray core prepares: the DNS file of a node (core/xray/dns.go), the
  results of the builders as AddNode uses them, and the instance that New starts from
  (core/xray/xray.go). Files, JSON and xray's Build methods are parameters.
\<close>

subsection \<open>dns.go\<close>

text \<open>
  What the file system and xray answer: the file's content if it can be read, whether
  clearing and writing it succeed, the error of decoding a configuration and of building it.
\<close>

record dns_io =
  read_dns :: "string option"
  truncate_fails :: bool
  write_fails :: bool
  unmarshal_dns :: "string \<Rightarrow> string option"
  build_dns :: "string \<Rightarrow> string option"

text \<open>
  The result is the file's content afterwards and the error. The errors of Build, Truncate
  and WriteFile belong to an err of the inner block; the err that is returned at the end is
  that of Unmarshal.
\<close>

definition saveDnsConfig :: "dns_io \<Rightarrow> string \<Rightarrow> string option \<times> error option" where
  "saveDnsConfig F dns =
     (case read_dns F of
        None \<Rightarrow> (None, Some (Err ''read XRAY_DNS_PATH''))
      | Some current \<Rightarrow>
          (if current = dns then (Some current, None)
           else case build_dns F dns of
                  Some e \<Rightarrow> (Some current, Some (Err e))
                | None \<Rightarrow>
                    (let cleared = (if truncate_fails F then current else '''')
                     in (Some (if write_fails F then cleared else dns), map_option Err (unmarshal_dns F dns)))))"

record dns_server =
  ds_address :: string
  ds_port :: "16 word option"
  ds_domains :: "string list"

text \<open>ParseUint with 16 bits: the port is 0 where it is no number or too large.\<close>

definition parse_port :: "string \<Rightarrow> 16 word" where
  "parse_port s = (case parse_uint s of (n, None) \<Rightarrow> if n < 65536 then word_of_int n else 0 | (_, Some _) \<Rightarrow> 0)"

definition dns_entry :: "string \<times> string list \<Rightarrow> dns_server result" where
  "dns_entry v =
     (case v of (address, domains) \<Rightarrow>
        (if contains address '':'' \<and> \<not> contains address ''/'' then
           (case SplitHostPort address of
              None \<Rightarrow> Inl (Err ''address'')
            | Some (host, port) \<Rightarrow> Inr \<lparr>ds_address = host, ds_port = Some (parse_port port), ds_domains = domains\<rparr>)
         else Inr \<lparr>ds_address = address, ds_port = None, ds_domains = domains\<rparr>))"

fun dns_entries :: "(string \<rightharpoonup> string \<times> string list) \<Rightarrow> string list \<Rightarrow> dns_server list result" where
  "dns_entries m [] = Inr []"
| "dns_entries m (k # ks) =
     (case m k of
        None \<Rightarrow> dns_entries m ks
      | Some v \<Rightarrow> bind_res (dns_entry v) (\<lambda>s. bind_res (dns_entries m ks) (\<lambda>ss. Inr (s # ss))))"

text \<open>
  indent is json.Indent and marshal json.MarshalIndent of the servers added to 1.1.1.1 and
  localhost; order is that of the range over the map. The result of saving the file is kept
  in the second case in an err of that block, which is not the one returned.
\<close>

definition updateDNSConfig ::
  "dns_io \<Rightarrow> (string \<Rightarrow> string + string) \<Rightarrow> (dns_server list \<Rightarrow> string) \<Rightarrow> string list \<Rightarrow> NodeInfo
   \<Rightarrow> string option \<times> error option" where
  "updateDNSConfig F indent marshal order node =
     (let dns = ni_RawDNS node
      in if DNSJson dns \<noteq> '''' then
           (case indent (DNSJson dns) of
              Inl e \<Rightarrow> (read_dns F, Some (Err e))
            | Inr prettyJSON \<Rightarrow> saveDnsConfig F prettyJSON)
         else if order \<noteq> [] then
           (case dns_entries (DNSMap dns) order of
              Inl e \<Rightarrow> (read_dns F, Some e)
            | Inr servers \<Rightarrow> (fst (saveDnsConfig F (marshal servers)), None))
         else (read_dns F, None))"

subsection \<open>node.go: the builders together\<close>

text \<open>
  add_in and add_out are CreateObject with AddHandler: the error, or the handler. The results
  are those x_AddNode goes by; each is asked for only if the ones before succeeded.
\<close>

definition node_builders ::
  "'j xray_std \<Rightarrow> error option \<Rightarrow> ('j xinbound \<Rightarrow> string + 'i) \<Rightarrow> ('i \<Rightarrow> string + 'm handler)
   \<Rightarrow> (xoutbound \<Rightarrow> string + 'q) \<Rightarrow> ('q \<Rightarrow> string option) \<Rightarrow> string \<Rightarrow> NodeInfo \<Rightarrow> Options \<Rightarrow> 'm node_build" where
  "node_builders X dnsErr buildIn add_in buildOut add_out tag info config =
     (let inb = buildInbound X buildIn config info tag;
          added = (case inb of Inl e \<Rightarrow> Inl e | Inr i \<Rightarrow> (case add_in i of Inl e \<Rightarrow> Inr (Inl e) | Inr h \<Rightarrow> Inr (Inr h)));
          outb = buildOutbound buildOut config tag
      in \<lparr>nb_dns = dnsErr,
          nb_inbound = (case added of Inl e \<Rightarrow> Inl e | Inr (Inl e) \<Rightarrow> Inr NoInbound | Inr (Inr h) \<Rightarrow> Inr h),
          nb_add_inbound = (case added of Inr (Inl e) \<Rightarrow> Some (Err e) | _ \<Rightarrow> None),
          nb_outbound = (case outb of Inl e \<Rightarrow> Some e | Inr _ \<Rightarrow> None),
          nb_add_outbound = (case outb of Inl e \<Rightarrow> None | Inr b \<Rightarrow> map_option Err (add_out b))\<rparr>)"

subsection \<open>xray.go\<close>

text \<open>
  The instance's configuration is made of parts that are read, decoded and built. A part of
  the DNS falls back to the default where it cannot be read or decoded; every other failure
  ends the program. new_instance is core.New of the log, the DNS, the routing, the inbounds,
  the outbounds and the policy of level 0.
\<close>

record Policy =
  StatsUserUplink :: bool
  StatsUserDownlink :: bool
  po_Handshake :: "32 word"
  ConnectionIdle :: "32 word"
  po_UplinkOnly :: "32 word"
  po_DownlinkOnly :: "32 word"
  po_BufferSize :: "32 word"

definition parseConnectionConfig :: "XrayConnectionConfig \<Rightarrow> Policy" where
  "parseConnectionConfig c =
     \<lparr>StatsUserUplink = True, StatsUserDownlink = True, po_Handshake = Handshake c, ConnectionIdle = ConnIdle c,
      po_UplinkOnly = UplinkOnly c, po_DownlinkOnly = DownlinkOnly c, po_BufferSize = BufferSize c\<rparr>"

record ('d, 'r, 'i, 'o, 'x) instance_std =
  load_dns :: "string \<Rightarrow> string + 'd"
  default_dns :: 'd
  build_dns_config :: "'d \<Rightarrow> string option"
  load_router :: "string \<Rightarrow> string + 'r"
  default_router :: 'r
  build_router :: "'r \<Rightarrow> string option"
  load_inbounds :: "string \<Rightarrow> string + 'i list"
  build_inbound :: "'i \<Rightarrow> string option"
  load_outbounds :: "string \<Rightarrow> string + 'o list"
  build_outbound :: "'o \<Rightarrow> string option"
  new_instance :: "XrayLogConfig \<Rightarrow> 'd \<Rightarrow> 'r \<Rightarrow> 'i list \<Rightarrow> 'o list \<Rightarrow> Policy \<Rightarrow> string + 'x"

definition panics_with :: "string \<Rightarrow> string option \<Rightarrow> unit result" where
  "panics_with msg e = (case e of None \<Rightarrow> Inr () | Some _ \<Rightarrow> Inl (Panic msg))"

fun build_each :: "string \<Rightarrow> ('a \<Rightarrow> string option) \<Rightarrow> 'a list \<Rightarrow> 'a list result" where
  "build_each msg build [] = Inr []"
| "build_each msg build (c # cs) =
     bind_res (panics_with msg (build c)) (\<lambda>_. bind_res (build_each msg build cs) (\<lambda>cs'. Inr (c # cs')))"

definition or_panic :: "string \<Rightarrow> string + 'a \<Rightarrow> 'a result" where
  "or_panic msg r = (case r of Inl _ \<Rightarrow> Inl (Panic msg) | Inr v \<Rightarrow> Inr v)"

definition load_or :: "string \<Rightarrow> 'a \<Rightarrow> (string \<Rightarrow> string + 'a) \<Rightarrow> string \<Rightarrow> 'a result" where
  "load_or msg dflt load path = (if path = '''' then Inr dflt else or_panic msg (load path))"

definition dns_part :: "('d, 'r, 'i, 'o, 'x) instance_std \<Rightarrow> XrayConfig \<Rightarrow> 'd" where
  "dns_part I c =
     (if DnsConfigPath c = '''' then default_dns I
      else case load_dns I (DnsConfigPath c) of Inl _ \<Rightarrow> default_dns I | Inr d \<Rightarrow> d)"

text \<open>The instance, and the environment variable XRAY_DNS_PATH that it leaves.\<close>

definition getCore :: "('d, 'r, 'i, 'o, 'x) instance_std \<Rightarrow> XrayConfig \<Rightarrow> ('x \<times> string) result" where
  "getCore I c =
     bind_res (deref (xc_LogConfig c)) (\<lambda>l.
     bind_res (panics_with ''Failed to understand DNS config'' (build_dns_config I (dns_part I c))) (\<lambda>_.
     bind_res (load_or ''Routing config file'' (default_router I) (load_router I) (RouteConfigPath c)) (\<lambda>r.
     bind_res (panics_with ''Failed to understand Routing config'' (build_router I r)) (\<lambda>_.
     bind_res (load_or ''Custom Inbound config'' [] (load_inbounds I) (InboundConfigPath c)) (\<lambda>is.
     bind_res (build_each ''Failed to understand Inbound config'' (build_inbound I) is) (\<lambda>is.
     bind_res (load_or ''Custom Outbound config'' [] (load_outbounds I) (OutboundConfigPath c)) (\<lambda>os.
     bind_res (build_each ''Failed to understand Outbound config'' (build_outbound I) os) (\<lambda>os.
     bind_res (deref (ConnectionConfig c)) (\<lambda>conn.
     bind_res (or_panic ''failed to create instance'' (new_instance I l (dns_part I c) r is os (parseConnectionConfig conn))) (\<lambda>x.
     Inr (x, DnsConfigPath c)))))))))))"

text \<open>
  The core around the instance: New with its empty maps, Start and Close with the managers
  that are there between them; start and stop are the instance's own.
\<close>

record ('x, 'm) xray_core =
  Server :: 'x
  xc_managers :: bool
  xc_state :: "'m xray"

definition x_New ::
  "('d, 'r, 'i, 'o, 'x) instance_std \<Rightarrow> CoreConfig \<Rightarrow> 'm xray \<Rightarrow> (('x, 'm) xray_core \<times> string) result" where
  "x_New I c st =
     bind_res (deref (ct_XrayConfig c)) (\<lambda>xc.
     bind_res (getCore I xc) (\<lambda>(x, env).
     Inr (\<lparr>Server = x, xc_managers = False,
       xc_state = st\<lparr>uidMap := Map.empty, nodeReportMinTrafficBytes := Map.empty\<rparr>\<rparr>, env)))"

definition x_Start :: "('x \<Rightarrow> 'x \<times> string option) \<Rightarrow> ('x, 'm) xray_core \<Rightarrow> ('x, 'm) xray_core \<times> string option" where
  "x_Start start c =
     (case start (Server c) of
        (x, Some e) \<Rightarrow> (c\<lparr>Server := x\<rparr>, Some e)
      | (x, None) \<Rightarrow> (c\<lparr>Server := x, xc_managers := True\<rparr>, None))"

definition x_Close :: "('x \<Rightarrow> 'x \<times> string option) \<Rightarrow> ('x, 'm) xray_core \<Rightarrow> ('x, 'm) xray_core \<times> string option" where
  "x_Close stop c = (case stop (Server c) of (x, e) \<Rightarrow> (c\<lparr>Server := x, xc_managers := False\<rparr>, e))"

end
