(* ===== verification/Xray_Setup_Laws.thy ===== *)
theory Xray_Setup_Laws
  imports Xray_Setup
begin

text \<open>
  What the xray core's preparations promise, and what they do not: which inbounds are made and
  with what protection, the nodes that crash the program, and the errors that get lost.
\<close>

subsection \<open>The inbound\<close>

lemma buildV2ray_result:
  assumes "buildV2ray X config info inb = Inr i"
  obtains v settings st where "VAllss info = Some v"
    "v2ray_settings (o_XrayOptions config) (ni_Type info) v = Inr (xi_Protocol i, xi_Settings i)"
    "v2ray_stream X v = Inr (StreamSetting i)"
  using assms by (auto simp: buildV2ray_def bind_res_Inr deref_Inr)

lemma v2ray_protocol: "v2ray_settings xo typ v = Inr (p, s) \<Longrightarrow> p = (if typ = ''vless'' then ''vless'' else ''vmess'')"
  by (auto simp: v2ray_settings_def bind_res_Inr split: if_splits)

lemma build_protocol_type:
  assumes "build_protocol X config info inb = Inr (i, network)"
  shows "xi_Protocol i = ni_Type info" "ni_Type info \<in> set x_Protocols"
proof -
  have v: "buildV2ray X config info inb = Inr j \<Longrightarrow> xi_Protocol j = (if ni_Type info = ''vless'' then ''vless'' else ''vmess'')" for j
    by (auto simp: buildV2ray_def bind_res_Inr dest: v2ray_protocol)
  have t: "buildTrojan X config info inb = Inr j \<Longrightarrow> xi_Protocol j = ''trojan''" for j
    by (auto simp: buildTrojan_def bind_res_Inr)
  have s: "buildShadowsocks X config info inb = Inr j \<Longrightarrow> xi_Protocol j = ''shadowsocks''" for j
    by (cases "xr_rand X 32") (auto simp: buildShadowsocks_def bind_res_Inr Let_def)
  show "xi_Protocol i = ni_Type info" "ni_Type info \<in> set x_Protocols"
    using assms v t s by (auto simp: build_protocol_def x_Protocols_def bind_res_Inr split: if_splits)
qed

lemma inbound_config_result:
  assumes "inbound_config X config info tag = Inr i"
  obtains i0 network cn o1 st st' where "build_protocol X config info zero_inbound = Inr (i0, network)"
    "Common info = Some cn" "o_XrayOptions config = Some o1" "StreamSetting i0 = Some st"
    "with_security X config info (with_proxy X o1 network st) = Inr st'"
    "i = i0\<lparr>StreamSetting := Some st', PortFrom := word_of_int (ServerPort cn), PortTo := word_of_int (ServerPort cn),
       ListenOn := ParseAddress X (ListenIP config), SniffingEnabled := \<not> DisableSniffing o1,
       DestOverride := [''http'', ''tls''], xi_Tag := tag\<rparr>"
  using assms by (auto simp: inbound_config_def bind_res_Inr deref_Inr)

definition unprotected :: "'j xstream \<Rightarrow> bool" where
  "unprotected st \<longleftrightarrow> xm_Security st = '''' \<and> TLSSettings st = None \<and> REALITYSettings st = None"

lemma unprotected_stream:
  "unprotected (new_stream n)"
  "v2ray_stream X v = Inr (Some st) \<Longrightarrow> unprotected st"
  "trojan_stream X w = Inr st \<Longrightarrow> unprotected st"
  by (auto simp: unprotected_def new_stream_def v2ray_stream_def trojan_stream_def bind_res_Inr Let_def split: if_splits)

lemma build_protocol_clear:
  assumes "build_protocol X config info zero_inbound = Inr (i, network)" "StreamSetting i = Some st"
  shows "unprotected st"
proof -
  have v: "unprotected st" if "buildV2ray X config info zero_inbound = Inr i"
    using that assms(2) unprotected_stream(2) by (auto simp: buildV2ray_def bind_res_Inr)
  have t: "unprotected st" if "buildTrojan X config info zero_inbound = Inr i"
    using that assms(2) unprotected_stream(3) by (auto simp: buildTrojan_def bind_res_Inr)
  have s: "unprotected st" if "buildShadowsocks X config info zero_inbound = Inr i"
    using that assms(2) unprotected_stream(1)
    by (cases "xr_rand X 32") (auto simp: buildShadowsocks_def bind_res_Inr Let_def)
  show ?thesis using assms(1) v t s by (auto simp: build_protocol_def bind_res_Inr split: if_splits)
qed

lemma with_proxy_clear [simp]:
  "xm_Security (with_proxy X o1 n st) = xm_Security st" "TLSSettings (with_proxy X o1 n st) = TLSSettings st"
  "REALITYSettings (with_proxy X o1 n st) = REALITYSettings st"
  by (simp_all add: with_proxy_def Let_def)

text \<open>
  The inbound that xray is asked for is of the node's protocol, with the node's tag, and
  listens at the node's port and no other, which is taken modulo 2 to the 32. Its security is
  tls exactly when the node asks for TLS and the certificate mode is set, and reality exactly
  when the node asks for Reality, and only the settings of that security are there.
\<close>

theorem xray_inbound_well_formed:
  assumes "inbound_config X config info tag = Inr i"
  shows "xi_Protocol i = ni_Type info \<and> ni_Type info \<in> set x_Protocols \<and> xi_Tag i = tag
    \<and> (\<exists>cn st. Common info = Some cn \<and> StreamSetting i = Some st
        \<and> PortFrom i = PortTo i \<and> uint (PortFrom i) = ServerPort cn mod 2 ^ 32
        \<and> (xm_Security st = ''tls'' \<longleftrightarrow> Security info = Tls
             \<and> (\<exists>cc. o_CertConfig config = Some cc \<and> CertMode cc \<notin> {''none'', ''''}))
        \<and> (xm_Security st = ''reality'' \<longleftrightarrow> Security info = Reality)
        \<and> (TLSSettings st \<noteq> None \<longleftrightarrow> xm_Security st = ''tls'')
        \<and> (REALITYSettings st \<noteq> None \<longleftrightarrow> xm_Security st = ''reality''))"
proof -
  obtain i0 network cn o1 st st' where p: "build_protocol X config info zero_inbound = Inr (i0, network)"
    and cn: "Common info = Some cn" and st: "StreamSetting i0 = Some st"
    and s: "with_security X config info (with_proxy X o1 network st) = Inr st'"
    and i: "i = i0\<lparr>StreamSetting := Some st', PortFrom := word_of_int (ServerPort cn), PortTo := word_of_int (ServerPort cn),
       ListenOn := ParseAddress X (ListenIP config), SniffingEnabled := \<not> DisableSniffing o1,
       DestOverride := [''http'', ''tls''], xi_Tag := tag\<rparr>"
    using inbound_config_result [OF assms] by metis
  have ne: "Tls \<noteq> Reality" by (simp add: security_defs)
  have sec: "(xm_Security st' = ''tls'' \<longleftrightarrow> Security info = Tls
        \<and> (\<exists>cc. o_CertConfig config = Some cc \<and> CertMode cc \<notin> {''none'', ''''}))
      \<and> (xm_Security st' = ''reality'' \<longleftrightarrow> Security info = Reality)
      \<and> (TLSSettings st' \<noteq> None \<longleftrightarrow> xm_Security st' = ''tls'')
      \<and> (REALITYSettings st' \<noteq> None \<longleftrightarrow> xm_Security st' = ''reality'')"
    using s build_protocol_clear [OF p st, unfolded unprotected_def] ne
    by (auto simp: with_security_def bind_res_Inr split: if_splits option.splits)
  have "uint (word_of_int (ServerPort cn) :: 32 word) = ServerPort cn mod 2 ^ 32"
    by (simp add: uint_word_of_int)
  with i cn sec build_protocol_type [OF p] show ?thesis by simp
qed

text \<open>The example: a vless node over tcp.\<close>

definition plain_xray_std :: "unit xray_std" where
  "plain_xray_std =
     \<lparr>dec_tcp = \<lambda>s. Inr None, dec_ws = \<lambda>s. Inr None, dec_grpc = \<lambda>s. Inr None, dec_httpupgrade = \<lambda>s. Inr None,
      dec_xhttp = \<lambda>s. Inr None, zero_json = (), ParseAddress = \<lambda>s. s, xr_ParseDuration = \<lambda>s. 0,
      xr_rand = \<lambda>n. Inr (replicate n CHR ''r''), hex_encode = \<lambda>s. s\<rparr>"

definition vless_v :: "string \<Rightarrow> string \<Rightarrow> VAllssNode" where
  "vless_v settings enc =
     \<lparr>v_Tls = 0, TlsSettings = \<lparr>ts_ServerName = ''s'', Dest = '''', ts_ServerPort = ''443'', ShortId = '''', PrivateKey = ''k'',
        Mldsa65Seed = '''', Xver = 0\<rparr>, TlsSettingsBack = None, Network = ''tcp'', NetworkSettings = settings,
      NetworkSettingsBack = '''', Encryption = enc,
      EncryptionSettings = \<lparr>Mode = ''native'', Ticket = ''600s'', ServerPadding = '''', es_PrivateKey = ''key''\<rparr>, v_ServerName = '''',
      Flow = '''', RealityConfig = \<lparr>rc_Xver = 0, MinClientVer = '''', MaxClientVer = '''', MaxTimeDiff = ''''\<rparr>\<rparr>"

definition vless_node :: "string \<Rightarrow> string \<Rightarrow> NodeInfo" where
  "vless_node settings enc =
     \<lparr>ni_Id = 1, ni_Type = ''vless'', Security = Reality, PushInterval = 0, PullInterval = 0,
      ni_RawDNS = \<lparr>DNSMap = [''0'' \<mapsto> (''8.8.8.8:53'', [''geosite:x''])], DNSJson = ''''\<rparr>,
      ni_Rules = \<lparr>Regexp = [], Protocol = []\<rparr>, VAllss = Some (vless_v settings enc), Shadowsocks = None, Trojan = None,
      Tuic = None, AnyTls = None, Hysteria = None, Hysteria2 = None,
      Common = Some \<lparr>Host = ''h'', ServerPort = 443, cn_ServerName = '''', Routes = [], cn_BaseConfig = None\<rparr>\<rparr>"

definition xray_options_with :: "bool \<Rightarrow> Options" where
  "xray_options_with fallback =
     default_options\<lparr>o_XrayOptions := Some (NewXrayOptions\<lparr>EnableFallback := fallback, FallBackConfigs := Some []\<rparr>)\<rparr>"

lemmas xray_example_defs = plain_xray_std_def vless_v_def vless_node_def xray_options_with_def default_options_def
  NewXrayOptions_def

theorem xray_inbound_well_formed_witness:
  "\<exists>i st. inbound_config plain_xray_std (xray_options_with False) (vless_node ''{}'' '''') ''n'' = Inr i
    \<and> uint (PortFrom i) = 443 \<and> StreamSetting i = Some st \<and> xm_Security st = ''reality''"
proof -
  let ?n = "vless_node ''{}'' ''''"
  have ty: "ni_Type ?n = ''vless''" "VAllss ?n = Some (vless_v ''{}'' '''')" "Security ?n = Reality"
    by (simp_all add: vless_node_def)
  obtain cn where cn: "Common ?n = Some cn" "ServerPort cn = 443" by (simp add: vless_node_def)
  have v: "Network (vless_v ''{}'' '''') = ''tcp''" "NetworkSettings (vless_v ''{}'' '''') = ''{}''"
    "Encryption (vless_v ''{}'' '''') = ''''" by (simp_all add: vless_v_def)
  have ne: "Reality \<noteq> Tls" by (simp add: security_defs)
  have d: "dec_tcp plain_xray_std ''{}'' = Inr None" by (simp add: plain_xray_std_def)
  obtain o1 where o1: "o_XrayOptions (xray_options_with False) = Some o1" "\<not> EnableFallback o1"
    by (simp add: xray_options_with_def NewXrayOptions_def)
  obtain i where i: "inbound_config plain_xray_std (xray_options_with False) ?n ''n'' = Inr i"
    by (simp add: inbound_config_def build_protocol_def buildV2ray_def v2ray_settings_def v2ray_stream_def vless_decryption_def
        with_security_def decoded_def ty cn(1) v o1 d ne)
  from xray_inbound_well_formed [OF i] i cn ty(3) show ?thesis by auto
qed

subsection \<open>Nodes without network settings\<close>

text \<open>
  C37: a vmess or vless node for which the panel sends no network settings crashes the program.
  The builder leaves the stream settings nil and returns no error, and the next step follows
  them: no configuration gives an inbound or an error of the node, unless the protocol's own
  settings were refused before.
\<close>

theorem xray_node_without_settings_panics:
  assumes "ni_Type info = ''vmess'' \<or> ni_Type info = ''vless''" "VAllss info = Some v" "NetworkSettings v = ''''"
  shows "inbound_config X config info tag =
    (case v2ray_settings (o_XrayOptions config) (ni_Type info) v of
       Inl e \<Rightarrow> Inl e | Inr _ \<Rightarrow> Inl (Panic ''nil pointer dereference''))"
proof (cases "v2ray_settings (o_XrayOptions config) (ni_Type info) v")
  case (Inl e)
  with assms show ?thesis by (simp add: inbound_config_def build_protocol_def buildV2ray_def)
next
  case (Inr ps)
  obtain p s where ps: "ps = (p, s)" by (cases ps)
  have st: "v2ray_stream X v = Inr None" using assms(3) by (simp add: v2ray_stream_def)
  have b: "build_protocol X config info zero_inbound =
      Inr (zero_inbound\<lparr>xi_Protocol := p, xi_Settings := s, StreamSetting := None\<rparr>, Network v)"
    using assms(1,2) Inr ps st by (auto simp: build_protocol_def buildV2ray_def)
  have "inbound_config X config info tag = Inl (Panic ''nil pointer dereference'')"
    unfolding inbound_config_def b by (cases "Common info"; cases "o_XrayOptions config") simp_all
  then show ?thesis by (simp only: Inr sum.case)
qed

theorem xray_node_without_settings_panics_witness:
  "inbound_config plain_xray_std (xray_options_with False) (vless_node '''' '''') ''n'' =
    Inl (Panic ''nil pointer dereference'')"
proof -
  let ?n = "vless_node '''' ''''"
  have t: "ni_Type ?n = ''vmess'' \<or> ni_Type ?n = ''vless''" "VAllss ?n = Some (vless_v '''' '''')"
    "NetworkSettings (vless_v '''' '''') = ''''" by (simp_all add: vless_node_def vless_v_def)
  have "\<exists>ps. v2ray_settings (o_XrayOptions (xray_options_with False)) (ni_Type ?n) (vless_v '''' '''') = Inr ps"
    by (simp add: v2ray_settings_def vless_decryption_def xray_example_defs)
  with xray_node_without_settings_panics [OF t, of plain_xray_std "xray_options_with False" "''n''"] show ?thesis by auto
qed

subsection \<open>Encryption and fallbacks\<close>

text \<open>
  Fallbacks switch a vless node's encryption off. Without them the inbound decrypts with
  the key the panel sent, and refuses a method it does not know; with them it accepts any
  method and decrypts with none of it.
\<close>

theorem vless_fallback_drops_encryption:
  assumes "VAllss info = Some v" "ni_Type info = ''vless''" "o_XrayOptions config = Some o1"
    and "inbound_config X config info tag = Inr i"
  shows "if EnableFallback o1 then \<exists>fs. xi_Settings i = VLessInbound ''none'' fs
    else \<exists>d. xi_Settings i = VLessInbound d [] \<and> vless_decryption v = Inr d
      \<and> (d = ''none'' \<longleftrightarrow> Encryption v = '''') \<and> Encryption v \<in> {'''', ''mlkem768x25519plus''}"
proof -
  obtain i0 network where p: "build_protocol X config info zero_inbound = Inr (i0, network)" and s: "xi_Settings i = xi_Settings i0"
    by (rule inbound_config_result [OF assms(4)]) simp
  have "v2ray_settings (Some o1) ''vless'' v = Inr (xi_Protocol i0, xi_Settings i0)"
    using p assms(1-3) by (auto simp: build_protocol_def buildV2ray_def bind_res_Inr)
  with s show ?thesis
    by (cases "EnableFallback o1")
      (auto simp: v2ray_settings_def bind_res_Inr vless_decryption_def Let_def split: if_splits dest: sym)
qed

theorem vless_fallback_drops_encryption_witness:
  "\<exists>i fs. inbound_config plain_xray_std (xray_options_with True) (vless_node ''{}'' ''mlkem768x25519plus'') ''n'' = Inr i
    \<and> xi_Settings i = VLessInbound ''none'' fs"
proof -
  let ?n = "vless_node ''{}'' ''mlkem768x25519plus''" and ?v = "vless_v ''{}'' ''mlkem768x25519plus''"
  have n: "VAllss ?n = Some ?v" "ni_Type ?n = ''vless''" "Security ?n = Reality" by (simp_all add: vless_node_def)
  obtain cn where cn: "Common ?n = Some cn" by (simp add: vless_node_def)
  have v: "Network ?v = ''tcp''" "NetworkSettings ?v = ''{}''" by (simp_all add: vless_v_def)
  have ne: "Reality \<noteq> Tls" by (simp add: security_defs)
  have d: "dec_tcp plain_xray_std ''{}'' = Inr None" by (simp add: plain_xray_std_def)
  obtain o1 where o1: "o_XrayOptions (xray_options_with True) = Some o1" "EnableFallback o1" "FallBackConfigs o1 = Some []"
    by (simp add: xray_options_with_def NewXrayOptions_def)
  obtain i where i: "inbound_config plain_xray_std (xray_options_with True) ?n ''n'' = Inr i"
    by (simp add: inbound_config_def build_protocol_def buildV2ray_def v2ray_settings_def v2ray_stream_def buildVlessFallbacks_def
        with_security_def decoded_def n cn v o1 d ne)
  from vless_fallback_drops_encryption [OF n(1,2) o1(1) i] i o1(2) show ?thesis by auto
qed

subsection \<open>The DNS file\<close>

text \<open>
  The errors of saving a node's DNS are lost. For DNS servers listed one by one only a bad
  address is reported: whatever happens to the file, unreadable, refused by xray, cleared but
  not written, updateDNSConfig returns no error. For DNS given as JSON the file may be left
  empty without an error: a failed write is never returned.
\<close>

theorem dns_errors_are_lost:
  "(DNSJson (ni_RawDNS node) = '''' \<longrightarrow>
      (case updateDNSConfig F indent marshal order node of (content, err) \<Rightarrow>
        err = None \<longleftrightarrow> (\<exists>ss. dns_entries (DNSMap (ni_RawDNS node)) order = Inr ss) \<or> order = []))
   \<and> (read_dns F = Some old \<and> old \<noteq> dns \<and> build_dns F dns = None \<and> unmarshal_dns F dns = None
        \<and> \<not> truncate_fails F \<and> write_fails F \<longrightarrow> saveDnsConfig F dns = (Some '''', None))"
proof
  show "DNSJson (ni_RawDNS node) = '''' \<longrightarrow>
      (case updateDNSConfig F indent marshal order node of (content, err) \<Rightarrow>
        err = None \<longleftrightarrow> (\<exists>ss. dns_entries (DNSMap (ni_RawDNS node)) order = Inr ss) \<or> order = [])"
    by (cases "dns_entries (DNSMap (ni_RawDNS node)) order") (simp_all add: updateDNSConfig_def Let_def)
  show "read_dns F = Some old \<and> old \<noteq> dns \<and> build_dns F dns = None \<and> unmarshal_dns F dns = None
      \<and> \<not> truncate_fails F \<and> write_fails F \<longrightarrow> saveDnsConfig F dns = (Some '''', None)"
    by (auto simp: saveDnsConfig_def Let_def)
qed

definition no_dns_file :: dns_io where
  "no_dns_file =
     \<lparr>read_dns = None, truncate_fails = False, write_fails = False, unmarshal_dns = \<lambda>s. None, build_dns = \<lambda>s. None\<rparr>"

theorem dns_errors_are_lost_witness:
  "snd (updateDNSConfig no_dns_file Inr (\<lambda>ss. ''j'') [''0''] (vless_node ''{}'' '''')) = None
    \<and> snd (saveDnsConfig no_dns_file ''j'') \<noteq> None"
proof -
  let ?n = "vless_node ''{}'' ''''"
  have dn: "DNSJson (ni_RawDNS ?n) = ''''" "DNSMap (ni_RawDNS ?n) = [''0'' \<mapsto> (''8.8.8.8:53'', [''geosite:x''])]"
    by (simp_all add: vless_node_def)
  have s: "SplitHostPort ''8.8.8.8:53'' = Some (''8.8.8.8'', ''53'')" by code_simp
  have "\<exists>ss. dns_entries (DNSMap (ni_RawDNS ?n)) [''0''] = Inr ss" by (simp add: dn dns_entry_def s)
  with dns_errors_are_lost [where node = ?n and F = no_dns_file and indent = Inr and marshal = "\<lambda>ss. ''j''"
    and order = "[''0'']"] dn(1)
  have "snd (updateDNSConfig no_dns_file Inr (\<lambda>ss. ''j'') [''0''] ?n) = None" by (auto simp: case_prod_beta)
  then show ?thesis by (simp add: saveDnsConfig_def no_dns_file_def)
qed

subsection \<open>The instance\<close>

lemma build_each_result:
  "build_each msg b cs = (if \<forall>c\<in>set cs. b c = None then Inr cs else Inl (Panic msg))"
  by (induction cs) (auto simp: panics_with_def split: option.splits)

definition only_panics :: "'a result \<Rightarrow> bool" where
  "only_panics r \<longleftrightarrow> (\<forall>e. r = Inl e \<longrightarrow> (\<exists>m. e = Panic m))"

lemma only_panics_intros [intro]:
  "only_panics r \<Longrightarrow> (\<And>v. only_panics (f v)) \<Longrightarrow> only_panics (bind_res r f)"
  "only_panics (deref p)" "only_panics (panics_with msg x)" "only_panics (load_or msg d l path)"
  "only_panics (build_each msg b cs)" "only_panics (or_panic msg s)" "only_panics (Inr w)"
  by (cases r; simp add: only_panics_def)
    (auto simp: only_panics_def deref_def panics_with_def load_or_def or_panic_def build_each_result
      split: option.splits sum.splits)

lemma or_panic_Inr: "or_panic msg r = Inr v \<longleftrightarrow> r = Inr v"
  by (cases r) (simp_all add: or_panic_def)

lemma load_or_Inr: "load_or msg d l path = Inr v \<longleftrightarrow> (if path = '''' then v = d else l path = Inr v)"
  by (auto simp: load_or_def or_panic_Inr)

lemma panics_with_Inr: "panics_with msg e = Inr u \<longleftrightarrow> e = None"
  by (cases e) (simp_all add: panics_with_def)

lemma build_each_Inr: "build_each msg b cs = Inr cs' \<longleftrightarrow> cs' = cs \<and> (\<forall>c\<in>set cs. b c = None)"
  by (auto simp: build_each_result)

text \<open>
  Xray starts only on a sound configuration. When getCore returns, the routing, inbound
  and outbound files that are named could be read and every part was accepted by xray; only
  the DNS may have been replaced by the default, where its file could not be read. Otherwise
  the program ends: there is no error to handle.
\<close>

theorem get_core_all_or_panic:
  "case getCore I c of
     Inl e \<Rightarrow> (\<exists>m. e = Panic m)
   | Inr (x, env) \<Rightarrow> env = DnsConfigPath c
       \<and> (RouteConfigPath c \<noteq> '''' \<longrightarrow> (\<exists>r. load_router I (RouteConfigPath c) = Inr r \<and> build_router I r = None))
       \<and> (InboundConfigPath c \<noteq> '''' \<longrightarrow>
           (\<exists>is. load_inbounds I (InboundConfigPath c) = Inr is \<and> (\<forall>i\<in>set is. build_inbound I i = None)))
       \<and> (OutboundConfigPath c \<noteq> '''' \<longrightarrow>
           (\<exists>os. load_outbounds I (OutboundConfigPath c) = Inr os \<and> (\<forall>b\<in>set os. build_outbound I b = None)))
       \<and> build_dns_config I (dns_part I c) = None
       \<and> (dns_part I c = default_dns I \<or> load_dns I (DnsConfigPath c) = Inr (dns_part I c))"
proof (cases "getCore I c")
  case (Inl e)
  have "only_panics (getCore I c)"
    unfolding getCore_def by (intro only_panics_intros)
  with Inl show ?thesis by (simp add: only_panics_def)
next
  case (Inr y)
  then obtain r "is" os x where d: "build_dns_config I (dns_part I c) = None"
    and r: "if RouteConfigPath c = '''' then r = default_router I else load_router I (RouteConfigPath c) = Inr r" "build_router I r = None"
    and i: "if InboundConfigPath c = '''' then is = [] else load_inbounds I (InboundConfigPath c) = Inr is" "\<forall>i\<in>set is. build_inbound I i = None"
    and o: "if OutboundConfigPath c = '''' then os = [] else load_outbounds I (OutboundConfigPath c) = Inr os" "\<forall>b\<in>set os. build_outbound I b = None"
    and y: "y = (x, DnsConfigPath c)"
    unfolding getCore_def bind_res_Inr load_or_Inr panics_with_Inr build_each_Inr or_panic_Inr by blast
  have "dns_part I c = default_dns I \<or> load_dns I (DnsConfigPath c) = Inr (dns_part I c)"
    by (auto simp: dns_part_def split: sum.split)
  with Inr y d r i o show ?thesis by auto
qed

end
