(* ===== verification/Selector.thy ===== *)
theory Selector
  imports Core_Api
begin

text \<open>
  core/selector.go and NewCore of core/core.go: the core that distributes the nodes over
  several cores. The cores live in a heap, because the map of the cores and the table of the
  nodes hold the same cores; the order of a range over the map is an argument.
\<close>

record 'c selector =
  sel_cores :: "string \<rightharpoonup> nat"
  sel_nodes :: "string \<rightharpoonup> nat"
  sel_heap :: "nat \<Rightarrow> 'c"
  sel_next :: nat

definition core_key :: "CoreConfig \<Rightarrow> string" where
  "core_key t = (if ct_Name t = '''' then ct_Type t else ct_Name t)"

fun make_cores :: "'c core_registry \<Rightarrow> CoreConfig list \<Rightarrow> 'c selector \<Rightarrow> 'c selector result" where
  "make_cores cores [] s = Inr s"
| "make_cores cores (t # ts) s =
     (case cores (toLower (ct_Type t)) of
        None \<Rightarrow> Inl (Err (''unknown core type: '' @ ct_Type t))
      | Some f \<Rightarrow>
          (case f t of
             Inl e \<Rightarrow> Inl e
           | Inr core1 \<Rightarrow>
               make_cores cores ts
                 (s\<lparr>sel_cores := (sel_cores s)(core_key t \<mapsto> sel_next s),
                    sel_heap := (sel_heap s)(sel_next s := core1), sel_next := Suc (sel_next s)\<rparr>)))"

definition NewSelector :: "'c core_registry \<Rightarrow> CoreConfig list \<Rightarrow> 'c selector result" where
  "NewSelector cores c =
     make_cores cores c
       \<lparr>sel_cores = Map.empty, sel_nodes = Map.empty, sel_heap = (\<lambda>_. undefined), sel_next = 0\<rparr>"

fun sel_Start :: "'c core_ops \<Rightarrow> string list \<Rightarrow> 'c selector \<Rightarrow> 'c selector \<times> string option" where
  "sel_Start C [] s = (s, None)"
| "sel_Start C (i # is) s =
     (case sel_cores s i of
        None \<Rightarrow> sel_Start C is s
      | Some p \<Rightarrow>
          (case op_Start C (sel_heap s p) of
             (c', Some err) \<Rightarrow> (s\<lparr>sel_heap := (sel_heap s)(p := c')\<rparr>, Some err)
           | (c', None) \<Rightarrow> sel_Start C is (s\<lparr>sel_heap := (sel_heap s)(p := c')\<rparr>)))"

text \<open>Close closes every core; errors.Join puts the messages on a line each, nil without any.\<close>

fun close_cores :: "'c core_ops \<Rightarrow> string list \<Rightarrow> 'c selector \<Rightarrow> 'c selector \<times> string list" where
  "close_cores C [] s = (s, [])"
| "close_cores C (i # is) s =
     (case sel_cores s i of
        None \<Rightarrow> close_cores C is s
      | Some p \<Rightarrow>
          (case op_Close C (sel_heap s p) of (c', err) \<Rightarrow>
             (case close_cores C is (s\<lparr>sel_heap := (sel_heap s)(p := c')\<rparr>) of (s', errs) \<Rightarrow>
                (s', (case err of None \<Rightarrow> errs | Some e \<Rightarrow> e # errs)))))"

definition sel_Close :: "'c core_ops \<Rightarrow> string list \<Rightarrow> 'c selector \<Rightarrow> 'c selector \<times> string option" where
  "sel_Close C order s =
     (case close_cores C order s of (s', errs) \<Rightarrow>
        (s', if errs = [] then None else Some (join [CHR 0x0A] errs)))"

fun isSupported :: "string \<Rightarrow> string list \<Rightarrow> bool" where
  "isSupported protocol [] = False"
| "isSupported protocol (p # ps) = (if protocol = p then True else isSupported protocol ps)"

text \<open>Which core AddNode picks: the loop keeps the last core of the range that fits.\<close>

definition fits :: "'c core_ops \<Rightarrow> NodeInfo \<Rightarrow> Options \<Rightarrow> 'c \<Rightarrow> bool" where
  "fits C info option c =
     (if o_Core option = '''' then isSupported (ni_Type info) (op_Protocols C c)
      else o_Core option = op_Type C c)"

definition pick_core :: "'c core_ops \<Rightarrow> string list \<Rightarrow> NodeInfo \<Rightarrow> Options \<Rightarrow> 'c selector \<Rightarrow> nat option" where
  "pick_core C order info option s =
     (if CoreName option \<noteq> '''' then sel_cores s (CoreName option)
      else fold (\<lambda>i core. case sel_cores s i of
               None \<Rightarrow> core
             | Some p \<Rightarrow> if fits C info option (sel_heap s p) then Some p else core) order None)"

text \<open>A node without a core in its options gets the type of the core that was picked.\<close>

definition settle_options ::
  "Options unmarshal \<Rightarrow> XrayOptions unmarshal \<Rightarrow> SingOptions unmarshal \<Rightarrow> string \<Rightarrow> Options \<Rightarrow> Options \<times> string option" where
  "settle_options dec decX decS typ option =
     (if o_Core option = '''' then
        (case Options_UnmarshalJSON dec decX decS (RawOptions option) (option\<lparr>o_Core := typ\<rparr>) of
           (o1, Some err) \<Rightarrow> (o1, Some err)
         | (o1, None) \<Rightarrow> (o1\<lparr>RawOptions := ''''\<rparr>, None))
      else (option, None))"

definition sel_AddNode ::
  "'c core_ops \<Rightarrow> Options unmarshal \<Rightarrow> XrayOptions unmarshal \<Rightarrow> SingOptions unmarshal \<Rightarrow> string list
   \<Rightarrow> string \<Rightarrow> NodeInfo \<Rightarrow> Options \<Rightarrow> 'c selector \<Rightarrow> ('c selector \<times> Options) \<times> unit result" where
  "sel_AddNode C dec decX decS order tag info option s =
     (case pick_core C order info option s of
        None \<Rightarrow> ((s, option), Inl (Err ''the node type is not support''))
      | Some p \<Rightarrow>
          (case settle_options dec decX decS (op_Type C (sel_heap s p)) option of
             (o1, Some err) \<Rightarrow> ((s, o1), Inl (Err (''unmarshal option error: '' @ err)))
           | (o1, None) \<Rightarrow>
               (case op_AddNode C tag info o1 (sel_heap s p) of
                  ((c', o2), Inl e) \<Rightarrow> ((s\<lparr>sel_heap := (sel_heap s)(p := c')\<rparr>, o2), Inl e)
                | ((c', o2), Inr ()) \<Rightarrow>
                    ((s\<lparr>sel_heap := (sel_heap s)(p := c'), sel_nodes := (sel_nodes s)(tag \<mapsto> p)\<rparr>, o2), Inr ()))))"

text \<open>The other operations on a node are those of the core the table has for it.\<close>

definition sel_route :: "string \<Rightarrow> ('c \<Rightarrow> 'c \<times> 'a result) \<Rightarrow> 'c selector \<Rightarrow> 'c selector \<times> 'a result" where
  "sel_route tag f s =
     (case sel_nodes s tag of
        None \<Rightarrow> (s, Inl (Err ''the node is not have''))
      | Some p \<Rightarrow> (case f (sel_heap s p) of (c', r) \<Rightarrow> (s\<lparr>sel_heap := (sel_heap s)(p := c')\<rparr>, r)))"

definition sel_DelNode :: "'c core_ops \<Rightarrow> string \<Rightarrow> 'c selector \<Rightarrow> 'c selector \<times> unit result" where
  "sel_DelNode C tag s =
     (case sel_route tag (op_DelNode C tag) s of
        (s', Inl e) \<Rightarrow> (s', Inl e)
      | (s', Inr ()) \<Rightarrow> (s'\<lparr>sel_nodes := (sel_nodes s')(tag := None)\<rparr>, Inr ()))"

definition sel_AddUsers :: "'c core_ops \<Rightarrow> AddUsersParams \<Rightarrow> 'c selector \<Rightarrow> 'c selector \<times> int result" where
  "sel_AddUsers C p s = sel_route (aup_Tag p) (op_AddUsers C p) s"

definition sel_GetUserTrafficSlice ::
  "'c core_ops \<Rightarrow> string \<Rightarrow> bool \<Rightarrow> 'c selector \<Rightarrow> 'c selector \<times> UserTraffic list result" where
  "sel_GetUserTrafficSlice C tag reset s = sel_route tag (op_GetUserTrafficSlice C tag reset) s"

definition sel_DelUsers ::
  "'c core_ops \<Rightarrow> UserInfo list \<Rightarrow> string \<Rightarrow> NodeInfo \<Rightarrow> 'c selector \<Rightarrow> 'c selector \<times> unit result" where
  "sel_DelUsers C users tag info s = sel_route tag (op_DelUsers C users tag info) s"

definition sel_Protocols :: "'c core_ops \<Rightarrow> string list \<Rightarrow> 'c selector \<Rightarrow> string list" where
  "sel_Protocols C order s =
     fold (\<lambda>i ps. case sel_cores s i of None \<Rightarrow> ps | Some p \<Rightarrow> ps @ op_Protocols C (sel_heap s p)) order []"

fun type_names :: "'c core_ops \<Rightarrow> bool \<Rightarrow> string list \<Rightarrow> 'c selector \<Rightarrow> string" where
  "type_names C flag [] s = ''''"
| "type_names C flag (n # ns) s =
     (case sel_cores s n of
        None \<Rightarrow> type_names C flag ns s
      | Some p \<Rightarrow> (if flag then '' '' else '''') @ (if n = '''' then op_Type C (sel_heap s p) else n) @ type_names C True ns s)"

definition sel_Type :: "'c core_ops \<Rightarrow> string list \<Rightarrow> 'c selector \<Rightarrow> string" where
  "sel_Type C order s = ''Selector('' @ type_names C False order s @ '')''"

text \<open>The selector as a core; ord chooses the order of a range over the map of the cores.\<close>

definition sel_ops ::
  "'c core_ops \<Rightarrow> Options unmarshal \<Rightarrow> XrayOptions unmarshal \<Rightarrow> SingOptions unmarshal
   \<Rightarrow> ((string \<rightharpoonup> nat) \<Rightarrow> string list) \<Rightarrow> 'c selector core_ops" where
  "sel_ops C dec decX decS ord =
     \<lparr>op_Start = (\<lambda>s. sel_Start C (ord (sel_cores s)) s),
      op_Close = (\<lambda>s. sel_Close C (ord (sel_cores s)) s),
      op_AddNode = (\<lambda>tag info option s. sel_AddNode C dec decX decS (ord (sel_cores s)) tag info option s),
      op_DelNode = sel_DelNode C,
      op_AddUsers = sel_AddUsers C,
      op_GetUserTrafficSlice = sel_GetUserTrafficSlice C,
      op_DelUsers = sel_DelUsers C,
      op_Protocols = (\<lambda>s. sel_Protocols C (ord (sel_cores s)) s),
      op_Type = (\<lambda>s. sel_Type C (ord (sel_cores s)) s)\<rparr>"

subsection \<open>NewCore\<close>

text \<open>One configured core is used directly, several through a selector.\<close>

datatype 'c server_core = One 'c | Many "'c selector"

definition NewCore :: "'c core_registry \<Rightarrow> CoreConfig list \<Rightarrow> 'c server_core result" where
  "NewCore cores c =
     (if c = [] then Inl (Err ''no have vail core'')
      else if length c > 1 then map_sum id Many (NewSelector cores c)
      else case cores (ct_Type (c ! 0)) of
             Some f \<Rightarrow> map_sum id One (f (c ! 0))
           | None \<Rightarrow> Inl (Err ''unknown core type''))"

end
