(* ===== verification/Selector_Laws.thy ===== *)
theory Selector_Laws
  imports Selector
begin

text \<open>
  What the selector promises: which core a node goes to, that a core sees exactly the
  operations of its own nodes, which of the configured cores it keeps, and that closing it
  closes all of them.
\<close>

subsection \<open>Where a node goes\<close>

lemma isSupported_iff: "isSupported p ps \<longleftrightarrow> p \<in> set ps"
  by (induction ps) auto

definition candidate :: "'c core_ops \<Rightarrow> NodeInfo \<Rightarrow> Options \<Rightarrow> 'c selector \<Rightarrow> string \<Rightarrow> nat \<Rightarrow> bool" where
  "candidate C info option s k p \<longleftrightarrow>
     sel_cores s k = Some p \<and>
     (if CoreName option \<noteq> '''' then k = CoreName option else fits C info option (sel_heap s p))"

lemma fold_pick:
  "fold (\<lambda>i core. case f i of None \<Rightarrow> core | Some p \<Rightarrow> if P p then Some p else core) order acc = Some p
    \<Longrightarrow> acc = Some p \<or> (\<exists>k\<in>set order. f k = Some p \<and> P p)"
proof (induction order arbitrary: acc)
  case (Cons k ks)
  from Cons.IH [OF Cons.prems [unfolded fold.simps comp_apply]]
  show ?case by (auto split: option.splits if_splits)
qed simp

lemma fold_pick_none:
  "fold (\<lambda>i core. case f i of None \<Rightarrow> core | Some p \<Rightarrow> if P p then Some p else core) order acc = None
    \<longleftrightarrow> acc = None \<and> (\<forall>k\<in>set order. \<forall>p. f k = Some p \<longrightarrow> \<not> P p)"
  by (induction order arbitrary: acc) (auto split: option.splits)

lemma pick_core_candidate:
  assumes "pick_core C order info option s = Some p"
  shows "\<exists>k. candidate C info option s k p"
proof (cases "CoreName option = ''''")
  case True
  then have "fold (\<lambda>i core. case sel_cores s i of
               None \<Rightarrow> core
             | Some p \<Rightarrow> if fits C info option (sel_heap s p) then Some p else core) order None = Some p"
    using assms by (simp add: pick_core_def)
  from fold_pick [OF this] True show ?thesis by (auto simp: candidate_def)
next
  case False
  with assms show ?thesis by (auto simp: pick_core_def candidate_def)
qed

lemma pick_core_none:
  assumes "enumerates order (sel_cores s)"
  shows "pick_core C order info option s = None \<longleftrightarrow> (\<forall>k p. \<not> candidate C info option s k p)"
proof (cases "CoreName option = ''''")
  case True
  then have "pick_core C order info option s = None \<longleftrightarrow>
      (\<forall>k\<in>set order. \<forall>p. sel_cores s k = Some p \<longrightarrow> \<not> fits C info option (sel_heap s p))"
    unfolding pick_core_def by (simp only: fold_pick_none simp_thms if_False if_True not_True_eq_False)
  moreover have "k \<in> set order" if "sel_cores s k = Some p" for k p
    using assms that by (auto simp: enumerates_def)
  ultimately show ?thesis using True unfolding candidate_def by auto
next
  case False
  then show ?thesis by (auto simp: pick_core_def candidate_def)
qed

lemma sel_AddNode_step:
  assumes "pick_core C order info option s = Some p"
    and "settle_options dec decX decS (op_Type C (sel_heap s p)) option = (o1, None)"
    and "op_AddNode C tag info o1 (sel_heap s p) = ((c', o2), r)"
  shows "sel_AddNode C dec decX decS order tag info option s =
    ((s\<lparr>sel_heap := (sel_heap s)(p := c'),
        sel_nodes := (case r of Inl e \<Rightarrow> sel_nodes s | Inr u \<Rightarrow> (sel_nodes s)(tag \<mapsto> p))\<rparr>, o2), r)"
  unfolding sel_AddNode_def assms option.case prod.case by (cases r) (simp_all split: unit.split)


text \<open>The example: two cores that are lists of tags, one for vmess and one for hysteria2.\<close>

definition list_ops :: "(string list \<times> string) core_ops" where
  "list_ops =
     \<lparr>op_Start = (\<lambda>c. (c, None)), op_Close = (\<lambda>(ns, t). (([], t), None)),
      op_AddNode = (\<lambda>tag info option (ns, t). (((tag # ns, t), option), Inr ())),
      op_DelNode = (\<lambda>tag (ns, t). ((removeAll tag ns, t), Inr ())),
      op_AddUsers = (\<lambda>p c. (c, Inr (int (length (aup_Users p))))),
      op_GetUserTrafficSlice = (\<lambda>tag reset c. (c, Inr [])),
      op_DelUsers = (\<lambda>us tag info c. (c, Inr ())),
      op_Protocols = (\<lambda>(ns, t). [t]), op_Type = snd\<rparr>"

definition two_cores :: "(string list \<times> string) selector" where
  "two_cores =
     \<lparr>sel_cores = [''a'' \<mapsto> 0, ''b'' \<mapsto> 1], sel_nodes = Map.empty,
      sel_heap = (\<lambda>p. if p = 0 then ([], ''vmess'') else ([], ''hysteria2'')), sel_next = 2\<rparr>"

definition idle_decoder :: "'a unmarshal" where
  "idle_decoder = (\<lambda>_ v. (v, None))"

definition empty_node :: NodeInfo where
  "empty_node =
     \<lparr>ni_Id = 1, ni_Type = ''hysteria2'', Security = 0, PushInterval = 60, PullInterval = 60, ni_RawDNS = \<lparr>DNSMap = Map.empty, DNSJson = ''''\<rparr>,
      ni_Rules = \<lparr>Regexp = [], Protocol = []\<rparr>, VAllss = None, Shadowsocks = None, Trojan = None, Tuic = None,
      AnyTls = None, Hysteria = None, Hysteria2 = None, Common = None\<rparr>"


subsection \<open>A core sees the operations of its nodes\<close>

datatype node_op = OpAdd AddUsersParams | OpDel "UserInfo list" string NodeInfo | OpTraffic string bool

fun op_tag :: "node_op \<Rightarrow> string" where
  "op_tag (OpAdd p) = aup_Tag p"
| "op_tag (OpDel users tag info) = tag"
| "op_tag (OpTraffic tag reset) = tag"

datatype node_out = Added "int result" | Deleted "unit result" | Traffic "UserTraffic list result"

fun node_step :: "'c core_ops \<Rightarrow> node_op \<Rightarrow> 'c \<Rightarrow> 'c \<times> node_out" where
  "node_step C (OpAdd p) c = apsnd Added (op_AddUsers C p c)"
| "node_step C (OpDel users tag info) c = apsnd Deleted (op_DelUsers C users tag info c)"
| "node_step C (OpTraffic tag reset) c = apsnd Traffic (op_GetUserTrafficSlice C tag reset c)"

fun play_ops :: "('o \<Rightarrow> 's \<Rightarrow> 's \<times> 'r) \<Rightarrow> 'o list \<Rightarrow> 's \<Rightarrow> 's \<times> 'r list" where
  "play_ops step [] s = (s, [])"
| "play_ops step (a # as) s =
     (case step a s of (s1, r) \<Rightarrow> (case play_ops step as s1 of (s2, rs) \<Rightarrow> (s2, r # rs)))"

lemma sel_route_frame:
  "sel_nodes (fst (sel_route tag f s)) = sel_nodes s"
  "sel_nodes s tag \<noteq> Some p \<Longrightarrow> sel_heap (fst (sel_route tag f s)) p = sel_heap s p"
  "sel_nodes s tag = Some p \<Longrightarrow>
     sel_heap (fst (sel_route tag f s)) p = fst (f (sel_heap s p)) \<and> snd (sel_route tag f s) = snd (f (sel_heap s p))"
  by (auto simp: sel_route_def split: option.split prod.split)

lemma sel_node_step:
  "sel_nodes (fst (node_step (sel_ops C dec decX decS ord) a s)) = sel_nodes s"
  "sel_nodes s (op_tag a) \<noteq> Some p \<Longrightarrow>
     sel_heap (fst (node_step (sel_ops C dec decX decS ord) a s)) p = sel_heap s p"
  "sel_nodes s (op_tag a) = Some p \<Longrightarrow>
     node_step C a (sel_heap s p) = (sel_heap (fst (node_step (sel_ops C dec decX decS ord) a s)) p,
       snd (node_step (sel_ops C dec decX decS ord) a s))"
  by (cases a; simp add: sel_ops_def sel_AddUsers_def sel_DelUsers_def sel_GetUserTrafficSlice_def sel_route_frame;
      simp add: sel_route_frame apsnd_def map_prod_def case_prod_beta)+

text \<open>
  C11: a core sees the operations of its own nodes and nothing else. In any run of user and
  traffic operations over the selector, a core ends in the state it would reach if it alone
  were given the operations on the nodes it has, and the caller gets its results.
\<close>

theorem selector_projects_on_cores:
  "let (s', outs) = play_ops (node_step (sel_ops C dec decX decS ord)) ops s in
     play_ops (node_step C) (filter (\<lambda>a. sel_nodes s (op_tag a) = Some p) ops) (sel_heap s p)
     = (sel_heap s' p, map snd (filter (\<lambda>x. sel_nodes s (op_tag (fst x)) = Some p) (zip ops outs)))"
proof (induction ops arbitrary: s)
  case (Cons a as)
  let ?S = "node_step (sel_ops C dec decX decS ord)"
  obtain s1 r where s1: "?S a s = (s1, r)" by (metis prod.collapse)
  obtain s2 rs where s2: "play_ops ?S as s1 = (s2, rs)" by (metis prod.collapse)
  have n: "sel_nodes s1 = sel_nodes s" using sel_node_step(1) [of C dec decX decS ord a s] s1 by simp
  note ih = Cons.IH [of s1, unfolded s2 n prod.case Let_def]
  show ?case
  proof (cases "sel_nodes s (op_tag a) = Some p")
    case True
    with sel_node_step(3) [OF True, of C dec decX decS ord] s1 have "node_step C a (sel_heap s p) = (sel_heap s1 p, r)" by simp
    with True s1 s2 ih show ?thesis by simp
  next
    case False
    with sel_node_step(2) [OF False, of C dec decX decS ord] s1 have "sel_heap s1 p = sel_heap s p" by simp
    with False s1 s2 ih show ?thesis by simp
  qed
qed simp

subsection \<open>Which cores are kept\<close>

text \<open>The state of make_cores after the configurations of a list, given by position.\<close>

definition made :: "'c core_registry \<Rightarrow> CoreConfig list \<Rightarrow> 'c selector \<Rightarrow> bool" where
  "made cores cs s \<longleftrightarrow>
     sel_next s = length cs \<and> sel_nodes s = Map.empty
     \<and> (\<forall>i<length cs. \<exists>f. cores (toLower (ct_Type (cs ! i))) = Some f \<and> f (cs ! i) = Inr (sel_heap s i))
     \<and> (\<forall>k p. sel_cores s k = Some p \<longleftrightarrow>
          p < length cs \<and> core_key (cs ! p) = k \<and> (\<forall>j<length cs. p < j \<longrightarrow> core_key (cs ! j) \<noteq> k))"

lemma made_snoc:
  assumes "made cores cs s" "cores (toLower (ct_Type t)) = Some f" "f t = Inr c"
  shows "made cores (cs @ [t])
     (s\<lparr>sel_cores := (sel_cores s)(core_key t \<mapsto> sel_next s), sel_heap := (sel_heap s)(sel_next s := c),
        sel_next := Suc (sel_next s)\<rparr>)" (is "made cores _ ?s")
proof -
  have n: "sel_next s = length cs" "sel_nodes s = Map.empty" using assms(1) by (simp_all add: made_def)
  have h: "\<exists>f. cores (toLower (ct_Type ((cs @ [t]) ! i))) = Some f \<and> f ((cs @ [t]) ! i) = Inr (sel_heap ?s i)"
    if "i < length (cs @ [t])" for i
  proof (cases "i = length cs")
    case True
    with assms(2,3) n show ?thesis by simp
  next
    case False
    with that have "i < length cs" by simp
    with assms(1) False n show ?thesis by (auto simp: made_def nth_append)
  qed
  have c: "sel_cores ?s k = Some p \<longleftrightarrow> p < length (cs @ [t]) \<and> core_key ((cs @ [t]) ! p) = k
      \<and> (\<forall>j<length (cs @ [t]). p < j \<longrightarrow> core_key ((cs @ [t]) ! j) \<noteq> k)" for k p
  proof -
    have old: "sel_cores s k = Some p \<longleftrightarrow> p < length cs \<and> core_key (cs ! p) = k
        \<and> (\<forall>j<length cs. p < j \<longrightarrow> core_key (cs ! j) \<noteq> k)" using assms(1) by (simp add: made_def)
    show ?thesis
    proof (cases "p < length cs")
      case True
      then have "(\<forall>j<length (cs @ [t]). p < j \<longrightarrow> core_key ((cs @ [t]) ! j) \<noteq> k) \<longleftrightarrow>
          (\<forall>j<length cs. p < j \<longrightarrow> core_key (cs ! j) \<noteq> k) \<and> core_key t \<noteq> k"
        by (auto simp: nth_append less_Suc_eq)
      with True old n show ?thesis by (auto simp: nth_append)
    next
      case False
      then show ?thesis using old n by (auto simp: nth_append)
    qed
  qed
  show ?thesis unfolding made_def using n h c by simp
qed

lemma make_cores_made:
  assumes "made cores cs s" "make_cores cores ts s = Inr s'"
  shows "made cores (cs @ ts) s'"
  using assms
proof (induction ts arbitrary: cs s)
  case (Cons t ts)
  from Cons.prems(2) obtain f c where f: "cores (toLower (ct_Type t)) = Some f" "f t = Inr c"
    and r: "make_cores cores ts (s\<lparr>sel_cores := (sel_cores s)(core_key t \<mapsto> sel_next s),
      sel_heap := (sel_heap s)(sel_next s := c), sel_next := Suc (sel_next s)\<rparr>) = Inr s'"
    by (auto split: option.splits sum.splits)
  from Cons.IH [OF made_snoc [OF Cons.prems(1) f] r] show ?case by simp
qed simp

text \<open>
  Which cores a selector keeps. When NewSelector succeeds every configuration has made a
  core, with the constructor of its type in lower case, but the map has only the last core of
  each name (the type, where there is no name): an earlier core of the same name has been made
  and is in no map, so nothing ever starts or closes it.
\<close>

theorem new_selector_keeps_last:
  assumes "NewSelector cores cs = Inr s"
  shows "sel_nodes s = Map.empty
    \<and> (\<forall>i<length cs. \<exists>f. cores (toLower (ct_Type (cs ! i))) = Some f \<and> f (cs ! i) = Inr (sel_heap s i))
    \<and> (\<forall>k p. sel_cores s k = Some p \<longleftrightarrow>
         p < length cs \<and> core_key (cs ! p) = k \<and> (\<forall>j<length cs. p < j \<longrightarrow> core_key (cs ! j) \<noteq> k))
    \<and> (\<forall>i<length cs. \<forall>j<length cs. i < j \<and> core_key (cs ! i) = core_key (cs ! j) \<longrightarrow> i \<notin> ran (sel_cores s))"
proof -
  have "made cores [] \<lparr>sel_cores = Map.empty, sel_nodes = Map.empty, sel_heap = (\<lambda>_. undefined), sel_next = 0\<rparr>"
    by (simp add: made_def)
  from make_cores_made [OF this assms [unfolded NewSelector_def]] have m: "made cores cs s" by simp
  then have c: "sel_cores s k = Some p \<longleftrightarrow> p < length cs \<and> core_key (cs ! p) = k
      \<and> (\<forall>j<length cs. p < j \<longrightarrow> core_key (cs ! j) \<noteq> k)" for k p by (simp add: made_def)
  have "i \<notin> ran (sel_cores s)" if "i < length cs" "j < length cs" "i < j" "core_key (cs ! i) = core_key (cs ! j)" for i j
    using c that by (auto simp: ran_def)
  with m show ?thesis unfolding made_def by blast
qed

definition plain_core :: "string \<Rightarrow> string \<Rightarrow> CoreConfig" where
  "plain_core typ name =
     \<lparr>ct_Type = typ, ct_Name = name, ct_XrayConfig = None, ct_SingConfig = None, ct_Hysteria2Config = None\<rparr>"

theorem new_selector_keeps_last_witness:
  "\<exists>s. NewSelector [''sing'' \<mapsto> \<lambda>c. Inr (ct_Type c)] [plain_core ''sing'' '''', plain_core ''Sing'' '''', plain_core ''sing'' ''''] = Inr s
    \<and> sel_cores s ''sing'' = Some 2 \<and> 0 \<notin> ran (sel_cores s)"
proof -
  let ?cs = "[plain_core ''sing'' '''', plain_core ''Sing'' '''', plain_core ''sing'' '''']"
  have l: "toLower ''sing'' = ''sing''" "toLower ''Sing'' = ''sing''"
    by code_simp+
  obtain s where s: "NewSelector [''sing'' \<mapsto> \<lambda>c. Inr (ct_Type c)] ?cs = Inr s"
    by (simp add: NewSelector_def plain_core_def l)
  note t = new_selector_keeps_last [OF s]
  have k: "core_key (?cs ! 0) = ''sing''" "core_key (?cs ! 2) = ''sing''" by (simp_all add: core_key_def plain_core_def)
  have "sel_cores s ''sing'' = Some 2" using t k by simp
  moreover have "0 \<notin> ran (sel_cores s)"
  proof -
    have "0 < length ?cs" "2 < length ?cs" "(0::nat) < 2 \<and> core_key (?cs ! 0) = core_key (?cs ! 2)" using k by simp_all
    with t show ?thesis by blast
  qed
  ultimately show ?thesis using s by blast
qed

subsection \<open>Closing\<close>

lemma close_cores_result:
  assumes "distinct order" "set order \<subseteq> dom (sel_cores s)" "inj_on (sel_cores s) (dom (sel_cores s))"
    and "close_cores C order s = (s', errs)"
  shows "sel_cores s' = sel_cores s
    \<and> (\<forall>p. sel_heap s' p = (if \<exists>k\<in>set order. sel_cores s k = Some p then fst (op_Close C (sel_heap s p)) else sel_heap s p))
    \<and> (errs = [] \<longleftrightarrow> (\<forall>k\<in>set order. snd (op_Close C (sel_heap s (the (sel_cores s k)))) = None))"
  using assms
proof (induction order arbitrary: s errs)
  case (Cons i ks)
  obtain q where q: "sel_cores s i = Some q" using Cons.prems(2) by (auto simp: domIff subset_iff)
  obtain c' err where c: "op_Close C (sel_heap s q) = (c', err)" by (metis prod.collapse)
  let ?s = "s\<lparr>sel_heap := (sel_heap s)(q := c')\<rparr>"
  obtain errs' where r: "close_cores C ks ?s = (s', errs')" "errs = (case err of None \<Rightarrow> errs' | Some e \<Rightarrow> e # errs')"
    using Cons.prems(4) q c by (auto split: prod.splits)
  have "distinct ks" "set ks \<subseteq> dom (sel_cores ?s)" "inj_on (sel_cores ?s) (dom (sel_cores ?s))"
    using Cons.prems(1-3) by simp_all
  note ih = Cons.IH [OF this r(1)]
  have other: "sel_cores s k \<noteq> Some q" if "k \<in> set ks" for k
  proof
    assume "sel_cores s k = Some q"
    with q Cons.prems(3) have "k = i" by (auto simp: inj_on_def domIff)
    with that Cons.prems(1) show False by simp
  qed
  have "sel_heap s' p = (if \<exists>k\<in>set (i # ks). sel_cores s k = Some p then fst (op_Close C (sel_heap s p)) else sel_heap s p)" for p
  proof (cases "p = q")
    case True
    then have "sel_heap s' p = c'" using ih other by simp
    then show ?thesis using True q c by simp
  next
    case False
    then have "(\<exists>k\<in>set (i # ks). sel_cores s k = Some p) \<longleftrightarrow> (\<exists>k\<in>set ks. sel_cores ?s k = Some p)" using q by simp
    then show ?thesis using ih False by simp
  qed
  moreover have "errs = [] \<longleftrightarrow> (\<forall>k\<in>set (i # ks). snd (op_Close C (sel_heap s (the (sel_cores s k)))) = None)"
  proof -
    have "sel_heap ?s (the (sel_cores s k)) = sel_heap s (the (sel_cores s k))" if "k \<in> set ks" for k
    proof -
      have "k \<in> dom (sel_cores s)" using that Cons.prems(2) by (simp add: subset_iff)
      then obtain p where p: "sel_cores s k = Some p" by blast
      with other [OF that] show ?thesis by simp
    qed
    with ih have "errs' = [] \<longleftrightarrow> (\<forall>k\<in>set ks. snd (op_Close C (sel_heap s (the (sel_cores s k)))) = None)" by simp
    with q c r(2) show ?thesis by (cases err) simp_all
  qed
  ultimately show ?case using ih by simp
qed simp

text \<open>
  Close closes every core of the map, also when one of them fails, and touches no other;
  it returns no error exactly when none of them failed.
\<close>

theorem selector_closes_all:
  assumes "enumerates order (sel_cores s)" "inj_on (sel_cores s) (dom (sel_cores s))"
    and "sel_Close C order s = (s', err)"
  shows "sel_heap s' p = (if p \<in> ran (sel_cores s) then fst (op_Close C (sel_heap s p)) else sel_heap s p)
    \<and> (err = None \<longleftrightarrow> (\<forall>p\<in>ran (sel_cores s). snd (op_Close C (sel_heap s p)) = None))"
proof -
  obtain errs where e: "close_cores C order s = (s', errs)" "err = (if errs = [] then None else Some (join [CHR 0x0A] errs))"
    using assms(3) by (auto simp: sel_Close_def split: prod.splits)
  have o: "distinct order" "set order = dom (sel_cores s)" using assms(1) by (simp_all add: enumerates_def)
  have r: "(\<exists>k\<in>set order. sel_cores s k = Some p) \<longleftrightarrow> p \<in> ran (sel_cores s)" for p using o(2) by (auto simp: ran_def domIff)
  have "(\<forall>k\<in>set order. P (the (sel_cores s k))) \<longleftrightarrow> (\<forall>p\<in>ran (sel_cores s). P p)" for P
    unfolding o(2) by (force simp: ran_def dom_def)
  note closed = this [of "\<lambda>p. snd (op_Close C (sel_heap s p)) = None"]
  have "set order \<subseteq> dom (sel_cores s)" using o(2) by simp
  note c = close_cores_result [OF o(1) this assms(2) e(1)]
  have "err = None \<longleftrightarrow> errs = []" using e(2) by simp
  with c closed have "err = None \<longleftrightarrow> (\<forall>p\<in>ran (sel_cores s). snd (op_Close C (sel_heap s p)) = None)" by blast
  with c r show ?thesis by simp
qed

theorem selector_closes_all_witness:
  "sel_heap (fst (sel_Close list_ops [''a'', ''b''] (two_cores\<lparr>sel_heap := \<lambda>p. ([''n''], ''vmess'')\<rparr>))) 1 = ([], ''vmess'')"
proof -
  let ?s = "two_cores\<lparr>sel_heap := \<lambda>p. ([''n''], ''vmess'')\<rparr>"
  have e: "enumerates [''a'', ''b''] (sel_cores ?s)" by (auto simp: enumerates_def two_cores_def)
  have i: "inj_on (sel_cores ?s) (dom (sel_cores ?s))" by (auto simp: inj_on_def two_cores_def split: if_splits)
  have "sel_cores ?s ''b'' = Some 1" by (simp add: two_cores_def)
  then have r: "1 \<in> ran (sel_cores ?s)" by (rule ranI)
  obtain s' err where c: "sel_Close list_ops [''a'', ''b''] ?s = (s', err)" by (metis prod.collapse)
  from selector_closes_all [OF e i c, of 1] r show ?thesis unfolding c by (simp add: list_ops_def)
qed

subsection \<open>The options of a node without a core\<close>

text \<open>
  The options of a node whose text names no core, or one that does not exist, are decoded
  again for the core that was picked, and the text is dropped. If the text leaves the picked
  type alone they hold that core's options; if it names an unknown core the second decoding
  erases the picked type as well, and the core is given options without its own part, which
  the xray and sing cores dereference.
\<close>

theorem settled_options:
  assumes "Options_UnmarshalJSON dec decX decS data o0 = (opt, None)" "o_Core opt = ''''"
    and "dec data (opt\<lparr>o_Core := typ\<rparr>) = (o', None)"
    and "settle_options dec decX decS typ opt = (o1, None)"
  shows "RawOptions o1 = ''''
    \<and> (o_Core o' = ''xray'' \<longrightarrow> (\<exists>x. o_XrayOptions o1 = Some x \<and> decX data NewXrayOptions = (x, None)))
    \<and> (o_Core o' = ''sing'' \<longrightarrow> (\<exists>x. o_SingOptions o1 = Some x \<and> decS data NewSingOptions = (x, None)))
    \<and> (o_Core o' \<notin> {''xray'', ''sing'', ''hysteria2''} \<longrightarrow> o_Core o1 = ''''
        \<and> o_XrayOptions o1 = o_XrayOptions o' \<and> o_SingOptions o1 = o_SingOptions o')"
proof -
  have "RawOptions opt = data" using assms(1,2)
    by (auto simp: Options_UnmarshalJSON_def split: prod.splits option.splits if_splits)
  then show ?thesis using assms(2-4)
    by (auto simp: settle_options_def Options_UnmarshalJSON_def split: prod.splits option.splits if_splits)
qed

theorem settled_options_witness:
  "\<exists>opt o1. Options_UnmarshalJSON (\<lambda>d v. (v\<lparr>o_Core := d\<rparr>, None)) idle_decoder idle_decoder ''Xray'' default_options = (opt, None)
    \<and> settle_options (\<lambda>d v. (v\<lparr>o_Core := d\<rparr>, None)) idle_decoder idle_decoder ''xray'' opt = (o1, None)
    \<and> o_XrayOptions o1 = None"
proof -
  let ?d = "\<lambda>d v. (v\<lparr>o_Core := d\<rparr>, None :: string option)"
  obtain opt where p: "Options_UnmarshalJSON ?d idle_decoder idle_decoder ''Xray'' default_options = (opt, None)"
    "o_Core opt = ''''" "o_XrayOptions opt = None" "RawOptions opt = ''Xray''"
    by (simp add: Options_UnmarshalJSON_def default_options_def)
  obtain o1 where s: "settle_options ?d idle_decoder idle_decoder ''xray'' opt = (o1, None)"
    using p by (simp add: settle_options_def Options_UnmarshalJSON_def)
  have d: "?d ''Xray'' (opt\<lparr>o_Core := ''xray''\<rparr>) = (opt\<lparr>o_Core := ''Xray''\<rparr>, None)" by simp
  have "o_XrayOptions o1 = None"
    using settled_options [OF p(1,2) d s] p(3) by simp
  with p(1) s show ?thesis by blast
qed

end
