(* ===== verification/Core_Users.thy ===== *)
theory Core_Users
  imports Selector User_Diff Hy2 Xray_Laws
begin

text \<open>
  The contract of a core that the controller relies on for the users of a node, as a locale:
  what AddUsers and DelUsers do to the users a core knows, when they succeed. The hysteria2
  core and the xray core fulfil it, and the selector fulfils it for a node that is on a core
  which does.
\<close>

locale user_core =
  fixes C :: "'c core_ops"
    and tag :: string
    and served :: "'c \<Rightarrow> bool"
    and look :: "'c \<Rightarrow> string \<Rightarrow> 'v option"
    and view :: "UserInfo \<Rightarrow> 'v"
  assumes add_served: "served s \<Longrightarrow>
      op_AddUsers C \<lparr>aup_Tag = tag, aup_Users = us, aup_NodeInfo = n\<rparr> s = (s', Inr i) \<Longrightarrow> served s'"
    and add_look: "served s \<Longrightarrow>
      op_AddUsers C \<lparr>aup_Tag = tag, aup_Users = us, aup_NodeInfo = n\<rparr> s = (s', Inr i) \<Longrightarrow>
      distinct (map Uuid us) \<Longrightarrow> u \<in> set us \<Longrightarrow> look s' (Uuid u) = Some (view u)"
    and add_other: "served s \<Longrightarrow>
      op_AddUsers C \<lparr>aup_Tag = tag, aup_Users = us, aup_NodeInfo = n\<rparr> s = (s', Inr i) \<Longrightarrow>
      k \<notin> Uuid ` set us \<Longrightarrow> look s' k = look s k"
    and del_served: "served s \<Longrightarrow> op_DelUsers C us tag n s = (s', Inr ()) \<Longrightarrow> served s'"
    and del_look: "served s \<Longrightarrow> op_DelUsers C us tag n s = (s', Inr ()) \<Longrightarrow>
      look s' k = (if k \<in> Uuid ` set us then None else look s k)"
begin

text \<open>What the two calls of the controller do together, where neither fails.\<close>

definition synced :: "UserInfo list \<Rightarrow> UserInfo list \<Rightarrow> 'c \<Rightarrow> 'c \<Rightarrow> bool" where
  "synced deleted added s s' \<longleftrightarrow>
     (\<exists>s1 i n n'. (deleted = [] \<and> s1 = s \<or> op_DelUsers C deleted tag n s = (s1, Inr ()))
        \<and> (added = [] \<and> s' = s1 \<or> op_AddUsers C \<lparr>aup_Tag = tag, aup_Users = added, aup_NodeInfo = n'\<rparr> s1 = (s', Inr i)))"

lemma synced_looks:
  assumes "served s" "synced deleted added s s'"
  obtains m where "\<And>k. m k = (if k \<in> Uuid ` set deleted then None else look s k)"
    and "\<And>u. distinct (map Uuid added) \<Longrightarrow> u \<in> set added \<Longrightarrow> look s' (Uuid u) = Some (view u)"
    and "\<And>k. k \<notin> Uuid ` set added \<Longrightarrow> look s' k = m k"
    and "served s'"
proof -
  from assms(2) obtain s1 i n n' where d: "deleted = [] \<and> s1 = s \<or> op_DelUsers C deleted tag n s = (s1, Inr ())"
    and a: "added = [] \<and> s' = s1 \<or> op_AddUsers C \<lparr>aup_Tag = tag, aup_Users = added, aup_NodeInfo = n'\<rparr> s1 = (s', Inr i)"
    unfolding synced_def by blast
  have s1: "served s1" using d assms(1) del_served by blast
  show thesis
  proof (rule that [of "look s1"])
    show "look s1 k = (if k \<in> Uuid ` set deleted then None else look s k)" for k
      using d del_look [OF assms(1)] by auto
    show "look s' (Uuid u) = Some (view u)" if "distinct (map Uuid added)" "u \<in> set added" for u
      using a add_look [OF s1 _ that] that(2) by auto
    show "look s' k = look s1 k" if "k \<notin> Uuid ` set added" for k
      using a add_other [OF s1 _ that] by auto
    show "served s'" using a s1 add_served by blast
  qed
qed

lemma sync_new:
  assumes "served s" "synced deleted added s s'"
    and U: "uniform n old" "uniform n new" "compare_order order old new" "compareUserList order old new = (deleted, added)"
    and "\<And>u. u \<in> set old \<Longrightarrow> look s (Uuid u) = Some (view u)" "u \<in> set new"
  shows "\<exists>w. look s' (Uuid u) = Some (view w) \<and> (w = u \<or> w \<in> set old \<and> same_user u w)"
proof -
  obtain m where m: "\<And>k. m k = (if k \<in> Uuid ` set deleted then None else look s k)"
    "\<And>u. distinct (map Uuid added) \<Longrightarrow> u \<in> set added \<Longrightarrow> look s' (Uuid u) = Some (view u)"
    "\<And>k. k \<notin> Uuid ` set added \<Longrightarrow> look s' k = m k"
    using synced_looks [OF assms(1,2)] by metis
  show ?thesis
    by (rule sync_looks_new [where ma = "look s" and mb = m and mc = "look s'" and view = view,
      OF U m(1) m(2) [OF distinct_added [OF U]] m(3) assms(7,8)])
qed

lemma sync_gone:
  assumes "served s" "synced deleted added s s'"
    and U: "uniform n old" "uniform n new" "compare_order order old new" "compareUserList order old new = (deleted, added)"
    and "\<And>k. k \<notin> Uuid ` set old \<Longrightarrow> look s k = None" "k \<notin> Uuid ` set new"
  shows "look s' k = None"
proof -
  obtain m where m: "\<And>k. m k = (if k \<in> Uuid ` set deleted then None else look s k)"
    "\<And>k. k \<notin> Uuid ` set added \<Longrightarrow> look s' k = m k"
    using synced_looks [OF assms(1,2)] by metis
  show ?thesis
    by (rule sync_looks_gone [where ma = "look s" and mb = m and mc = "look s'", OF U m(1) m(2) assms(7,8)])
qed

lemma synced_served: "served s \<Longrightarrow> synced deleted added s s' \<Longrightarrow> served s'"
  using synced_looks by metis

lemma synced_holds:
  assumes "served s" "synced deleted added s s'"
    and U: "uniform n old" "uniform n new" "compare_order order old new" "compareUserList order old new = (deleted, added)"
    and "holds view old (look s)"
  shows "holds view new (look s')"
proof -
  obtain m where m: "\<And>k. m k = (if k \<in> Uuid ` set deleted then None else look s k)"
    "\<And>u. distinct (map Uuid added) \<Longrightarrow> u \<in> set added \<Longrightarrow> look s' (Uuid u) = Some (view u)"
    "\<And>k. k \<notin> Uuid ` set added \<Longrightarrow> look s' k = m k"
    using synced_looks [OF assms(1,2)] by metis
  show ?thesis
    by (rule sync_holds [where ma = "look s" and mb = m and mc = "look s'" and view = view,
      OF U m(1) m(2) [OF distinct_added [OF U]] m(3) assms(7)])
qed

text \<open>The selector over such a core, for a node it has there.\<close>

lemma sel_user_core:
  "user_core (sel_ops C dec decX decS ord) tag
     (\<lambda>s. sel_nodes s tag = Some p \<and> served (sel_heap s p)) (\<lambda>s. look (sel_heap s p)) view"
  by unfold_locales
    ((auto simp: sel_ops_def sel_AddUsers_def sel_DelUsers_def sel_route_def split: prod.splits
      dest: add_served add_look add_other del_served)[5], (metis del_look imageI)+)

end

subsection \<open>The hysteria2 core\<close>

text \<open>
  The operations as methods: serve is the result of building and starting a server, perm the
  order in which the goroutines of a list of users get the mutex, ord the order of a range
  over a counter.
\<close>

definition hy_ops ::
  "(string \<Rightarrow> NodeInfo \<Rightarrow> Options \<Rightarrow> error option) \<Rightarrow> (string \<Rightarrow> string option) \<Rightarrow> (UserInfo list \<Rightarrow> UserInfo list)
   \<Rightarrow> (TrafficCounter \<Rightarrow> string list) \<Rightarrow> string list \<Rightarrow> hy2 core_ops" where
  "hy_ops serve closeErr perm ord tags =
     \<lparr>op_Start = (\<lambda>s. (s, None)),
      op_Close = (\<lambda>s. (s, case hy_Close closeErr tags of Inl (Err e) \<Rightarrow> Some e | _ \<Rightarrow> None)),
      op_AddNode = (\<lambda>tag n opt s. apfst (\<lambda>s. (s, opt)) (hy_AddNode (serve tag n opt) tag opt s)),
      op_DelNode = hy_DelNode closeErr,
      op_AddUsers = (\<lambda>p s. apsnd Inr (hy_AddUsers (perm (aup_Users p)) (aup_Users p) s)),
      op_GetUserTrafficSlice = (\<lambda>tag reset s.
        apsnd Inr (hy_GetUserTrafficSlice (case Hy2nodes s tag of None \<Rightarrow> [] | Some hk \<Rightarrow>
          (case hk_Counter hk tag of None \<Rightarrow> [] | Some c \<Rightarrow> ord c)) tag reset s)),
      op_DelUsers = (\<lambda>us tag n s. hy_DelUsers (perm us) us tag s),
      op_Protocols = (\<lambda>s. hy_Protocols), op_Type = (\<lambda>s. hy_Type)\<rparr>"

definition permutes_users :: "(UserInfo list \<Rightarrow> UserInfo list) \<Rightarrow> bool" where
  "permutes_users perm \<longleftrightarrow> (\<forall>us. distinct (map Uuid us) \<longrightarrow> distinct (map Uuid (perm us))) \<and> (\<forall>us. set (perm us) = set us)"


lemma hy_user_core:
  assumes "permutes_users perm"
  shows "user_core (hy_ops serve closeErr perm ord tags) tag (hy_has tag) usersMap Id"
proof unfold_locales
  fix s s' :: hy2 and us n i k u
  have p: "set (perm us) = set us" "distinct (map Uuid us) \<Longrightarrow> distinct (map Uuid (perm us))"
    using assms by (simp_all add: permutes_users_def)
  let ?C = "hy_ops serve closeErr perm ord tags"
  let ?p = "\<lparr>aup_Tag = tag, aup_Users = us, aup_NodeInfo = n\<rparr>"
  have a: "op_AddUsers ?C ?p s = (s', Inr i) \<Longrightarrow> s' = fst (hy_AddUsers (perm us) us s)"
    by (cases "hy_AddUsers (perm us) us s") (simp add: hy_ops_def)
  have d: "op_DelUsers ?C us tag n s = (s', r) \<Longrightarrow> s' = fst (hy_DelUsers (perm us) us tag s)" for r
    by (simp add: hy_ops_def)
  show "hy_has tag s'" if "hy_has tag s" "op_AddUsers ?C ?p s = (s', Inr i)"
    using that(1) unfolding a [OF that(2)] by (simp add: hy_has_def)
  show "usersMap s' (Uuid u) = Some (Id u)" if "op_AddUsers ?C ?p s = (s', Inr i)" "distinct (map Uuid us)" "u \<in> set us"
    unfolding a [OF that(1)] using that p by (simp add: hy_AddUsers_def fold_map_upd_distinct)
  show "usersMap s' k = usersMap s k" if "op_AddUsers ?C ?p s = (s', Inr i)" "k \<notin> Uuid ` set us"
    unfolding a [OF that(1)] using that p by (simp add: hy_AddUsers_def fold_map_upd_other)
  show "hy_has tag s'" if "hy_has tag s" "op_DelUsers ?C us tag n s = (s', Inr ())"
    unfolding d [OF that(2)] using that(1) by (auto simp: hy_DelUsers_def hy_has_def)
  show "usersMap s' k = (if k \<in> Uuid ` set us then None else usersMap s k)"
    if "hy_has tag s" "op_DelUsers ?C us tag n s = (s', Inr ())"
    unfolding d [OF that(2)] using that(1) p by (auto simp: hy_DelUsers_def hy_has_def fold_map_del)
qed

interpretation hy_users: user_core "hy_ops serve closeErr (\<lambda>us. us) ord tags" tag "hy_has tag" usersMap Id
  for serve closeErr ord tags tag
  by (rule hy_user_core) (simp add: permutes_users_def)

subsection \<open>The xray core\<close>

text \<open>
  build gives the builders' results for a node, rin and rout what removing its handlers
  returns, links and ord the orders of the ranges over links and counters.
\<close>

definition x_ops ::
  "'m user_ops \<Rightarrow> (string \<Rightarrow> string) \<Rightarrow> string option \<Rightarrow> string option
   \<Rightarrow> (string \<Rightarrow> NodeInfo \<Rightarrow> Options \<Rightarrow> 'm node_build) \<Rightarrow> (string \<Rightarrow> string option) \<Rightarrow> (string \<Rightarrow> string option)
   \<Rightarrow> (string \<Rightarrow> nat list) \<Rightarrow> (TrafficCounter \<Rightarrow> string list) \<Rightarrow> 'm xray core_ops" where
  "x_ops U base64 startErr closeErr build rin rout links ord =
     \<lparr>op_Start = (\<lambda>x. (x, startErr)),
      op_Close = (\<lambda>x. (x, closeErr)),
      op_AddNode = (\<lambda>tag n opt x. apfst (\<lambda>x. (x, opt)) (x_AddNode (build tag n opt) tag opt x)),
      op_DelNode = (\<lambda>tag x. x_DelNode (rin tag) (rout tag) tag x),
      op_AddUsers = (\<lambda>p x. x_AddUsers U base64 (aup_Tag p) (aup_Users p) (aup_NodeInfo p) x),
      op_GetUserTrafficSlice = (\<lambda>tag reset x.
        apsnd Inr (x_GetUserTrafficSlice (case x_Counter x tag of None \<Rightarrow> [] | Some c \<Rightarrow> ord c) tag reset x)),
      op_DelUsers = (\<lambda>us tag n x. x_DelUsers U links us tag x),
      op_Protocols = (\<lambda>x. x_Protocols), op_Type = (\<lambda>x. x_Type)\<rparr>"

lemma add_all_uidMap: "uidMap (fst (add_all U tag xs m x)) = uidMap x"
  by (induction xs arbitrary: m x) (auto split: option.split sum.split)

lemma fst_result:
  "fst (case p of (y, Inl e) \<Rightarrow> (y, Inl e) | (y, Inr ()) \<Rightarrow> (y, Inr i)) = fst p"
  by (cases p) (simp split: sum.split unit.split)

lemma x_AddUsers_uidMap:
  "uidMap (fst (x_AddUsers U base64 tag us n x)) = fold (\<lambda>u m. m(UserTag tag (Uuid u) \<mapsto> Id u)) us (uidMap x)"
proof -
  let ?f = "fold (\<lambda>u m. m(UserTag tag (Uuid u) \<mapsto> Id u)) us (uidMap x)"
  let ?x1 = "x\<lparr>uidMap := ?f\<rparr>"
  show ?thesis
  proof (cases "build_users base64 tag us n")
    case (Inr xs)
    show ?thesis
    proof (cases "GetUserManager tag ?x1")
      case (Inr m)
      have "x_AddUsers U base64 tag us n x = (case add_all U tag xs m ?x1 of
          (x2, Inl e) \<Rightarrow> (x2, Inl e) | (x2, Inr ()) \<Rightarrow> (x2, Inr (int (length xs))))"
        unfolding x_AddUsers_def Let_def \<open>build_users base64 tag us n = Inr xs\<close> Inr sum.case ..
      then have "uidMap (fst (x_AddUsers U base64 tag us n x)) = uidMap ?x1"
        by (simp only: fst_result add_all_uidMap)
      then show ?thesis by simp
    qed (simp add: x_AddUsers_def Let_def Inr)
  qed (simp add: x_AddUsers_def Let_def)
qed

lemma del_users_uidMap:
  "del_users U links tag us m x = (x', Inr ()) \<Longrightarrow>
    uidMap x' (UserTag tag k) = (if k \<in> Uuid ` set us then None else uidMap x (UserTag tag k))"
proof (induction us arbitrary: m x)
  case (Cons u us)
  then obtain m' where d: "del_users U links tag us m'
      (forget_user links tag (UserTag tag (Uuid u)) (x\<lparr>inbounds := (inbounds x)(tag := Manager m')\<rparr>)) = (x', Inr ())"
    by (auto simp: Let_def split: sum.splits)
  from Cons.IH [OF d] show ?case by (auto simp: forget_user_maps)
qed simp

lemma x_DelUsers_uidMap:
  "x_DelUsers U links us tag x = (x', Inr ()) \<Longrightarrow>
    uidMap x' (UserTag tag k) = (if k \<in> Uuid ` set us then None else uidMap x (UserTag tag k))"
  by (cases "GetUserManager tag x") (simp_all add: x_DelUsers_def del_users_uidMap)

lemma fold_tag_distinct:
  "distinct (map Uuid us) \<Longrightarrow> distinct (map (\<lambda>u. UserTag tag (Uuid u)) us)"
  by (simp add: distinct_map inj_on_def)

interpretation x_users: user_core "x_ops U base64 startErr closeErr build rin rout links ord" tag
  "\<lambda>x. True" "\<lambda>x k. uidMap x (UserTag tag k)" Id
  for U base64 startErr closeErr build rin rout links ord tag
proof unfold_locales
  fix x x' :: "'a xray" and us n i u k
  let ?C = "x_ops U base64 startErr closeErr build rin rout links ord"
  assume a: "op_AddUsers ?C \<lparr>aup_Tag = tag, aup_Users = us, aup_NodeInfo = n\<rparr> x = (x', Inr i)"
  then have m: "uidMap x' = fold (\<lambda>u m. m(UserTag tag (Uuid u) \<mapsto> Id u)) us (uidMap x)"
    using x_AddUsers_uidMap [of U base64 tag us n x] by (simp add: x_ops_def)
  show "uidMap x' (UserTag tag (Uuid u)) = Some (Id u)" if "distinct (map Uuid us)" "u \<in> set us"
    unfolding m by (rule fold_map_upd_distinct [OF fold_tag_distinct [OF that(1)] that(2)])
  show "uidMap x' (UserTag tag k) = uidMap x (UserTag tag k)" if "k \<notin> Uuid ` set us"
    unfolding m by (rule fold_map_upd_other) (use that in auto)
next
  fix x x' :: "'a xray" and us n k
  let ?C = "x_ops U base64 startErr closeErr build rin rout links ord"
  assume "op_DelUsers ?C us tag n x = (x', Inr ())"
  then have "x_DelUsers U links us tag x = (x', Inr ())" by (simp add: x_ops_def)
  then show "uidMap x' (UserTag tag k) = (if k \<in> Uuid ` set us then None else uidMap x (UserTag tag k))"
    by (rule x_DelUsers_uidMap)
qed simp_all

text \<open>The selector with the node on the hysteria2 core at address p.\<close>

interpretation sel_hy_users: user_core
  "sel_ops (hy_ops serve closeErr (\<lambda>us. us) ord tags) dec decX decS sord" tag
  "\<lambda>s. sel_nodes s tag = Some p \<and> hy_has tag (sel_heap s p)" "\<lambda>s. usersMap (sel_heap s p)" Id
  for serve closeErr ord tags dec decX decS sord tag p
  by (rule hy_users.sel_user_core)

end
