(* ===== verification/Sing_Inbound.thy ===== *)
theory Sing_Inbound
  imports Conf Go_Base64
begin

text \<open>
  core/sing/node.go's getInboundOptions and core/sing/utils.go: what the sing core asks
  sing-box to listen with for a node. JSON decoding, the URL and duration parsers of the
  standard library and the random source are parameters. A pointer's nil is None, and
  following it is a panic.
\<close>

subsection \<open>node.go: the JSON of the transports\<close>

record HttpNetworkConfig =
  hn_Type :: string
  hn_Request :: "string option"
  hn_Response :: "string option"

record HttpRequest =
  hr_Version :: string
  hr_Method :: string
  hr_Path :: "string list"
  hr_Host :: "string list"

record WsNetworkConfig =
  wn_Path :: string
  wn_Headers :: "string \<rightharpoonup> string"

record GrpcNetworkConfig =
  gn_ServiceName :: string

record HttpupgradeNetworkConfig =
  un_Path :: string
  un_Host :: string

text \<open>
  The decoders give an error or a value. url.Parse gives the path and the value of the
  query's ed, ParseDuration gives 0 where it fails, ParseAddr the address in its normal form.
\<close>

record sing_std =
  json_http :: "string \<Rightarrow> string + HttpNetworkConfig"
  json_request :: "string \<Rightarrow> string + HttpRequest"
  json_ws :: "string \<Rightarrow> string + WsNetworkConfig"
  json_grpc :: "string \<Rightarrow> string + GrpcNetworkConfig"
  json_httpupgrade :: "string \<Rightarrow> string + HttpupgradeNetworkConfig"
  url_Parse :: "string \<Rightarrow> string + string \<times> string"
  ParseDuration :: "string \<Rightarrow> int"
  ParseAddr :: "string \<Rightarrow> string + string"
  rand_Read :: "nat \<Rightarrow> string"

subsection \<open>sing-box's options, as far as the code sets them\<close>

record ListenOptions =
  Listen :: string
  ListenPort :: "16 word"
  lo_TCPFastOpen :: bool

record InboundMultiplexOptions =
  im_Enabled :: bool
  im_Padding :: bool
  im_Brutal :: BrutalOptions

record ServerOptions =
  sv_Server :: string
  sv_ServerPort :: "16 word"

record InboundRealityOptions =
  re_Enabled :: bool
  re_ShortID :: "string list"
  re_PrivateKey :: string
  re_Xver :: "8 word"
  re_Handshake :: ServerOptions
  re_MaxTimeDifference :: int

record InboundTLSOptions =
  tls_Enabled :: bool
  tls_ServerName :: string
  tls_ALPN :: "string list"
  tls_CertificatePath :: string
  tls_KeyPath :: string
  tls_Reality :: "InboundRealityOptions option"

record V2RayHTTPOptions =
  ho_Host :: "string list"
  ho_Path :: string
  ho_Method :: string

record V2RayWebsocketOptions =
  wo_Path :: string
  wo_MaxEarlyData :: "32 word"
  wo_EarlyDataHeaderName :: string
  wo_Headers :: "string \<rightharpoonup> string list"

record V2RayTransportOptions =
  tp_Type :: string
  HTTPOptions :: V2RayHTTPOptions
  WebsocketOptions :: V2RayWebsocketOptions
  GRPC_ServiceName :: string
  HTTPUpgrade_Path :: string
  HTTPUpgrade_Host :: string

record Hysteria2Obfs =
  ob_Type :: string
  ob_Password :: string

datatype inbound_options =
    VLESSInbound ListenOptions InboundTLSOptions V2RayTransportOptions "InboundMultiplexOptions option"
  | VMessInbound ListenOptions InboundTLSOptions V2RayTransportOptions "InboundMultiplexOptions option"
  | ShadowsocksInbound ListenOptions string string "(string \<times> string) list" "InboundMultiplexOptions option"
  | TrojanInbound ListenOptions InboundTLSOptions V2RayTransportOptions "InboundMultiplexOptions option"
      "ServerOptions option" "(string \<rightharpoonup> ServerOptions) option"
  | TUICInbound ListenOptions string bool InboundTLSOptions
  | AnyTLSInbound ListenOptions "string list" InboundTLSOptions
  | HysteriaInbound ListenOptions int int string InboundTLSOptions
  | Hysteria2Inbound ListenOptions int int bool "Hysteria2Obfs option" InboundTLSOptions
  | NilOptions

record Inbound =
  in_Type :: string
  in_Tag :: string
  in_Options :: inbound_options

text \<open>The zero values of Go's structs.\<close>

definition zero_tls :: InboundTLSOptions where
  "zero_tls = \<lparr>tls_Enabled = False, tls_ServerName = '''', tls_ALPN = [], tls_CertificatePath = '''',
     tls_KeyPath = '''', tls_Reality = None\<rparr>"

definition zero_ws :: V2RayWebsocketOptions where
  "zero_ws = \<lparr>wo_Path = '''', wo_MaxEarlyData = 0, wo_EarlyDataHeaderName = '''', wo_Headers = Map.empty\<rparr>"

definition zero_transport :: "string \<Rightarrow> V2RayTransportOptions" where
  "zero_transport typ =
     \<lparr>tp_Type = typ, HTTPOptions = \<lparr>ho_Host = [], ho_Path = '''', ho_Method = ''''\<rparr>, WebsocketOptions = zero_ws,
      GRPC_ServiceName = '''', HTTPUpgrade_Path = '''', HTTPUpgrade_Host = ''''\<rparr>"

subsection \<open>utils.go\<close>

text \<open>
  uint16 of an int keeps its low 16 bits. The map is filled up to the entry that fails; the
  entries come in the order of the range.
\<close>

fun fill_fallback ::
  "(string \<times> FallBack) list \<Rightarrow> (string \<rightharpoonup> ServerOptions) \<Rightarrow> (string \<rightharpoonup> ServerOptions) \<times> error option" where
  "fill_fallback [] m = (m, None)"
| "fill_fallback ((k, v) # kvs) m =
     (case atoi (fb_ServerPort v) of
        (_, Some err) \<Rightarrow> (m, Some (Err ''unable to parse fallbackForALPN server port error: ''))
      | (fallbackPort, None) \<Rightarrow>
          fill_fallback kvs (m(k \<mapsto> \<lparr>sv_Server = fb_Server v, sv_ServerPort = word_of_int fallbackPort\<rparr>)))"

definition processFallback ::
  "FallBackConfigForSing \<Rightarrow> (string \<rightharpoonup> ServerOptions) \<Rightarrow> (string \<rightharpoonup> ServerOptions) \<times> error option" where
  "processFallback fb m = fill_fallback (FallBackForALPN fb) m"

subsection \<open>node.go: the parts of getInboundOptions\<close>

definition json_err :: "string \<Rightarrow> string + 'a \<Rightarrow> 'a result" where
  "json_err msg r = (case r of Inl e \<Rightarrow> Inl (Err (msg @ e)) | Inr v \<Rightarrow> Inr v)"

definition sing_listen :: "sing_std \<Rightarrow> NodeInfo \<Rightarrow> Options \<Rightarrow> ListenOptions result" where
  "sing_listen S info c =
     (case ParseAddr S (ListenIP c) of
        Inl _ \<Rightarrow> Inl (Err ''the listen ip not vail'')
      | Inr addr \<Rightarrow>
          bind_res (deref (Common info)) (\<lambda>cn.
          bind_res (deref (o_SingOptions c)) (\<lambda>so.
          Inr \<lparr>Listen = addr, ListenPort = word_of_int (ServerPort cn), lo_TCPFastOpen = TCPFastOpen so\<rparr>)))"

definition sing_multiplex :: "SingOptions \<Rightarrow> InboundMultiplexOptions option" where
  "sing_multiplex so =
     (case Multiplex so of
        None \<Rightarrow> None
      | Some mx \<Rightarrow> Some \<lparr>im_Enabled = mx_Enabled mx, im_Padding = Padding mx, im_Brutal = Brutal mx\<rparr>)"

definition reality_options :: "sing_std \<Rightarrow> VAllssNode \<Rightarrow> InboundTLSOptions" where
  "reality_options S v =
     (let ts = TlsSettings v; port = fst (atoi (ts_ServerPort ts));
          dest = (if Dest ts \<noteq> '''' then Dest ts else ts_ServerName ts)
      in zero_tls\<lparr>tls_Enabled := True, tls_ServerName := ts_ServerName ts,
           tls_Reality := Some \<lparr>re_Enabled = True, re_ShortID = [ShortId ts], re_PrivateKey = PrivateKey ts,
             re_Xver = ucast (Xver ts), re_Handshake = \<lparr>sv_Server = dest, sv_ServerPort = word_of_int port\<rparr>,
             re_MaxTimeDifference = ParseDuration S (MaxTimeDiff (RealityConfig v))\<rparr>\<rparr>)"

definition sing_tls :: "sing_std \<Rightarrow> NodeInfo \<Rightarrow> Options \<Rightarrow> InboundTLSOptions result" where
  "sing_tls S info c =
     (if Security info = Tls then
        (case o_CertConfig c of
           None \<Rightarrow> Inl (Err ''the CertConfig is not vail'')
         | Some cc \<Rightarrow>
             Inr (if CertMode cc \<in> {''none'', ''''} then zero_tls
                  else zero_tls\<lparr>tls_Enabled := True, tls_CertificatePath := CertFile cc, tls_KeyPath := KeyFile cc\<rparr>))
      else if Security info = Reality then bind_res (deref (VAllss info)) (\<lambda>v. Inr (reality_options S v))
      else Inr zero_tls)"

text \<open>The transports: tcp with a disguise, websocket, grpc, httpupgrade.\<close>

definition http_transport :: "sing_std \<Rightarrow> string \<Rightarrow> V2RayTransportOptions \<Rightarrow> V2RayTransportOptions result" where
  "http_transport S settings t =
     (if settings = '''' then Inr (t\<lparr>tp_Type := ''''\<rparr>)
      else bind_res (json_err ''decode NetworkSettings error: '' (json_http S settings)) (\<lambda>network.
        if hn_Type network = ''http'' then
          (case hn_Request network of
             None \<Rightarrow> Inr (t\<lparr>tp_Type := hn_Type network\<rparr>)
           | Some raw \<Rightarrow>
               bind_res (json_err ''decode HttpRequest error: '' (json_request S raw)) (\<lambda>request.
               case hr_Path request of
                 [] \<Rightarrow> Inl (Panic ''index out of range'')
               | p # _ \<Rightarrow> Inr (t\<lparr>tp_Type := hn_Type network,
                   HTTPOptions := \<lparr>ho_Host = hr_Host request, ho_Path = p, ho_Method = hr_Method request\<rparr>\<rparr>)))
        else Inr (t\<lparr>tp_Type := ''''\<rparr>)))"

definition ws_transport :: "sing_std \<Rightarrow> string \<Rightarrow> V2RayTransportOptions \<Rightarrow> V2RayTransportOptions result" where
  "ws_transport S settings t =
     (let ws = (\<lambda>path ed headers. Inr (t\<lparr>WebsocketOptions :=
         \<lparr>wo_Path = path, wo_MaxEarlyData = word_of_int ed, wo_EarlyDataHeaderName = ''Sec-WebSocket-Protocol'',
          wo_Headers = headers\<rparr>\<rparr>))
      in if settings = '''' then ws '''' 0 Map.empty
         else bind_res (json_err ''decode NetworkSettings error: '' (json_ws S settings)) (\<lambda>network.
           bind_res (json_err ''parse path error: '' (url_Parse S (wn_Path network))) (\<lambda>(path, ed).
           ws path (fst (atoi ed)) (\<lambda>k. map_option (\<lambda>v. [v]) (wn_Headers network k)))))"

definition grpc_transport :: "sing_std \<Rightarrow> string \<Rightarrow> V2RayTransportOptions \<Rightarrow> V2RayTransportOptions result" where
  "grpc_transport S settings t =
     bind_res (if settings = '''' then Inr \<lparr>gn_ServiceName = ''''\<rparr>
               else json_err ''decode NetworkSettings error: '' (json_grpc S settings)) (\<lambda>network.
     Inr (t\<lparr>GRPC_ServiceName := gn_ServiceName network\<rparr>))"

definition httpupgrade_transport :: "sing_std \<Rightarrow> string \<Rightarrow> V2RayTransportOptions \<Rightarrow> V2RayTransportOptions result" where
  "httpupgrade_transport S settings t =
     bind_res (if settings = '''' then Inr \<lparr>un_Path = '''', un_Host = ''''\<rparr>
               else json_err ''decode NetworkSettings error: '' (json_httpupgrade S settings)) (\<lambda>network.
     Inr (t\<lparr>HTTPUpgrade_Path := un_Path network, HTTPUpgrade_Host := un_Host network\<rparr>))"

definition v2ray_transport :: "sing_std \<Rightarrow> VAllssNode \<Rightarrow> V2RayTransportOptions result" where
  "v2ray_transport S n =
     (let t = zero_transport (Network n); settings = NetworkSettings n
      in if Network n = ''tcp'' then http_transport S settings t
         else if Network n = ''ws'' then ws_transport S settings t
         else if Network n = ''grpc'' then grpc_transport S settings t
         else if Network n = ''httpupgrade'' then httpupgrade_transport S settings t
         else Inr t)"

definition trojan_transport :: "sing_std \<Rightarrow> TrojanNode \<Rightarrow> V2RayTransportOptions result" where
  "trojan_transport S n =
     (let t = zero_transport (tr_Network n); settings = tr_NetworkSettings n
      in if tr_Network n = ''tcp'' then Inr (t\<lparr>tp_Type := ''''\<rparr>)
         else if tr_Network n = ''ws'' then ws_transport S settings t
         else if tr_Network n = ''grpc'' then grpc_transport S settings t
         else Inr (t\<lparr>tp_Type := ''''\<rparr>))"

text \<open>The shadowsocks inbound starts with one user whose password is random.\<close>

definition sing_ss_key_length :: "string \<Rightarrow> nat" where
  "sing_ss_key_length c =
     (if c = ''2022-blake3-aes-128-gcm'' then 16
      else if c \<in> {''2022-blake3-aes-256-gcm'', ''2022-blake3-chacha20-poly1305''} then 32
      else 16)"

definition sing_shadowsocks ::
  "sing_std \<Rightarrow> ListenOptions \<Rightarrow> InboundMultiplexOptions option \<Rightarrow> ShadowsocksNode \<Rightarrow> inbound_options" where
  "sing_shadowsocks S listen multiplex n =
     (let randomPasswd = rand_Read S (sing_ss_key_length (Cipher n));
          new = contains (Cipher n) ''2022''
      in ShadowsocksInbound listen (Cipher n) (if new then ServerKey n else '''')
           [('''', if new then EncodeToString randomPasswd else randomPasswd)] multiplex)"

definition trojan_fallback :: "FallBackConfigForSing \<Rightarrow> ServerOptions option \<times> (string \<rightharpoonup> ServerOptions) option" where
  "trojan_fallback fb =
     ((case atoi (fb_ServerPort (fs_FallBack fb)) of
         (_, Some err) \<Rightarrow> None
       | (fallbackPort, None) \<Rightarrow>
           Some \<lparr>sv_Server = fb_Server (fs_FallBack fb), sv_ServerPort = word_of_int fallbackPort\<rparr>),
      (case processFallback fb Map.empty of (_, Some err) \<Rightarrow> None | (m, None) \<Rightarrow> Some m))"

definition sing_trojan ::
  "ListenOptions \<Rightarrow> InboundTLSOptions \<Rightarrow> V2RayTransportOptions \<Rightarrow> InboundMultiplexOptions option \<Rightarrow> SingOptions
   \<Rightarrow> inbound_options" where
  "sing_trojan listen tls t multiplex so =
     (case so_FallBackConfigs so of
        None \<Rightarrow> TrojanInbound listen tls t multiplex None None
      | Some fb \<Rightarrow> TrojanInbound listen tls t multiplex (fst (trojan_fallback fb)) (snd (trojan_fallback fb)))"

definition hy2_obfs :: "Hysteria2Node \<Rightarrow> Hysteria2Obfs option" where
  "hy2_obfs n =
     (if ObfsType n \<noteq> '''' \<and> ObfsPassword n \<noteq> '''' then Some \<lparr>ob_Type = ObfsType n, ob_Password = ObfsPassword n\<rparr>
      else if ObfsType n \<noteq> '''' then Some \<lparr>ob_Type = ''salamander'', ob_Password = ObfsType n\<rparr>
      else None)"

subsection \<open>node.go: getInboundOptions\<close>

text \<open>The type and the options of the inbound, by the node's type.\<close>

definition sing_protocol ::
  "sing_std \<Rightarrow> NodeInfo \<Rightarrow> SingOptions \<Rightarrow> ListenOptions \<Rightarrow> InboundMultiplexOptions option \<Rightarrow> InboundTLSOptions
   \<Rightarrow> (string \<times> inbound_options) result" where
  "sing_protocol S info so listen multiplex tls =
     (if ni_Type info = ''vmess'' \<or> ni_Type info = ''vless'' then
        bind_res (deref (VAllss info)) (\<lambda>n.
        bind_res (v2ray_transport S n) (\<lambda>t.
        Inr (if ni_Type info = ''vless'' then (''vless'', VLESSInbound listen tls t multiplex)
             else (''vmess'', VMessInbound listen tls t multiplex))))
      else if ni_Type info = ''shadowsocks'' then
        bind_res (deref (Shadowsocks info)) (\<lambda>n. Inr (''shadowsocks'', sing_shadowsocks S listen multiplex n))
      else if ni_Type info = ''trojan'' then
        bind_res (deref (Trojan info)) (\<lambda>n.
        bind_res (trojan_transport S n) (\<lambda>t. Inr (''trojan'', sing_trojan listen tls t multiplex so)))
      else if ni_Type info = ''tuic'' then
        bind_res (deref (Tuic info)) (\<lambda>n. Inr (''tuic'',
          TUICInbound listen (CongestionControl n) (ZeroRTTHandshake n) (tls\<lparr>tls_ALPN := tls_ALPN tls @ [''h3'']\<rparr>)))
      else if ni_Type info = ''anytls'' then
        bind_res (deref (AnyTls info)) (\<lambda>n. Inr (''anytls'', AnyTLSInbound listen (PaddingScheme n) tls))
      else if ni_Type info = ''hysteria'' then
        bind_res (deref (Hysteria info)) (\<lambda>n.
          Inr (''hysteria'', HysteriaInbound listen (h_UpMbps n) (h_DownMbps n) (Obfs n) tls))
      else if ni_Type info = ''hysteria2'' then
        bind_res (deref (Hysteria2 info)) (\<lambda>n. Inr (''hysteria2'',
          Hysteria2Inbound listen (UpMbps n) (DownMbps n) (Ignore_Client_Bandwidth n) (hy2_obfs n) tls))
      else Inr ('''', NilOptions))"

definition getInboundOptions :: "sing_std \<Rightarrow> string \<Rightarrow> NodeInfo \<Rightarrow> Options \<Rightarrow> Inbound result" where
  "getInboundOptions S tag info c =
     bind_res (sing_listen S info c) (\<lambda>listen.
     bind_res (deref (o_SingOptions c)) (\<lambda>so.
     bind_res (sing_tls S info c) (\<lambda>tls.
     bind_res (sing_protocol S info so listen (sing_multiplex so) tls) (\<lambda>(typ, opts).
     Inr \<lparr>in_Type = typ, in_Tag = tag, in_Options = opts\<rparr>))))"

end
