(* ===== verification/Sing.thy ===== *)
theory Sing
  imports Core_Api Sing_Inbound Traffic_Slice Limiter_Runs Conn_Counter
begin

text \<open>
  The sing core: core/sing/sing.go, node.go's AddNode and DelNode, user.go and hook.go. The
  inbounds of sing-box are parameters: an inbound has a Go type, which the code's type
  assertions test, and a state of type 'm on which its AddUsers and DelUsers act.
\<close>

subsection \<open>State\<close>

datatype inbound_type =
    VLESS_Inbound | VMess_Inbound | Shadowsocks_MultiInbound | Trojan_Inbound | TUIC_Inbound
  | Hysteria_Inbound | Hysteria2_Inbound | AnyTLS_Inbound | Other_Inbound

text \<open>
  The users are kept by Uuid, for all nodes together; the counters, in the hook server, by
  node, and by Uuid within one.
\<close>

record 'm sing =
  sg_inbounds :: "string \<rightharpoonup> inbound_type \<times> 'm"
  sg_counter :: "string \<rightharpoonup> TrafficCounter"
  sg_store :: tstore
  sg_uidMap :: "string \<rightharpoonup> int"
  sg_minBytes :: "string \<rightharpoonup> int"

datatype sing_user =
    VLESSUser string string string
  | VMessUser string string
  | ShadowsocksUser string string
  | TrojanUser string string
  | TUICUser string string string
  | HysteriaUser string string
  | Hysteria2User string string
  | AnyTLSUser string string

text \<open>The methods of an inbound; TUIC's and Hysteria2's AddUsers take the ids as well.\<close>

record 'm inbound_ops =
  ib_AddUsers :: "sing_user list \<Rightarrow> int list option \<Rightarrow> 'm \<Rightarrow> 'm \<times> string option"
  ib_DelUsers :: "string list \<Rightarrow> 'm \<Rightarrow> 'm \<times> string option"

subsection \<open>sing.go\<close>

text \<open>
  New: read and decode give the original configuration, of a type 'o of which the code only
  replaces the log and the time settings; newBox is box.New, of which its error is read here.
\<close>

record NTPOptions =
  np_Enabled :: bool
  np_WriteToSystem :: bool
  np_Server :: ServerOptions

record 'o box_options =
  bo_original :: 'o
  bo_Log :: SingLogConfig
  bo_NTP :: NTPOptions

definition sg_options ::
  "(string \<Rightarrow> string + string) \<Rightarrow> (string \<Rightarrow> string + 'o) \<Rightarrow> 'o \<Rightarrow> SingConfig \<Rightarrow> 'o box_options result" where
  "sg_options read decode zero sc =
     bind_res
       (if OriginalPath sc \<noteq> '''' then
          bind_res (json_err ''read original config error: '' (read (OriginalPath sc))) (\<lambda>data.
            json_err ''unmarshal original config error: '' (decode data))
        else Inr zero)
       (\<lambda>options. Inr \<lparr>bo_original = options, bo_Log = sc_LogConfig sc,
          bo_NTP = \<lparr>np_Enabled = Enable (NtpConfig sc), np_WriteToSystem = True,
            np_Server = \<lparr>sv_Server = nt_Server (NtpConfig sc), sv_ServerPort = nt_ServerPort (NtpConfig sc)\<rparr>\<rparr>\<rparr>)"

definition sg_New ::
  "(string \<Rightarrow> string + string) \<Rightarrow> (string \<Rightarrow> string + 'o) \<Rightarrow> 'o \<Rightarrow> ('o box_options \<Rightarrow> string option) \<Rightarrow> CoreConfig
   \<Rightarrow> tstore \<Rightarrow> 'm sing result" where
  "sg_New read decode zero newBox c h =
     bind_res (deref (ct_SingConfig c)) (\<lambda>sc.
     bind_res (sg_options read decode zero sc) (\<lambda>options.
     case newBox options of
       Some e \<Rightarrow> Inl (Err e)
     | None \<Rightarrow> Inr \<lparr>sg_inbounds = Map.empty, sg_counter = Map.empty, sg_store = h,
         sg_uidMap = Map.empty, sg_minBytes = Map.empty\<rparr>))"

definition sg_Protocols :: "string list" where
  "sg_Protocols =
     [''vmess'', ''vless'', ''shadowsocks'', ''trojan'', ''tuic'', ''anytls'', ''hysteria'', ''hysteria2'']"

definition sg_Type :: string where
  "sg_Type = ''sing''"

subsection \<open>node.go\<close>

text \<open>Create and Remove of sing-box's inbound manager: an error, or the inbound.\<close>

definition sg_AddNode ::
  "sing_std \<Rightarrow> (string \<Rightarrow> Inbound \<Rightarrow> string + inbound_type \<times> 'm) \<Rightarrow> string \<Rightarrow> NodeInfo \<Rightarrow> Options \<Rightarrow> 'm sing
   \<Rightarrow> 'm sing \<times> unit result" where
  "sg_AddNode S create tag info config s0 =
     (let s = s0\<lparr>sg_minBytes := (sg_minBytes s0)(tag \<mapsto> i64 (ReportMinTraffic config * 1024))\<rparr>
      in case getInboundOptions S tag info config of
           Inl e \<Rightarrow> (s, Inl e)
         | Inr c \<Rightarrow>
             (case create tag c of
                Inl e \<Rightarrow> (s, Inl (Err (''add inbound error: '' @ e)))
              | Inr ib \<Rightarrow> (s\<lparr>sg_inbounds := (sg_inbounds s)(tag \<mapsto> ib)\<rparr>, Inr ())))"

definition sg_DelNode :: "(string \<Rightarrow> string option) \<Rightarrow> string \<Rightarrow> 'm sing \<Rightarrow> 'm sing \<times> unit result" where
  "sg_DelNode remove tag s =
     (case remove tag of
        Some e \<Rightarrow> (s, Inl (Err (''delete inbound error: '' @ e)))
      | None \<Rightarrow> (s\<lparr>sg_inbounds := (sg_inbounds s)(tag := None)\<rparr>, Inr ()))"

subsection \<open>user.go: AddUsers\<close>

text \<open>A slice of the first n bytes panics where there are fewer.\<close>

definition slice_to :: "nat \<Rightarrow> string \<Rightarrow> string result" where
  "slice_to n s = (if n > length s then Inl (Panic ''slice bounds out of range'') else Inr (take n s))"

definition sing_ss_password :: "string \<Rightarrow> string \<Rightarrow> string result" where
  "sing_ss_password c uuid =
     (if c = ''2022-blake3-aes-128-gcm'' then bind_res (slice_to 16 uuid) (\<lambda>p. Inr (EncodeToString p))
      else if c = ''2022-blake3-aes-256-gcm'' then bind_res (slice_to 32 uuid) (\<lambda>p. Inr (EncodeToString p))
      else Inr uuid)"

fun map_res :: "('a \<Rightarrow> 'b result) \<Rightarrow> 'a list \<Rightarrow> 'b list result" where
  "map_res f [] = Inr []"
| "map_res f (x # xs) = bind_res (f x) (\<lambda>y. bind_res (map_res f xs) (\<lambda>ys. Inr (y # ys)))"

text \<open>
  The users of a node as its inbound wants them, with the Go type that is asserted and the
  ids, if they are passed. The node's own settings are read once per user.
\<close>

definition sing_users ::
  "UserInfo list \<Rightarrow> NodeInfo \<Rightarrow> (inbound_type \<times> sing_user list \<times> int list option) option result" where
  "sing_users us info =
     (let ids = map Id us
      in if ni_Type info = ''vless'' then
           bind_res (map_res (\<lambda>u. bind_res (deref (VAllss info)) (\<lambda>v. Inr (VLESSUser (Uuid u) (Flow v) (Uuid u)))) us)
             (\<lambda>xs. Inr (Some (VLESS_Inbound, xs, None)))
         else if ni_Type info = ''vmess'' then
           Inr (Some (VMess_Inbound, map (\<lambda>u. VMessUser (Uuid u) (Uuid u)) us, None))
         else if ni_Type info = ''shadowsocks'' then
           bind_res (map_res (\<lambda>u. bind_res (deref (Shadowsocks info)) (\<lambda>n.
               bind_res (sing_ss_password (Cipher n) (Uuid u)) (\<lambda>p. Inr (ShadowsocksUser (Uuid u) p)))) us)
             (\<lambda>xs. Inr (Some (Shadowsocks_MultiInbound, xs, None)))
         else if ni_Type info = ''trojan'' then
           Inr (Some (Trojan_Inbound, map (\<lambda>u. TrojanUser (Uuid u) (Uuid u)) us, None))
         else if ni_Type info = ''tuic'' then
           Inr (Some (TUIC_Inbound, map (\<lambda>u. TUICUser (Uuid u) (Uuid u) (Uuid u)) us, Some ids))
         else if ni_Type info = ''hysteria'' then
           Inr (Some (Hysteria_Inbound, map (\<lambda>u. HysteriaUser (Uuid u) (Uuid u)) us, None))
         else if ni_Type info = ''hysteria2'' then
           Inr (Some (Hysteria2_Inbound, map (\<lambda>u. Hysteria2User (Uuid u) (Uuid u)) us, Some ids))
         else if ni_Type info = ''anytls'' then
           Inr (Some (AnyTLS_Inbound, map (\<lambda>u. AnyTLSUser (Uuid u) (Uuid u)) us, None))
         else Inr None)"

definition sg_AddUsers ::
  "'m inbound_ops \<Rightarrow> string \<Rightarrow> UserInfo list \<Rightarrow> NodeInfo \<Rightarrow> 'm sing \<Rightarrow> 'm sing \<times> int result" where
  "sg_AddUsers U tag us info s0 =
     (case sg_inbounds s0 tag of
        None \<Rightarrow> (s0, Inl (Err ''the inbound not found''))
      | Some (t, m) \<Rightarrow>
          (let s = s0\<lparr>sg_uidMap := fold (\<lambda>u um. um(Uuid u \<mapsto> Id u)) us (sg_uidMap s0)\<rparr>
           in case sing_users us info of
                Inl e \<Rightarrow> (s, Inl e)
              | Inr None \<Rightarrow> (s, Inr (int (length us)))
              | Inr (Some (t', xs, ids)) \<Rightarrow>
                  (if t \<noteq> t' then (s, Inl (Panic ''interface conversion''))
                   else case ib_AddUsers U xs ids m of
                          (m', err) \<Rightarrow>
                            (s\<lparr>sg_inbounds := (sg_inbounds s)(tag \<mapsto> (t, m'))\<rparr>,
                             case err of Some e \<Rightarrow> Inl (Err e) | None \<Rightarrow> Inr (int (length us))))))"

subsection \<open>user.go: the traffic and DelUsers\<close>

definition sg_GetUserTraffic :: "string \<Rightarrow> string \<Rightarrow> bool \<Rightarrow> 'm sing \<Rightarrow> 'm sing \<times> int \<times> int" where
  "sg_GetUserTraffic tag uuid reset s =
     (case sg_counter s tag of
        None \<Rightarrow> (s, 0, 0)
      | Some c \<Rightarrow>
          (if reset then s\<lparr>sg_store := Reset uuid c (sg_store s)\<rparr> else s,
           GetUpCount uuid c (sg_store s), GetDownCount uuid c (sg_store s)))"

definition sg_GetUserTrafficSlice :: "string list \<Rightarrow> string \<Rightarrow> bool \<Rightarrow> 'm sing \<Rightarrow> 'm sing \<times> UserTraffic list" where
  "sg_GetUserTrafficSlice order tag reset s =
     (case sg_counter s tag of
        None \<Rightarrow> (s, [])
      | Some c \<Rightarrow>
          (let (c', h', out) =
             slice_range (get0 (sg_minBytes s) tag) (get0 (sg_uidMap s)) reset order c (sg_store s)
           in (s\<lparr>sg_counter := (sg_counter s)(tag \<mapsto> c'), sg_store := h'\<rparr>, out)))"

definition inbound_type_of :: "string \<Rightarrow> inbound_type option" where
  "inbound_type_of t =
     map_of [(''vmess'', VMess_Inbound), (''vless'', VLESS_Inbound), (''shadowsocks'', Shadowsocks_MultiInbound),
       (''trojan'', Trojan_Inbound), (''tuic'', TUIC_Inbound), (''hysteria'', Hysteria_Inbound),
       (''hysteria2'', Hysteria2_Inbound), (''anytls'', AnyTLS_Inbound)] t"

definition sg_forget :: "string \<Rightarrow> UserInfo list \<Rightarrow> 'm sing \<Rightarrow> 'm sing" where
  "sg_forget tag us s =
     s\<lparr>sg_counter := (case sg_counter s tag of
          None \<Rightarrow> sg_counter s
        | Some c \<Rightarrow> (sg_counter s)(tag \<mapsto> fold (\<lambda>u. Delete (Uuid u)) us c)),
       sg_uidMap := fold (\<lambda>u um. um(Uuid u := None)) us (sg_uidMap s)\<rparr>"

text \<open>
  For a type without an inbound the deleter stays nil: the users are forgotten, then calling
  it panics.
\<close>

definition sg_DelUsers ::
  "'m inbound_ops \<Rightarrow> UserInfo list \<Rightarrow> string \<Rightarrow> NodeInfo \<Rightarrow> 'm sing \<Rightarrow> 'm sing \<times> unit result" where
  "sg_DelUsers U us tag info s0 =
     (case sg_inbounds s0 tag of
        None \<Rightarrow> (s0, Inl (Err ''the inbound not found''))
      | Some (t, m) \<Rightarrow>
          (case inbound_type_of (ni_Type info) of
             None \<Rightarrow> (sg_forget tag us s0, Inl (Panic ''nil pointer dereference''))
           | Some t' \<Rightarrow>
               (if t \<noteq> t' then (s0, Inl (Panic ''interface conversion''))
                else (let s = sg_forget tag us s0
                      in case ib_DelUsers U (map Uuid us) m of
                           (m', err) \<Rightarrow>
                             (s\<lparr>sg_inbounds := (sg_inbounds s)(tag \<mapsto> (t, m'))\<rparr>,
                              case err of Some e \<Rightarrow> Inl (Err e) | None \<Rightarrow> Inr ())))))"

subsection \<open>hook.go\<close>

text \<open>
  What the code reads of sing-box's InboundContext, and what becomes of the connection: it is
  handed on as it is, closed, or counted by a storage and limited by a bucket.
\<close>

record inbound_context =
  ic_Inbound :: string
  ic_User :: string
  ic_Source :: string
  ic_Destination :: string
  ic_Network :: string
  ic_Protocol :: string

datatype 'b routed = Untracked | Closed | Tracked "'b option" nat

text \<open>The rules of the limiter that CheckLimit was asked for.\<close>

definition sing_rules_reject :: "(string \<Rightarrow> string \<Rightarrow> bool) \<Rightarrow> string \<Rightarrow> string \<Rightarrow> 'b Limiter \<Rightarrow> bool result" where
  "sing_rules_reject matchString destStr protocol l =
     bind_res (CheckDomainRule matchString destStr l) (\<lambda>rejected.
     Inr (rejected \<or> length protocol \<noteq> 0 \<and> CheckProtocolRule protocol l))"

definition count_conn :: "string \<Rightarrow> string \<Rightarrow> 'm sing \<Rightarrow> 'm sing \<times> nat" where
  "count_conn tag user s =
     (let c = (case sg_counter s tag of None \<Rightarrow> NewTrafficCounter | Some c \<Rightarrow> c);
          (a, c', h') = GetCounter user c (sg_store s)
      in (s\<lparr>sg_counter := (sg_counter s)(tag \<mapsto> c'), sg_store := h'\<rparr>, a))"

definition RoutedConnection ::
  "(int \<Rightarrow> int \<Rightarrow> int \<Rightarrow> 'b) \<Rightarrow> (string \<Rightarrow> string \<Rightarrow> bool) \<Rightarrow> int \<Rightarrow> inbound_context
   \<Rightarrow> 'm sing \<times> 'b limiters \<Rightarrow> ('m sing \<times> 'b limiters) \<times> 'b routed result" where
  "RoutedConnection newBucket matchString now m st =
     (case st of (s, g) \<Rightarrow>
        (case GetLimiter (ic_Inbound m) g of
           Inl _ \<Rightarrow> ((s, g), Inr Untracked)
         | Inr a \<Rightarrow>
             (let (l, b, r) = CheckLimit newBucket now (UserTag (ic_Inbound m) (ic_User m)) (ic_Source m) True True (lims g a);
                  g' = g\<lparr>lims := (lims g)(a := l)\<rparr>
              in if r then ((s, g'), Inr Closed)
                 else (case sing_rules_reject matchString (ic_Destination m) (ic_Protocol m) l of
                         Inl e \<Rightarrow> ((s, g'), Inl e)
                       | Inr True \<Rightarrow> ((s, g'), Inr Closed)
                       | Inr False \<Rightarrow>
                           (let (s', c) = count_conn (ic_Inbound m) (ic_User m) s
                            in ((s', g'), Inr (Tracked b c)))))))"

text \<open>Packets: not counted as a device, not limited in speed, ruled by the network's name.\<close>

definition RoutedPacketConnection ::
  "(int \<Rightarrow> int \<Rightarrow> int \<Rightarrow> 'b) \<Rightarrow> (string \<Rightarrow> string \<Rightarrow> bool) \<Rightarrow> int \<Rightarrow> inbound_context
   \<Rightarrow> 'm sing \<times> 'b limiters \<Rightarrow> ('m sing \<times> 'b limiters) \<times> 'b routed result" where
  "RoutedPacketConnection newBucket matchString now m st =
     (case st of (s, g) \<Rightarrow>
        (case GetLimiter (ic_Inbound m) g of
           Inl _ \<Rightarrow> ((s, g), Inr Untracked)
         | Inr a \<Rightarrow>
             (let (l, b, r) = CheckLimit newBucket now (UserTag (ic_Inbound m) (ic_User m)) (ic_Source m) False False (lims g a);
                  g' = g\<lparr>lims := (lims g)(a := l)\<rparr>
              in if r then ((s, g'), Inr Closed)
                 else (case sing_rules_reject matchString (ic_Destination m) (ic_Network m) l of
                         Inl e \<Rightarrow> ((s, g'), Inl e)
                       | Inr True \<Rightarrow> ((s, g'), Inr Closed)
                       | Inr False \<Rightarrow>
                           (let (s', c) = count_conn (ic_Inbound m) (ic_User m) s
                            in ((s', g'), Inr (Tracked None c)))))))"

end
