(* ===== verification/Sing_Inbound_Laws.thy ===== *)
theory Sing_Inbound_Laws
  imports Sing_Inbound
begin

text \<open>
  What getInboundOptions promises: the inbound is of the node's type, its ports are the low 16
  bits of the configured ones, TLS is on exactly where it should be, and the fallbacks are
  taken all together or not at all.
\<close>

subsection \<open>The shape of the inbound\<close>

fun listen_of :: "inbound_options \<Rightarrow> ListenOptions option" where
  "listen_of (VLESSInbound l tls t mx) = Some l"
| "listen_of (VMessInbound l tls t mx) = Some l"
| "listen_of (ShadowsocksInbound l m p us mx) = Some l"
| "listen_of (TrojanInbound l tls t mx fb alpn) = Some l"
| "listen_of (TUICInbound l cc z tls) = Some l"
| "listen_of (AnyTLSInbound l p tls) = Some l"
| "listen_of (HysteriaInbound l u d ob tls) = Some l"
| "listen_of (Hysteria2Inbound l u d i ob tls) = Some l"
| "listen_of NilOptions = None"

fun tls_of :: "inbound_options \<Rightarrow> InboundTLSOptions option" where
  "tls_of (VLESSInbound l tls t mx) = Some tls"
| "tls_of (VMessInbound l tls t mx) = Some tls"
| "tls_of (TrojanInbound l tls t mx fb alpn) = Some tls"
| "tls_of (TUICInbound l cc z tls) = Some tls"
| "tls_of (AnyTLSInbound l p tls) = Some tls"
| "tls_of (HysteriaInbound l u d ob tls) = Some tls"
| "tls_of (Hysteria2Inbound l u d i ob tls) = Some tls"
| "tls_of _ = None"

text \<open>The type that an inbound's options are for.\<close>

fun options_type :: "inbound_options \<Rightarrow> string" where
  "options_type (VLESSInbound l tls t mx) = ''vless''"
| "options_type (VMessInbound l tls t mx) = ''vmess''"
| "options_type (ShadowsocksInbound l m p us mx) = ''shadowsocks''"
| "options_type (TrojanInbound l tls t mx fb alpn) = ''trojan''"
| "options_type (TUICInbound l cc z tls) = ''tuic''"
| "options_type (AnyTLSInbound l p tls) = ''anytls''"
| "options_type (HysteriaInbound l u d ob tls) = ''hysteria''"
| "options_type (Hysteria2Inbound l u d i ob tls) = ''hysteria2''"
| "options_type NilOptions = ''''"

definition sing_types :: "string list" where
  "sing_types =
     [''vmess'', ''vless'', ''shadowsocks'', ''trojan'', ''tuic'', ''anytls'', ''hysteria'', ''hysteria2'']"

lemma sing_protocol_result:
  assumes "sing_protocol S info so listen multiplex tls = Inr (typ, opts)"
  shows "typ = options_type opts" "typ = (if ni_Type info \<in> set sing_types then ni_Type info else '''')"
    and "opts \<noteq> NilOptions \<longrightarrow> listen_of opts = Some listen"
    and "tls_of opts = None \<or> tls_of opts = Some (if typ = ''tuic'' then tls\<lparr>tls_ALPN := tls_ALPN tls @ [''h3'']\<rparr> else tls)"
  using assms unfolding sing_protocol_def sing_types_def
  by (auto simp: bind_res_Inr sing_shadowsocks_def sing_trojan_def Let_def split: if_splits option.splits)

lemma getInboundOptions_result:
  assumes "getInboundOptions S tag info c = Inr i"
  obtains listen so tls where "sing_listen S info c = Inr listen" "o_SingOptions c = Some so"
    "sing_tls S info c = Inr tls"
    "sing_protocol S info so listen (sing_multiplex so) tls = Inr (in_Type i, in_Options i)" "in_Tag i = tag"
  using assms unfolding getInboundOptions_def by (auto simp: bind_res_Inr deref_Inr)

text \<open>
  C36: the inbound made for a node is well-formed. It has the node's tag; its type is the
  node's if the core has such a protocol and empty otherwise; its options are those of its
  type, and nil exactly for the empty type.
\<close>

theorem sing_inbound_well_formed:
  assumes "getInboundOptions S tag info c = Inr i"
  shows "in_Tag i = tag \<and> in_Type i = (if ni_Type info \<in> set sing_types then ni_Type info else '''')
    \<and> options_type (in_Options i) = in_Type i \<and> (in_Options i = NilOptions \<longleftrightarrow> ni_Type info \<notin> set sing_types)"
proof -
  obtain listen so tls where p: "sing_protocol S info so listen (sing_multiplex so) tls = Inr (in_Type i, in_Options i)"
    and t: "in_Tag i = tag"
    using getInboundOptions_result [OF assms] by metis
  note r = sing_protocol_result [OF p]
  have "in_Options i = NilOptions \<longleftrightarrow> options_type (in_Options i) = ''''" by (cases "in_Options i") simp_all
  moreover have "'''' \<notin> set sing_types" by (simp add: sing_types_def)
  ultimately show ?thesis using r t by auto
qed

text \<open>An example: a trojan node with a certificate, and decoders that never fail.\<close>

definition plain_std :: sing_std where
  "plain_std =
     \<lparr>json_http = \<lambda>s. Inr \<lparr>hn_Type = ''http'', hn_Request = Some s, hn_Response = None\<rparr>,
      json_request = \<lambda>s. Inr \<lparr>hr_Version = '''', hr_Method = ''GET'', hr_Path = [], hr_Host = []\<rparr>,
      json_ws = \<lambda>s. Inr \<lparr>wn_Path = s, wn_Headers = Map.empty\<rparr>,
      json_grpc = \<lambda>s. Inr \<lparr>gn_ServiceName = s\<rparr>, json_httpupgrade = \<lambda>s. Inr \<lparr>un_Path = s, un_Host = ''''\<rparr>,
      url_Parse = \<lambda>s. Inr (s, ''''), ParseDuration = \<lambda>s. 0, ParseAddr = Inr, rand_Read = \<lambda>n. replicate n CHR ''r''\<rparr>"

definition common_at :: "int \<Rightarrow> CommonNode" where
  "common_at port =
     \<lparr>Host = ''h'', ServerPort = port, cn_ServerName = '''', Routes = [], cn_BaseConfig = None\<rparr>"

definition trojan_node :: "int \<Rightarrow> NodeInfo" where
  "trojan_node port =
     \<lparr>ni_Id = 1, ni_Type = ''trojan'', Security = Tls, PushInterval = 0, PullInterval = 0,
      ni_RawDNS = \<lparr>DNSMap = Map.empty, DNSJson = ''''\<rparr>, ni_Rules = \<lparr>Regexp = [], Protocol = []\<rparr>, VAllss = None,
      Shadowsocks = None, Trojan = Some \<lparr>tr_Network = ''tcp'', tr_NetworkSettings = ''''\<rparr>, Tuic = None, AnyTls = None,
      Hysteria = None, Hysteria2 = None, Common = Some (common_at port)\<rparr>"

definition sing_options_with :: "string \<Rightarrow> (string \<times> FallBack) list \<Rightarrow> Options" where
  "sing_options_with mode alpn =
     default_options\<lparr>o_SingOptions := Some (NewSingOptions\<lparr>so_FallBackConfigs :=
       Some \<lparr>fs_FallBack = \<lparr>fb_Server = ''127.0.0.1'', fb_ServerPort = ''80''\<rparr>, FallBackForALPN = alpn\<rparr>\<rparr>),
       o_CertConfig := Some (NewCertConfig\<lparr>CertMode := mode, CertFile := ''c'', KeyFile := ''k''\<rparr>)\<rparr>"

lemmas sing_example_defs = trojan_node_def sing_options_with_def plain_std_def common_at_def default_options_def
  NewSingOptions_def NewCertConfig_def security_defs

lemma sing_example_inbound:
  obtains i where "getInboundOptions plain_std ''n'' (trojan_node port) (sing_options_with mode alpn) = Inr i"
  by (simp add: getInboundOptions_def sing_listen_def sing_tls_def sing_protocol_def trojan_transport_def Let_def
      sing_example_defs)

theorem sing_inbound_well_formed_witness:
  "\<exists>i. getInboundOptions plain_std ''n'' (trojan_node 443) (sing_options_with ''file'' []) = Inr i \<and> in_Type i = ''trojan''
    \<and> options_type (in_Options i) = ''trojan''"
proof -
  obtain i where i: "getInboundOptions plain_std ''n'' (trojan_node 443) (sing_options_with ''file'' []) = Inr i"
    by (rule sing_example_inbound)
  have "ni_Type (trojan_node 443) = ''trojan''" by (simp add: trojan_node_def)
  with sing_inbound_well_formed [OF i] i show ?thesis by (simp add: sing_types_def)
qed

subsection \<open>Ports\<close>

lemma uint16_int: "uint (word_of_int p :: 16 word) = p mod 65536"
  by (simp add: uint_word_of_int)

lemma sing_listen_port:
  assumes "sing_listen S info c = Inr listen" "Common info = Some cn"
  shows "uint (ListenPort listen) = ServerPort cn mod 65536"
  using assms by (auto simp: sing_listen_def bind_res_Inr uint16_int split: sum.splits)

text \<open>
  The port an inbound listens at is the node's port modulo 65536. It is the node's port
  exactly when that is a port at all; a port out of range is not refused but taken for
  another one, and two nodes whose ports differ by a multiple of 65536 ask for the same.
\<close>

theorem sing_listens_at_low_bits:
  assumes "getInboundOptions S tag info c = Inr i" "listen_of (in_Options i) = Some l" "Common info = Some cn"
  shows "uint (ListenPort l) = ServerPort cn mod 65536
    \<and> (uint (ListenPort l) = ServerPort cn \<longleftrightarrow> 0 \<le> ServerPort cn \<and> ServerPort cn < 65536)"
proof -
  obtain listen so tls where l: "sing_listen S info c = Inr listen"
    and p: "sing_protocol S info so listen (sing_multiplex so) tls = Inr (in_Type i, in_Options i)"
    using getInboundOptions_result [OF assms(1)] by metis
  have "l = listen" using sing_protocol_result(3) [OF p] assms(2) by (cases "in_Options i") simp_all
  with sing_listen_port [OF l assms(3)] have e: "uint (ListenPort l) = ServerPort cn mod 65536" by simp
  have "ServerPort cn mod 65536 = ServerPort cn \<longleftrightarrow> 0 \<le> ServerPort cn \<and> ServerPort cn < 65536"
    by (metis mod_pos_pos_trivial pos_mod_bound pos_mod_sign zero_less_numeral)
  with e show ?thesis by simp
qed

theorem sing_listens_at_low_bits_witness:
  "\<exists>i l. getInboundOptions plain_std ''n'' (trojan_node 65979) (sing_options_with ''file'' []) = Inr i
    \<and> listen_of (in_Options i) = Some l \<and> uint (ListenPort l) = 443"
proof -
  obtain i where i: "getInboundOptions plain_std ''n'' (trojan_node 65979) (sing_options_with ''file'' []) = Inr i"
    by (rule sing_example_inbound)
  have c: "Common (trojan_node 65979) = Some (common_at 65979)" "ServerPort (common_at 65979) = 65979"
    by (simp_all add: trojan_node_def common_at_def)
  have "in_Options i \<noteq> NilOptions" using i
    by (auto simp: getInboundOptions_def sing_listen_def sing_tls_def sing_protocol_def trojan_transport_def Let_def
      sing_trojan_def sing_example_defs)
  then obtain l where l: "listen_of (in_Options i) = Some l" by (cases "in_Options i") simp_all
  from sing_listens_at_low_bits [OF i l c(1)] i l c(2) show ?thesis by auto
qed

subsection \<open>TLS\<close>

text \<open>
  When TLS is on. An inbound that has TLS options has them enabled exactly when the node
  asks for Reality, or asks for TLS and the certificate mode is set; with the mode none or
  unset a TLS node listens in the clear. Reality's keys come from the panel and no file is
  named; otherwise the certificate's files are.
\<close>

theorem sing_tls_enabled:
  assumes "getInboundOptions S tag info c = Inr i" "tls_of (in_Options i) = Some tls"
  shows "(tls_Enabled tls \<longleftrightarrow> Security info = Reality
      \<or> Security info = Tls \<and> (\<exists>cc. o_CertConfig c = Some cc \<and> CertMode cc \<notin> {''none'', ''''}))
    \<and> (tls_Reality tls \<noteq> None \<longleftrightarrow> Security info = Reality)
    \<and> (tls_CertificatePath tls \<noteq> '''' \<longrightarrow> tls_Enabled tls \<and> Security info = Tls)"
proof -
  obtain listen so tls0 where t: "sing_tls S info c = Inr tls0"
    and p: "sing_protocol S info so listen (sing_multiplex so) tls0 = Inr (in_Type i, in_Options i)"
    using getInboundOptions_result [OF assms(1)] by metis
  have "tls = (if in_Type i = ''tuic'' then tls0\<lparr>tls_ALPN := tls_ALPN tls0 @ [''h3'']\<rparr> else tls0)"
    using sing_protocol_result(4) [OF p] assms(2) by auto
  then have same: "tls_Enabled tls = tls_Enabled tls0" "tls_Reality tls = tls_Reality tls0"
    "tls_CertificatePath tls = tls_CertificatePath tls0" by simp_all
  have ne: "Tls \<noteq> Reality" by (simp add: security_defs)
  show ?thesis unfolding same using t ne
    by (auto simp: sing_tls_def bind_res_Inr zero_tls_def reality_options_def Let_def split: if_splits option.splits)
qed

theorem sing_tls_enabled_witness:
  "\<exists>i tls. getInboundOptions plain_std ''n'' (trojan_node 443) (sing_options_with ''none'' []) = Inr i
    \<and> tls_of (in_Options i) = Some tls \<and> \<not> tls_Enabled tls"
proof -
  obtain i where i: "getInboundOptions plain_std ''n'' (trojan_node 443) (sing_options_with ''none'' []) = Inr i"
    by (rule sing_example_inbound)
  have "tls_of (in_Options i) \<noteq> None" using i
    by (auto simp: getInboundOptions_def sing_listen_def sing_tls_def sing_protocol_def trojan_transport_def Let_def
      sing_trojan_def sing_example_defs)
  then obtain tls where t: "tls_of (in_Options i) = Some tls" by blast
  have s: "Security (trojan_node 443) = Tls" "Tls \<noteq> Reality" "(o_CertConfig (sing_options_with ''none'' [])) =
      Some (NewCertConfig\<lparr>CertMode := ''none'', CertFile := ''c'', KeyFile := ''k''\<rparr>)"
    by (simp_all add: trojan_node_def sing_options_with_def security_defs)
  from sing_tls_enabled [OF i t] i t s show ?thesis by auto
qed

subsection \<open>Fallbacks\<close>

definition fallback_to :: "FallBack \<Rightarrow> ServerOptions" where
  "fallback_to v = \<lparr>sv_Server = fb_Server v, sv_ServerPort = word_of_int (fst (atoi (fb_ServerPort v)))\<rparr>"

definition port_ok :: "FallBack \<Rightarrow> bool" where
  "port_ok v \<longleftrightarrow> snd (atoi (fb_ServerPort v)) = None"

lemma fill_fallback_Cons:
  "fill_fallback ((k, v) # kvs) m =
     (if port_ok v then fill_fallback kvs (m(k \<mapsto> fallback_to v))
      else (m, Some (Err ''unable to parse fallbackForALPN server port error: '')))"
  by (cases "atoi (fb_ServerPort v)") (simp add: port_ok_def fallback_to_def split: option.split)

lemma fill_fallback_bad:
  "\<exists>(k, v)\<in>set kvs. \<not> port_ok v \<Longrightarrow> snd (fill_fallback kvs m) \<noteq> None"
proof (induction kvs arbitrary: m)
  case (Cons kv kvs)
  obtain k v where kv: "kv = (k, v)" by (cases kv)
  show ?case
  proof (cases "port_ok v")
    case True
    then have e: "fill_fallback (kv # kvs) m = fill_fallback kvs (m(k \<mapsto> fallback_to v))"
      by (simp only: kv fill_fallback_Cons if_True)
    from True Cons.prems kv have "\<exists>(k, v)\<in>set kvs. \<not> port_ok v" by auto
    then show ?thesis unfolding e by (rule Cons.IH)
  qed (simp add: kv fill_fallback_Cons del: fill_fallback.simps(2))
qed simp

lemma fill_fallback_good:
  assumes "distinct (map fst kvs)" "\<forall>(k, v)\<in>set kvs. port_ok v"
  shows "fill_fallback kvs m = (m ++ (\<lambda>k. map_option fallback_to (map_of kvs k)), None)"
  using assms
proof (induction kvs arbitrary: m)
  case (Cons kv kvs)
  obtain k v where kv: "kv = (k, v)" by (cases kv)
  have "map_of kvs k = None" using Cons.prems by (simp add: kv map_of_eq_None_iff)
  then have "m(k \<mapsto> fallback_to v) ++ (\<lambda>k. map_option fallback_to (map_of kvs k)) =
      m ++ (\<lambda>j. map_option fallback_to (map_of (kv # kvs) j))"
    by (auto simp: fun_eq_iff map_add_def kv split: option.split)
  with Cons kv show ?case by (simp add: fill_fallback_Cons del: fill_fallback.simps(2))
qed simp

text \<open>
  The fallbacks of a trojan inbound. The fallback of each ALPN is there, with the low 16
  bits of its port, if every port in the map is a number; one that is not drops them all, and
  no error is reported. The main fallback depends on its own port alone.
\<close>

theorem trojan_fallbacks_all_or_none:
  assumes "distinct (map fst (FallBackForALPN fb))"
  shows "snd (trojan_fallback fb) =
      (if \<forall>(k, v)\<in>set (FallBackForALPN fb). port_ok v
       then Some (\<lambda>k. map_option fallback_to (map_of (FallBackForALPN fb) k)) else None)
    \<and> fst (trojan_fallback fb) = (if port_ok (fs_FallBack fb) then Some (fallback_to (fs_FallBack fb)) else None)
    \<and> (\<forall>v. uint (sv_ServerPort (fallback_to v)) = fst (atoi (fb_ServerPort v)) mod 65536)"
proof (intro conjI)
  obtain p e where a: "atoi (fb_ServerPort (fs_FallBack fb)) = (p, e)" by (metis prod.collapse)
  show "fst (trojan_fallback fb) = (if port_ok (fs_FallBack fb) then Some (fallback_to (fs_FallBack fb)) else None)"
    by (simp add: trojan_fallback_def port_ok_def fallback_to_def a split: option.split)
  show "\<forall>v. uint (sv_ServerPort (fallback_to v)) = fst (atoi (fb_ServerPort v)) mod 65536"
    by (simp add: fallback_to_def uint16_int)
  show "snd (trojan_fallback fb) = (if \<forall>(k, v)\<in>set (FallBackForALPN fb). port_ok v
      then Some (\<lambda>k. map_option fallback_to (map_of (FallBackForALPN fb) k)) else None)"
  proof (cases "\<forall>(k, v)\<in>set (FallBackForALPN fb). port_ok v")
    case True
    from fill_fallback_good [OF assms True, of Map.empty] True show ?thesis
      by (simp add: trojan_fallback_def processFallback_def)
  next
    case False
    then have "\<exists>(k, v)\<in>set (FallBackForALPN fb). \<not> port_ok v" by auto
    from fill_fallback_bad [OF this, of Map.empty] have "snd (processFallback fb Map.empty) \<noteq> None"
      by (simp add: processFallback_def)
    then have "snd (trojan_fallback fb) = None"
      unfolding trojan_fallback_def by (cases "processFallback fb Map.empty") auto
    then show ?thesis using False by (simp only: if_False)
  qed
qed

definition two_fallbacks :: "string \<Rightarrow> FallBackConfigForSing" where
  "two_fallbacks port =
     \<lparr>fs_FallBack = \<lparr>fb_Server = ''s'', fb_ServerPort = ''80''\<rparr>,
      FallBackForALPN = [(''h2'', \<lparr>fb_Server = ''a'', fb_ServerPort = ''81''\<rparr>),
        (''http/1.1'', \<lparr>fb_Server = ''b'', fb_ServerPort = port\<rparr>)]\<rparr>"

theorem trojan_fallbacks_all_or_none_witness:
  "snd (trojan_fallback (two_fallbacks ''http'')) = None \<and> fst (trojan_fallback (two_fallbacks ''http'')) \<noteq> None"
proof -
  have d: "distinct (map fst (FallBackForALPN (two_fallbacks ''http'')))" by (simp add: two_fallbacks_def)
  have a: "snd (atoi ''http'') = Some ErrSyntax" "snd (atoi ''80'') = None" by code_simp+
  from trojan_fallbacks_all_or_none [OF d] show ?thesis
    by (simp add: a two_fallbacks_def port_ok_def)
qed

subsection \<open>A disguise without a path\<close>

text \<open>
  A tcp node disguised as http whose request names no path crashes the program: the first
  path is taken without asking whether there is one. With at least one path, the first is used.
\<close>

theorem http_disguise_needs_a_path:
  assumes "Network n = ''tcp''" "NetworkSettings n \<noteq> ''''" "json_http S (NetworkSettings n) = Inr nw"
    and "hn_Type nw = ''http''" "hn_Request nw = Some raw" "json_request S raw = Inr rq"
  shows "v2ray_transport S n =
    (case hr_Path rq of
       [] \<Rightarrow> Inl (Panic ''index out of range'')
     | p # _ \<Rightarrow> Inr ((zero_transport ''http'')\<lparr>HTTPOptions :=
         \<lparr>ho_Host = hr_Host rq, ho_Path = p, ho_Method = hr_Method rq\<rparr>\<rparr>))"
  using assms by (simp add: v2ray_transport_def http_transport_def json_err_def zero_transport_def Let_def split: list.split)

definition tcp_node :: VAllssNode where
  "tcp_node =
     \<lparr>v_Tls = 0, TlsSettings = \<lparr>ts_ServerName = '''', Dest = '''', ts_ServerPort = '''', ShortId = '''', PrivateKey = '''',
        Mldsa65Seed = '''', Xver = 0\<rparr>, TlsSettingsBack = None, Network = ''tcp'', NetworkSettings = ''{}'',
      NetworkSettingsBack = '''', Encryption = '''',
      EncryptionSettings = \<lparr>Mode = '''', Ticket = '''', ServerPadding = '''', es_PrivateKey = ''''\<rparr>, v_ServerName = '''',
      Flow = '''', RealityConfig = \<lparr>rc_Xver = 0, MinClientVer = '''', MaxClientVer = '''', MaxTimeDiff = ''''\<rparr>\<rparr>"

theorem http_disguise_needs_a_path_witness:
  "v2ray_transport plain_std tcp_node = Inl (Panic ''index out of range'')"
proof -
  have n: "Network tcp_node = ''tcp''" "NetworkSettings tcp_node \<noteq> ''''" by (simp_all add: tcp_node_def)
  obtain nw raw rq where h: "json_http plain_std (NetworkSettings tcp_node) = Inr nw" "hn_Type nw = ''http''"
    "hn_Request nw = Some raw" "json_request plain_std raw = Inr rq" "hr_Path rq = []"
    by (simp add: plain_std_def)
  from http_disguise_needs_a_path [OF n h(1-4)] h(5) show ?thesis by simp
qed

end
