(* ===== verification/Sing_Laws.thy ===== *)
theory Sing_Laws
  imports Sing Sing_Inbound_Laws Core_Users
begin

text \<open>
  What the sing core promises: it is a traffic source and a user core like the other two, the
  users it hands to an inbound are those it was given, and what its tracker does with a
  connection follows the limiter, except that packets escape the devices and the speed.
\<close>

subsection \<open>The core as a traffic source\<close>

text \<open>A tracked connection counts through the storage it was given (conn.go's functions).\<close>

definition sg_count :: "string \<Rightarrow> dir \<Rightarrow> string \<Rightarrow> int \<Rightarrow> 'm sing \<Rightarrow> 'm sing" where
  "sg_count tag d u n s =
     (case sg_counter s tag of
        None \<Rightarrow> s
      | Some c \<Rightarrow>
          (case c u of
             None \<Rightarrow> s
           | Some a \<Rightarrow> s\<lparr>sg_store := (case d of Up \<Rightarrow> cc_readFunc a n (sg_store s) | Down \<Rightarrow> cc_writeFunc a n (sg_store s))\<rparr>))"

definition sg_collect :: "string \<Rightarrow> string list \<Rightarrow> 'm sing \<Rightarrow> 'm sing \<times> UserTraffic list" where
  "sg_collect tag order s = sg_GetUserTrafficSlice order tag True s"

definition sg_put :: "string \<Rightarrow> TrafficCounter \<Rightarrow> tstore \<Rightarrow> 'm sing \<Rightarrow> 'm sing" where
  "sg_put tag c h s = s\<lparr>sg_counter := (sg_counter s)(tag \<mapsto> c), sg_store := h\<rparr>"

interpretation sg_node: counted_node "\<lambda>s. sg_counter s tag" sg_store "\<lambda>s. get0 (sg_uidMap s)"
  "\<lambda>s. get0 (sg_minBytes s) tag" "sg_put tag" "sg_count tag" "sg_collect tag" for tag
proof unfold_locales
  show "sg_count tag d u n s = sg_put tag c (add_dir d a n (sg_store s)) s"
    if "sg_counter s tag = Some c" "c u = Some a" for s :: "'m sing" and c u a d n
    using that by (cases d) (simp_all add: sg_count_def sg_put_def cc_readFunc_def cc_writeFunc_def fun_upd_idem)
qed (simp_all add: sg_collect_def sg_GetUserTrafficSlice_def sg_put_def)

definition sg_held :: "string \<Rightarrow> 'm sing \<Rightarrow> TrafficCounter" where
  "sg_held tag s = (case sg_counter s tag of None \<Rightarrow> NewTrafficCounter | Some c \<Rightarrow> c)"

definition sg_left :: "string \<Rightarrow> dir \<Rightarrow> 'm sing \<Rightarrow> int" where
  "sg_left tag d s = pending d (get0 (sg_uidMap s)) (sg_held tag s) (sg_store s)"

definition sg_counts_for :: "string \<Rightarrow> 'm sing \<Rightarrow> string \<Rightarrow> bool" where
  "sg_counts_for tag s u \<longleftrightarrow> get0 (sg_uidMap s) u \<noteq> 0 \<and> sg_held tag s u \<noteq> None"

definition sg_order_ok :: "string \<Rightarrow> string list \<Rightarrow> 'm sing \<Rightarrow> bool" where
  "sg_order_ok tag order s \<longleftrightarrow> enumerates order (sg_held tag s)"

definition sg_inv :: "string \<Rightarrow> 'm sing \<Rightarrow> bool" where
  "sg_inv tag s \<longleftrightarrow> tc_wf (sg_held tag s) (sg_store s) \<and> finite (dom (sg_held tag s))"

lemma sg_held_eq: "sg_held tag s = sg_node.held tag s"
  by (simp add: sg_held_def sg_node.held_def)

lemma sg_source:
  "sg_left tag = (\<lambda>d s. pending d (get0 (sg_uidMap s)) (sg_node.held tag s) (sg_store s))"
  "sg_counts_for tag = (\<lambda>s u. get0 (sg_uidMap s) u \<noteq> 0 \<and> sg_node.held tag s u \<noteq> None)"
  "sg_order_ok tag = (\<lambda>order s. enumerates order (sg_node.held tag s))"
  "sg_inv tag = (\<lambda>s. tc_wf (sg_node.held tag s) (sg_store s) \<and> finite (dom (sg_node.held tag s)))"
  by (simp_all add: fun_eq_iff sg_left_def sg_counts_for_def sg_order_ok_def sg_inv_def sg_held_eq)

text \<open>
  No byte of a sing node is lost or reported twice, however tracked connections count and
  whenever reports are collected, as long as the users counted for have a UID and their
  connections a storage of the node's counter.
\<close>

theorem sing_traffic_conserved:
  assumes "sg_inv tag s"
    and "play (sg_count tag) (sg_collect tag) (sg_counts_for tag) (sg_order_ok tag) es s [] = Some (s', out)"
  shows "i64 (sg_left tag d s' + reported d out) = i64 (sg_left tag d s + counted d es) \<and> sg_inv tag s'"
  using sg_node.source.play_conserves [OF assms [unfolded sg_source], of d] by (simp add: sg_source)

text \<open>An example: two nodes that share a user.\<close>

definition sing_two :: "string list sing" where
  "sing_two =
     \<lparr>sg_inbounds = [''n'' \<mapsto> (Trojan_Inbound, []), ''m'' \<mapsto> (Trojan_Inbound, [])],
      sg_counter = [''n'' \<mapsto> Map.empty, ''m'' \<mapsto> [''aaaa'' \<mapsto> 0]],
      sg_store = \<lparr>storages = \<lambda>_. \<lparr>UpCounter = 100, DownCounter = 0\<rparr>, next_addr = 1\<rparr>,
      sg_uidMap = [''aaaa'' \<mapsto> 1], sg_minBytes = Map.empty\<rparr>"

theorem sing_traffic_conserved_witness:
  "\<exists>s' out. play (sg_count ''m'') (sg_collect ''m'') (sg_counts_for ''m'') (sg_order_ok ''m'')
      [Count Up ''aaaa'' 70, Collect [''aaaa'']] sing_two [] = Some (s', out)
    \<and> i64 (sg_left ''m'' Up s' + reported Up out) = 170"
proof -
  let ?s1 = "sg_count ''m'' Up ''aaaa'' 70 sing_two"
  have c0: "sg_held ''m'' sing_two = [''aaaa'' \<mapsto> 0]" by (simp add: sg_held_def sing_two_def)
  have c1: "sg_held ''m'' ?s1 = [''aaaa'' \<mapsto> 0]" by (simp add: sg_held_def sg_count_def sing_two_def)
  have inv: "sg_inv ''m'' sing_two" by (simp add: sg_inv_def c0 tc_wf_def) (simp add: sing_two_def)
  have z: "sg_left ''m'' Up sing_two = 100"
  proof -
    have "{k \<in> dom [''aaaa'' \<mapsto> 0]. get0 (sg_uidMap sing_two) k \<noteq> 0} = {''aaaa''}" by (auto simp: sing_two_def)
    then show ?thesis by (simp add: sg_left_def pending_def c0) (simp add: sing_two_def GetUpCount_def)
  qed
  have "sg_counts_for ''m'' sing_two ''aaaa''" by (simp add: sg_counts_for_def c0) (simp add: sing_two_def)
  moreover have "sg_order_ok ''m'' [''aaaa''] ?s1" by (simp add: sg_order_ok_def c1 enumerates_def)
  ultimately obtain s' out where p: "play (sg_count ''m'') (sg_collect ''m'') (sg_counts_for ''m'') (sg_order_ok ''m'')
      [Count Up ''aaaa'' 70, Collect [''aaaa'']] sing_two [] = Some (s', out)"
    by (cases "sg_collect ''m'' [''aaaa''] ?s1") simp
  from sing_traffic_conserved [OF inv p, of Up] z p show ?thesis by (auto simp: i64_def)
qed

subsection \<open>The core as a user core\<close>

definition sg_ops ::
  "sing_std \<Rightarrow> 'm inbound_ops \<Rightarrow> string option \<Rightarrow> string option \<Rightarrow> (string \<Rightarrow> Inbound \<Rightarrow> string + inbound_type \<times> 'm)
   \<Rightarrow> (string \<Rightarrow> string option) \<Rightarrow> (TrafficCounter \<Rightarrow> string list) \<Rightarrow> 'm sing core_ops" where
  "sg_ops S U startErr closeErr create remove ord =
     \<lparr>op_Start = (\<lambda>s. (s, startErr)),
      op_Close = (\<lambda>s. (s, closeErr)),
      op_AddNode = (\<lambda>tag n opt s. apfst (\<lambda>s. (s, opt)) (sg_AddNode S create tag n opt s)),
      op_DelNode = (\<lambda>tag s. sg_DelNode remove tag s),
      op_AddUsers = (\<lambda>p s. sg_AddUsers U (aup_Tag p) (aup_Users p) (aup_NodeInfo p) s),
      op_GetUserTrafficSlice = (\<lambda>tag reset s.
        apsnd Inr (sg_GetUserTrafficSlice (case sg_counter s tag of None \<Rightarrow> [] | Some c \<Rightarrow> ord c) tag reset s)),
      op_DelUsers = (\<lambda>us tag n s. sg_DelUsers U us tag n s),
      op_Protocols = (\<lambda>s. sg_Protocols), op_Type = (\<lambda>s. sg_Type)\<rparr>"

lemma sg_AddUsers_uidMap:
  "sg_AddUsers U tag us n s = (s', Inr i) \<Longrightarrow> sg_uidMap s' = fold (\<lambda>u um. um(Uuid u \<mapsto> Id u)) us (sg_uidMap s)"
  by (auto simp: sg_AddUsers_def Let_def split: option.splits sum.splits prod.splits if_splits)

lemma sg_DelUsers_uidMap:
  "sg_DelUsers U us tag n s = (s', Inr ()) \<Longrightarrow> sg_uidMap s' = fold (\<lambda>u um. um(Uuid u := None)) us (sg_uidMap s)"
  by (auto simp: sg_DelUsers_def sg_forget_def Let_def split: option.splits prod.splits if_splits)

interpretation sg_users: user_core "sg_ops S U startErr closeErr create remove ord" tag "\<lambda>s. True" sg_uidMap Id
  for S U startErr closeErr create remove ord tag
proof unfold_locales
  fix s s' :: "'a sing" and us n i u k
  let ?C = "sg_ops S U startErr closeErr create remove ord"
  let ?p = "\<lparr>aup_Tag = tag, aup_Users = us, aup_NodeInfo = n\<rparr>"
  have a: "op_AddUsers ?C ?p s = (s', Inr i) \<Longrightarrow> sg_uidMap s' = fold (\<lambda>u um. um(Uuid u \<mapsto> Id u)) us (sg_uidMap s)"
    by (rule sg_AddUsers_uidMap [of U tag us n s s' i]) (simp add: sg_ops_def)
  show "sg_uidMap s' (Uuid u) = Some (Id u)"
    if "op_AddUsers ?C ?p s = (s', Inr i)" "distinct (map Uuid us)" "u \<in> set us"
    unfolding a [OF that(1)] by (rule fold_map_upd_distinct [OF that(2,3)])
  show "sg_uidMap s' k = sg_uidMap s k" if "op_AddUsers ?C ?p s = (s', Inr i)" "k \<notin> Uuid ` set us"
    unfolding a [OF that(1)] by (rule fold_map_upd_other [OF that(2)])
  show "sg_uidMap s' k = (if k \<in> Uuid ` set us then None else sg_uidMap s k)"
    if "op_DelUsers ?C us tag n s = (s', Inr ())"
    using sg_DelUsers_uidMap [of U us tag n s s'] that by (simp add: sg_ops_def fold_map_del)
qed simp_all

subsection \<open>The users an inbound is told of\<close>

fun user_name :: "sing_user \<Rightarrow> string" where
  "user_name (VLESSUser n f u) = n"
| "user_name (VMessUser n u) = n"
| "user_name (ShadowsocksUser n p) = n"
| "user_name (TrojanUser n p) = n"
| "user_name (TUICUser n u p) = n"
| "user_name (HysteriaUser n a) = n"
| "user_name (Hysteria2User n p) = n"
| "user_name (AnyTLSUser n p) = n"

text \<open>What a client has to know.\<close>

fun user_secret :: "sing_user \<Rightarrow> string" where
  "user_secret (VLESSUser n f u) = u"
| "user_secret (VMessUser n u) = u"
| "user_secret (ShadowsocksUser n p) = p"
| "user_secret (TrojanUser n p) = p"
| "user_secret (TUICUser n u p) = u"
| "user_secret (HysteriaUser n a) = a"
| "user_secret (Hysteria2User n p) = p"
| "user_secret (AnyTLSUser n p) = p"

lemma map_res_Inr: "map_res f us = Inr xs \<longleftrightarrow> list_all2 (\<lambda>u x. f u = Inr x) us xs"
proof (induction us arbitrary: xs)
  case (Cons u us)
  then show ?case by (cases xs) (auto simp: bind_res_Inr)
qed auto

text \<open>The part of a Uuid that the secret is made of.\<close>

definition secret_length :: "NodeInfo \<Rightarrow> nat option" where
  "secret_length n =
     (if ni_Type n \<noteq> ''shadowsocks'' then None
      else case Shadowsocks n of
             None \<Rightarrow> None
           | Some v \<Rightarrow>
               (if Cipher v = ''2022-blake3-aes-128-gcm'' then Some 16
                else if Cipher v = ''2022-blake3-aes-256-gcm'' then Some 32 else None))"

definition user_ok :: "NodeInfo \<Rightarrow> UserInfo \<Rightarrow> sing_user \<Rightarrow> bool" where
  "user_ok n u x \<longleftrightarrow> user_name x = Uuid u \<and>
     (case secret_length n of
        None \<Rightarrow> user_secret x = Uuid u
      | Some k \<Rightarrow> k \<le> length (Uuid u) \<and> user_secret x = EncodeToString (take k (Uuid u)))"

lemma ss_password_ok:
  assumes "ni_Type n = ''shadowsocks''" "Shadowsocks n = Some v" "sing_ss_password (Cipher v) (Uuid u) = Inr p"
  shows "user_ok n u (ShadowsocksUser (Uuid u) p)"
  using assms by (auto simp: user_ok_def secret_length_def sing_ss_password_def slice_to_def split: if_splits)

lemma sing_users_ok:
  assumes "sing_users us n = Inr r"
  shows "case r of None \<Rightarrow> inbound_type_of (ni_Type n) = None
    | Some (t, xs, ids) \<Rightarrow> inbound_type_of (ni_Type n) = Some t \<and> list_all2 (user_ok n) us xs
        \<and> ids = (if ni_Type n \<in> {''tuic'', ''hysteria2''} then Some (map Id us) else None)"
proof -
  have plain: "list_all2 (user_ok n) us (map f us)"
    if "ni_Type n \<noteq> ''shadowsocks''" "\<And>u. user_name (f u) = Uuid u \<and> user_secret (f u) = Uuid u" for f
    using that by (simp add: list_all2_conv_all_nth user_ok_def secret_length_def)
  have vless: "list_all2 (user_ok n) us xs" if "ni_Type n = ''vless''"
    "list_all2 (\<lambda>u x. bind_res (deref (VAllss n)) (\<lambda>v. Inr (VLESSUser (Uuid u) (Flow v) (Uuid u))) = Inr x) us xs" for xs
    by (rule list_all2_mono [OF that(2)]) (use that(1) in \<open>auto simp: bind_res_Inr user_ok_def secret_length_def\<close>)
  have ss: "list_all2 (user_ok n) us xs" if "ni_Type n = ''shadowsocks''"
    "list_all2 (\<lambda>u x. bind_res (deref (Shadowsocks n)) (\<lambda>v. bind_res (sing_ss_password (Cipher v) (Uuid u))
        (\<lambda>p. Inr (ShadowsocksUser (Uuid u) p))) = Inr x) us xs" for xs
    by (rule list_all2_mono [OF that(2)]) (use that(1) ss_password_ok in \<open>auto simp: bind_res_Inr deref_Inr\<close>)
  show ?thesis
    using assms unfolding sing_users_def Let_def
    by (auto simp: inbound_type_of_def bind_res_Inr map_res_Inr plain vless ss split: if_splits)
qed

text \<open>
  AddUsers of the sing core. When it succeeds it reports the number of users it was given
  and each of them has its UID. On a node of a known type the inbound was given exactly these
  users, in their order, each under its Uuid and with the secret made of its Uuid; on a node
  of any other type nobody was added, and the result is the same.
\<close>

theorem sing_add_users:
  assumes "sg_AddUsers U tag us n s = (s', Inr i)" "sg_inbounds s tag = Some (t, m)"
  shows "i = int (length us) \<and> sg_uidMap s' = fold (\<lambda>u um. um(Uuid u \<mapsto> Id u)) us (sg_uidMap s)
    \<and> (case inbound_type_of (ni_Type n) of
         None \<Rightarrow> sg_inbounds s' = sg_inbounds s
       | Some t' \<Rightarrow> t' = t \<and> (\<exists>xs ids m'. list_all2 (user_ok n) us xs
           \<and> ids = (if ni_Type n \<in> {''tuic'', ''hysteria2''} then Some (map Id us) else None)
           \<and> ib_AddUsers U xs ids m = (m', None) \<and> sg_inbounds s' = (sg_inbounds s)(tag \<mapsto> (t, m'))))"
proof -
  let ?s = "s\<lparr>sg_uidMap := fold (\<lambda>u um. um(Uuid u \<mapsto> Id u)) us (sg_uidMap s)\<rparr>"
  obtain r where r: "sing_users us n = Inr r"
    using assms by (auto simp: sg_AddUsers_def Let_def split: sum.splits)
  note ok = sing_users_ok [OF r]
  show ?thesis
  proof (cases r)
    case None
    with assms r ok show ?thesis by (auto simp: sg_AddUsers_def)
  next
    case (Some y)
    obtain t' xs ids where y: "y = (t', xs, ids)" by (metis prod_cases3)
    obtain m' err where a: "ib_AddUsers U xs ids m = (m', err)" by (metis prod.collapse)
    from assms r Some y a have e: "t = t'" "err = None" "i = int (length us)"
      "s' = ?s\<lparr>sg_inbounds := (sg_inbounds s)(tag \<mapsto> (t, m'))\<rparr>"
      by (auto simp: sg_AddUsers_def Let_def split: if_splits option.splits)
    with ok Some y a show ?thesis by auto
  qed
qed

text \<open>An example: an inbound that keeps the names of its users, and one that refuses to delete.\<close>

definition list_inbound :: "string list inbound_ops" where
  "list_inbound =
     \<lparr>ib_AddUsers = \<lambda>xs ids m. (m @ map user_name xs, None),
      ib_DelUsers = \<lambda>ks m. (filter (\<lambda>k. k \<notin> set ks) m, None)\<rparr>"

theorem sing_add_users_witness:
  "\<exists>s'. sg_AddUsers list_inbound ''n'' [user_a, user_b] (trojan_node 443) sing_two = (s', Inr 2)
    \<and> sg_inbounds s' ''n'' = Some (Trojan_Inbound, [''aaaa'', ''bbbb''])"
proof -
  let ?t = "sg_AddUsers list_inbound ''n'' [user_a, user_b] (trojan_node 443) sing_two"
  have n: "ni_Type (trojan_node 443) = ''trojan''" by (simp add: trojan_node_def)
  have i: "sg_inbounds sing_two ''n'' = Some (Trojan_Inbound, [])" by (simp add: sing_two_def)
  obtain s' where a: "?t = (s', Inr 2)"
    by (simp add: sg_AddUsers_def i sing_users_def n list_inbound_def Let_def)
  have "inbound_type_of ''trojan'' = Some Trojan_Inbound" by (simp add: inbound_type_of_def)
  with sing_add_users [OF a i] n obtain xs m' where x: "list_all2 (user_ok (trojan_node 443)) [user_a, user_b] xs"
    "ib_AddUsers list_inbound xs None [] = (m', None)" "sg_inbounds s' = (sg_inbounds sing_two)(''n'' \<mapsto> (Trojan_Inbound, m'))"
    by auto
  from x(1) have "map user_name xs = [Uuid user_a, Uuid user_b]"
    by (auto simp: user_ok_def list_all2_Cons1)
  with a x(2,3) show ?thesis by (simp add: list_inbound_def user_a_def user_b_def)
qed

text \<open>
  C35: the secrets. Two users of a node have the same secret exactly when the parts of their
  Uuids the secret is made of agree: the whole Uuid, or for the 2022 ciphers of shadowsocks
  its first 16 or 32 bytes, which a client decodes from its password.
\<close>

theorem sing_secrets:
  assumes "sing_users us n = Inr (Some (t, xs, ids))" "i < length us" "j < length us"
  shows "case secret_length n of
      None \<Rightarrow> user_secret (xs ! i) = Uuid (us ! i)
        \<and> (user_secret (xs ! i) = user_secret (xs ! j) \<longleftrightarrow> Uuid (us ! i) = Uuid (us ! j))
    | Some k \<Rightarrow> b64_decode (user_secret (xs ! i)) = take k (Uuid (us ! i))
        \<and> length (b64_decode (user_secret (xs ! i))) = k
        \<and> (user_secret (xs ! i) = user_secret (xs ! j) \<longleftrightarrow> take k (Uuid (us ! i)) = take k (Uuid (us ! j)))"
proof -
  have "list_all2 (user_ok n) us xs" using sing_users_ok [OF assms(1)] by simp
  then have "user_ok n (us ! i) (xs ! i)" "user_ok n (us ! j) (xs ! j)"
    using assms(2,3) by (simp_all add: list_all2_conv_all_nth)
  then show ?thesis
    by (auto simp: user_ok_def b64_decode_encode EncodeToString_inj split: option.splits)
qed

definition ss_node :: "string \<Rightarrow> NodeInfo" where
  "ss_node c = (trojan_node 443)\<lparr>ni_Type := ''shadowsocks'', Shadowsocks := Some \<lparr>Cipher = c, ServerKey = ''k''\<rparr>\<rparr>"

definition long_user :: "string \<Rightarrow> UserInfo" where
  "long_user z = \<lparr>Id = 1, Uuid = ''11111111-2222-3333-'' @ z, SpeedLimit = 0, DeviceLimit = 0\<rparr>"

theorem sing_secrets_witness:
  "\<exists>xs. sing_users [long_user ''a'', long_user ''b''] (ss_node ''2022-blake3-aes-128-gcm'') =
      Inr (Some (Shadowsocks_MultiInbound, xs, None))
    \<and> b64_decode (user_secret (xs ! 0)) = ''11111111-2222-33'' \<and> user_secret (xs ! 0) = user_secret (xs ! 1)"
proof -
  let ?n = "ss_node ''2022-blake3-aes-128-gcm''" and ?us = "[long_user ''a'', long_user ''b'']"
  have n: "ni_Type ?n = ''shadowsocks''" "Shadowsocks ?n = Some \<lparr>Cipher = ''2022-blake3-aes-128-gcm'', ServerKey = ''k''\<rparr>"
    by (simp_all add: ss_node_def)
  have k: "secret_length ?n = Some 16" by (simp add: secret_length_def n)
  obtain xs where x: "sing_users ?us ?n = Inr (Some (Shadowsocks_MultiInbound, xs, None))"
    by (simp add: sing_users_def n sing_ss_password_def slice_to_def long_user_def)
  have t: "take 16 (Uuid (long_user z)) = ''11111111-2222-33''" for z by (simp add: long_user_def)
  have l: "0 < length ?us" "1 < length ?us" by simp_all
  have "b64_decode (user_secret (xs ! 0)) = ''11111111-2222-33'' \<and> user_secret (xs ! 0) = user_secret (xs ! 1)"
    using sing_secrets [OF x l] unfolding k option.case nth_Cons_0 nth_Cons_Suc One_nat_def t by blast
  with x show ?thesis by blast
qed

subsection \<open>A delete that fails half-way\<close>

lemma fold_Delete: "fold (\<lambda>u. Delete (Uuid u)) us c k = (if k \<in> Uuid ` set us then None else c k)"
  by (induction us arbitrary: c) (auto simp: Delete_def)

lemma sg_forget_result:
  "sg_uidMap (sg_forget tag us s) k = (if k \<in> Uuid ` set us then None else sg_uidMap s k)"
  "sg_held t (sg_forget tag us s) k = (if t = tag \<and> k \<in> Uuid ` set us then None else sg_held t s k)"
  "sg_inbounds (sg_forget tag us s) = sg_inbounds s"
  by (auto simp: sg_forget_def sg_held_def fold_map_del fold_Delete NewTrafficCounter_def split: option.split)

text \<open>
  DelUsers forgets before it deletes. When the inbound refuses to delete its users, the
  call fails with its error, but the users have lost their UID and their counter already:
  whatever the inbound still lets them transfer, on this node or on any other of the core, is
  theirs no more when traffic is reported.
\<close>

theorem sing_failed_delete_forgets:
  assumes "sg_inbounds s tag = Some (t, m)" "inbound_type_of (ni_Type n) = Some t"
    and "ib_DelUsers U (map Uuid us) m = (m', Some e)" "u \<in> set us"
  shows "\<exists>s'. sg_DelUsers U us tag n s = (s', Inl (Err e)) \<and> sg_inbounds s' = (sg_inbounds s)(tag \<mapsto> (t, m'))
    \<and> sg_uidMap s' (Uuid u) = None \<and> sg_held tag s' (Uuid u) = None
    \<and> (\<forall>other. \<not> sg_counts_for other s' (Uuid u))"
proof -
  let ?s = "(sg_forget tag us s)\<lparr>sg_inbounds := (sg_inbounds s)(tag \<mapsto> (t, m'))\<rparr>"
  have d: "sg_DelUsers U us tag n s = (?s, Inl (Err e))"
    using assms(1-3) by (simp add: sg_DelUsers_def sg_forget_result)
  have "sg_uidMap ?s (Uuid u) = None" using assms(4) by (simp add: sg_forget_result)
  moreover have "sg_held tag ?s (Uuid u) = None"
    using sg_forget_result(2) [of tag tag us s "Uuid u"] assms(4) by (simp add: sg_held_def)
  ultimately show ?thesis using d by (auto simp: sg_counts_for_def)
qed

definition stubborn_inbound :: "string list inbound_ops" where
  "stubborn_inbound = list_inbound\<lparr>ib_DelUsers := \<lambda>ks m. (m, Some ''busy'')\<rparr>"

theorem sing_failed_delete_forgets_witness:
  "\<exists>s'. sg_DelUsers stubborn_inbound [user_a] ''n'' (trojan_node 443) sing_two = (s', Inl (Err ''busy''))
    \<and> sg_uidMap s' ''aaaa'' = None \<and> \<not> sg_counts_for ''m'' s' ''aaaa''"
proof -
  have i: "sg_inbounds sing_two ''n'' = Some (Trojan_Inbound, [])" by (simp add: sing_two_def)
  have t: "inbound_type_of (ni_Type (trojan_node 443)) = Some Trojan_Inbound"
    by (simp add: trojan_node_def inbound_type_of_def)
  have d: "ib_DelUsers stubborn_inbound (map Uuid [user_a]) [] = ([], Some ''busy'')" "user_a \<in> set [user_a]"
    by (simp_all add: stubborn_inbound_def)
  from sing_failed_delete_forgets [OF i t d] show ?thesis by (auto simp: user_a_def)
qed

subsection \<open>Connections\<close>

lemma count_conn_result:
  assumes "count_conn tag u s = (s', a)"
  shows "sg_held tag s' = (sg_held tag s)(u \<mapsto> a)" "sg_uidMap s' = sg_uidMap s"
    and "sg_held tag s u = Some b \<Longrightarrow> a = b"
proof -
  obtain a1 c' h' where g: "GetCounter u (sg_held tag s) (sg_store s) = (a1, c', h')" by (metis prod_cases3)
  then have e: "s' = sg_put tag c' h' s" "a = a1"
    using assms by (auto simp: count_conn_def sg_held_def sg_put_def Let_def)
  then show "sg_held tag s' = (sg_held tag s)(u \<mapsto> a)" "sg_uidMap s' = sg_uidMap s"
    using GetCounter_map [OF g] by (simp_all add: sg_put_def sg_held_def)
  show "a = b" if "sg_held tag s u = Some b"
    using g e(2) that by (simp add: GetCounter_def)
qed


definition sing_conn :: inbound_context where
  "sing_conn =
     \<lparr>ic_Inbound = ''n'', ic_User = ''u'', ic_Source = ''2.2.2.2'', ic_Destination = ''example.org'', ic_Network = ''socks'',
      ic_Protocol = ''tls''\<rparr>"

definition roomy_registry :: "int limiters" where
  "roomy_registry = \<lparr>registry = [''n'' \<mapsto> 0], lims = \<lambda>_. one_user 100 (plain_user 7 30 0), next_lim = 1\<rparr>"


text \<open>
  Packets escape. Whatever a packet connection does, it is recorded as no device of its
  user, gets no bucket, and is judged without its sniffed protocol: two packet connections
  that differ in the protocol only are treated alike.
\<close>

theorem sing_packets_escape:
  "case RoutedPacketConnection nb ms now m (s, g) of
     ((s', g'), res) \<Rightarrow> (\<forall>a. UserOnlineIP (lims g' a) = UserOnlineIP (lims g a))
       \<and> (\<nexists>w c. res = Inr (Tracked (Some w) c))
       \<and> RoutedPacketConnection nb ms now (m\<lparr>ic_Protocol := p\<rparr>) (s, g) = ((s', g'), res)"
proof (cases "GetLimiter (ic_Inbound m) g")
  case (Inl e)
  then show ?thesis by (simp add: RoutedPacketConnection_def)
next
  case (Inr a)
  obtain l b r where c: "CheckLimit nb now (UserTag (ic_Inbound m) (ic_User m)) (ic_Source m) False False (lims g a) = (l, b, r)"
    by (metis prod_cases3)
  obtain s1 c1 where k: "count_conn (ic_Inbound m) (ic_User m) s = (s1, c1)" by (metis prod.collapse)
  have "UserOnlineIP l = UserOnlineIP (lims g a)"
    using CheckLimit_rules(3) [of False nb now "UserTag (ic_Inbound m) (ic_User m)" "ic_Source m" False "lims g a"]
    by (simp add: c)
  then show ?thesis
    by (cases r; cases "sing_rules_reject ms (ic_Destination m) (ic_Network m) l")
      (auto simp: RoutedPacketConnection_def Inr c k Let_def split: bool.split)
qed

subsection \<open>Agreement with the xray core\<close>

text \<open>
  The two cores give a user of an AES cipher of shadowsocks 2022 the same key. What xray's
  user builder computes, with a server key and the standard encoding, is what the sing core
  computes, and a Uuid too short for the one is too short for the other.
\<close>

theorem cores_agree_on_ss_keys:
  assumes "cipher \<in> {''2022-blake3-aes-128-gcm'', ''2022-blake3-aes-256-gcm''}" "serverKey \<noteq> ''''"
  shows "buildSSUser EncodeToString tag cipher serverKey u =
    bind_res (sing_ss_password cipher (Uuid u)) (\<lambda>p.
      Inr \<lparr>Level = 0, xu_Email = UserTag tag (Uuid u), Account = SS2022Account p\<rparr>)"
  using assms by (auto simp: buildSSUser_def ss_key_length_def sing_ss_password_def slice_to_def)

theorem cores_agree_on_ss_keys_witness:
  "\<exists>p. sing_ss_password ''2022-blake3-aes-128-gcm'' (Uuid (long_user ''a'')) = Inr p
    \<and> buildSSUser EncodeToString ''n'' ''2022-blake3-aes-128-gcm'' ''k'' (long_user ''a'') =
      Inr \<lparr>Level = 0, xu_Email = UserTag ''n'' (Uuid (long_user ''a'')), Account = SS2022Account p\<rparr>"
proof -
  have c: "''2022-blake3-aes-128-gcm'' \<in> {''2022-blake3-aes-128-gcm'', ''2022-blake3-aes-256-gcm''}" "''k'' \<noteq> ''''"
    by simp_all
  obtain p where p: "sing_ss_password ''2022-blake3-aes-128-gcm'' (Uuid (long_user ''a'')) = Inr p"
    by (simp add: sing_ss_password_def slice_to_def long_user_def)
  from cores_agree_on_ss_keys [OF c, of "''n''" "long_user ''a''"] p show ?thesis by simp
qed

end
