(* ===== verification/Hy2_Config.thy ===== *)
theory Hy2_Config
  imports Hy2 Go_Net
begin

text \<open>
  core/hy2/config.go and core/hy2/serverConfig.go: what the hysteria2 core makes of a node and
  of its configuration file before it starts the server (getHyConfig), and the handlers of the
  masquerade. The constructors of the hysteria library, the file and network calls and the
  library parsers are parameters; durations are nanoseconds.
\<close>

subsection \<open>serverConfig.go: the configuration file\<close>

text \<open>
  The settings the program decodes and never reads: the panel and the controller's own
  certificates, users and limits take their place.
\<close>

record serverConfigObfs =
  obfs_Type :: string
  obfs_Salamander_Password :: string

record serverConfigTLS =
  stls_Cert :: string
  stls_Key :: string

record serverConfigACME =
  Domains :: "string list"
  acme_Email :: string
  acme_CA :: string
  DisableHTTP :: bool
  DisableTLSALPN :: bool
  AltHTTPPort :: int
  AltTLSALPNPort :: int
  acme_Dir :: string

record serverConfigBandwidth =
  bw_Up :: string
  bw_Down :: string

record serverConfigAuthHTTP =
  ah_URL :: string
  ah_Insecure :: bool

record serverConfigAuth =
  au_Type :: string
  au_Password :: string
  au_UserPass :: "string \<rightharpoonup> string"
  au_HTTP :: serverConfigAuthHTTP
  au_Command :: string

record serverConfigTrafficStats =
  tst_Listen :: string
  tst_Secret :: string

text \<open>The settings it reads.\<close>

record serverConfigQUIC =
  InitStreamReceiveWindow :: "64 word"
  sq_MaxStreamReceiveWindow :: "64 word"
  InitConnectionReceiveWindow :: "64 word"
  sq_MaxConnectionReceiveWindow :: "64 word"
  sq_MaxIdleTimeout :: int
  sq_MaxIncomingStreams :: int
  sq_DisablePathMTUDiscovery :: bool

record serverConfigResolverTCP =
  rt_Addr :: string
  rt_Timeout :: int

record serverConfigResolverUDP =
  ru_Addr :: string
  ru_Timeout :: int

record serverConfigResolverTLS =
  rl_Addr :: string
  rl_Timeout :: int
  rl_SNI :: string
  rl_Insecure :: bool

record serverConfigResolverHTTPS =
  rh_Addr :: string
  rh_Timeout :: int
  rh_SNI :: string
  rh_Insecure :: bool

record serverConfigResolver =
  rs_Type :: string
  rs_TCP :: serverConfigResolverTCP
  rs_UDP :: serverConfigResolverUDP
  rs_TLS :: serverConfigResolverTLS
  rs_HTTPS :: serverConfigResolverHTTPS

record serverConfigSniff =
  sn_Enable :: bool
  sn_Timeout :: int
  sn_RewriteDomain :: bool
  sn_TCPPorts :: string
  sn_UDPPorts :: string

record serverConfigACL =
  File :: string
  Inline :: "string list"
  GeoIP :: string
  GeoSite :: string
  GeoUpdateInterval :: int

record serverConfigOutboundDirect =
  od_Mode :: string
  BindIPv4 :: string
  BindIPv6 :: string
  BindDevice :: string

record serverConfigOutboundSOCKS5 =
  s5_Addr :: string
  Username :: string
  s5_Password :: string

record serverConfigOutboundHTTP =
  oh_URL :: string
  oh_Insecure :: bool

record serverConfigOutboundEntry =
  oe_Name :: string
  oe_Type :: string
  Direct :: serverConfigOutboundDirect
  SOCKS5 :: serverConfigOutboundSOCKS5
  oe_HTTP :: serverConfigOutboundHTTP

record serverConfigMasqueradeFile =
  mf_Dir :: string

record serverConfigMasqueradeProxy =
  mp_URL :: string
  RewriteHost :: bool

record serverConfigMasqueradeString =
  Content :: string
  Headers :: "(string \<times> string) list"
  StatusCode :: int

record serverConfigMasquerade =
  mq_Type :: string
  mq_File :: serverConfigMasqueradeFile
  Proxy :: serverConfigMasqueradeProxy
  mq_String :: serverConfigMasqueradeString
  ListenHTTP :: string
  ListenHTTPS :: string
  ForceHTTPS :: bool

record serverConfig =
  sv_Listen :: string
  Obfs :: serverConfigObfs
  TLS :: "serverConfigTLS option"
  ACME :: "serverConfigACME option"
  QUIC :: serverConfigQUIC
  Bandwidth :: serverConfigBandwidth
  sv_IgnoreClientBandwidth :: bool
  SpeedTest :: bool
  DisableUDP :: bool
  UDPIdleTimeout :: int
  Auth :: serverConfigAuth
  Resolver :: serverConfigResolver
  Sniff :: serverConfigSniff
  ACL :: serverConfigACL
  Outbounds :: "serverConfigOutboundEntry list"
  TrafficStats :: serverConfigTrafficStats
  Masquerade :: serverConfigMasquerade

subsection \<open>serverConfig.go: outbounds\<close>

datatype direct_mode = ModeAuto | Mode64 | Mode46 | Mode6 | Mode4

text \<open>
  The outbounds of the library, as they are chained: direct ones, proxies, the ACL engine over
  the named outbounds, and a resolver in front.
\<close>

datatype outbound =
    DirectSimple direct_mode
  | DirectIPs direct_mode "string option" "string option"
  | DirectDevice direct_mode string
  | SOCKS5Outbound string string string
  | HTTPOutbound string bool
  | ACLFromFile string "(string \<times> outbound) list" string string int
  | ACLFromString string "(string \<times> outbound) list" string string int
  | SystemResolver outbound
  | ResolverTCP string int outbound
  | ResolverUDP string int outbound
  | ResolverTLS string int string bool outbound
  | ResolverDoH string int string bool outbound

text \<open>
  The calls outside the repository: the error of making an outbound, the parsers of IP
  addresses, port unions and URLs (scheme and host), the certificate in two files, opening a
  socket at an address (its local address), and the obfuscator's check of its key.
\<close>

record hy_std =
  NewOutbound :: "outbound \<Rightarrow> string option"
  ParseIP :: "string \<Rightarrow> string option"
  ParsePortUnion :: "string \<Rightarrow> (int \<times> int) list option"
  hy_url_Parse :: "string \<Rightarrow> string + string \<times> string"
  LoadX509KeyPair :: "string \<Rightarrow> string \<Rightarrow> string + string"
  ListenUDP :: "string \<Rightarrow> string + string"
  NewSalamanderObfuscator :: "string \<Rightarrow> string option"

definition made :: "hy_std \<Rightarrow> outbound \<Rightarrow> outbound result" where
  "made H ob = (case NewOutbound H ob of Some e \<Rightarrow> Inl (Err e) | None \<Rightarrow> Inr ob)"

definition direct_mode :: "string \<Rightarrow> direct_mode option" where
  "direct_mode m =
     map_of [('''', ModeAuto), (''auto'', ModeAuto), (''64'', Mode64), (''46'', Mode46), (''6'', Mode6), (''4'', Mode4)]
       (toLower m)"

definition serverConfigOutboundDirectToOutbound :: "hy_std \<Rightarrow> serverConfigOutboundDirect \<Rightarrow> outbound result" where
  "serverConfigOutboundDirectToOutbound H c =
     (case direct_mode (od_Mode c) of
        None \<Rightarrow> Inl (Err ''outbounds.direct.mode unsupported mode'')
      | Some mode \<Rightarrow>
          (let bindIP = (length (BindIPv4 c) > 0 \<or> length (BindIPv6 c) > 0);
               bindDevice = (length (BindDevice c) > 0);
               ip4 = ParseIP H (BindIPv4 c); ip6 = ParseIP H (BindIPv6 c)
           in if bindIP \<and> bindDevice then Inl (Err ''outbounds.direct cannot bind both IP and device'')
              else if bindIP then
                (if length (BindIPv4 c) > 0 \<and> ip4 = None then
                   Inl (Err ''outbounds.direct.bindIPv4 invalid IPv4 address'')
                 else if length (BindIPv6 c) > 0 \<and> ip6 = None then
                   Inl (Err ''outbounds.direct.bindIPv6 invalid IPv6 address'')
                 else made H (DirectIPs mode ip4 ip6))
              else if bindDevice then made H (DirectDevice mode (BindDevice c))
              else Inr (DirectSimple mode)))"

definition serverConfigOutboundSOCKS5ToOutbound :: "serverConfigOutboundSOCKS5 \<Rightarrow> outbound result" where
  "serverConfigOutboundSOCKS5ToOutbound c =
     (if s5_Addr c = '''' then Inl (Err ''outbounds.socks5.addr empty socks5 address'')
      else Inr (SOCKS5Outbound (s5_Addr c) (Username c) (s5_Password c)))"

definition serverConfigOutboundHTTPToOutbound :: "hy_std \<Rightarrow> serverConfigOutboundHTTP \<Rightarrow> outbound result" where
  "serverConfigOutboundHTTPToOutbound H c =
     (if oh_URL c = '''' then Inl (Err ''outbounds.http.url empty http address'')
      else made H (HTTPOutbound (oh_URL c) (oh_Insecure c)))"

subsection \<open>config.go: TLS and QUIC\<close>

text \<open>The certificate loaded now, and the files it is loaded from again at each handshake.\<close>

record hy_tls =
  Certificates :: "string list"
  GetCertificate :: "string \<times> string"

definition getTLSConfig :: "hy_std \<Rightarrow> Options \<Rightarrow> hy_tls result" where
  "getTLSConfig H config =
     (case o_CertConfig config of
        None \<Rightarrow> Inl (Err ''the CertConfig is not vail'')
      | Some cc \<Rightarrow>
          (if CertMode cc \<in> {''none'', ''''} then Inl (Err ''the CertMode cannot be none'')
           else case LoadX509KeyPair H (CertFile cc) (KeyFile cc) of
                  Inl err \<Rightarrow> Inl (Err err)
                | Inr cert \<Rightarrow> Inr \<lparr>Certificates = [cert], GetCertificate = (CertFile cc, KeyFile cc)\<rparr>))"

record hy_quic =
  InitialStreamReceiveWindow :: "64 word"
  MaxStreamReceiveWindow :: "64 word"
  InitialConnectionReceiveWindow :: "64 word"
  MaxConnectionReceiveWindow :: "64 word"
  MaxIdleTimeout :: int
  MaxIncomingStreams :: int
  DisablePathMTUDiscovery :: bool

definition zero_quic :: hy_quic where
  "zero_quic =
     \<lparr>InitialStreamReceiveWindow = 0, MaxStreamReceiveWindow = 0, InitialConnectionReceiveWindow = 0,
      MaxConnectionReceiveWindow = 0, MaxIdleTimeout = 0, MaxIncomingStreams = 0, DisablePathMTUDiscovery = False\<rparr>"

definition defaultStreamReceiveWindow :: "64 word" where "defaultStreamReceiveWindow = 8388608"
definition defaultConnReceiveWindow :: "64 word" where "defaultConnReceiveWindow = 20971520"
definition defaultMaxIdleTimeout :: int where "defaultMaxIdleTimeout = 30 * second_ns"
definition defaultMaxIncomingStreams :: int where "defaultMaxIncomingStreams = 4096"

text \<open>A receive window: the default for 0, an error below 16384, else set from the file.\<close>

definition window ::
  "string \<Rightarrow> 64 word \<Rightarrow> (hy_quic \<Rightarrow> hy_quic) \<Rightarrow> (hy_quic \<Rightarrow> hy_quic) \<Rightarrow> hy_quic \<Rightarrow> hy_quic result" where
  "window field v dflt given q =
     (if v = 0 then Inr (dflt q)
      else if v < 16384 then Inl (Err (''QUICConfig.'' @ field @ ''f must be at least 16384''))
      else Inr (given q))"

definition getQUICConfig :: "serverConfigQUIC \<Rightarrow> hy_quic result" where
  "getQUICConfig c =
     bind_res (window ''InitialStreamReceiveWindow'' (InitStreamReceiveWindow c)
       (\<lambda>q. q\<lparr>InitialStreamReceiveWindow := defaultStreamReceiveWindow\<rparr>)
       (\<lambda>q. q\<lparr>InitialConnectionReceiveWindow := InitConnectionReceiveWindow c\<rparr>) zero_quic) (\<lambda>q.
     bind_res (window ''MaxStreamReceiveWindow'' (sq_MaxStreamReceiveWindow c)
       (\<lambda>q. q\<lparr>MaxStreamReceiveWindow := defaultStreamReceiveWindow\<rparr>)
       (\<lambda>q. q\<lparr>MaxStreamReceiveWindow := sq_MaxStreamReceiveWindow c\<rparr>) q) (\<lambda>q.
     bind_res (window ''InitialConnectionReceiveWindow'' (InitConnectionReceiveWindow c)
       (\<lambda>q. q\<lparr>InitialConnectionReceiveWindow := defaultConnReceiveWindow\<rparr>)
       (\<lambda>q. q\<lparr>InitialConnectionReceiveWindow := InitConnectionReceiveWindow c\<rparr>) q) (\<lambda>q.
     bind_res (window ''MaxConnectionReceiveWindow'' (sq_MaxConnectionReceiveWindow c)
       (\<lambda>q. q\<lparr>MaxConnectionReceiveWindow := defaultConnReceiveWindow\<rparr>)
       (\<lambda>q. q\<lparr>MaxConnectionReceiveWindow := sq_MaxConnectionReceiveWindow c\<rparr>) q) (\<lambda>q.
     bind_res
       (if sq_MaxIdleTimeout c = 0 then Inr (q\<lparr>MaxIdleTimeout := defaultMaxIdleTimeout\<rparr>)
        else if sq_MaxIdleTimeout c < 4 * second_ns \<or> sq_MaxIdleTimeout c > 120 * second_ns then
          Inl (Err ''QUICConfig.MaxIdleTimeoutf must be between 4s and 120s'')
        else Inr (q\<lparr>MaxIdleTimeout := sq_MaxIdleTimeout c\<rparr>)) (\<lambda>q.
     bind_res
       (if sq_MaxIncomingStreams c = 0 then Inr (q\<lparr>MaxIncomingStreams := defaultMaxIncomingStreams\<rparr>)
        else if sq_MaxIncomingStreams c < 8 then
          Inl (Err ''QUICConfig.MaxIncomingStreamsf must be at least 8'')
        else Inr (q\<lparr>MaxIncomingStreams := sq_MaxIncomingStreams c\<rparr>)) (\<lambda>q.
     Inr (q\<lparr>DisablePathMTUDiscovery := False\<rparr>)))))))"

subsection \<open>config.go: the socket and the bandwidth\<close>

datatype hy_conn = PlainConn string | SalamanderConn string string

text \<open>The socket that was opened, if any, beside the result: an error leaves it open.\<close>

definition getConn :: "hy_std \<Rightarrow> NodeInfo \<Rightarrow> Options \<Rightarrow> string option \<times> hy_conn result" where
  "getConn H info config =
     (case Common info of
        None \<Rightarrow> (None, Inl (Panic ''nil pointer dereference''))
      | Some cn \<Rightarrow>
          (case ListenUDP H (formatAddress (ListenIP config) (ServerPort cn)) of
             Inl err \<Rightarrow> (None, Inl (Err err))
           | Inr conn \<Rightarrow>
               (Some conn,
                bind_res (deref (Hysteria2 info)) (\<lambda>n.
                  if toLower (ObfsType n) \<in> {'''', ''plain''} then Inr (PlainConn conn)
                  else if toLower (ObfsType n) = ''salamander'' then
                    (case NewSalamanderObfuscator H (ObfsPassword n) of
                       Some err \<Rightarrow> Inl (Err err)
                     | None \<Rightarrow> Inr (SalamanderConn conn (ObfsPassword n)))
                  else Inl (Err ''unsupported obfuscation type'')))))"

definition hy_rate :: "int \<Rightarrow> 64 word" where
  "hy_rate mbps = (if mbps \<noteq> 0 then word_of_int (i64 (mbps * 1000000) sdiv 8) else 0)"

record hy_bandwidth =
  MaxTx :: "64 word"
  MaxRx :: "64 word"

definition getBandwidthConfig :: "Hysteria2Node \<Rightarrow> hy_bandwidth" where
  "getBandwidthConfig n = \<lparr>MaxTx = hy_rate (UpMbps n), MaxRx = hy_rate (DownMbps n)\<rparr>"

subsection \<open>config.go: the sniffer\<close>

record hy_sniffer =
  sf_Timeout :: int
  sf_RewriteDomain :: bool
  sf_TCPPorts :: "(int \<times> int) list option"
  sf_UDPPorts :: "(int \<times> int) list option"

definition port_union :: "hy_std \<Rightarrow> string \<Rightarrow> string \<Rightarrow> (int \<times> int) list option result" where
  "port_union H field ports =
     (if ports = '''' then Inr None
      else case ParsePortUnion H ports of
             None \<Rightarrow> Inl (Err (''sniff.'' @ field @ '': invalid port union''))
           | Some u \<Rightarrow> Inr (Some u))"

definition getRequestHook :: "hy_std \<Rightarrow> serverConfigSniff \<Rightarrow> hy_sniffer option result" where
  "getRequestHook H c =
     (if sn_Enable c then
        bind_res (port_union H ''tcpPorts'' (sn_TCPPorts c)) (\<lambda>tcp.
        bind_res (port_union H ''udpPorts'' (sn_UDPPorts c)) (\<lambda>udp.
        Inr (Some \<lparr>sf_Timeout = sn_Timeout c, sf_RewriteDomain = sn_RewriteDomain c, sf_TCPPorts = tcp,
          sf_UDPPorts = udp\<rparr>)))
      else Inr None)"

subsection \<open>config.go: the outbound\<close>

definition outbound_entry :: "hy_std \<Rightarrow> serverConfigOutboundEntry \<Rightarrow> (string \<times> outbound) result" where
  "outbound_entry H entry =
     (if oe_Name entry = '''' then Inl (Err ''empty outbound name'')
      else bind_res
        (if toLower (oe_Type entry) = ''direct'' then serverConfigOutboundDirectToOutbound H (Direct entry)
         else if toLower (oe_Type entry) = ''socks5'' then serverConfigOutboundSOCKS5ToOutbound (SOCKS5 entry)
         else if toLower (oe_Type entry) = ''http'' then serverConfigOutboundHTTPToOutbound H (oe_HTTP entry)
         else Inl (Err ''outbounds.type unsupported outbound type''))
        (\<lambda>ob. Inr (oe_Name entry, ob)))"

fun outbound_entries :: "hy_std \<Rightarrow> serverConfigOutboundEntry list \<Rightarrow> (string \<times> outbound) list result" where
  "outbound_entries H [] = Inr []"
| "outbound_entries H (e # es) =
     bind_res (outbound_entry H e) (\<lambda>ob. bind_res (outbound_entries H es) (\<lambda>obs. Inr (ob # obs)))"

definition acl_outbound :: "hy_std \<Rightarrow> serverConfigACL \<Rightarrow> (string \<times> outbound) list \<Rightarrow> (bool \<times> outbound) result" where
  "acl_outbound H acl obs =
     (if File acl \<noteq> '''' \<and> length (Inline acl) > 0 then Inl (Err ''cannot set both acl.file and acl.inline'')
      else if File acl \<noteq> '''' then
        bind_res (made H (ACLFromFile (File acl) obs (GeoIP acl) (GeoSite acl) (GeoUpdateInterval acl)))
          (\<lambda>ob. Inr (True, ob))
      else if length (Inline acl) > 0 then
        bind_res (made H (ACLFromString (join [char_of (10 :: nat)] (Inline acl)) obs (GeoIP acl) (GeoSite acl) (GeoUpdateInterval acl)))
          (\<lambda>ob. Inr (True, ob))
      else Inr (False, snd (hd obs)))"

definition with_addr :: "string \<Rightarrow> outbound \<Rightarrow> outbound result" where
  "with_addr a ob = (if a = '''' then Inl (Err ''empty resolver address'') else Inr ob)"

definition resolve_outbound :: "serverConfigResolver \<Rightarrow> bool \<Rightarrow> outbound \<Rightarrow> outbound result" where
  "resolve_outbound c hasACL uOb =
     (let t = toLower (rs_Type c)
      in if t \<in> {'''', ''system''} then Inr (if hasACL then SystemResolver uOb else uOb)
         else if t = ''tcp'' then
           with_addr (rt_Addr (rs_TCP c)) (ResolverTCP (rt_Addr (rs_TCP c)) (rt_Timeout (rs_TCP c)) uOb)
         else if t = ''udp'' then
           with_addr (ru_Addr (rs_UDP c)) (ResolverUDP (ru_Addr (rs_UDP c)) (ru_Timeout (rs_UDP c)) uOb)
         else if t \<in> {''tls'', ''tcp-tls''} then
           with_addr (rl_Addr (rs_TLS c))
             (ResolverTLS (rl_Addr (rs_TLS c)) (rl_Timeout (rs_TLS c)) (rl_SNI (rs_TLS c)) (rl_Insecure (rs_TLS c)) uOb)
         else if t \<in> {''https'', ''http''} then
           with_addr (rh_Addr (rs_HTTPS c))
             (ResolverDoH (rh_Addr (rs_HTTPS c)) (rh_Timeout (rs_HTTPS c)) (rh_SNI (rs_HTTPS c)) (rh_Insecure (rs_HTTPS c)) uOb)
         else Inl (Err ''unsupported resolver type''))"

definition getOutboundConfig :: "hy_std \<Rightarrow> serverConfig \<Rightarrow> outbound result" where
  "getOutboundConfig H c =
     bind_res (if Outbounds c = [] then Inr [(''default'', DirectSimple ModeAuto)] else outbound_entries H (Outbounds c)) (\<lambda>obs.
     bind_res (acl_outbound H (ACL c) obs) (\<lambda>(hasACL, uOb).
     resolve_outbound (Resolver c) hasACL uOb))"

end
