(* ===== verification/Hy2_Server.thy ===== *)
theory Hy2_Server
  imports Hy2_Config
begin

text \<open>
  The rest of core/hy2/config.go: the masquerade with its handlers, getHyConfig as a whole,
  and the start of a node's server (node.go), with what they promise.
\<close>

subsection \<open>config.go: the masquerade\<close>

datatype http_handler =
    NotFoundHandler
  | FileServer string
  | ReverseProxy string string bool
  | StringHandler serverConfigMasqueradeString

record masq_server =
  QUICPort :: int
  HTTPSPort :: int
  ms_Handler :: http_handler
  ms_TLS :: hy_tls
  ms_ForceHTTPS :: bool
  HTTPAddr :: string
  HTTPSAddr :: string

definition status_ok :: "int \<Rightarrow> bool" where
  "status_ok code \<longleftrightarrow> \<not> (code \<noteq> 0 \<and> (code < 200 \<or> code > 599 \<or> code = 233))"

definition masq_handler :: "hy_std \<Rightarrow> serverConfigMasquerade \<Rightarrow> http_handler result" where
  "masq_handler H m =
     (let t = toLower (mq_Type m)
      in if t \<in> {'''', ''404''} then Inr NotFoundHandler
         else if t = ''file'' then
           (if mf_Dir (mq_File m) = '''' then Inl (Err ''masquerade.file.dir empty file directory'')
            else Inr (FileServer (mf_Dir (mq_File m))))
         else if t = ''proxy'' then
           (if mp_URL (Proxy m) = '''' then Inl (Err ''masquerade.proxy.url empty proxy url'')
            else case hy_url_Parse H (mp_URL (Proxy m)) of
                   Inl err \<Rightarrow> Inl (Err (''masquerade.proxy.url '' @ err))
                 | Inr (scheme, host) \<Rightarrow> Inr (ReverseProxy scheme host (RewriteHost (Proxy m))))
         else if t = ''string'' then
           (if Content (mq_String m) = '''' then Inl (Err ''masquerade.string.content empty string content'')
            else if \<not> status_ok (StatusCode (mq_String m)) then
              Inl (Err ''masquerade.string.statusCode invalid status code (must be 200-599, except 233)'')
            else Inr (StringHandler (mq_String m)))
         else Inl (Err ''masquerade.type unsupported masquerade type''))"

text \<open>The handler, and the TCP server that is started for it, if any.\<close>

definition getMasqHandler ::
  "hy_std \<Rightarrow> hy_tls \<Rightarrow> string \<Rightarrow> serverConfigMasquerade \<Rightarrow> (http_handler \<times> masq_server option) result" where
  "getMasqHandler H tls localAddr m =
     bind_res (masq_handler H m) (\<lambda>handler.
       if ListenHTTP m \<noteq> '''' \<or> ListenHTTPS m \<noteq> '''' then
         (if ListenHTTP m \<noteq> '''' \<and> ListenHTTPS m = '''' then
            Inl (Err ''masquerade.listenHTTPS having only HTTP server without HTTPS is not supported'')
          else Inr (handler, Some
            \<lparr>QUICPort = extractPortFromAddr localAddr, HTTPSPort = extractPortFromAddr (ListenHTTPS m),
             ms_Handler = handler, ms_TLS = tls, ms_ForceHTTPS = ForceHTTPS m,
             HTTPAddr = ListenHTTP m, HTTPSAddr = ListenHTTPS m\<rparr>))
       else Inr (handler, None))"

text \<open>
  runMasqTCPServer: the servers that are started, and what becomes of the program when the
  first of them has ended with the error err.
\<close>

definition runMasqTCPServer :: "masq_server \<Rightarrow> string option \<Rightarrow> string list \<times> error option" where
  "runMasqTCPServer s err =
     ((if HTTPAddr s \<noteq> '''' then [HTTPAddr s] else []) @ (if HTTPSAddr s \<noteq> '''' then [HTTPSAddr s] else []),
      map_option (\<lambda>e. Panic (''failed to serve masquerade HTTP(S)'' @ e)) err)"

subsection \<open>The handlers\<close>

text \<open>The Director of the reverse proxy; an absent header reads as the empty string.\<close>

record http_request =
  URLScheme :: string
  URLHost :: string
  rq_Host :: string
  RemoteAddr :: string
  XForwardedFor :: string

definition Director :: "string \<Rightarrow> string \<Rightarrow> bool \<Rightarrow> http_request \<Rightarrow> http_request" where
  "Director scheme host rewrite req0 =
     (let req = req0\<lparr>URLScheme := scheme, URLHost := host\<rparr>;
          req = (case SplitHostPort (RemoteAddr req) of
                   None \<Rightarrow> req
                 | Some (clientIP, _) \<Rightarrow>
                     req\<lparr>XForwardedFor :=
                       (if XForwardedFor req \<noteq> '''' then XForwardedFor req @ '', '' @ clientIP else clientIP)\<rparr>)
      in if rewrite then req\<lparr>rq_Host := URLHost req\<rparr> else req)"

text \<open>The string handler's answer: status, headers (under their canonical names) and body.\<close>

definition serve_string ::
  "(string \<Rightarrow> string) \<Rightarrow> serverConfigMasqueradeString \<Rightarrow> int \<times> (string \<rightharpoonup> string) \<times> string" where
  "serve_string canon s =
     (if StatusCode s \<noteq> 0 then StatusCode s else 200,
      fold (\<lambda>(k, v) h. h(canon k \<mapsto> v)) (Headers s) Map.empty, Content s)"

subsection \<open>getHyConfig and the start of a node\<close>

record hy_config =
  TLSConfig :: hy_tls
  QUICConfig :: hy_quic
  Conn :: hy_conn
  RequestHook :: "hy_sniffer option"
  Outbound :: outbound
  BandwidthConfig :: hy_bandwidth
  IgnoreClientBandwidth :: bool
  hc_DisableUDP :: bool
  hc_UDPIdleTimeout :: int
  MasqHandler :: http_handler
  MasqServer :: "masq_server option"

definition conn_local :: "hy_conn \<Rightarrow> string" where
  "conn_local c = (case c of PlainConn a \<Rightarrow> a | SalamanderConn a p \<Rightarrow> a)"

text \<open>What follows the opening of the socket.\<close>

definition hy_config_on ::
  "hy_std \<Rightarrow> NodeInfo \<Rightarrow> serverConfig \<Rightarrow> hy_tls \<Rightarrow> hy_quic \<Rightarrow> hy_conn \<Rightarrow> hy_config result" where
  "hy_config_on H info c tls quic conn =
     bind_res (getRequestHook H (Sniff c)) (\<lambda>hook.
     bind_res (getOutboundConfig H c) (\<lambda>ob.
     bind_res (getMasqHandler H tls (conn_local conn) (Masquerade c)) (\<lambda>(handler, server).
     bind_res (deref (Hysteria2 info)) (\<lambda>n.
     Inr \<lparr>TLSConfig = tls, QUICConfig = quic, Conn = conn, RequestHook = hook, Outbound = ob,
       BandwidthConfig = getBandwidthConfig n, IgnoreClientBandwidth = Ignore_Client_Bandwidth n,
       hc_DisableUDP = DisableUDP c, hc_UDPIdleTimeout = UDPIdleTimeout c, MasqHandler = handler,
       MasqServer = server\<rparr>))))"

text \<open>The socket that is open afterwards, beside the configuration or the error.\<close>

definition getHyConfig :: "hy_std \<Rightarrow> NodeInfo \<Rightarrow> Options \<Rightarrow> serverConfig \<Rightarrow> string option \<times> hy_config result" where
  "getHyConfig H info config c =
     (case bind_res (getTLSConfig H config) (\<lambda>tls. bind_res (getQUICConfig (QUIC c)) (\<lambda>quic. Inr (tls, quic))) of
        Inl e \<Rightarrow> (None, Inl e)
      | Inr (tls, quic) \<Rightarrow>
          (case getConn H info config of
             (socket, r) \<Rightarrow> (socket, bind_res r (hy_config_on H info c tls quic))))"

text \<open>
  AddNode up to the running server: read is the file's configuration, a failure of which ends
  the program, newServer the error of NewServer.
\<close>

definition hy_serve ::
  "hy_std \<Rightarrow> (string \<Rightarrow> string + serverConfig) \<Rightarrow> serverConfig \<Rightarrow> (hy_config \<Rightarrow> string option) \<Rightarrow> NodeInfo \<Rightarrow> Options
   \<Rightarrow> string option \<times> error option" where
  "hy_serve H read zero newServer info config =
     (case (if Hysteria2ConfigPath config \<noteq> '''' then read (Hysteria2ConfigPath config) else Inr zero) of
        Inl e \<Rightarrow> (None, Some (Panic e))
      | Inr c \<Rightarrow>
          (case getHyConfig H info config c of
             (socket, Inl e) \<Rightarrow> (socket, Some e)
           | (socket, Inr hc) \<Rightarrow> (socket, map_option Err (newServer hc))))"

text \<open>AddNode with the server that the configuration gives.\<close>

definition hy_AddNode_serving ::
  "hy_std \<Rightarrow> (string \<Rightarrow> string + serverConfig) \<Rightarrow> serverConfig \<Rightarrow> (hy_config \<Rightarrow> string option) \<Rightarrow> string \<Rightarrow> NodeInfo
   \<Rightarrow> Options \<Rightarrow> hy2 \<Rightarrow> hy2 \<times> unit result" where
  "hy_AddNode_serving H read zero newServer tag info config s =
     hy_AddNode (snd (hy_serve H read zero newServer info config)) tag config s"

subsection \<open>Properties\<close>

lemma window_Inr:
  "window f v d g q = Inr q' \<longleftrightarrow> (v = 0 \<or> 16384 \<le> v) \<and> q' = (if v = 0 then d q else g q)"
  by (auto simp: window_def not_less)

lemma getQUICConfig_Inr:
  assumes "getQUICConfig c = Inr q"
  shows "\<forall>v\<in>{InitStreamReceiveWindow c, sq_MaxStreamReceiveWindow c, InitConnectionReceiveWindow c,
        sq_MaxConnectionReceiveWindow c}. v = 0 \<or> 16384 \<le> v"
    and "sq_MaxIdleTimeout c = 0 \<or> 4 * second_ns \<le> sq_MaxIdleTimeout c \<and> sq_MaxIdleTimeout c \<le> 120 * second_ns"
    and "sq_MaxIncomingStreams c = 0 \<or> 8 \<le> sq_MaxIncomingStreams c"
    and "q = \<lparr>InitialStreamReceiveWindow = (if InitStreamReceiveWindow c = 0 then defaultStreamReceiveWindow else 0),
      MaxStreamReceiveWindow = (if sq_MaxStreamReceiveWindow c = 0 then defaultStreamReceiveWindow else sq_MaxStreamReceiveWindow c),
      InitialConnectionReceiveWindow =
        (if InitConnectionReceiveWindow c = 0 then defaultConnReceiveWindow else InitConnectionReceiveWindow c),
      MaxConnectionReceiveWindow =
        (if sq_MaxConnectionReceiveWindow c = 0 then defaultConnReceiveWindow else sq_MaxConnectionReceiveWindow c),
      MaxIdleTimeout = (if sq_MaxIdleTimeout c = 0 then defaultMaxIdleTimeout else sq_MaxIdleTimeout c),
      MaxIncomingStreams = (if sq_MaxIncomingStreams c = 0 then defaultMaxIncomingStreams else sq_MaxIncomingStreams c),
      DisablePathMTUDiscovery = False\<rparr>"
proof -
  let ?w = "\<lambda>v. v = 0 \<or> 16384 \<le> (v :: 64 word)"
  obtain q1 q2 q3 q4 q5 q6 where
    w: "?w (InitStreamReceiveWindow c)" "?w (sq_MaxStreamReceiveWindow c)" "?w (InitConnectionReceiveWindow c)"
      "?w (sq_MaxConnectionReceiveWindow c)"
    and q1: "q1 = (if InitStreamReceiveWindow c = 0 then zero_quic\<lparr>InitialStreamReceiveWindow := defaultStreamReceiveWindow\<rparr>
        else zero_quic\<lparr>InitialConnectionReceiveWindow := InitConnectionReceiveWindow c\<rparr>)"
    and q2: "q2 = (if sq_MaxStreamReceiveWindow c = 0 then q1\<lparr>MaxStreamReceiveWindow := defaultStreamReceiveWindow\<rparr>
        else q1\<lparr>MaxStreamReceiveWindow := sq_MaxStreamReceiveWindow c\<rparr>)"
    and q3: "q3 = (if InitConnectionReceiveWindow c = 0 then q2\<lparr>InitialConnectionReceiveWindow := defaultConnReceiveWindow\<rparr>
        else q2\<lparr>InitialConnectionReceiveWindow := InitConnectionReceiveWindow c\<rparr>)"
    and q4: "q4 = (if sq_MaxConnectionReceiveWindow c = 0 then q3\<lparr>MaxConnectionReceiveWindow := defaultConnReceiveWindow\<rparr>
        else q3\<lparr>MaxConnectionReceiveWindow := sq_MaxConnectionReceiveWindow c\<rparr>)"
    and i: "(if sq_MaxIdleTimeout c = 0 then Inr (q4\<lparr>MaxIdleTimeout := defaultMaxIdleTimeout\<rparr>)
        else if sq_MaxIdleTimeout c < 4 * second_ns \<or> sq_MaxIdleTimeout c > 120 * second_ns then
          Inl (Err ''QUICConfig.MaxIdleTimeoutf must be between 4s and 120s'')
        else Inr (q4\<lparr>MaxIdleTimeout := sq_MaxIdleTimeout c\<rparr>)) = Inr q5"
    and m: "(if sq_MaxIncomingStreams c = 0 then Inr (q5\<lparr>MaxIncomingStreams := defaultMaxIncomingStreams\<rparr>)
        else if sq_MaxIncomingStreams c < 8 then Inl (Err ''QUICConfig.MaxIncomingStreamsf must be at least 8'')
        else Inr (q5\<lparr>MaxIncomingStreams := sq_MaxIncomingStreams c\<rparr>)) = Inr q6"
    and q: "q = q6\<lparr>DisablePathMTUDiscovery := False\<rparr>"
    using assms unfolding getQUICConfig_def bind_res_Inr window_Inr by blast
  from w show "\<forall>v\<in>{InitStreamReceiveWindow c, sq_MaxStreamReceiveWindow c, InitConnectionReceiveWindow c,
      sq_MaxConnectionReceiveWindow c}. v = 0 \<or> 16384 \<le> v" by blast
  from i show "sq_MaxIdleTimeout c = 0 \<or> 4 * second_ns \<le> sq_MaxIdleTimeout c \<and> sq_MaxIdleTimeout c \<le> 120 * second_ns"
    by (simp split: if_splits)
  from m show "sq_MaxIncomingStreams c = 0 \<or> 8 \<le> sq_MaxIncomingStreams c" by (simp split: if_splits)
  have q5: "q5 = q4\<lparr>MaxIdleTimeout := (if sq_MaxIdleTimeout c = 0 then defaultMaxIdleTimeout else sq_MaxIdleTimeout c)\<rparr>"
    using i by (simp split: if_splits)
  have q6: "q6 = q5\<lparr>MaxIncomingStreams :=
      (if sq_MaxIncomingStreams c = 0 then defaultMaxIncomingStreams else sq_MaxIncomingStreams c)\<rparr>"
    using m by (simp split: if_splits)
  have f1: "InitialStreamReceiveWindow q = (if InitStreamReceiveWindow c = 0 then defaultStreamReceiveWindow else 0)"
    unfolding q q6 q5 q4 q3 q2 q1 by (simp add: zero_quic_def)
  have f2: "MaxStreamReceiveWindow q =
      (if sq_MaxStreamReceiveWindow c = 0 then defaultStreamReceiveWindow else sq_MaxStreamReceiveWindow c)"
    unfolding q q6 q5 q4 q3 q2 by simp
  have f3: "InitialConnectionReceiveWindow q =
      (if InitConnectionReceiveWindow c = 0 then defaultConnReceiveWindow else InitConnectionReceiveWindow c)"
    unfolding q q6 q5 q4 q3 by simp
  have f4: "MaxConnectionReceiveWindow q =
      (if sq_MaxConnectionReceiveWindow c = 0 then defaultConnReceiveWindow else sq_MaxConnectionReceiveWindow c)"
    unfolding q q6 q5 q4 by simp
  show "q = \<lparr>InitialStreamReceiveWindow = (if InitStreamReceiveWindow c = 0 then defaultStreamReceiveWindow else 0),
      MaxStreamReceiveWindow = (if sq_MaxStreamReceiveWindow c = 0 then defaultStreamReceiveWindow else sq_MaxStreamReceiveWindow c),
      InitialConnectionReceiveWindow =
        (if InitConnectionReceiveWindow c = 0 then defaultConnReceiveWindow else InitConnectionReceiveWindow c),
      MaxConnectionReceiveWindow =
        (if sq_MaxConnectionReceiveWindow c = 0 then defaultConnReceiveWindow else sq_MaxConnectionReceiveWindow c),
      MaxIdleTimeout = (if sq_MaxIdleTimeout c = 0 then defaultMaxIdleTimeout else sq_MaxIdleTimeout c),
      MaxIncomingStreams = (if sq_MaxIncomingStreams c = 0 then defaultMaxIncomingStreams else sq_MaxIncomingStreams c),
      DisablePathMTUDiscovery = False\<rparr>"
    by (rule hy_quic.equality) (simp_all add: f1 f2 f3 f4, simp_all add: q q6 q5)
qed

text \<open>
  The QUIC settings. Every window of the result is the default of its kind where the file
  leaves it 0 and otherwise at least 16384, the idle time is between 4 and 120 seconds and at
  least 8 streams are allowed, but for the initial stream window: a value that the file
  configures is checked and then dropped, and the window is left 0. Path MTU discovery stays
  on, whatever the file says.
\<close>

theorem quic_settings:
  assumes "getQUICConfig c = Inr q"
  shows "InitialStreamReceiveWindow q = (if InitStreamReceiveWindow c = 0 then 8388608 else 0)
    \<and> MaxStreamReceiveWindow q = (if sq_MaxStreamReceiveWindow c = 0 then 8388608 else sq_MaxStreamReceiveWindow c)
    \<and> InitialConnectionReceiveWindow q =
        (if InitConnectionReceiveWindow c = 0 then 20971520 else InitConnectionReceiveWindow c)
    \<and> MaxConnectionReceiveWindow q =
        (if sq_MaxConnectionReceiveWindow c = 0 then 20971520 else sq_MaxConnectionReceiveWindow c)
    \<and> 16384 \<le> MaxStreamReceiveWindow q \<and> 16384 \<le> InitialConnectionReceiveWindow q
    \<and> 16384 \<le> MaxConnectionReceiveWindow q
    \<and> 4 * second_ns \<le> MaxIdleTimeout q \<and> MaxIdleTimeout q \<le> 120 * second_ns \<and> 8 \<le> MaxIncomingStreams q
    \<and> \<not> DisablePathMTUDiscovery q"
proof -
  note r = getQUICConfig_Inr [OF assms]
  show ?thesis
    unfolding r(4)
    by (intro conjI; use r(1-3) in \<open>auto simp: defaultStreamReceiveWindow_def defaultConnReceiveWindow_def
      defaultMaxIdleTimeout_def defaultMaxIncomingStreams_def second_ns_def\<close>)
qed

definition tuned_quic :: serverConfigQUIC where
  "tuned_quic =
     \<lparr>InitStreamReceiveWindow = 1048576, sq_MaxStreamReceiveWindow = 0, InitConnectionReceiveWindow = 0,
      sq_MaxConnectionReceiveWindow = 65536, sq_MaxIdleTimeout = 0, sq_MaxIncomingStreams = 100,
      sq_DisablePathMTUDiscovery = True\<rparr>"

theorem quic_settings_witness:
  "\<exists>q. getQUICConfig tuned_quic = Inr q \<and> InitialStreamReceiveWindow q = 0
    \<and> MaxConnectionReceiveWindow q = 65536 \<and> \<not> DisablePathMTUDiscovery q"
proof -
  obtain q where q: "getQUICConfig tuned_quic = Inr q"
    by (simp add: getQUICConfig_def window_def tuned_quic_def)
  have "InitStreamReceiveWindow tuned_quic \<noteq> 0" "sq_MaxConnectionReceiveWindow tuned_quic = 65536"
    by (simp_all add: tuned_quic_def)
  with quic_settings [OF q] q show ?thesis by auto
qed

text \<open>
  A node that cannot be configured may keep its socket. getHyConfig opens the socket
  before it looks at the obfuscation, the sniffer, the outbounds and the masquerade; when one
  of them is refused the error is returned and the socket stays open, so the same node cannot
  listen at its address again. Only the certificate and the QUIC settings are checked first.
\<close>

theorem failed_config_keeps_socket:
  assumes "getTLSConfig H config = Inr tls" "getQUICConfig (QUIC c) = Inr quic" "Common info = Some cn"
    and "ListenUDP H (formatAddress (ListenIP config) (ServerPort cn)) = Inr conn"
  shows "fst (getHyConfig H info config c) = Some conn
    \<and> (snd (getHyConfig H info config c) = Inr hc \<longrightarrow> conn_local (Conn hc) = conn)
    \<and> ((\<exists>n. Hysteria2 info = Some n \<and> toLower (ObfsType n) \<notin> {'''', ''plain'', ''salamander''})
       \<or> (\<exists>e. getOutboundConfig H c = Inl e) \<or> (\<exists>e. masq_handler H (Masquerade c) = Inl e)
        \<longrightarrow> (\<exists>e. snd (getHyConfig H info config c) = Inl e))"
proof -
  obtain r where r: "getConn H info config = (Some conn, r)"
    using assms(3,4) by (simp add: getConn_def)
  have g: "getHyConfig H info config c = (Some conn, bind_res r (hy_config_on H info c tls quic))"
    using assms(1,2) r by (simp add: getHyConfig_def)
  have obfs: "\<exists>e. r = Inl e" if "Hysteria2 info = Some n" "toLower (ObfsType n) \<notin> {'''', ''plain'', ''salamander''}" for n
    using r that assms(3,4) by (auto simp: getConn_def)
  have local: "conn_local k = conn" if "r = Inr k" for k
    using r that assms(3,4)
    by (auto simp: getConn_def bind_res_Inr deref_Inr conn_local_def split: if_splits option.splits)
  have later: "\<exists>e. hy_config_on H info c tls quic k = Inl e"
    if "(\<exists>e. getOutboundConfig H c = Inl e) \<or> (\<exists>e. masq_handler H (Masquerade c) = Inl e)" for k
  proof (cases "hy_config_on H info c tls quic k")
    case (Inr x)
    then show ?thesis using that
      by (auto simp: hy_config_on_def getMasqHandler_def bind_res_Inr)
  qed simp
  show ?thesis unfolding g
  proof (intro conjI impI)
    assume "snd (Some conn, bind_res r (hy_config_on H info c tls quic)) = Inr hc"
    then obtain k where "r = Inr k" "hy_config_on H info c tls quic k = Inr hc" by (auto simp: bind_res_Inr)
    moreover have "Conn hc = k" using calculation(2) by (auto simp: hy_config_on_def bind_res_Inr)
    ultimately show "conn_local (Conn hc) = conn" using local by simp
  next
    assume a: "(\<exists>n. Hysteria2 info = Some n \<and> toLower (ObfsType n) \<notin> {'''', ''plain'', ''salamander''})
       \<or> (\<exists>e. getOutboundConfig H c = Inl e) \<or> (\<exists>e. masq_handler H (Masquerade c) = Inl e)"
    show "\<exists>e. snd (Some conn, bind_res r (hy_config_on H info c tls quic)) = Inl e"
    proof (cases r)
      case (Inr k)
      then show ?thesis using a obfs later [of k] by auto
    qed simp
  qed simp
qed

text \<open>The example: a node with an obfuscation the core does not know.\<close>

definition plain_hy_std :: hy_std where
  "plain_hy_std =
     \<lparr>NewOutbound = \<lambda>ob. None, ParseIP = Some, ParsePortUnion = \<lambda>s. Some [], hy_url_Parse = \<lambda>s. Inr (''https'', s),
      LoadX509KeyPair = \<lambda>c k. Inr c, ListenUDP = Inr, NewSalamanderObfuscator = \<lambda>s. None\<rparr>"

definition plain_resolver :: serverConfigResolver where
  "plain_resolver =
     \<lparr>rs_Type = '''', rs_TCP = \<lparr>rt_Addr = '''', rt_Timeout = 0\<rparr>, rs_UDP = \<lparr>ru_Addr = '''', ru_Timeout = 0\<rparr>,
      rs_TLS = \<lparr>rl_Addr = '''', rl_Timeout = 0, rl_SNI = '''', rl_Insecure = False\<rparr>,
      rs_HTTPS = \<lparr>rh_Addr = '''', rh_Timeout = 0, rh_SNI = '''', rh_Insecure = False\<rparr>\<rparr>"

definition zero_server_config :: serverConfig where
  "zero_server_config =
     \<lparr>sv_Listen = '''', Obfs = \<lparr>obfs_Type = '''', obfs_Salamander_Password = ''''\<rparr>, TLS = None, ACME = None,
      QUIC = \<lparr>InitStreamReceiveWindow = 0, sq_MaxStreamReceiveWindow = 0, InitConnectionReceiveWindow = 0,
        sq_MaxConnectionReceiveWindow = 0, sq_MaxIdleTimeout = 0, sq_MaxIncomingStreams = 0,
        sq_DisablePathMTUDiscovery = False\<rparr>,
      Bandwidth = \<lparr>bw_Up = '''', bw_Down = ''''\<rparr>, sv_IgnoreClientBandwidth = False, SpeedTest = False,
      DisableUDP = False, UDPIdleTimeout = 0,
      Auth = \<lparr>au_Type = '''', au_Password = '''', au_UserPass = Map.empty,
        au_HTTP = \<lparr>ah_URL = '''', ah_Insecure = False\<rparr>, au_Command = ''''\<rparr>, Resolver = plain_resolver,
      Sniff = \<lparr>sn_Enable = False, sn_Timeout = 0, sn_RewriteDomain = False, sn_TCPPorts = '''', sn_UDPPorts = ''''\<rparr>,
      ACL = \<lparr>File = '''', Inline = [], GeoIP = '''', GeoSite = '''', GeoUpdateInterval = 0\<rparr>, Outbounds = [],
      TrafficStats = \<lparr>tst_Listen = '''', tst_Secret = ''''\<rparr>, Masquerade = \<lparr>mq_Type = '''', mq_File = \<lparr>mf_Dir = ''''\<rparr>, Proxy = \<lparr>mp_URL = '''', RewriteHost = False\<rparr>,
        mq_String = \<lparr>Content = '''', Headers = [], StatusCode = 0\<rparr>, ListenHTTP = '''', ListenHTTPS = '''',
        ForceHTTPS = False\<rparr>\<rparr>"

definition hy_node_with :: "string \<Rightarrow> NodeInfo" where
  "hy_node_with obfs =
     \<lparr>ni_Id = 1, ni_Type = ''hysteria2'', Security = Tls, PushInterval = 0, PullInterval = 0,
      ni_RawDNS = \<lparr>DNSMap = Map.empty, DNSJson = ''''\<rparr>, ni_Rules = \<lparr>Regexp = [], Protocol = []\<rparr>, VAllss = None,
      Shadowsocks = None, Trojan = None, Tuic = None, AnyTls = None, Hysteria = None,
      Hysteria2 = Some \<lparr>Ignore_Client_Bandwidth = False, UpMbps = 100, DownMbps = 0, ObfsType = obfs, ObfsPassword = ''p''\<rparr>,
      Common = Some \<lparr>Host = ''h'', ServerPort = 443, cn_ServerName = '''', Routes = [], cn_BaseConfig = None\<rparr>\<rparr>"

definition file_options :: Options where
  "file_options = default_options\<lparr>o_CertConfig := Some (NewCertConfig\<lparr>CertMode := ''file'', CertFile := ''c'', KeyFile := ''k''\<rparr>)\<rparr>"

theorem failed_config_keeps_socket_witness:
  "\<exists>a e. getHyConfig plain_hy_std (hy_node_with ''xor'') file_options zero_server_config = (Some a, Inl e)"
proof -
  let ?i = "hy_node_with ''xor''" and ?c = zero_server_config
  obtain tls where t: "getTLSConfig plain_hy_std file_options = Inr tls"
    by (simp add: getTLSConfig_def file_options_def plain_hy_std_def)
  obtain q where q: "getQUICConfig (QUIC ?c) = Inr q"
    by (simp add: getQUICConfig_def window_def zero_server_config_def)
  obtain cn where cn: "Common ?i = Some cn" by (simp add: hy_node_with_def)
  have l: "ListenUDP plain_hy_std (formatAddress (ListenIP file_options) (ServerPort cn)) =
      Inr (formatAddress (ListenIP file_options) (ServerPort cn))" by (simp add: plain_hy_std_def)
  obtain n where n: "Hysteria2 ?i = Some n" "ObfsType n = ''xor''" by (simp add: hy_node_with_def)
  have "toLower (ObfsType n) \<notin> {'''', ''plain'', ''salamander''}" unfolding n(2) by code_simp
  with n(1) failed_config_keeps_socket [OF t q cn l]
  obtain e where "fst (getHyConfig plain_hy_std ?i file_options ?c) = Some (formatAddress (ListenIP file_options) (ServerPort cn))"
    "snd (getHyConfig plain_hy_std ?i file_options ?c) = Inl e" by blast
  then show ?thesis by (metis prod.collapse)
qed

text \<open>
  What a masquerade answers. A string masquerade that was accepted answers with a status
  between 200 and 599 that is never 233, the status by which hysteria tells its clients apart,
  and with its content, which is not empty; the proxy's request names the client that sent it
  last in X-Forwarded-For, after those named before, and goes to the proxied host.
\<close>

theorem masquerade_answers:
  assumes "masq_handler H m = Inr h"
  shows "case h of
      StringHandler s \<Rightarrow> 200 \<le> fst (serve_string canon s) \<and> fst (serve_string canon s) \<le> 599
        \<and> fst (serve_string canon s) \<noteq> 233 \<and> snd (snd (serve_string canon s)) \<noteq> ''''
    | ReverseProxy scheme host rewrite \<Rightarrow>
        (let r = Director scheme host rewrite req
         in URLHost r = host \<and> rq_Host r = (if rewrite then host else rq_Host req)
           \<and> (\<forall>ip port. SplitHostPort (RemoteAddr req) = Some (ip, port) \<longrightarrow>
                XForwardedFor r = (if XForwardedFor req = '''' then ip else XForwardedFor req @ '', '' @ ip)))
    | FileServer dir \<Rightarrow> dir \<noteq> '''' \<and> toLower (mq_Type m) = ''file''
    | NotFoundHandler \<Rightarrow> toLower (mq_Type m) \<in> {'''', ''404''}"
proof (cases h)
  case (StringHandler s)
  with assms have "s = mq_String m" "Content s \<noteq> ''''" "status_ok (StatusCode s)"
    by (auto simp: masq_handler_def Let_def split: if_splits sum.splits)
  with StringHandler show ?thesis by (auto simp: status_ok_def serve_string_def)
next
  case (ReverseProxy scheme host rewrite)
  then show ?thesis by (auto simp: Director_def Let_def split: option.split)
qed (use assms in \<open>auto simp: masq_handler_def Let_def split: if_splits sum.splits\<close>)

theorem masquerade_answers_witness:
  "\<exists>h. masq_handler plain_hy_std \<lparr>mq_Type = ''string'', mq_File = \<lparr>mf_Dir = ''''\<rparr>, Proxy = \<lparr>mp_URL = '''', RewriteHost = False\<rparr>,
        mq_String = \<lparr>Content = ''ok'', Headers = [], StatusCode = 0\<rparr>, ListenHTTP = '''', ListenHTTPS = '''', ForceHTTPS = False\<rparr>
      = Inr (StringHandler h) \<and> fst (serve_string (\<lambda>k. k) h) \<noteq> 233"
proof -
  let ?m = "\<lparr>mq_Type = ''string'', mq_File = \<lparr>mf_Dir = ''''\<rparr>, Proxy = \<lparr>mp_URL = '''', RewriteHost = False\<rparr>,
        mq_String = \<lparr>Content = ''ok'', Headers = [], StatusCode = 0\<rparr>, ListenHTTP = '''', ListenHTTPS = '''', ForceHTTPS = False\<rparr>"
  have "toLower ''string'' = ''string''" by code_simp
  then obtain s where s: "masq_handler plain_hy_std ?m = Inr (StringHandler s)"
    by (simp add: masq_handler_def status_ok_def Let_def)
  from masquerade_answers [OF s, where canon = "\<lambda>k. k"] s show ?thesis by auto
qed

fun is_resolver :: "outbound \<Rightarrow> bool" where
  "is_resolver (SystemResolver ob) = True"
| "is_resolver (ResolverTCP a t ob) = True"
| "is_resolver (ResolverUDP a t ob) = True"
| "is_resolver (ResolverTLS a t s i ob) = True"
| "is_resolver (ResolverDoH a t s i ob) = True"
| "is_resolver _ = False"

lemma resolve_outbound_Inr:
  assumes "resolve_outbound c acl u = Inr ob"
  shows "acl \<or> toLower (rs_Type c) \<notin> {'''', ''system''} \<Longrightarrow> is_resolver ob"
    and "\<not> acl \<Longrightarrow> toLower (rs_Type c) \<in> {'''', ''system''} \<Longrightarrow> ob = u"
  using assms by (auto simp: resolve_outbound_def with_addr_def Let_def split: if_splits)

text \<open>
  The chain of outbounds. With an ACL a resolver stands in front of everything, so that
  its rules on IPs see the addresses of domains; without one, and with the system's resolver,
  the connections leave by the first outbound of the file, or directly where it names none.
\<close>

theorem outbound_chain:
  assumes "getOutboundConfig H c = Inr ob"
  shows "(File (ACL c) \<noteq> '''' \<or> Inline (ACL c) \<noteq> [] \<longrightarrow> is_resolver ob)
    \<and> (File (ACL c) = '''' \<and> Inline (ACL c) = [] \<and> toLower (rs_Type (Resolver c)) \<in> {'''', ''system''} \<longrightarrow>
        (case Outbounds c of [] \<Rightarrow> ob = DirectSimple ModeAuto
         | e # es \<Rightarrow> outbound_entry H e = Inr (oe_Name e, ob) \<and> oe_Name e \<noteq> ''''))"
proof -
  obtain obs acl u where obs: "(if Outbounds c = [] then Inr [(''default'', DirectSimple ModeAuto)]
      else outbound_entries H (Outbounds c)) = Inr obs"
    and a: "acl_outbound H (ACL c) obs = Inr (acl, u)" and r: "resolve_outbound (Resolver c) acl u = Inr ob"
    using assms by (auto simp: getOutboundConfig_def bind_res_Inr)
  have acl: "acl \<longleftrightarrow> File (ACL c) \<noteq> '''' \<or> Inline (ACL c) \<noteq> []" "\<not> acl \<Longrightarrow> u = snd (hd obs)"
    using a by (auto simp: acl_outbound_def bind_res_Inr split: if_splits)
  have first: "case Outbounds c of [] \<Rightarrow> snd (hd obs) = DirectSimple ModeAuto
      | e # es \<Rightarrow> outbound_entry H e = Inr (oe_Name e, snd (hd obs)) \<and> oe_Name e \<noteq> ''''"
    using obs by (cases "Outbounds c") (auto simp: bind_res_Inr outbound_entry_def split: if_splits)
  show ?thesis
  proof (intro conjI impI)
    assume "File (ACL c) \<noteq> '''' \<or> Inline (ACL c) \<noteq> []"
    then show "is_resolver ob" using acl(1) resolve_outbound_Inr(1) [OF r] by blast
  next
    assume n: "File (ACL c) = '''' \<and> Inline (ACL c) = [] \<and> toLower (rs_Type (Resolver c)) \<in> {'''', ''system''}"
    then have "\<not> acl" using acl(1) by simp
    then have "snd (hd obs) = ob" using acl(2) resolve_outbound_Inr(2) [OF r] n by blast
    from first [unfolded this] show "case Outbounds c of [] \<Rightarrow> ob = DirectSimple ModeAuto
         | e # es \<Rightarrow> outbound_entry H e = Inr (oe_Name e, ob) \<and> oe_Name e \<noteq> ''''" .
  qed
qed

theorem outbound_chain_witness:
  "getOutboundConfig plain_hy_std zero_server_config = Inr (DirectSimple ModeAuto)"
proof -
  have t: "toLower (rs_Type (Resolver zero_server_config)) \<in> {'''', ''system''}"
    by (simp add: zero_server_config_def plain_resolver_def Let_def toLower_def)
  have z: "File (ACL zero_server_config) = ''''" "Inline (ACL zero_server_config) = []" "Outbounds zero_server_config = []"
    by (simp_all add: zero_server_config_def)
  obtain ob where ob: "getOutboundConfig plain_hy_std zero_server_config = Inr ob"
    using t by (simp add: getOutboundConfig_def acl_outbound_def resolve_outbound_def z Let_def)
  from outbound_chain [OF ob] t z have "ob = DirectSimple ModeAuto" by auto
  with ob show ?thesis by simp
qed

end
