(* ===== verification/Controller.thy ===== *)
theory Controller
  imports Limiter Panel_Client Task Core_Api
begin

text \<open>
  node/controller.go, node/task.go, node/user.go (the report), node/cert.go (the request) and
  node/node.go: the controller of a node. It asks the panel for the node's configuration, its
  users and the alive list, keeps the core and the limiter in step with the answers, and
  reports traffic and addresses on line. The core and the registry of limiters are shared by
  all controllers of the process, so they are a state of their own, the world; the answers of
  the panel and the results of the file system and the ACME client are an argument, the io of
  a call.
\<close>

subsection \<open>State\<close>

text \<open>A task.Task with its interval; the state machine of its loops is that of Task.\<close>

record periodic =
  Interval :: int
  pd_task :: task

record controller =
  apiClient :: Client
  c_tag :: string
  c_limiter :: "nat option"
  traffic :: "string \<rightharpoonup> int"
  userList :: "UserInfo list"
  aliveMap :: "int \<rightharpoonup> int"
  info :: "NodeInfo option"
  nodeInfoMonitorPeriodic :: "periodic option"
  userReportPeriodic :: "periodic option"
  renewCertPeriodic :: "periodic option"
  dynamicSpeedLimitPeriodic :: "periodic option"
  onlineIpReportPeriodic :: "periodic option"
  c_Options :: Options

record ('c, 'b) world =
  core :: 'c
  limits :: "'b limiters"

record cert_io =
  IsExist :: "string \<Rightarrow> bool"
  NewLego :: "string option"
  CreateCert :: "string option"
  SelfCert :: "string option"

record io =
  digest :: "string \<Rightarrow> string"
  pathJoin :: "string \<Rightarrow> string"
  decs :: decoders
  msgpack :: "string \<Rightarrow> string + UserInfo list option"
  answers :: "string \<Rightarrow> dec_answer list"
  unm_user :: "string \<Rightarrow> string + UserInfo"
  unm_alive :: "string \<Rightarrow> string + (int \<rightharpoonup> int) option"
  valid_regexp :: "string \<Rightarrow> bool"
  cert :: cert_io
  node_reply :: reply
  user_reply :: reply
  alive_reply :: reply
  push_reply :: reply
  online_reply :: reply
  diff_order :: "string list"

subsection \<open>controller.go and cert.go\<close>

definition NewController :: "Client \<Rightarrow> Options \<Rightarrow> controller" where
  "NewController api config =
     \<lparr>apiClient = api, c_tag = '''', c_limiter = None, traffic = Map.empty, userList = [], aliveMap = Map.empty,
      info = None, nodeInfoMonitorPeriodic = None, userReportPeriodic = None, renewCertPeriodic = None,
      dynamicSpeedLimitPeriodic = None, onlineIpReportPeriodic = None, c_Options = config\<rparr>"

definition buildNodeTag :: "NodeInfo \<Rightarrow> controller \<Rightarrow> string" where
  "buildNodeTag node c = ''['' @ APIHost (apiClient c) @ '']-'' @ ni_Type node @ '':'' @ itoa (ni_Id node)"

definition no_paths :: "CertConfig \<Rightarrow> bool" where
  "no_paths cc \<longleftrightarrow> CertFile cc = '''' \<or> KeyFile cc = ''''"

definition requestCert :: "cert_io \<Rightarrow> CertConfig option \<Rightarrow> unit result" where
  "requestCert I cfg =
     (case cfg of
        None \<Rightarrow> Inl (Panic ''nil pointer dereference'')
      | Some cc \<Rightarrow>
          (let missing = Inl (Err ''cert file path or key file path not exist'') in
           if CertMode cc = ''none'' \<or> CertMode cc = '''' then Inr ()
           else if CertMode cc = ''file'' then (if no_paths cc then missing else Inr ())
           else if CertMode cc = ''dns'' \<or> CertMode cc = ''http'' then
             (if no_paths cc then missing
              else if IsExist I (CertFile cc) \<and> IsExist I (KeyFile cc) then Inr ()
              else case NewLego I of
                     Some e \<Rightarrow> Inl (Err (''create lego object error: '' @ e))
                   | None \<Rightarrow>
                       (case CreateCert I of
                          Some e \<Rightarrow> Inl (Err (''create lego cert error: '' @ e))
                        | None \<Rightarrow> Inr ()))
           else if CertMode cc = ''self'' then
             (if no_paths cc then missing
              else if IsExist I (CertFile cc) \<and> IsExist I (KeyFile cc) then Inr ()
              else case SelfCert I of
                     Some e \<Rightarrow> Inl (Err (''generate self cert error: '' @ e))
                   | None \<Rightarrow> Inr ())
           else Inl (Err (''unsupported certmode: '' @ CertMode cc))))"

subsection \<open>task.go: startTasks\<close>

definition new_periodic :: "int \<Rightarrow> bool \<Rightarrow> periodic" where
  "new_periodic interval first = \<lparr>Interval = interval, pd_task = Start first new_task\<rparr>"

definition idle_periodic :: "int \<Rightarrow> periodic" where
  "idle_periodic interval = \<lparr>Interval = interval, pd_task = new_task\<rparr>"

text \<open>
  The renewal runs for a certificate that is neither none, given, nor self-signed. The dynamic
  limit's task is made, not started. Durations are in nanoseconds.
\<close>

definition startTasks :: "NodeInfo \<Rightarrow> controller \<Rightarrow> controller result" where
  "startTasks node c =
     (let c1 = c\<lparr>nodeInfoMonitorPeriodic := Some (new_periodic (PullInterval node) False),
                 userReportPeriodic := Some (new_periodic (PushInterval node) False)\<rparr>;
          dynamic = (\<lambda>c2.
            let lc = o_LimitConfig (c_Options c2) in
            if \<not> EnableDynamicSpeedLimit lc then Inr c2
            else case lc_DynamicSpeedLimitConfig lc of
                   None \<Rightarrow> Inl (Panic ''nil pointer dereference'')
                 | Some d \<Rightarrow>
                     Inr (c2\<lparr>traffic := Map.empty,
                            dynamicSpeedLimitPeriodic := Some (idle_periodic (i64 (dl_Periodic d * 1000000000)))\<rparr>))
      in if Security node \<noteq> Tls then dynamic c1
         else case o_CertConfig (c_Options c1) of
                None \<Rightarrow> Inl (Panic ''nil pointer dereference'')
              | Some cc \<Rightarrow>
                  dynamic (if CertMode cc \<in> set [''none'', '''', ''file'', ''self''] then c1
                           else c1\<lparr>renewCertPeriodic := Some (new_periodic 86400000000000 True)\<rparr>))"

subsection \<open>The panel's answers\<close>

text \<open>The three requests with their answers; a nil list or map is None.\<close>

definition fetch_node :: "io \<Rightarrow> controller \<Rightarrow> controller \<times> NodeInfo option result" where
  "fetch_node I c =
     (case GetNodeInfo (digest I) (pathJoin I) (decs I) (node_reply I) (apiClient c) of
        (a, r) \<Rightarrow> (c\<lparr>apiClient := a\<rparr>, r))"

definition fetch_users :: "io \<Rightarrow> controller \<Rightarrow> controller \<times> UserInfo list option result" where
  "fetch_users I c =
     (case GetUserList (pathJoin I) (msgpack I) (answers I) (unm_user I) (user_reply I) (apiClient c) of
        (a, r) \<Rightarrow> (c\<lparr>apiClient := a\<rparr>, r))"

definition fetch_alive :: "io \<Rightarrow> controller \<Rightarrow> controller \<times> (int \<rightharpoonup> int) option result" where
  "fetch_alive I c =
     (case GetUserAlive (unm_alive I) (alive_reply I) (apiClient c) of
        (a, r) \<Rightarrow> (c\<lparr>apiClient := a\<rparr>, r))"

definition nil_list :: "'a list option \<Rightarrow> 'a list" where
  "nil_list us = (case us of None \<Rightarrow> [] | Some xs \<Rightarrow> xs)"

definition nil_map :: "('a \<rightharpoonup> 'b) option \<Rightarrow> 'a \<rightharpoonup> 'b" where
  "nil_map m = (case m of None \<Rightarrow> Map.empty | Some f \<Rightarrow> f)"

text \<open>The update of the limiter a controller points at.\<close>

definition at_limiter :: "nat \<Rightarrow> ('b Limiter \<Rightarrow> 'b Limiter) \<Rightarrow> ('c, 'b) world \<Rightarrow> ('c, 'b) world" where
  "at_limiter a f w = w\<lparr>limits := (limits w)\<lparr>lims := (lims (limits w))(a := f (lims (limits w) a))\<rparr>\<rparr>"

definition update_rule_at :: "(string \<Rightarrow> bool) \<Rightarrow> Rules \<Rightarrow> nat \<Rightarrow> ('c, 'b) world \<Rightarrow> ('c, 'b) world \<times> unit result" where
  "update_rule_at valid rules a w =
     (case UpdateRule valid rules (lims (limits w) a) of (l, r) \<Rightarrow> (at_limiter a (\<lambda>_. l) w, r))"

definition register_limiter ::
  "(int \<rightharpoonup> int) \<Rightarrow> controller \<times> ('c, 'b) world \<Rightarrow> controller \<times> ('c, 'b) world" where
  "register_limiter alive st =
     (case st of (c, w) \<Rightarrow>
       (case AddLimiter (c_tag c) (o_LimitConfig (c_Options c)) (userList c) alive (limits w) of
          (a, g) \<Rightarrow> (c\<lparr>c_limiter := Some a\<rparr>, w\<lparr>limits := g\<rparr>)))"

subsection \<open>controller.go: Start\<close>

text \<open>
  From the point where the node, the users and the alive list are known: the certificate, the
  node and its users in the core, then the tasks.
\<close>

definition start_in_core ::
  "'c core_ops \<Rightarrow> io \<Rightarrow> NodeInfo \<Rightarrow> controller \<times> ('c, 'b) world \<Rightarrow> (controller \<times> ('c, 'b) world) \<times> unit result" where
  "start_in_core C I node st =
     (case st of (c, w) \<Rightarrow>
       (case (if Security node = Tls then requestCert (cert I) (o_CertConfig (c_Options c)) else Inr ()) of
          Inl e \<Rightarrow> ((c, w), Inl (wrap_err ''request cert error: '' e))
        | Inr () \<Rightarrow>
            (case op_AddNode C (c_tag c) node (c_Options c) (core w) of
               ((k1, opts), Inl e) \<Rightarrow> ((c\<lparr>c_Options := opts\<rparr>, w\<lparr>core := k1\<rparr>), Inl (wrap_err ''add new node error: '' e))
             | ((k1, opts), Inr ()) \<Rightarrow>
                 (let c1 = c\<lparr>c_Options := opts\<rparr> in
                  case op_AddUsers C \<lparr>aup_Tag = c_tag c1, aup_Users = userList c1, aup_NodeInfo = node\<rparr> k1 of
                    (k2, Inl e) \<Rightarrow> ((c1, w\<lparr>core := k2\<rparr>), Inl (wrap_err ''add users error: '' e))
                  | (k2, Inr added) \<Rightarrow>
                      (case startTasks node (c1\<lparr>info := Some node\<rparr>) of
                         Inl e \<Rightarrow> ((c1\<lparr>info := Some node\<rparr>, w\<lparr>core := k2\<rparr>), Inl e)
                       | Inr c2 \<Rightarrow> ((c2, w\<lparr>core := k2\<rparr>), Inr ()))))))"

text \<open>A nil node (status 304) is dereferenced for its tag or, with a name, for its rules.\<close>

definition start_node ::
  "'c core_ops \<Rightarrow> io \<Rightarrow> NodeInfo option \<Rightarrow> controller \<times> ('c, 'b) world \<Rightarrow> (controller \<times> ('c, 'b) world) \<times> unit result" where
  "start_node C I node st =
     (case st of (c, w) \<Rightarrow>
       (if node = None \<and> Name (c_Options c) = '''' then ((c, w), Inl (Panic ''nil pointer dereference''))
        else
          (let c1 = c\<lparr>c_tag := (case node of Some n \<Rightarrow> if Name (c_Options c) = '''' then buildNodeTag n c else Name (c_Options c)
                                | None \<Rightarrow> Name (c_Options c))\<rparr>;
               (c2, w2) = register_limiter (aliveMap c1) (c1, w);
               c3 = c2\<lparr>c_limiter := c_limiter c\<rparr>
           in case (node, c_limiter c2) of
                (Some n, Some a) \<Rightarrow>
                  (case update_rule_at (valid_regexp I) (ni_Rules n) a w2 of
                     (w3, Inl e) \<Rightarrow> ((c3, w3), Inl (wrap_err ''update rule error: '' e))
                   | (w3, Inr ()) \<Rightarrow> start_in_core C I n (c2, w3))
              | _ \<Rightarrow> ((c3, w2), Inl (Panic ''nil pointer dereference'')))))"

definition ctl_Start ::
  "'c core_ops \<Rightarrow> io \<Rightarrow> controller \<times> ('c, 'b) world \<Rightarrow> (controller \<times> ('c, 'b) world) \<times> unit result" where
  "ctl_Start C I st =
     (case st of (c, w) \<Rightarrow>
       (case fetch_node I c of
          (c1, Inl e) \<Rightarrow> ((c1, w), Inl (wrap_err ''get node info error: '' e))
        | (c1, Inr node) \<Rightarrow>
            (case fetch_users I c1 of
               (c2, Inl e) \<Rightarrow> ((c2\<lparr>userList := []\<rparr>, w), Inl (wrap_err ''get user list error: '' e))
             | (c2, Inr us) \<Rightarrow>
                 (let c3 = c2\<lparr>userList := nil_list us\<rparr> in
                  if userList c3 = [] then ((c3, w), Inl (Err ''add users error: not have any user''))
                  else case fetch_alive I c3 of
                         (c4, Inl e) \<Rightarrow> ((c4\<lparr>aliveMap := Map.empty\<rparr>, w), Inl (wrap_err ''failed to get user alive list: '' e))
                       | (c4, Inr al) \<Rightarrow> start_node C I node (c4\<lparr>aliveMap := nil_map al\<rparr>, w)))))"

subsection \<open>controller.go: Close\<close>

definition close_periodic :: "periodic option \<Rightarrow> periodic option" where
  "close_periodic p = map_option (\<lambda>p. p\<lparr>pd_task := Close (pd_task p)\<rparr>) p"

definition ctl_Close ::
  "'c core_ops \<Rightarrow> controller \<times> ('c, 'b) world \<Rightarrow> (controller \<times> ('c, 'b) world) \<times> unit result" where
  "ctl_Close C st =
     (case st of (c, w) \<Rightarrow>
       (let w1 = w\<lparr>limits := DeleteLimiter (c_tag c) (limits w)\<rparr>;
            c1 = c\<lparr>nodeInfoMonitorPeriodic := close_periodic (nodeInfoMonitorPeriodic c),
                   userReportPeriodic := close_periodic (userReportPeriodic c),
                   renewCertPeriodic := close_periodic (renewCertPeriodic c),
                   dynamicSpeedLimitPeriodic := close_periodic (dynamicSpeedLimitPeriodic c),
                   onlineIpReportPeriodic := close_periodic (onlineIpReportPeriodic c)\<rparr>
        in case op_DelNode C (c_tag c) (core w1) of
             (k, Inl e) \<Rightarrow> ((c1, w1\<lparr>core := k\<rparr>), Inl (wrap_err ''del node error: '' e))
           | (k, Inr ()) \<Rightarrow> ((c1, w1\<lparr>core := k\<rparr>), Inr ())))"

subsection \<open>task.go: nodeInfoMonitor\<close>

text \<open>
  An error that the monitor logs ends the call with nil, so that the task goes on; one that it
  logs with Panic, or a panic below it, ends the process.
\<close>

definition logged :: "error \<Rightarrow> unit result" where
  "logged e = (case e of Err _ \<Rightarrow> Inr () | Panic m \<Rightarrow> Inl (Panic m))"

definition restart_periodic :: "int \<Rightarrow> periodic \<Rightarrow> periodic" where
  "restart_periodic interval p = \<lparr>Interval = interval, pd_task = Start False (Close (pd_task p))\<rparr>"

text \<open>Check interval: note the value the report task gets.\<close>

definition restart_monitor :: "NodeInfo \<Rightarrow> controller \<Rightarrow> controller result" where
  "restart_monitor n c =
     (case nodeInfoMonitorPeriodic c of
        None \<Rightarrow> Inl (Panic ''nil pointer dereference'')
      | Some p \<Rightarrow>
          Inr (if Interval p \<noteq> PullInterval n \<and> PullInterval n \<noteq> 0
               then c\<lparr>nodeInfoMonitorPeriodic := Some (restart_periodic (PullInterval n) p)\<rparr> else c))"

definition restart_report :: "NodeInfo \<Rightarrow> controller \<Rightarrow> controller result" where
  "restart_report n c =
     (case userReportPeriodic c of
        None \<Rightarrow> Inl (Panic ''nil pointer dereference'')
      | Some p \<Rightarrow>
          Inr (if Interval p \<noteq> PushInterval n \<and> PushInterval n \<noteq> 0
               then c\<lparr>userReportPeriodic := Some (restart_periodic (PullInterval n) p)\<rparr> else c))"

definition check_interval :: "NodeInfo \<Rightarrow> controller \<Rightarrow> controller \<times> unit result" where
  "check_interval n c =
     (case restart_monitor n c of
        Inl e \<Rightarrow> (c, Inl e)
      | Inr c1 \<Rightarrow> (case restart_report n c1 of Inl e \<Rightarrow> (c1, Inl e) | Inr c2 \<Rightarrow> (c2, Inr ())))"

text \<open>The node as it is put into the core again, with all users of the list.\<close>

definition readd_node ::
  "'c core_ops \<Rightarrow> io \<Rightarrow> NodeInfo \<Rightarrow> controller \<times> ('c, 'b) world \<Rightarrow> (controller \<times> ('c, 'b) world) \<times> unit result" where
  "readd_node C I n st =
     (case st of (c, w) \<Rightarrow>
       (case (if Security n = Tls then requestCert (cert I) (o_CertConfig (c_Options c)) else Inr ()) of
          Inl e \<Rightarrow> ((c, w), logged e)
        | Inr () \<Rightarrow>
            (case op_AddNode C (c_tag c) n (c_Options c) (core w) of
               ((k1, opts), Inl e) \<Rightarrow> ((c\<lparr>c_Options := opts\<rparr>, w\<lparr>core := k1\<rparr>), Inl (Panic ''Add node failed''))
             | ((k1, opts), Inr ()) \<Rightarrow>
                 (let c1 = c\<lparr>c_Options := opts\<rparr> in
                  case op_AddUsers C \<lparr>aup_Tag = c_tag c1, aup_Users = userList c1, aup_NodeInfo = n\<rparr> k1 of
                    (k2, Inl e) \<Rightarrow> ((c1, w\<lparr>core := k2\<rparr>), logged e)
                  | (k2, Inr _) \<Rightarrow>
                      (case check_interval n c1 of (c2, r) \<Rightarrow> ((c2, w\<lparr>core := k2\<rparr>), r))))))"

text \<open>A controller with a name keeps its limiter, one without gets a new one.\<close>

definition relimit ::
  "io \<Rightarrow> NodeInfo \<Rightarrow> (int \<rightharpoonup> int) option \<Rightarrow> controller \<times> ('c, 'b) world \<Rightarrow> (controller \<times> ('c, 'b) world) \<times> unit result" where
  "relimit I n newA st =
     (let (c1, w1) =
        (case st of (c, w) \<Rightarrow>
           if Name (c_Options c) = '''' then
             (let c' = c\<lparr>c_tag := buildNodeTag n c\<rparr>
              in register_limiter (nil_map newA) (c', w\<lparr>limits := DeleteLimiter (c_tag c') (limits w)\<rparr>))
           else (c, w))
      in case c_limiter c1 of
           None \<Rightarrow> ((c1, w1), Inl (Panic ''nil pointer dereference''))
         | Some a \<Rightarrow>
             (let w2 = (case newA of None \<Rightarrow> w1 | Some al \<Rightarrow> at_limiter a (\<lambda>l. l\<lparr>AliveList := al\<rparr>) w1)
              in case update_rule_at (valid_regexp I) (ni_Rules n) a w2 of (w3, r) \<Rightarrow> ((c1, w3), r)))"

definition node_changed ::
  "'c core_ops \<Rightarrow> io \<Rightarrow> NodeInfo \<Rightarrow> UserInfo list option \<Rightarrow> (int \<rightharpoonup> int) option
   \<Rightarrow> controller \<times> ('c, 'b) world \<Rightarrow> (controller \<times> ('c, 'b) world) \<times> unit result" where
  "node_changed C I n newU newA st =
     (case st of (c, w) \<Rightarrow>
       (let c1 = c\<lparr>info := Some n, userList := (case newU of None \<Rightarrow> userList c | Some us \<Rightarrow> us), traffic := Map.empty\<rparr> in
        case op_DelNode C (c_tag c1) (core w) of
          (k, Inl e) \<Rightarrow> ((c1, w\<lparr>core := k\<rparr>), Inl (Panic ''Delete node failed''))
        | (k, Inr ()) \<Rightarrow>
            (case relimit I n newA (c1, w\<lparr>core := k\<rparr>) of
               (st1, Inl e) \<Rightarrow> (st1, logged e)
             | (st1, Inr ()) \<Rightarrow> readd_node C I n st1)))"

text \<open>The node has not changed: the difference of the lists, in the core and in the limiter.\<close>

definition sync_core ::
  "'c core_ops \<Rightarrow> UserInfo list \<Rightarrow> UserInfo list \<Rightarrow> string \<Rightarrow> NodeInfo \<Rightarrow> 'c \<Rightarrow> 'c \<times> unit result" where
  "sync_core C deleted added tag n k =
     (case (if deleted \<noteq> [] then op_DelUsers C deleted tag n k else (k, Inr ())) of
        (k1, Inl e) \<Rightarrow> (k1, Inl e)
      | (k1, Inr ()) \<Rightarrow>
          (if added \<noteq> [] then apsnd (map_sum id (\<lambda>_. ())) (op_AddUsers C \<lparr>aup_Tag = tag, aup_Users = added, aup_NodeInfo = n\<rparr> k1)
           else (k1, Inr ())))"

definition users_changed ::
  "'c core_ops \<Rightarrow> io \<Rightarrow> UserInfo list \<Rightarrow> nat \<Rightarrow> NodeInfo \<Rightarrow> controller \<times> ('c, 'b) world
   \<Rightarrow> (controller \<times> ('c, 'b) world) \<times> unit result" where
  "users_changed C I newU a n st =
     (case st of (c, w) \<Rightarrow>
       (let (deleted, added) = compareUserList (diff_order I) (userList c) newU in
        case sync_core C deleted added (c_tag c) n (core w) of
          (k, Inl e) \<Rightarrow> ((c, w\<lparr>core := k\<rparr>), logged e)
        | (k, Inr ()) \<Rightarrow>
            (let w1 = w\<lparr>core := k\<rparr>;
                 w2 = (if added \<noteq> [] \<or> deleted \<noteq> [] then at_limiter a (UpdateUser (c_tag c) added deleted) w1 else w1);
                 c1 = (if (added \<noteq> [] \<or> deleted \<noteq> []) \<and> EnableDynamicSpeedLimit (o_LimitConfig (c_Options c))
                       then c\<lparr>traffic := fold (\<lambda>u m. m(Uuid u := None)) deleted (traffic c)\<rparr> else c)
             in ((c1\<lparr>userList := newU\<rparr>, w2), Inr ()))))"

definition node_unchanged ::
  "'c core_ops \<Rightarrow> io \<Rightarrow> UserInfo list option \<Rightarrow> (int \<rightharpoonup> int) option \<Rightarrow> controller \<times> ('c, 'b) world
   \<Rightarrow> (controller \<times> ('c, 'b) world) \<times> unit result" where
  "node_unchanged C I newU newA st =
     (case st of (c, w) \<Rightarrow>
       (case (c_limiter c, info c) of
          (Some a, Some n) \<Rightarrow>
            (let w1 = (case newA of None \<Rightarrow> w | Some al \<Rightarrow> at_limiter a (\<lambda>l. l\<lparr>AliveList := al\<rparr>) w)
             in if nil_list newU = [] then ((c, w1), Inr ())
                else users_changed C I (nil_list newU) a n (c, w1))
        | _ \<Rightarrow> ((c, w), Inl (Panic ''nil pointer dereference''))))"

definition nodeInfoMonitor ::
  "'c core_ops \<Rightarrow> io \<Rightarrow> controller \<times> ('c, 'b) world \<Rightarrow> (controller \<times> ('c, 'b) world) \<times> unit result" where
  "nodeInfoMonitor C I st =
     (case st of (c, w) \<Rightarrow>
       (case fetch_node I c of
          (c1, Inl e) \<Rightarrow> ((c1, w), logged e)
        | (c1, Inr newN) \<Rightarrow>
            (case fetch_users I c1 of
               (c2, Inl e) \<Rightarrow> ((c2, w), logged e)
             | (c2, Inr newU) \<Rightarrow>
                 (case fetch_alive I c2 of
                    (c3, Inl e) \<Rightarrow> ((c3, w), logged e)
                  | (c3, Inr newA) \<Rightarrow>
                      (case newN of
                         Some n \<Rightarrow> node_changed C I n newU newA (c3, w)
                       | None \<Rightarrow> node_unchanged C I newU newA (c3, w))))))"

subsection \<open>task.go: SpeedChecker\<close>

text \<open>
  order is the order of the range over the map, now the current time in nanoseconds. The error
  of the update is logged, nil or not, and the entry is dropped.
\<close>

definition speed_check :: "DynamicSpeedLimitConfig \<Rightarrow> int \<Rightarrow> string \<Rightarrow> nat \<Rightarrow> string
   \<Rightarrow> (string \<rightharpoonup> int) \<times> ('c, 'b) world \<Rightarrow> (string \<rightharpoonup> int) \<times> ('c, 'b) world" where
  "speed_check d now tag a u st =
     (case st of (m, w) \<Rightarrow>
       (case m u of
          None \<Rightarrow> (m, w)
        | Some t \<Rightarrow>
            (if t \<ge> dl_Traffic d
             then (m(u := None),
                   at_limiter a (\<lambda>l. fst (UpdateDynamicSpeedLimit tag u (dl_SpeedLimit d)
                      ((now + i64 (dl_ExpireTime d * 60000000000)) div 1000000000) l)) w)
             else (m, w))))"

definition SpeedChecker ::
  "string list \<Rightarrow> int \<Rightarrow> controller \<times> ('c, 'b) world \<Rightarrow> (controller \<times> ('c, 'b) world) \<times> unit result" where
  "SpeedChecker order now st =
     (case st of (c, w) \<Rightarrow>
       (if dom (traffic c) = {} then ((c, w), Inr ())
        else case (lc_DynamicSpeedLimitConfig (o_LimitConfig (c_Options c)), c_limiter c) of
               (Some d, Some a) \<Rightarrow>
                 (case fold (speed_check d now (c_tag c) a) order (traffic c, w) of
                    (m, w') \<Rightarrow> ((c\<lparr>traffic := m\<rparr>, w'), Inr ()))
             | _ \<Rightarrow> ((c, w), Inl (Panic ''nil pointer dereference''))))"

subsection \<open>user.go: reportUserTrafficTask\<close>

text \<open>
  What goes to the panel in one call: the body of the push, if there is one, and the body of
  the report of the addresses on line, if there is one.
\<close>

record reports =
  pushed :: "(int \<rightharpoonup> int \<times> int) option"
  online :: "(int \<rightharpoonup> string list) option"

text \<open>The UIDs with too little traffic in this report; the threshold and the sum are int64.\<close>

definition nocount :: "int \<Rightarrow> UserTraffic list \<Rightarrow> int set" where
  "nocount minTraffic ts =
     set (map ut_UID (filter (\<lambda>t. i64 (Upload t + Download t) < i64 (minTraffic * 1000)) ts))"

definition online_result :: "int \<Rightarrow> UserTraffic list \<Rightarrow> OnlineUser list \<Rightarrow> OnlineUser list" where
  "online_result minTraffic ts devices = filter (\<lambda>o1. UID o1 \<notin> nocount minTraffic ts) devices"

definition online_data :: "OnlineUser list \<Rightarrow> int \<rightharpoonup> string list" where
  "online_data result =
     fold (\<lambda>u m. m(UID u \<mapsto> (case m (UID u) of None \<Rightarrow> [] | Some xs \<Rightarrow> xs) @ [IP u])) result Map.empty"

definition reportUserTrafficTask ::
  "'c core_ops \<Rightarrow> io \<Rightarrow> string list \<Rightarrow> (string \<Rightarrow> string list) \<Rightarrow> controller \<times> ('c, 'b) world
   \<Rightarrow> (('c, 'b) world \<times> reports) \<times> unit result" where
  "reportUserTrafficTask C I users ips st =
     (case st of (c, w) \<Rightarrow>
       (let (k, tr) = op_GetUserTrafficSlice C (c_tag c) True (core w);
            ts = (case tr of Inl _ \<Rightarrow> [] | Inr ts \<Rightarrow> ts);
            w1 = w\<lparr>core := k\<rparr>;
            (body, r1) = (if ts = [] then (None, Inr ())
                          else apfst Some (ReportUserTraffic (pathJoin I) (push_reply I) ts (apiClient c)))
        in case tr of
             Inl (Panic m) \<Rightarrow> ((w1, \<lparr>pushed = None, online = None\<rparr>), Inl (Panic m))
           | _ \<Rightarrow>
          (case r1 of
             Inl (Panic m) \<Rightarrow> ((w1, \<lparr>pushed = body, online = None\<rparr>), Inl (Panic m))
           | _ \<Rightarrow>
               (case c_limiter c of
                  None \<Rightarrow> ((w1, \<lparr>pushed = body, online = None\<rparr>), Inl (Panic ''nil pointer dereference''))
                | Some a \<Rightarrow>
                    (let (l, devices) = GetOnlineDevice users ips (lims (limits w1) a);
                         w2 = at_limiter a (\<lambda>_. l) w1
                     in if devices = [] then ((w2, \<lparr>pushed = body, online = None\<rparr>), Inr ())
                        else
                          (let data = online_data (online_result (DeviceOnlineMinTraffic (c_Options c)) ts devices)
                           in case ReportNodeOnlineUsers (pathJoin I) (online_reply I) data (apiClient c) of
                                (b, Inl (Panic m)) \<Rightarrow> ((w2, \<lparr>pushed = body, online = Some b\<rparr>), Inl (Panic m))
                              | (b, _) \<Rightarrow> ((w2, \<lparr>pushed = body, online = Some b\<rparr>), Inr ())))))))"

subsection \<open>node.go\<close>

text \<open>
  The controllers of a Node, nil for one that was not made. Start takes for each node the io
  of its start; it stops at the first error and leaves the rest of the slice nil.
\<close>

definition start_failed :: "ApiConfig \<Rightarrow> string" where
  "start_failed api =
     ''start node controller ['' @ ac_APIHost api @ ''-'' @ ac_NodeType api @ ''-'' @ itoa (ac_NodeID api) @ ''] error: ''"

fun start_all ::
  "'c core_ops \<Rightarrow> (NodeConfig \<times> io) list \<Rightarrow> ('c, 'b) world
   \<Rightarrow> (controller option list \<times> ('c, 'b) world) \<times> unit result" where
  "start_all C [] w = (([], w), Inr ())"
| "start_all C ((n, I) # ns) w =
     (let rest = replicate (length ns) None in
      case New (nc_ApiConfig n) of
        (_, Inl e) \<Rightarrow> ((None # rest, w), Inl e)
      | (api, Inr p) \<Rightarrow>
          (case ctl_Start C I (NewController p (nc_Options n), w) of
             ((c, w1), Inl e) \<Rightarrow> ((Some c # rest, w1), Inl (wrap_err (start_failed api) e))
           | ((c, w1), Inr ()) \<Rightarrow>
               (case start_all C ns w1 of ((cs, w2), r) \<Rightarrow> ((Some c # cs, w2), r))))"

definition node_Start ::
  "'c core_ops \<Rightarrow> (NodeConfig \<times> io) list \<Rightarrow> ('c, 'b) world
   \<Rightarrow> (controller option list \<times> ('c, 'b) world) \<times> unit result" where
  "node_Start C nodes w = start_all C nodes w"

text \<open>Close panics on a nil controller and on the first error; then the slice is kept.\<close>

fun node_Close ::
  "'c core_ops \<Rightarrow> controller option list \<Rightarrow> ('c, 'b) world \<Rightarrow> ('c, 'b) world \<times> unit result" where
  "node_Close C [] w = (w, Inr ())"
| "node_Close C (None # cs) w = (w, Inl (Panic ''nil pointer dereference''))"
| "node_Close C (Some c # cs) w =
     (case ctl_Close C (c, w) of
        ((_, w1), Inl (Panic m)) \<Rightarrow> (w1, Inl (Panic m))
      | ((_, w1), Inl (Err m)) \<Rightarrow> (w1, Inl (Panic m))
      | ((_, w1), Inr ()) \<Rightarrow> node_Close C cs w1)"

end
