(* ===== verification/Controller_Laws.thy ===== *)
theory Controller_Laws
  imports Controller Core_Users Limiter_Runs Panel_Laws Hy2_Traffic
begin

text \<open>
  What the controller promises: the core and the limiter stay in step with the panel's list,
  an outage of the panel leaves the node as it is, and what happens where a step fails.
\<close>

subsection \<open>One poll of the panel\<close>

definition polled ::
  "io \<Rightarrow> controller \<Rightarrow> controller \<Rightarrow> NodeInfo option \<Rightarrow> UserInfo list option \<Rightarrow> (int \<rightharpoonup> int) option \<Rightarrow> bool" where
  "polled I c c' newN newU newA \<longleftrightarrow>
     (\<exists>c1 c2. fetch_node I c = (c1, Inr newN) \<and> fetch_users I c1 = (c2, Inr newU) \<and> fetch_alive I c2 = (c', Inr newA))"

lemma fetch_frame:
  "fetch_node I c = (c', r1) \<Longrightarrow> \<exists>a. c' = c\<lparr>apiClient := a\<rparr>"
  "fetch_users I c = (c', r2) \<Longrightarrow> \<exists>a. c' = c\<lparr>apiClient := a\<rparr>"
  "fetch_alive I c = (c', r3) \<Longrightarrow> \<exists>a. c' = c\<lparr>apiClient := a\<rparr>"
  by (auto simp: fetch_node_def fetch_users_def fetch_alive_def split: prod.splits)

lemma polled_frame:
  assumes "polled I c c' newN newU newA"
  shows "\<exists>a. c' = c\<lparr>apiClient := a\<rparr>"
proof -
  from assms obtain c1 c2 where f: "fetch_node I c = (c1, Inr newN)" "fetch_users I c1 = (c2, Inr newU)"
    "fetch_alive I c2 = (c', Inr newA)" unfolding polled_def by blast
  from fetch_frame(1) [OF f(1)] fetch_frame(2) [OF f(2)] fetch_frame(3) [OF f(3)] show ?thesis by auto
qed

lemma nodeInfoMonitor_polled:
  assumes "polled I c c3 newN newU newA"
  shows "nodeInfoMonitor C I (c, w) = (case newN of
      Some n \<Rightarrow> node_changed C I n newU newA (c3, w) | None \<Rightarrow> node_unchanged C I newU newA (c3, w))"
proof -
  from assms obtain c1 c2 where "fetch_node I c = (c1, Inr newN)" "fetch_users I c1 = (c2, Inr newU)"
    "fetch_alive I c2 = (c3, Inr newA)" unfolding polled_def by blast
  then show ?thesis by (simp add: nodeInfoMonitor_def)
qed

subsection \<open>In step with the panel\<close>

definition lim_users :: "nat \<Rightarrow> string \<Rightarrow> ('c, 'b) world \<Rightarrow> string \<Rightarrow> UserLimitInfo option" where
  "lim_users a tag w k = l_UserLimitInfo (lims (limits w) a) (UserTag tag k)"

text \<open>Core and limiter hold the list of the controller, for its tag.\<close>

definition in_step ::
  "('c \<Rightarrow> bool) \<Rightarrow> ('c \<Rightarrow> string \<Rightarrow> 'v option) \<Rightarrow> (UserInfo \<Rightarrow> 'v) \<Rightarrow> nat \<Rightarrow> controller \<times> ('c, 'b) world \<Rightarrow> bool" where
  "in_step served look view a st \<longleftrightarrow> (case st of (c, w) \<Rightarrow>
     c_limiter c = Some a \<and> info c \<noteq> None \<and> served (core w) \<and> holds view (userList c) (look (core w))
     \<and> holds new_limit (userList c) (lim_users a (c_tag c) w))"

lemma at_limiter_simps [simp]:
  "core (at_limiter a f w) = core w" "lims (limits (at_limiter a f w)) a = f (lims (limits w) a)"
  "registry (limits (at_limiter a f w)) = registry (limits w)" "next_lim (limits (at_limiter a f w)) = next_lim (limits w)"
  by (simp_all add: at_limiter_def)

lemma lim_users_simps [simp]:
  "lim_users a tag (at_limiter a (\<lambda>l. l\<lparr>AliveList := al\<rparr>) w) = lim_users a tag w"
  "lim_users a tag (w\<lparr>core := k\<rparr>) = lim_users a tag w"
  by (simp_all add: lim_users_def fun_eq_iff)

lemma sync_core_synced:
  assumes "user_core C tag served look view" "sync_core C deleted added tag n k = (k', Inr ())"
  shows "user_core.synced C tag deleted added k k'"
proof -
  obtain k1 r1 where k1: "(if deleted \<noteq> [] then op_DelUsers C deleted tag n k else (k, Inr ())) = (k1, r1)" by (metis prod.collapse)
  obtain "r1 = Inr ()" and r: "(if added \<noteq> [] then apsnd (map_sum id (\<lambda>_. ())) (op_AddUsers C \<lparr>aup_Tag = tag, aup_Users = added, aup_NodeInfo = n\<rparr> k1)
           else (k1, Inr ())) = (k', Inr ())"
    using assms(2) unfolding sync_core_def k1 prod.case by (cases r1) simp_all
  then have d: "deleted = [] \<and> k1 = k \<or> op_DelUsers C deleted tag n k = (k1, Inr ())"
    using k1 by (cases "deleted = []") simp_all
  have "\<exists>i. added = [] \<and> k' = k1 \<or> op_AddUsers C \<lparr>aup_Tag = tag, aup_Users = added, aup_NodeInfo = n\<rparr> k1 = (k', Inr i)"
  proof (cases "added = []")
    case False
    obtain s x where "op_AddUsers C \<lparr>aup_Tag = tag, aup_Users = added, aup_NodeInfo = n\<rparr> k1 = (s, x)" by (metis prod.collapse)
    with r False show ?thesis by (cases x) auto
  qed (use r in simp)
  with d show ?thesis unfolding user_core.synced_def [OF assms(1)] by blast
qed

lemma users_changed_keeps:
  assumes C: "user_core C (c_tag c) served look view" and st: "in_step served look view a (c, w)"
    and U: "uniform n (userList c)" "uniform n newU" "compare_order (diff_order I) (userList c) newU"
    and d: "compareUserList (diff_order I) (userList c) newU = (deleted, added)"
    and s: "sync_core C deleted added (c_tag c) i (core w) = (k, Inr ())"
  shows "\<exists>c' w'. users_changed C I newU a i (c, w) = ((c', w'), Inr ()) \<and> userList c' = newU
    \<and> c_tag c' = c_tag c \<and> in_step served look view a (c', w')
    \<and> core w' = k \<and> registry (limits w') = registry (limits w)"
proof -
  note S = st [unfolded in_step_def prod.case]
  have core: "holds view newU (look k)" "served k"
    using user_core.synced_holds [OF C _ sync_core_synced [OF C s] U d] user_core.synced_served [OF C _ sync_core_synced [OF C s]] S
    by blast+
  let ?w1 = "w\<lparr>core := k\<rparr>"
  let ?w2 = "if added \<noteq> [] \<or> deleted \<noteq> [] then at_limiter a (UpdateUser (c_tag c) added deleted) ?w1 else ?w1"
  let ?l = "lims (limits w) a"
  have "holds new_limit newU (\<lambda>x. l_UserLimitInfo (UpdateUser (c_tag c) added [] (UpdateUser (c_tag c) [] deleted ?l)) (UserTag (c_tag c) x))"
    by (rule lim_reg.reg_holds [OF TrueI U d]) (use S in \<open>simp add: lim_users_def [abs_def]\<close>)
  then have "holds new_limit newU (\<lambda>x. l_UserLimitInfo (UpdateUser (c_tag c) added deleted ?l) (UserTag (c_tag c) x))"
    unfolding UpdateUser_split [of "c_tag c" added deleted] .
  moreover have "lims (limits ?w2) a = UpdateUser (c_tag c) added deleted ?l"
    by (auto simp: UpdateUser_def)
  ultimately have lim: "holds new_limit newU (lim_users a (c_tag c) ?w2)" by (simp only: lim_users_def [abs_def])
  define c1 where "c1 = (if (added \<noteq> [] \<or> deleted \<noteq> []) \<and> EnableDynamicSpeedLimit (o_LimitConfig (c_Options c))
      then c\<lparr>traffic := fold (\<lambda>u m. m(Uuid u := None)) deleted (traffic c)\<rparr> else c)"
  have c1: "c_limiter c1 = c_limiter c" "c_tag c1 = c_tag c" "info c1 = info c" by (simp_all add: c1_def)
  have "users_changed C I newU a i (c, w) = ((c1\<lparr>userList := newU\<rparr>, ?w2), Inr ())"
    by (simp add: users_changed_def d s c1_def Let_def)
  moreover have "core ?w2 = k" "registry (limits ?w2) = registry (limits w)" by simp_all
  ultimately show ?thesis using S core lim c1 by (simp add: in_step_def)
qed

lemma monitor_synced:
  assumes "user_core C (c_tag c) served look view" "in_step served look view a (c, w)"
    and "polled I c c1 None (Some newU) newA" "newU \<noteq> []"
    and "uniform n (userList c)" "uniform n newU" "compare_order (diff_order I) (userList c) newU"
    and "compareUserList (diff_order I) (userList c) newU = (deleted, added)"
    and "sync_core C deleted added (c_tag c) (the (info c)) (core w) = (k, Inr ())"
  shows "\<exists>c' w'. nodeInfoMonitor C I (c, w) = ((c', w'), Inr ()) \<and> userList c' = newU
    \<and> c_tag c' = c_tag c \<and> in_step served look view a (c', w')
    \<and> core w' = k \<and> registry (limits w') = registry (limits w)"
proof -
  obtain p where c1: "c1 = c\<lparr>apiClient := p\<rparr>" using polled_frame [OF assms(3)] by blast
  let ?w = "case newA of None \<Rightarrow> w | Some al \<Rightarrow> at_limiter a (\<lambda>l. l\<lparr>AliveList := al\<rparr>) w"
  have w: "core ?w = core w" "lim_users a tag ?w = lim_users a tag w" "registry (limits ?w) = registry (limits w)" for tag
    by (auto split: option.split)
  have S: "in_step served look view a (c1, ?w)" using assms(2) w by (simp add: in_step_def c1)
  obtain i where i: "info c = Some i" "c_limiter c = Some a" using assms(2) by (auto simp: in_step_def)
  have "nodeInfoMonitor C I (c, w) = users_changed C I newU a i (c1, ?w)"
    unfolding nodeInfoMonitor_polled [OF assms(3)] using i assms(4)
    by (simp add: node_unchanged_def c1 nil_list_def)
  moreover have "\<exists>c' w'. users_changed C I newU a i (c1, ?w) = ((c', w'), Inr ()) \<and> userList c' = newU
      \<and> c_tag c' = c_tag c1 \<and> in_step served look view a (c', w')
      \<and> core w' = k \<and> registry (limits w') = registry (limits ?w)"
    by (rule users_changed_keeps [OF _ S]) (use assms i w c1 in simp_all)
  ultimately show ?thesis using w(3) by (simp add: c1)
qed


text \<open>The example: a controller of node n on the hysteria2 core, with user_a.\<close>

definition example_options :: "string \<Rightarrow> Options" where
  "example_options name = default_options\<lparr>Name := name\<rparr>"

definition example_ctl :: "string \<Rightarrow> controller" where
  "example_ctl name =
     (NewController example_client (example_options name))\<lparr>c_tag := ''n'', c_limiter := Some 0,
        userList := [user_a], info := Some (new_node example_client),
        nodeInfoMonitorPeriodic := Some (new_periodic 60 False), userReportPeriodic := Some (new_periodic 60 False)\<rparr>"

definition hy_a :: hy2 where
  "hy_a = hy_one\<lparr>usersMap := [''aaaa'' \<mapsto> 1]\<rparr>"

definition world_a :: "(hy2, int) world" where
  "world_a =
     \<lparr>core = hy_a,
      limits = \<lparr>registry = [''n'' \<mapsto> 0], lims = \<lambda>_. make_limiter ''n'' zero_limit_config [user_a] Map.empty, next_lim = 1\<rparr>\<rparr>"

definition plain_hy :: "hy2 core_ops" where
  "plain_hy = hy_ops (\<lambda>_ _ _. None) (\<lambda>_. None) (\<lambda>us. us) (\<lambda>_. []) [''n'']"

definition users_reply :: reply where
  "users_reply =
     (Some \<lparr>raw_nil = False, StatusCode = 200, Body = '''', ETag = ''u'', ContentType = ''application/x-msgpack''\<rparr>, None)"

definition example_io :: "reply \<Rightarrow> UserInfo list \<Rightarrow> string list \<Rightarrow> io" where
  "example_io node us order =
     \<lparr>digest = \<lambda>b. b, pathJoin = \<lambda>p. p, decs = example_decoders example_common, msgpack = \<lambda>_. Inr (Some us),
      answers = \<lambda>_. [], unm_user = \<lambda>_. Inl '''', unm_alive = \<lambda>_. Inl '''', valid_regexp = \<lambda>_. True,
      cert = \<lparr>IsExist = \<lambda>_. True, NewLego = None, CreateCert = None, SelfCert = None\<rparr>,
      node_reply = node, user_reply = users_reply, alive_reply = failed_reply, push_reply = failed_reply,
      online_reply = failed_reply, diff_order = order\<rparr>"

text \<open>In the example the poll finds the configuration the client has.\<close>

lemma example_users:
  assumes "apiClient c = example_client"
  shows "fetch_users (example_io node us order) c = (c\<lparr>apiClient := example_client\<lparr>userEtag := ''u''\<rparr>\<rparr>, Inr (Some us))"
proof -
  have m: "contains ''application/x-msgpack'' ''application/x-msgpack''" by (simp add: hasPrefix_def)
  have k: "checkResponse (\<lambda>p. p) example_client users_reply user_path = None"
    by (simp add: checkResponse_def users_reply_def)
  obtain r where r: "fst users_reply = Some r" "\<not> raw_nil r" "StatusCode r \<noteq> 304" "ETag r = ''u''"
    "ContentType r = ''application/x-msgpack''" by (simp add: users_reply_def)
  have "GetUserList (\<lambda>p. p) (\<lambda>_. Inr (Some us)) (\<lambda>_. []) (\<lambda>_. Inl Nil) users_reply example_client =
      (example_client\<lparr>userEtag := ''u''\<rparr>, Inr (Some us))"
    unfolding GetUserList_def r(1) option.case using m k r by simp
  then show ?thesis using assms by (simp add: fetch_users_def example_io_def)
qed

lemma example_alive:
  "\<exists>a. fetch_alive (example_io node us order) c = (c\<lparr>apiClient := a\<rparr>, Inr (Some Map.empty))"
  by (rule exI [of _ "(apiClient c)\<lparr>Alive := Some Map.empty\<rparr>"])
    (simp add: fetch_alive_def example_io_def GetUserAlive_def failed_reply_def)

lemma example_poll:
  "\<exists>c1. polled (example_io (ok_reply ''cfg'') us order) (example_ctl name) c1 None (Some us) (Some Map.empty)"
proof -
  let ?I = "example_io (ok_reply ''cfg'') us order"
  have a: "apiClient (example_ctl name) = example_client" by (simp add: example_ctl_def NewController_def)
  have n: "fetch_node ?I (example_ctl name) = (example_ctl name\<lparr>apiClient := example_client\<rparr>, Inr None)"
    by (simp add: fetch_node_def example_io_def GetNodeInfo_def ok_reply_def a) (simp add: example_client_def)
  obtain p where "fetch_alive ?I (example_ctl name\<lparr>apiClient := example_client\<lparr>userEtag := ''u''\<rparr>\<rparr>) =
      (example_ctl name\<lparr>apiClient := p\<rparr>, Inr (Some Map.empty))"
    using example_alive [of "ok_reply ''cfg''" us order "example_ctl name\<lparr>apiClient := example_client\<lparr>userEtag := ''u''\<rparr>\<rparr>"] by auto
  with n example_users [of "example_ctl name\<lparr>apiClient := example_client\<rparr>" "ok_reply ''cfg''" us order]
  show ?thesis unfolding polled_def by auto
qed

lemma example_in_step: "in_step (hy_has ''n'') usersMap Id 0 (example_ctl name, world_a)"
proof -
  have u: "Uuid user_a = ''aaaa''" "Id user_a = 1" by (simp_all add: user_a_def)
  have "holds Id [user_a] (usersMap (core world_a))"
    by (rule holdsI) (auto simp: world_a_def hy_a_def u)
  moreover have "holds new_limit [user_a] (lim_users 0 ''n'' world_a)"
  proof (rule holdsI)
    show "lim_users 0 ''n'' world_a (Uuid v) = Some (new_limit v)" if "v \<in> set [user_a]" for v
      using make_limiter_holds [of "[user_a]" v "''n''" zero_limit_config Map.empty] that by (simp add: lim_users_def world_a_def)
    show "lim_users 0 ''n'' world_a k = None" if "k \<notin> Uuid ` set [user_a]" for k
      using make_limiter_only [OF that, of "''n''" zero_limit_config Map.empty] by (simp add: lim_users_def world_a_def)
  qed
  moreover have "hy_has ''n'' (core world_a)" by (simp add: world_a_def hy_a_def hy_one_def hy_has_def)
  ultimately show ?thesis by (simp add: in_step_def example_ctl_def)
qed


subsection \<open>When the panel does not answer\<close>

text \<open>
  C3: an outage of the panel leaves the node as it is. A poll whose request for the node or for
  the users fails changes nothing but the client: the core, every limiter and the list stay,
  and the task goes on.
\<close>

theorem outage_keeps_node:
  assumes "snd (fetch_node I c) = Inl (Err m) \<or>
    (\<exists>c1 x. fetch_node I c = (c1, Inr x) \<and> snd (fetch_users I c1) = Inl (Err m))"
  shows "\<exists>a. nodeInfoMonitor C I (c, w) = ((c\<lparr>apiClient := a\<rparr>, w), Inr ())"
proof (cases "fetch_node I c")
  case (Pair c1 r1)
  show ?thesis
  proof (cases r1)
    case (Inl e)
    with assms Pair have "e = Err m" by auto
    with Inl Pair fetch_frame(1) [OF Pair] show ?thesis by (auto simp: nodeInfoMonitor_def logged_def)
  next
    case (Inr x)
    obtain c2 r2 where u: "fetch_users I c1 = (c2, r2)" by (metis prod.collapse)
    with assms Pair Inr have "r2 = Inl (Err m)" by auto
    with u Inr Pair fetch_frame(1) [OF Pair] fetch_frame(2) [OF u] show ?thesis
      by (auto simp: nodeInfoMonitor_def logged_def)
  qed
qed

theorem outage_keeps_node_witness:
  "\<exists>a. nodeInfoMonitor plain_hy (example_io failed_reply [user_b] []) (example_ctl '''', world_a)
    = ((example_ctl ''''\<lparr>apiClient := a\<rparr>, world_a), Inr ())"
proof -
  have "snd (fetch_node (example_io failed_reply [user_b] []) (example_ctl '''')) =
      Inl (Err (''request http://p'' @ node_path @ '' failed: timeout''))"
    by (simp add: fetch_node_def example_io_def GetNodeInfo_def failed_reply_def example_ctl_def NewController_def
      example_client_def checkResponse_def assembleURL_def)
  then show ?thesis by (rule outage_keeps_node [OF disjI1])
qed

subsection \<open>A node that has changed\<close>

lemma check_interval_frame:
  assumes "check_interval n c = (c', r)"
  shows "c_limiter c' = c_limiter c \<and> userList c' = userList c \<and> c_tag c' = c_tag c \<and> info c' = info c"
  using assms by (auto simp: check_interval_def restart_monitor_def restart_report_def split: option.splits if_splits)

lemma readd_node_frame:
  assumes "readd_node C I n (c, w) = ((c', w'), r)"
  shows "limits w' = limits w \<and> c_limiter c' = c_limiter c \<and> userList c' = userList c \<and> c_tag c' = c_tag c
    \<and> info c' = info c"
proof (cases "if Security n = Tls then requestCert (cert I) (o_CertConfig (c_Options c)) else Inr ()")
  case (Inl e)
  with assms show ?thesis by (simp add: readd_node_def)
next
  case (Inr u)
  obtain k1 opts r1 where a: "op_AddNode C (c_tag c) n (c_Options c) (core w) = ((k1, opts), r1)" by (metis prod.collapse)
  show ?thesis
  proof (cases r1)
    case (Inl e)
    with assms a Inr show ?thesis by (auto simp: readd_node_def)
  next
    case r1: (Inr u1)
    let ?c1 = "c\<lparr>c_Options := opts\<rparr>"
    obtain k2 r2 where b: "op_AddUsers C \<lparr>aup_Tag = c_tag ?c1, aup_Users = userList ?c1, aup_NodeInfo = n\<rparr> k1 = (k2, r2)"
      by (metis prod.collapse)
    obtain c2 r3 where i: "check_interval n ?c1 = (c2, r3)" by (metis prod.collapse)
    from assms a b i Inr r1 check_interval_frame [OF i] show ?thesis
      by (cases r2) (auto simp: readd_node_def Let_def)
  qed
qed

lemma UpdateRule_users: "l_UserLimitInfo (fst (UpdateRule valid rules l)) = l_UserLimitInfo l"
  by (simp add: UpdateRule_def Let_def)

lemma update_rule_at_users:
  assumes "update_rule_at valid rules a w = (w', r)"
  shows "lim_users a tag w' = lim_users a tag w \<and> core w' = core w"
  using assms UpdateRule_users [of valid rules "lims (limits w) a"]
  by (auto simp: update_rule_at_def lim_users_def fun_eq_iff split: prod.splits)

lemma relimit_named:
  assumes "Name (c_Options c) \<noteq> ''''" "c_limiter c = Some a" "relimit I n newA (c, w) = ((c', w'), r)"
  shows "c' = c \<and> lim_users a tag w' = lim_users a tag w \<and> core w' = core w"
proof -
  let ?w = "case newA of None \<Rightarrow> w | Some al \<Rightarrow> at_limiter a (\<lambda>l. l\<lparr>AliveList := al\<rparr>) w"
  obtain w3 r3 where u: "update_rule_at (valid_regexp I) (ni_Rules n) a ?w = (w3, r3)" by (metis prod.collapse)
  have "lim_users a tag ?w = lim_users a tag w" "core ?w = core w" by (simp_all split: option.split)
  with assms u update_rule_at_users [OF u, of tag] show ?thesis by (simp add: relimit_def)
qed

lemma unknown_user_rejected:
  assumes "l_UserLimitInfo l k = None"
  shows "snd (snd (CheckLimit nb now k ip tcp ss l))"
  using assms by (simp add: CheckLimit_def check_user_def)


lemma example_node:
  "\<exists>n a. fetch_node (example_io (ok_reply ''new'') us order) (example_ctl name)
    = (example_ctl name\<lparr>apiClient := a\<rparr>, Inr (Some n))
    \<and> a = example_client\<lparr>responseBodyHash := ''new'', nodeEtag := ''e''\<rparr>"
proof -
  let ?a = "example_client\<lparr>responseBodyHash := ''new'', nodeEtag := ''e''\<rparr>"
  let ?node = "(new_node ?a)\<lparr>Trojan := Some \<lparr>tr_Network = ''tcp'', tr_NetworkSettings = ''''\<rparr>, Security := Tls\<rparr>"
  have "config_readable example_common"
    by (simp add: config_readable_def example_common_def route_readable_def match_readable_def is_string_def
        interval_readable_def empty_match_def)
  then obtain n where n: "finish_node ?node (Some example_common) = Inr n"
    using finish_node_ok [of ?node example_common] by (auto simp: is_ok_iff)
  obtain g where g: "fst (ok_reply ''new'') = Some g" "StatusCode g \<noteq> 304" "Body g = ''new''" "ETag g = ''e''"
    by (simp add: ok_reply_def)
  have k: "checkResponse (\<lambda>p. p) ?a (ok_reply ''new'') node_path = None"
    by (simp add: checkResponse_def ok_reply_def)
  have h: "responseBodyHash example_client \<noteq> ''new''" by (simp add: example_client_def)
  have p: "parse_params (example_decoders example_common) (NodeType ?a) ''new'' (new_node ?a) = Inr (?node, Some example_common)"
    by (simp add: parse_params_def example_decoders_def example_client_def)
  have "GetNodeInfo (\<lambda>b. b) (\<lambda>p. p) (example_decoders example_common) (ok_reply ''new'') example_client = (?a, Inr (Some n))"
    unfolding GetNodeInfo_def g(1) option.case using g h k p n by (simp add: Let_def)
  then show ?thesis by (simp add: fetch_node_def example_io_def example_ctl_def NewController_def)
qed

lemma example_users':
  assumes "apiClient c = example_client\<lparr>responseBodyHash := ''new'', nodeEtag := ''e''\<rparr>"
  shows "\<exists>a. fetch_users (example_io node us order) c = (c\<lparr>apiClient := a\<rparr>, Inr (Some us))"
proof -
  have m: "contains ''application/x-msgpack'' ''application/x-msgpack''" by (simp add: hasPrefix_def)
  obtain r where r: "fst users_reply = Some r" "\<not> raw_nil r" "StatusCode r \<noteq> 304"
    "ContentType r = ''application/x-msgpack''" by (simp add: users_reply_def)
  have k: "checkResponse (\<lambda>p. p) cl users_reply user_path = None" for cl
    by (simp add: checkResponse_def users_reply_def)
  have "\<exists>a. GetUserList (\<lambda>p. p) (\<lambda>_. Inr (Some us)) (\<lambda>_. []) (\<lambda>_. Inl Nil) users_reply (apiClient c) = (a, Inr (Some us))"
    unfolding GetUserList_def r(1) option.case using m k r by simp
  then show ?thesis by (auto simp: fetch_users_def example_io_def)
qed

lemma example_change:
  "\<exists>c1 n. polled (example_io (ok_reply ''new'') us order) (example_ctl name) c1 (Some n) (Some us) (Some Map.empty)"
proof -
  let ?I = "example_io (ok_reply ''new'') us order" and ?a = "example_client\<lparr>responseBodyHash := ''new'', nodeEtag := ''e''\<rparr>"
  obtain n where n: "fetch_node ?I (example_ctl name) = (example_ctl name\<lparr>apiClient := ?a\<rparr>, Inr (Some n))"
    using example_node by metis
  obtain b where b: "fetch_users ?I (example_ctl name\<lparr>apiClient := ?a\<rparr>) = (example_ctl name\<lparr>apiClient := b\<rparr>, Inr (Some us))"
    using example_users' [of "example_ctl name\<lparr>apiClient := ?a\<rparr>" "ok_reply ''new''" us order] by auto
  obtain p where "fetch_alive ?I (example_ctl name\<lparr>apiClient := b\<rparr>) = (example_ctl name\<lparr>apiClient := p\<rparr>, Inr (Some Map.empty))"
    using example_alive [of "ok_reply ''new''" us order "example_ctl name\<lparr>apiClient := b\<rparr>"] by auto
  with n b show ?thesis unfolding polled_def by blast
qed


end
