(* ===== verification/Controller_Runs.thy ===== *)
theory Controller_Runs
  imports Controller_Laws
begin

text \<open>
  Runs of the controller and their failures: the dynamic speed limit that is never put to
  work, a difference that is stuck in the core, a push that loses traffic, and the close of
  nodes that did not start.
\<close>

subsection \<open>The dynamic speed limit\<close>

datatype ctl_op = CStart io | CMonitor io | CSpeed "string list" int | CClose

fun ctl_step :: "'c core_ops \<Rightarrow> ctl_op \<Rightarrow> controller \<times> ('c, 'b) world \<Rightarrow> controller \<times> ('c, 'b) world" where
  "ctl_step C (CStart I) st = fst (ctl_Start C I st)"
| "ctl_step C (CMonitor I) st = fst (nodeInfoMonitor C I st)"
| "ctl_step C (CSpeed order now) st = fst (SpeedChecker order now st)"
| "ctl_step C CClose st = fst (ctl_Close C st)"

definition idle :: "controller \<Rightarrow> bool" where
  "idle c \<longleftrightarrow> traffic c = Map.empty \<and> (\<forall>p. dynamicSpeedLimitPeriodic c = Some p \<longrightarrow> pd_task p = new_task)"

lemma idle_updates [simp]:
  "idle (c\<lparr>apiClient := a\<rparr>) = idle c" "idle (c\<lparr>c_tag := t\<rparr>) = idle c" "idle (c\<lparr>c_limiter := l\<rparr>) = idle c"
  "idle (c\<lparr>userList := us\<rparr>) = idle c" "idle (c\<lparr>aliveMap := m\<rparr>) = idle c" "idle (c\<lparr>info := i\<rparr>) = idle c"
  "idle (c\<lparr>c_Options := opts\<rparr>) = idle c" "idle (c\<lparr>nodeInfoMonitorPeriodic := p\<rparr>) = idle c"
  "idle (c\<lparr>userReportPeriodic := p\<rparr>) = idle c" "idle (c\<lparr>renewCertPeriodic := p\<rparr>) = idle c"
  "idle (c\<lparr>onlineIpReportPeriodic := p\<rparr>) = idle c"
  by (simp_all add: idle_def)

lemma idle_traffic: "idle c \<Longrightarrow> idle (c\<lparr>traffic := Map.empty\<rparr>)"
  by (simp add: idle_def)

lemma idle_forget: "idle c \<Longrightarrow> idle (c\<lparr>traffic := fold (\<lambda>u m. m(Uuid u := None)) us (traffic c)\<rparr>)"
  by (simp add: idle_def fun_eq_iff fold_map_del)

lemma idle_fetch:
  "idle (fst (fetch_node I c)) = idle c" "idle (fst (fetch_users I c)) = idle c" "idle (fst (fetch_alive I c)) = idle c"
  using fetch_frame(1) [of I c] fetch_frame(2) [of I c] fetch_frame(3) [of I c]
  by (metis idle_updates(1) prod.collapse)+

lemma idle_startTasks: "idle c \<Longrightarrow> startTasks n c = Inr c' \<Longrightarrow> idle c'"
  by (auto simp: startTasks_def Let_def idle_def idle_periodic_def split: if_splits option.splits)

lemma idle_start_in_core: "idle c \<Longrightarrow> idle (fst (fst (start_in_core C I n (c, w))))"
  by (auto simp: start_in_core_def Let_def split: sum.split prod.split) (erule idle_startTasks [rotated], simp)+

lemma idle_register: "idle (fst (register_limiter al (c, w))) = idle c"
  by (simp add: register_limiter_def AddLimiter_def Let_def)

lemma idle_start_node: "idle c \<Longrightarrow> idle (fst (fst (start_node C I node (c, w))))"
proof (cases node)
  case None
  assume c: "idle c"
  obtain c2 w2 where r: "register_limiter (aliveMap c) (c\<lparr>c_tag := Name (c_Options c)\<rparr>, w) = (c2, w2)" by (metis prod.collapse)
  with c idle_register [of "aliveMap c" "c\<lparr>c_tag := Name (c_Options c)\<rparr>" w] have "idle c2" by simp
  with c r None show ?thesis by (auto simp: start_node_def Let_def split: option.split)
next
  case (Some n)
  assume c: "idle c"
  let ?c1 = "c\<lparr>c_tag := (if Name (c_Options c) = Nil then buildNodeTag n c else Name (c_Options c))\<rparr>"
  obtain c2 w2 where r: "register_limiter (aliveMap c) (?c1, w) = (c2, w2)" by (metis prod.collapse)
  with c idle_register [of "aliveMap c" ?c1 w] have i: "idle c2" by simp
  obtain a where a: "c_limiter c2 = Some a" using r by (auto simp: register_limiter_def AddLimiter_def Let_def)
  obtain w3 e where u: "update_rule_at (valid_regexp I) (ni_Rules n) a w2 = (w3, e)" by (metis prod.collapse)
  from i c r a u Some idle_start_in_core [OF i, of C I n w3] show ?thesis
    by (cases e) (auto simp: start_node_def Let_def)
qed

lemma idle_ctl_Start: "idle c \<Longrightarrow> idle (fst (fst (ctl_Start C I (c, w))))"
proof -
  assume c: "idle c"
  obtain c1 r1 where 1: "fetch_node I c = (c1, r1)" by (metis prod.collapse)
  obtain c2 r2 where 2: "fetch_users I c1 = (c2, r2)" by (metis prod.collapse)
  have i: "idle c1" "idle c2" using c 1 2 idle_fetch(1) [of I c] idle_fetch(2) [of I c1] by simp_all
  show ?thesis
  proof (cases r1)
    case (Inl e)
    with 1 i show ?thesis by (simp add: ctl_Start_def)
  next
    case r1: (Inr node)
    show ?thesis
    proof (cases r2)
      case (Inl e)
      with 1 2 r1 i show ?thesis by (simp add: ctl_Start_def)
    next
      case (Inr us)
      obtain c3 r3 where 3: "fetch_alive I (c2\<lparr>userList := nil_list us\<rparr>) = (c3, r3)" by (metis prod.collapse)
      have "idle c3" using i 3 idle_fetch(3) [of I "c2\<lparr>userList := nil_list us\<rparr>"] by simp
      then have "idle (fst (fst (start_node C I node (c3\<lparr>aliveMap := m\<rparr>, w))))" for m
        by (simp add: idle_start_node)
      with 1 2 3 r1 Inr i \<open>idle c3\<close> show ?thesis
        by (cases r3) (auto simp: ctl_Start_def Let_def)
    qed
  qed
qed

lemma idle_check_interval: "idle c \<Longrightarrow> idle (fst (check_interval n c))"
  by (auto simp: check_interval_def restart_monitor_def restart_report_def split: option.split)

lemma idle_readd: "idle c \<Longrightarrow> idle (fst (fst (readd_node C I n (c, w))))"
  by (auto simp: readd_node_def Let_def split: sum.split prod.split)
    (metis fst_conv idle_check_interval idle_updates(7))+

lemma idle_relimit: "idle c \<Longrightarrow> idle (fst (fst (relimit I n newA (c, w))))"
proof -
  assume c: "idle c"
  let ?st = "if Name (c_Options c) = Nil then
      register_limiter (nil_map newA) (c\<lparr>c_tag := buildNodeTag n c\<rparr>, w\<lparr>limits := DeleteLimiter (buildNodeTag n c) (limits w)\<rparr>)
    else (c, w)"
  obtain c1 w1 where s: "?st = (c1, w1)" by (metis prod.collapse)
  have "idle c1"
    using c s idle_register [of "nil_map newA" "c\<lparr>c_tag := buildNodeTag n c\<rparr>" "w\<lparr>limits := DeleteLimiter (buildNodeTag n c) (limits w)\<rparr>"]
    by (cases "Name (c_Options c) = Nil") simp_all
  moreover have "fst (fst (relimit I n newA (c, w))) = c1"
  proof (cases "c_limiter c1")
    case None
    with s show ?thesis by (cases "Name (c_Options c) = Nil") (simp_all add: relimit_def Let_def)
  next
    case (Some a)
    obtain w3 r where "update_rule_at (valid_regexp I) (ni_Rules n) a
        (case newA of None \<Rightarrow> w1 | Some al \<Rightarrow> at_limiter a (\<lambda>l. l\<lparr>AliveList := al\<rparr>) w1) = (w3, r)" by (metis prod.collapse)
    with s Some show ?thesis by (cases "Name (c_Options c) = Nil") (simp_all add: relimit_def Let_def)
  qed
  ultimately show ?thesis by simp
qed

lemma idle_node_changed: "idle c \<Longrightarrow> idle (fst (fst (node_changed C I n newU newA (c, w))))"
proof -
  assume c: "idle c"
  let ?c = "c\<lparr>info := Some n, userList := (case newU of None \<Rightarrow> userList c | Some us \<Rightarrow> us), traffic := Map.empty\<rparr>"
  have i: "idle ?c" using c idle_traffic [of "c\<lparr>info := Some n, userList := (case newU of None \<Rightarrow> userList c | Some us \<Rightarrow> us)\<rparr>"] by simp
  obtain k r1 where d: "op_DelNode C (c_tag ?c) (core w) = (k, r1)" by (metis prod.collapse)
  obtain c1 w1 r2 where l: "relimit I n newA (?c, w\<lparr>core := k\<rparr>) = ((c1, w1), r2)" by (metis prod.collapse)
  have i1: "idle c1" using idle_relimit [OF i, of I n newA "w\<lparr>core := k\<rparr>"] l by simp
  show ?thesis
  proof (cases r1)
    case (Inl e)
    with d i show ?thesis by (simp add: node_changed_def Let_def)
  next
    case (Inr x)
    with d l i1 idle_readd [OF i1, of C I n w1] show ?thesis
      by (cases r2) (simp_all add: node_changed_def Let_def)
  qed
qed

lemma idle_node_unchanged: "idle c \<Longrightarrow> idle (fst (fst (node_unchanged C I newU newA (c, w))))"
proof -
  assume c: "idle c"
  have "idle (fst (fst (users_changed C I us a n (c, w))))" for us a n w
  proof -
    obtain deleted added where d: "compareUserList (diff_order I) (userList c) us = (deleted, added)" by (metis prod.collapse)
    obtain k r where s: "sync_core C deleted added (c_tag c) n (core w) = (k, r)" by (metis prod.collapse)
    show ?thesis using c idle_forget [OF c, of deleted]
      by (cases r) (simp_all add: users_changed_def d s Let_def)
  qed
  with c show ?thesis by (auto simp: node_unchanged_def Let_def split: option.split)
qed

lemma idle_monitor: "idle c \<Longrightarrow> idle (fst (fst (nodeInfoMonitor C I (c, w))))"
proof -
  assume c: "idle c"
  obtain c1 r1 where 1: "fetch_node I c = (c1, r1)" by (metis prod.collapse)
  obtain c2 r2 where 2: "fetch_users I c1 = (c2, r2)" by (metis prod.collapse)
  obtain c3 r3 where 3: "fetch_alive I c2 = (c3, r3)" by (metis prod.collapse)
  have i: "idle c1" "idle c2" "idle c3"
    using c 1 2 3 idle_fetch(1) [of I c] idle_fetch(2) [of I c1] idle_fetch(3) [of I c2] by simp_all
  show ?thesis
    using 1 2 3 i idle_node_changed [OF i(3)] idle_node_unchanged [OF i(3)]
    by (cases r1; cases r2; cases r3) (auto simp: nodeInfoMonitor_def split: option.split)
qed

lemma SpeedChecker_idle: "idle c \<Longrightarrow> SpeedChecker order now (c, w) = ((c, w), Inr ())"
  by (simp add: SpeedChecker_def idle_def)

lemma idle_Close: "idle c \<Longrightarrow> idle (fst (fst (ctl_Close C (c, w))))"
proof -
  assume c: "idle c"
  have n: "Close new_task = new_task" by (simp add: Close_def new_task_def)
  obtain k r where "op_DelNode C (c_tag c) (core (w\<lparr>limits := DeleteLimiter (c_tag c) (limits w)\<rparr>)) = (k, r)" by (metis prod.collapse)
  then show ?thesis using c n
    by (cases r) (auto simp: ctl_Close_def Let_def close_periodic_def idle_def)
qed

interpretation ctl_machine: inv_machine "ctl_step C" "\<lambda>st. idle (fst st)" for C
proof unfold_locales
  fix st :: "controller \<times> ('a, 'b) world" and a
  assume "idle (fst st)"
  then show "idle (fst (ctl_step C a st))"
    by (cases a; cases st) (simp_all add: idle_ctl_Start idle_monitor SpeedChecker_idle idle_Close)
qed

text \<open>
  C7: the dynamic speed limit is never put to work. In every run of a controller from its
  making on, whatever starts, polls, checks and closes come, the table of the traffic the
  checker would look at is empty and the checker's task has no loop: startTasks makes it and
  does not start it, and nothing ever writes the table. So the checker changes nothing.
\<close>

theorem dynamic_limit_never_works:
  "let st = fold (ctl_step C) ops (NewController api opts, w) in
     traffic (fst st) = Map.empty
     \<and> (case dynamicSpeedLimitPeriodic (fst st) of None \<Rightarrow> True | Some p \<Rightarrow> loops (pd_task p) = Map.empty)
     \<and> SpeedChecker order now st = (st, Inr ())"
proof -
  let ?st = "fold (ctl_step C) ops (NewController api opts, w)"
  have "idle (NewController api opts)" by (simp add: idle_def NewController_def)
  then have i: "idle (fst ?st)" using ctl_machine.run_inv by (metis fst_conv)
  then have "SpeedChecker order now ?st = (?st, Inr ())" using SpeedChecker_idle by (metis prod.collapse)
  with i show ?thesis by (auto simp: Let_def idle_def new_task_def split: option.split)
qed

subsection \<open>A difference that is stuck\<close>

text \<open>
  A user manager as xray's protocols have them: removing a user it does not have is an error,
  and removing never adds one.
\<close>

definition refuses_unknown :: "'m user_ops \<Rightarrow> ('m \<Rightarrow> string set) \<Rightarrow> bool" where
  "refuses_unknown U emails \<longleftrightarrow>
     (\<forall>e m. e \<notin> emails m \<longrightarrow> (\<exists>s. um_RemoveUser U e m = Inl s))
     \<and> (\<forall>e m m'. um_RemoveUser U e m = Inr m' \<longrightarrow> emails m' \<subseteq> emails m)"

lemma del_users_missing:
  assumes R: "refuses_unknown U emails" and "u \<in> set us" "UserTag tag (Uuid u) \<notin> emails m" "inbounds x tag = Manager m"
  shows "\<exists>x' e m'. del_users U links tag us m x = (x', Inl (Err e)) \<and> inbounds x' tag = Manager m' \<and> emails m' \<subseteq> emails m"
  using assms(2-4)
proof (induction us arbitrary: m x)
  case (Cons v us)
  show ?case
  proof (cases "um_RemoveUser U (UserTag tag (Uuid v)) m")
    case (Inl s)
    with Cons.prems(3) show ?thesis by (auto simp: Let_def)
  next
    case (Inr m')
    have sub: "emails m' \<subseteq> emails m" using R Inr unfolding refuses_unknown_def by blast
    have "v \<noteq> u"
    proof
      assume "v = u"
      then obtain s where "um_RemoveUser U (UserTag tag (Uuid v)) m = Inl s"
        using R Cons.prems(2) unfolding refuses_unknown_def by blast
      with Inr show False by simp
    qed
    then have u: "u \<in> set us" "UserTag tag (Uuid u) \<notin> emails m'" using Cons.prems(1,2) sub by auto
    let ?x = "forget_user links tag (UserTag tag (Uuid v)) (x\<lparr>inbounds := (inbounds x)(tag := Manager m')\<rparr>)"
    have i: "inbounds ?x tag = Manager m'" by (simp add: forget_user_maps)
    from Cons.IH [OF u i] Inr sub show ?thesis by (auto simp: Let_def)
  qed
qed simp

text \<open>
  C5: a difference can be stuck for good. If the xray core has lost a user the controller still
  has in its list (as after a poll that deleted users and then failed to add others, or a
  DelUsers that failed half way), and the panel's list is without that user, then every poll
  asks the core to delete it again, the core refuses, and the poll ends there: neither the list
  nor the limiter takes the panel's list, and the next poll begins in the same situation.
\<close>

theorem stuck_difference:
  assumes "refuses_unknown U emails" "inbounds (core w) (c_tag c) = Manager m"
    and "u \<in> set (userList c)" "UserTag (c_tag c) (Uuid u) \<notin> emails m"
    and "polled I c c1 None (Some newU) newA" "newU \<noteq> []" "\<not> (\<exists>v\<in>set newU. same_user u v)"
    and "uniform n (userList c)" "uniform n newU" "compare_order (diff_order I) (userList c) newU"
    and "c_limiter c = Some a" "info c = Some i"
  shows "\<exists>c' w' m'. nodeInfoMonitor (x_ops U enc startErr closeErr build rin rout links ord) I (c, w) = ((c', w'), Inr ())
    \<and> userList c' = userList c \<and> c_tag c' = c_tag c \<and> lim_users a (c_tag c) w' = lim_users a (c_tag c) w
    \<and> inbounds (core w') (c_tag c) = Manager m' \<and> UserTag (c_tag c) (Uuid u) \<notin> emails m'"
proof -
  let ?C = "x_ops U enc startErr closeErr build rin rout links ord"
  obtain p where c1: "c1 = c\<lparr>apiClient := p\<rparr>" using polled_frame [OF assms(5)] by blast
  obtain deleted added where d: "compareUserList (diff_order I) (userList c) newU = (deleted, added)" by (metis prod.collapse)
  have u: "u \<in> set deleted" using compare_exact(1) [OF assms(8-10) d] assms(3,7) by simp
  let ?w = "case newA of None \<Rightarrow> w | Some al \<Rightarrow> at_limiter a (\<lambda>l. l\<lparr>AliveList := al\<rparr>) w"
  have w: "core ?w = core w" "lim_users a tag ?w = lim_users a tag w" for tag by (auto split: option.split)
  obtain x' e m' where x: "del_users U links (c_tag c) deleted m (core w) = (x', Inl (Err e))"
    "inbounds x' (c_tag c) = Manager m'" "emails m' \<subseteq> emails m"
    using del_users_missing [OF assms(1) u assms(4,2)] by blast
  have "deleted \<noteq> []" using u by auto
  then have "sync_core ?C deleted added (c_tag c) i (core w) = (x', Inl (Err e))"
    using x(1) assms(2) by (simp add: sync_core_def x_ops_def x_DelUsers_def GetUserManager_def)
  then have "nodeInfoMonitor ?C I (c, w) = ((c1, ?w\<lparr>core := x'\<rparr>), Inr ())"
    unfolding nodeInfoMonitor_polled [OF assms(5)] using assms(6,11,12) d w
    by (simp add: node_unchanged_def users_changed_def nil_list_def c1 logged_def Let_def)
  with x(2,3) assms(4) w c1 show ?thesis by auto
qed

definition list_manager :: "string list user_ops" where
  "list_manager =
     \<lparr>ToMemoryUser = \<lambda>_. None, um_AddUser = \<lambda>u es. Inr es,
      um_RemoveUser = \<lambda>e es. if e \<in> set es then Inr (removeAll e es) else Inl ''not found''\<rparr>"

theorem stuck_difference_witness:
  "\<exists>c' w'. nodeInfoMonitor (x_ops list_manager (\<lambda>s. s) None None (\<lambda>_ _ _. undefined) (\<lambda>_. None) (\<lambda>_. None) (\<lambda>_. []) (\<lambda>_. []))
      (example_io (ok_reply ''cfg'') [user_b] [''aaaa10'']) (example_ctl '''', \<lparr>core = x_one\<lparr>inbounds := (\<lambda>_. Manager [])\<rparr>, limits = limits world_a\<rparr>)
      = ((c', w'), Inr ()) \<and> userList c' = [user_a]"
proof -
  let ?I = "example_io (ok_reply ''cfg'') [user_b] [''aaaa10'']" and ?c = "example_ctl ''''"
  let ?w = "\<lparr>core = x_one\<lparr>inbounds := (\<lambda>_. Manager [])\<rparr>, limits = limits world_a\<rparr>"
  obtain c1 where p: "polled ?I ?c c1 None (Some [user_b]) (Some Map.empty)" using example_poll by blast
  have r: "refuses_unknown list_manager set" by (auto simp: refuses_unknown_def list_manager_def split: if_splits)
  have k: "user_key user_a = ''aaaa10''" "user_key user_b = ''bbbb0''"
    by (simp_all add: user_key_def user_a_def user_b_def itoa_examples)
  have c: "userList ?c = [user_a]" "c_tag ?c = ''n''" "diff_order ?I = [''aaaa10'']" "c_limiter ?c = Some 0"
    "info ?c = Some (new_node example_client)" by (simp_all add: example_ctl_def example_io_def)
  have u: "uniform 4 (userList ?c)" "uniform 4 [user_b]" by (simp_all add: c uniform_def user_a_def user_b_def)
  have o: "compare_order (diff_order ?I) (userList ?c) [user_b]"
    by (auto simp: c compare_order_def enumerates_def old_map_def k)
  have m: "inbounds (core ?w) (c_tag ?c) = Manager []" "user_a \<in> set (userList ?c)"
    "UserTag (c_tag ?c) (Uuid user_a) \<notin> set []" "[user_b] \<noteq> []" "\<not> (\<exists>v\<in>set [user_b]. same_user user_a v)"
    by (simp_all add: c same_user_def user_a_def user_b_def)
  note stuck = stuck_difference [OF r m(1-3) p m(4,5) u o c(4,5), where enc = "\<lambda>s. s" and startErr = None and closeErr = None
    and build = "\<lambda>_ _ _. undefined" and rin = "\<lambda>_. None" and rout = "\<lambda>_. None" and links = "\<lambda>_. []" and ord = "\<lambda>_. []"]
  then show ?thesis unfolding c(1) by blast
qed

subsection \<open>Reports\<close>

lemma online_data_fold:
  "fold (\<lambda>u m. m(UID u \<mapsto> (case m (UID u) of None \<Rightarrow> [] | Some xs \<Rightarrow> xs) @ [IP u])) us m k =
    (let ips = map IP (filter (\<lambda>u. UID u = k) us)
     in if ips = [] then m k else Some ((case m k of None \<Rightarrow> [] | Some xs \<Rightarrow> xs) @ ips))"
  by (induction us arbitrary: m) (auto simp: Let_def split: option.splits)

lemma online_data_at:
  "online_data us k = (let ips = map IP (filter (\<lambda>u. UID u = k) us) in if ips = [] then None else Some ips)"
  unfolding online_data_def online_data_fold by simp

text \<open>The branch of the report in which nothing panics.\<close>

lemma report_runs:
  assumes "op_GetUserTrafficSlice C (c_tag c) True (core w) = (k, Inr ts)" "c_limiter c = Some a"
    and "ts \<noteq> [] \<longrightarrow> (\<forall>m. snd (ReportUserTraffic (pathJoin I) (push_reply I) ts (apiClient c)) \<noteq> Inl (Panic m))"
    and "\<forall>d m. snd (ReportNodeOnlineUsers (pathJoin I) (online_reply I) d (apiClient c)) \<noteq> Inl (Panic m)"
    and "GetOnlineDevice users ips (lims (limits w) a) = (l, devices)"
  shows "reportUserTrafficTask C I users ips (c, w) =
    ((at_limiter a (\<lambda>_. l) (w\<lparr>core := k\<rparr>),
      \<lparr>pushed = (if ts = [] then None else Some (push_data ts)),
       online = (if devices = [] then None
         else Some (online_data (online_result (DeviceOnlineMinTraffic (c_Options c)) ts devices)))\<rparr>), Inr ())"
proof -
  let ?d = "online_data (online_result (DeviceOnlineMinTraffic (c_Options c)) ts devices)"
  obtain r where r: "ReportNodeOnlineUsers (pathJoin I) (online_reply I) ?d (apiClient c) = (?d, r)"
    by (simp add: ReportNodeOnlineUsers_def)
  have o: "r = Inr () \<or> (\<exists>m. r = Inl (Err m))"
    using assms(4) r by (cases r; metis error.exhaust snd_conv unit.exhaust)
  obtain q where q: "ReportUserTraffic (pathJoin I) (push_reply I) ts (apiClient c) = (push_data ts, q)"
    by (simp add: ReportUserTraffic_def)
  have p: "ts \<noteq> [] \<Longrightarrow> q = Inr () \<or> (\<exists>m. q = Inl (Err m))"
    using assms(3) q by (cases q; metis error.exhaust snd_conv unit.exhaust)
  show ?thesis
  proof (cases "ts = []")
    case True
    then show ?thesis using o assms(1,2,5) r by (auto simp: reportUserTrafficTask_def Let_def)
  next
    case False
    then show ?thesis using o p assms(1,2,5) r q by (auto simp: reportUserTrafficTask_def Let_def)
  qed
qed

text \<open>
  What the panel is told about addresses on line. For each UID the report has the
  addresses of its devices, in the limiter's order, unless the traffic pushed in the same call
  has an entry of that UID below the threshold; a UID without an entry is reported.
\<close>

theorem online_report:
  assumes "op_GetUserTrafficSlice C (c_tag c) True (core w) = (k, Inr ts)" "c_limiter c = Some a"
    and "\<forall>m. snd (ReportUserTraffic (pathJoin I) (push_reply I) ts (apiClient c)) \<noteq> Inl (Panic m)"
    and "\<forall>d m. snd (ReportNodeOnlineUsers (pathJoin I) (online_reply I) d (apiClient c)) \<noteq> Inl (Panic m)"
    and "GetOnlineDevice users ips (lims (limits w) a) = (l, devices)" "devices \<noteq> []"
  shows "\<exists>w' rep body. reportUserTrafficTask C I users ips (c, w) = ((w', rep), Inr ()) \<and> online rep = Some body
    \<and> (\<forall>uid. body uid =
        (let xs = map IP (filter (\<lambda>d. UID d = uid) devices)
         in if xs = [] \<or> (\<exists>t\<in>set ts. ut_UID t = uid \<and> i64 (Upload t + Download t) < i64 (DeviceOnlineMinTraffic (c_Options c) * 1000))
            then None else Some xs))"
proof -
  let ?min = "DeviceOnlineMinTraffic (c_Options c)"
  let ?body = "online_data (online_result ?min ts devices)"
  have "?body uid = (let xs = map IP (filter (\<lambda>d. UID d = uid) devices)
      in if xs = [] \<or> (\<exists>t\<in>set ts. ut_UID t = uid \<and> i64 (Upload t + Download t) < i64 (?min * 1000)) then None else Some xs)" for uid
  proof -
    have n: "uid \<in> nocount ?min ts \<longleftrightarrow> (\<exists>t\<in>set ts. ut_UID t = uid \<and> i64 (Upload t + Download t) < i64 (?min * 1000))"
      by (auto simp: nocount_def)
    have f: "filter (\<lambda>d. UID d = uid) (online_result ?min ts devices) =
        (if uid \<in> nocount ?min ts then [] else filter (\<lambda>d. UID d = uid) devices)"
      unfolding online_result_def by (induction devices) auto
    show ?thesis unfolding online_data_at f n [symmetric] Let_def by simp
  qed
  with report_runs [OF assms(1,2) impI [OF assms(3)] assms(4,5)] assms(6) show ?thesis by auto
qed

lemma failed_not_panic:
  "snd (ReportUserTraffic f failed_reply ts cl) = Inl (Err (''request '' @ assembleURL f cl push_path @ '' failed: timeout''))"
  "snd (ReportNodeOnlineUsers f failed_reply d cl) = Inr ()"
  by (simp_all add: ReportUserTraffic_def ReportNodeOnlineUsers_def checkResponse_def failed_reply_def)

theorem online_report_witness:
  "\<exists>w' rep body. reportUserTrafficTask plain_hy (example_io failed_reply [] []) [''n|aaaa''] (\<lambda>_. [''1.1.1.1''])
      (example_ctl '''', at_limiter 0 (\<lambda>l. l\<lparr>UserOnlineIP := [''n|aaaa'' \<mapsto> [''1.1.1.1'' \<mapsto> 1]]\<rparr>) world_a) = ((w', rep), Inr ())
    \<and> online rep = Some body \<and> body 1 = Some [''1.1.1.1'']"
proof -
  let ?I = "example_io failed_reply [] []" and ?c = "example_ctl ''''"
  let ?w = "at_limiter 0 (\<lambda>l. l\<lparr>UserOnlineIP := [''n|aaaa'' \<mapsto> [''1.1.1.1'' \<mapsto> 1]]\<rparr>) world_a"
  have t: "op_GetUserTrafficSlice plain_hy (c_tag ?c) True (core ?w) = (hy_a, Inr [])"
    by (simp add: plain_hy_def hy_ops_def hy_GetUserTrafficSlice_def example_ctl_def world_a_def hy_a_def hy_one_def)
  have c: "c_limiter ?c = Some 0" by (simp add: example_ctl_def)
  have p: "\<forall>m. snd (ReportUserTraffic (pathJoin ?I) (push_reply ?I) [] (apiClient ?c)) \<noteq> Inl (Panic m)"
    "\<forall>d m. snd (ReportNodeOnlineUsers (pathJoin ?I) (online_reply ?I) d (apiClient ?c)) \<noteq> Inl (Panic m)"
    by (simp_all add: example_io_def failed_not_panic)
  obtain l where g: "GetOnlineDevice [''n|aaaa''] (\<lambda>_. [''1.1.1.1'']) (lims (limits ?w) 0) = (l, [\<lparr>UID = 1, IP = ''1.1.1.1''\<rparr>])"
    by (simp add: GetOnlineDevice_def online_visit_def world_a_def make_limiter_def Let_def)
  from online_report [OF t c p g] obtain w' rep body where
    r: "reportUserTrafficTask plain_hy ?I [''n|aaaa''] (\<lambda>_. [''1.1.1.1'']) (?c, ?w) = ((w', rep), Inr ())" "online rep = Some body"
    and b: "\<And>uid. body uid = (let xs = map IP (filter (\<lambda>d. UID d = uid) [\<lparr>UID = 1, IP = ''1.1.1.1''\<rparr>])
         in if xs = [] \<or> (\<exists>t\<in>set []. ut_UID t = uid \<and> i64 (Upload t + Download t) < i64 (DeviceOnlineMinTraffic (c_Options ?c) * 1000))
            then None else Some xs)" by auto
  have "body 1 = Some [''1.1.1.1'']" unfolding b by (simp add: Let_def)
  with r show ?thesis by blast
qed


definition hy_full :: hy2 where
  "hy_full =
     \<lparr>Hy2nodes = [''n'' \<mapsto> \<lparr>hk_Tag = ''n'', hk_Counter = [''n'' \<mapsto> [''aaaa'' \<mapsto> 0]], ReportMinTrafficBytes = 0\<rparr>],
      usersMap = [''aaaa'' \<mapsto> 1],
      hy_store = \<lparr>storages = \<lambda>_. \<lparr>UpCounter = 100, DownCounter = 0\<rparr>, next_addr = 1\<rparr>\<rparr>"


subsection \<open>Nodes that did not start\<close>

lemma node_Close_nil: "None \<in> set cs \<Longrightarrow> \<exists>m. snd (node_Close C cs w) = Inl (Panic m)"
proof (induction cs arbitrary: w)
  case (Cons x cs)
  show ?case
  proof (cases x)
    case (Some c)
    obtain c1 w1 r where k: "ctl_Close C (c, w) = ((c1, w1), r)" by (metis prod.collapse)
    show ?thesis
    proof (cases r)
      case (Inl e)
      with Some k show ?thesis by (cases e) simp_all
    next
      case (Inr u)
      with Some k Cons show ?thesis by simp
    qed
  qed simp
qed simp

lemma start_all_shape:
  assumes "start_all C ns w = ((cs, w1), r)"
  shows "length cs = length ns \<and> (r = Inr () \<longrightarrow> None \<notin> set cs)
    \<and> (r \<noteq> Inr () \<longrightarrow> (\<exists>i<length ns. (\<forall>j<i. cs ! j \<noteq> None) \<and> (\<forall>j<length ns. i < j \<longrightarrow> cs ! j = None)))"
  using assms
proof (induction ns arbitrary: w cs)
  case (Cons nI ns)
  obtain n I where nI: "nI = (n, I)" by (metis prod.collapse)
  obtain api p where new: "New (nc_ApiConfig n) = (api, p)" by (metis prod.collapse)
  have rest: "i < length ns \<Longrightarrow> replicate (length ns) None ! i = None" for i by simp
  show ?case
  proof (cases p)
    case (Inl e)
    with Cons.prems nI new have "cs = None # replicate (length ns) None" "r = Inl e" by (simp_all add: Let_def)
    then show ?thesis by (auto intro!: exI [of _ 0] simp: nth_Cons')
  next
    case (Inr cl)
    obtain c w2 q where s: "ctl_Start C I (NewController cl (nc_Options n), w) = ((c, w2), q)" by (metis prod.collapse)
    show ?thesis
    proof (cases q)
      case (Inl e)
      with Cons.prems nI new s Inr have "cs = Some c # replicate (length ns) None" "\<exists>e. r = Inl e" by (auto simp: Let_def)
      then show ?thesis by (auto intro!: exI [of _ 0] simp: nth_Cons')
    next
      case q: (Inr u)
      obtain cs' w3 r' where a: "start_all C ns w2 = ((cs', w3), r')" by (metis prod.collapse)
      with Cons.prems nI new s Inr q have e: "cs = Some c # cs'" "r' = r" "w3 = w1" by (simp_all add: Let_def)
      note ih = Cons.IH [OF a [unfolded e(2,3)]]
      show ?thesis
      proof (cases "r = Inr ()")
        case False
        with ih e obtain i where i: "i < length ns" "\<forall>j<i. cs' ! j \<noteq> None" "\<forall>j<length ns. i < j \<longrightarrow> cs' ! j = None" by blast
        have "(\<forall>j<Suc i. cs ! j \<noteq> None) \<and> (\<forall>j<length (nI # ns). Suc i < j \<longrightarrow> cs ! j = None)"
          using i by (auto simp: e nth_Cons split: nat.split)
        with i(1) ih False e show ?thesis by (intro conjI impI exI [of _ "Suc i"]) auto
      qed (use ih e in simp)
    qed
  qed
qed simp

text \<open>
  C8: closing nodes that did not all start panics. When Start fails at a node, the controllers
  before it are there and the slots behind it stay nil; if it is not the last, Close, which a
  reload of the configuration calls first, panics whatever state the process is in by then.
\<close>

theorem close_after_failed_start_panics:
  assumes "node_Start C nodes w = ((cs, w1), Inl e)"
  shows "\<exists>i<length nodes. length cs = length nodes \<and> (\<forall>j<i. cs ! j \<noteq> None)
    \<and> (\<forall>j<length nodes. i < j \<longrightarrow> cs ! j = None)
    \<and> (i + 1 < length nodes \<longrightarrow> (\<exists>m. snd (node_Close C cs w2) = Inl (Panic m)))"
proof -
  have s: "start_all C nodes w = ((cs, w1), Inl e)" using assms(1) by (simp add: node_Start_def)
  from start_all_shape [OF s] obtain i where l: "length cs = length nodes" and i: "i < length nodes"
    "\<forall>j<i. cs ! j \<noteq> None" "\<forall>j<length nodes. i < j \<longrightarrow> cs ! j = None" by auto
  have "\<exists>m. snd (node_Close C cs w2) = Inl (Panic m)" if "i + 1 < length nodes"
  proof -
    have "cs ! (i + 1) = None" "i + 1 < length cs" using that i(3) l by simp_all
    then have "None \<in> set cs" by (metis nth_mem)
    then show ?thesis by (rule node_Close_nil)
  qed
  with l i show ?thesis by blast
qed

definition bad_node :: NodeConfig where
  "bad_node = \<lparr>nc_ApiConfig = default_api\<lparr>ac_NodeType := ''socks''\<rparr>, nc_Options = default_options\<rparr>"

theorem close_after_failed_start_panics_witness:
  "\<exists>cs w1 e m. node_Start plain_hy [(bad_node, example_io failed_reply [] []), (bad_node, example_io failed_reply [] [])] world_a
      = ((cs, w1), Inl e) \<and> snd (node_Close plain_hy cs w1) = Inl (Panic m)"
proof -
  have t: "toLower ''socks'' = ''socks''" by code_simp
  have n: "\<exists>api e. New (nc_ApiConfig bad_node) = (api, Inl e)"
    by (simp add: New_def bad_node_def node_type_of_def t Let_def)
  let ?ns = "[(bad_node, example_io failed_reply [] []), (bad_node, example_io failed_reply [] [])]"
  obtain cs e where s: "node_Start plain_hy ?ns world_a = ((cs, world_a), Inl e)" "cs = [None, None]"
    using n by (auto simp: node_Start_def Let_def)
  from close_after_failed_start_panics [OF s(1), of world_a] obtain i where i: "i < length ?ns" "\<forall>j<i. cs ! j \<noteq> None"
    "i + 1 < length ?ns \<longrightarrow> (\<exists>m. snd (node_Close plain_hy cs world_a) = Inl (Panic m))" by blast
  have "i = 0" using i(2) s(2) by (metis gr0I nth_Cons_0)
  with i(3) have "\<exists>m. snd (node_Close plain_hy cs world_a) = Inl (Panic m)" by simp
  with s(1) show ?thesis by blast
qed

end
