(* ===== verification/Crypt.thy ===== *)
theory Crypt
  imports Prelude Go_Base64 "HOL-Library.Word"
begin

unbundle bit_operations_syntax

text \<open>
  common/crypt/x25519.go, common/crypt/aes.go and the key generator that uses the first,
  cmd/x25519.go, with the colours of cmd/common.go. SHA-256, the multiplication on the curve
  and the block permutation of AES are parameters.
\<close>

subsection \<open>x25519.go\<close>

definition GenX25519Private :: "(string \<Rightarrow> 8 word list) \<Rightarrow> string \<Rightarrow> 8 word list" where
  "GenX25519Private Sum256 data =
     (let key = Sum256 data;
          key = key[0 := key ! 0 AND 248];
          key = key[31 := key ! 31 AND 127];
          key = key[31 := key ! 31 OR 64]
      in take 32 key)"

text \<open>A scalar is the number of its bytes, the lowest first.\<close>

fun le_value :: "8 word list \<Rightarrow> int" where
  "le_value [] = 0"
| "le_value (b # bs) = uint b + 256 * le_value bs"

lemma le_value_append: "le_value (as @ bs) = le_value as + 256 ^ length as * le_value bs"
  by (induction as) (simp_all add: algebra_simps)

lemma le_value_bounds: "0 \<le> le_value bs \<and> le_value bs < 256 ^ length bs"
proof (induction bs)
  case (Cons b bs)
  have "0 \<le> uint b" "uint b < 256" using uint_lt2p [of b] by simp_all
  with Cons show ?case by simp
qed simp

lemma low_bits_cleared: "8 dvd uint (b AND 248 :: 8 word)"
proof -
  have "take_bit 3 (uint (b AND 248)) = take_bit 3 (uint b) AND take_bit 3 (248 :: int)"
    by (simp add: uint_and take_bit_and)
  also have "\<dots> = 0" by (simp add: take_bit_eq_mod)
  finally show ?thesis by (simp add: take_bit_eq_0_iff)
qed

lemma high_bits_set: "64 \<le> uint ((t AND 127) OR 64 :: 8 word) \<and> uint ((t AND 127) OR 64) < 128"
proof -
  let ?x = "uint t AND 127 :: int"
  have u: "uint ((t AND 127) OR 64) = ?x OR 64" by (simp add: uint_and uint_or)
  have "64 OR ?x \<ge> 64" by (intro or_greater_eq) simp
  moreover have "?x OR 64 < 2 ^ 7"
    by (rule OR_upper) (use AND_upper2 [of 127 "uint t"] in simp_all)
  ultimately show ?thesis unfolding u by (simp add: or.commute)
qed

lemma clamped_bounds:
  fixes lo m hi :: int
  assumes "0 \<le> lo" "lo < 256" "0 \<le> m" "m < 256 ^ 30" "64 \<le> hi" "hi \<le> 127"
  shows "2 ^ 254 \<le> lo + 256 * m + 256 ^ 31 * hi" "lo + 256 * m + 256 ^ 31 * hi < 2 ^ 255"
  using assms by simp_all

text \<open>
  The generated scalars are clamped. Whatever the hash of the data is, the private key has
  32 bytes, is a multiple of 8 (the cofactor) and lies between 2^254 and 2^255, as RFC 7748
  asks of an X25519 scalar.
\<close>

theorem x25519_key_clamped:
  assumes "length (Sum256 data) = 32"
  shows "length (GenX25519Private Sum256 data) = 32
    \<and> 8 dvd le_value (GenX25519Private Sum256 data)
    \<and> 2 ^ 254 \<le> le_value (GenX25519Private Sum256 data)
    \<and> le_value (GenX25519Private Sum256 data) < 2 ^ 255"
proof -
  let ?k = "Sum256 data"
  obtain b bs where k: "?k = b # bs" "length bs = 31" using assms by (cases ?k) auto
  obtain mid t where bs: "bs = mid @ [t]" "length mid = 30" using k(2) by (cases bs rule: rev_cases) auto
  let ?m = "le_value mid" and ?lo = "uint (b AND 248)" and ?hi = "uint ((t AND 127) OR 64)"
  have g: "GenX25519Private Sum256 data = (b AND 248) # mid @ [(t AND 127) OR 64]"
    by (simp add: GenX25519Private_def k(1) bs nth_append list_update_append)
  then have v: "le_value (GenX25519Private Sum256 data) = ?lo + 256 * ?m + 256 ^ 31 * ?hi"
    by (simp add: le_value_append bs(2) algebra_simps)
  have lo: "8 dvd ?lo" "0 \<le> ?lo" "?lo < 256"
    using low_bits_cleared [of b] uint_lt2p [of "b AND 248"] by simp_all
  have m: "0 \<le> ?m" "?m < 256 ^ 30" using le_value_bounds [of mid] bs(2) by simp_all
  have hi: "64 \<le> ?hi" "?hi \<le> 127" using high_bits_set [of t] by simp_all
  have "8 dvd ?lo + 256 * ?m + 256 ^ 31 * ?hi"
    using lo(1) by (intro dvd_add dvd_mult2) (simp_all add: dvd_def)
  with clamped_bounds [OF lo(2,3) m hi] show ?thesis unfolding v by (simp add: g bs(2))
qed

theorem x25519_key_clamped_witness:
  "8 dvd le_value (GenX25519Private (\<lambda>_. replicate 32 255) ''1vlesstoken'')
    \<and> le_value (GenX25519Private (\<lambda>_. replicate 32 255) ''1vlesstoken'') < 2 ^ 255"
  using x25519_key_clamped [of "\<lambda>_. replicate 32 255" "''1vlesstoken''"] by simp

subsection \<open>cmd/common.go and cmd/x25519.go\<close>

text \<open>033 in octal is the escape character.\<close>

definition red :: string where "red = CHR 0x1B # ''[0;31m''"
definition green :: string where "green = CHR 0x1B # ''[0;32m''"
definition yellow :: string where "yellow = CHR 0x1B # ''[0;33m''"
definition plain :: string where "plain = CHR 0x1B # ''[0m''"

definition coloured :: "string \<Rightarrow> string list \<Rightarrow> string" where
  "coloured c msg = c @ concat msg @ plain"

definition Err_msg :: "string list \<Rightarrow> string" where "Err_msg = coloured red"
definition Ok_msg :: "string list \<Rightarrow> string" where "Ok_msg = coloured green"
definition Warn_msg :: "string list \<Rightarrow> string" where "Warn_msg = coloured yellow"

text \<open>
  checkRunning asks the shell; run is RunCommandByShell, an error or the output.
\<close>

definition checkRunning :: "(string \<Rightarrow> string + string) \<Rightarrow> string + bool" where
  "checkRunning run =
     (case run ''systemctl status V2bX | grep Active'' of Inl e \<Rightarrow> Inl e | Inr out \<Rightarrow> Inr (contains out ''running''))"

definition bytes_str :: "8 word list \<Rightarrow> string" where
  "bytes_str bs = map (\<lambda>b. char_of (unat b)) bs"

text \<open>
  What the user typed is the answer to the question and, for a key that belongs to a node, the
  node's id, its type and the token; rand is the result of reading 32 random bytes and curve
  the multiplication of the base point. The result is the line that is printed at the end.
\<close>

definition executeX25519 ::
  "(string \<Rightarrow> 8 word list) \<Rightarrow> (8 word list \<Rightarrow> string + 8 word list) \<Rightarrow> string + 8 word list \<Rightarrow> string
   \<Rightarrow> string \<times> string \<times> string \<Rightarrow> string" where
  "executeX25519 Sum256 curve rand yes scanned =
     (case (if toLower yes = ''y''
            then (case scanned of (nodeId, nodeType, token) \<Rightarrow> Inr (GenX25519Private Sum256 (nodeId @ toLower nodeType @ token)))
            else rand) of
        Inl e \<Rightarrow> Err_msg [''read rand error: '', e]
      | Inr privateKey \<Rightarrow>
          (case curve privateKey of
             Inl e \<Rightarrow> Err_msg [''gen X25519 error: '', e]
           | Inr publicKey \<Rightarrow>
               ''Private key: '' @ RawURLEncode (bytes_str privateKey) @ [CHR 0x0A] @ ''Public key: ''
               @ RawURLEncode (bytes_str publicKey)))"

subsection \<open>aes.go\<close>

text \<open>
  encipher and decipher are the permutation of a block of 16 bytes under a key of 16, 24 or 32;
  on a shorter source the methods of Go's cipher panic, and they leave what follows the first
  block of the destination as it was made, zero.
\<close>

definition aes_block ::
  "(string \<Rightarrow> string \<Rightarrow> string) \<Rightarrow> string \<Rightarrow> nat \<Rightarrow> string \<Rightarrow> string result" where
  "aes_block perm key dstLen src =
     (if length src < 16 then Inl (Panic ''crypto/aes: input not full block'')
      else if dstLen < 16 then Inl (Panic ''crypto/aes: output not full block'')
      else Inr (perm key (take 16 src) @ replicate (dstLen - 16) (CHR 0x00)))"

definition aes_key :: "string \<Rightarrow> unit result" where
  "aes_key key = (if length key \<in> {16, 24, 32} then Inr () else Inl (Err ''crypto/aes: invalid key size''))"

definition AesEncrypt :: "(string \<Rightarrow> string \<Rightarrow> string) \<Rightarrow> string \<Rightarrow> string \<Rightarrow> string result" where
  "AesEncrypt encipher data key =
     bind_res (aes_key key) (\<lambda>_.
     bind_res (aes_block encipher key (length data) data) (\<lambda>en. Inr (EncodeToString en)))"

definition AesDecrypt :: "(string \<Rightarrow> string \<Rightarrow> string) \<Rightarrow> string \<Rightarrow> string \<Rightarrow> string result" where
  "AesDecrypt decipher data key =
     (case DecodeString data of
        None \<Rightarrow> Inl (Err ''illegal base64 data'')
      | Some d \<Rightarrow> bind_res (aes_key key) (\<lambda>_. aes_block decipher key (length data) d))"

lemma base64_longer: "0 < n \<Longrightarrow> n < 4 * ((n + 2) div 3)" for n :: nat
  by presburger

text \<open>
  There is no round trip. What AesEncrypt makes of at least one block, AesDecrypt turns
  into the first 16 bytes and then zeros up to the length of the base64 text: the rest of the
  data was never enciphered, and the result is longer than any data it came from, so that it
  is never the data.
\<close>

theorem aes_round_trip_fails:
  assumes "length key \<in> {16, 24, 32}" "16 \<le> length data"
    and block: "\<And>b. length b = 16 \<Longrightarrow> length (encipher key b) = 16 \<and> decipher key (encipher key b) = b"
  shows "\<exists>c. AesEncrypt encipher data key = Inr c
    \<and> AesDecrypt decipher c key = Inr (take 16 data @ replicate (4 * ((length data + 2) div 3) - 16) (CHR 0x00))
    \<and> AesDecrypt decipher c key \<noteq> Inr data"
proof -
  let ?en = "encipher key (take 16 data) @ replicate (length data - 16) (CHR 0x00)"
  let ?n = "4 * ((length data + 2) div 3)"
  have b: "length (encipher key (take 16 data)) = 16" "decipher key (encipher key (take 16 data)) = take 16 data"
    using block [of "take 16 data"] assms(2) by simp_all
  have l: "length (EncodeToString ?en) = ?n" using assms(2) b(1) by (simp add: EncodeToString_length)
  have n: "length data < ?n" using assms(2) base64_longer [of "length data"] by linarith
  have e: "AesEncrypt encipher data key = Inr (EncodeToString ?en)"
    using assms(1,2) by (auto simp: AesEncrypt_def aes_key_def aes_block_def)
  have "length ?en \<ge> 16" "take 16 ?en = encipher key (take 16 data)" using b(1) by simp_all
  moreover have "\<not> ?n < 16" using n assms(2) by linarith
  ultimately have "aes_block decipher key (length (EncodeToString ?en)) ?en
      = Inr (take 16 data @ replicate (?n - 16) (CHR 0x00))"
    by (simp add: aes_block_def l b(2) del: take_append)
  then have d: "AesDecrypt decipher (EncodeToString ?en) key = Inr (take 16 data @ replicate (?n - 16) (CHR 0x00))"
    using assms(1) by (simp add: AesDecrypt_def DecodeString_EncodeToString aes_key_def)
  have "length (take 16 data @ replicate (?n - 16) (CHR 0x00)) = ?n" using n assms(2) by simp
  then have "take 16 data @ replicate (?n - 16) (CHR 0x00) \<noteq> data" using n by (metis less_irrefl)
  with e d show ?thesis by (metis sum.inject(2))
qed

theorem aes_round_trip_fails_witness:
  "\<exists>c. AesEncrypt (\<lambda>_. rev) (replicate 16 CHR ''a'') (replicate 16 CHR ''k'') = Inr c
    \<and> AesDecrypt (\<lambda>_. rev) c (replicate 16 CHR ''k'') = Inr (replicate 16 CHR ''a'' @ replicate 8 (CHR 0x00))"
proof -
  have "length (replicate 16 CHR ''k'') \<in> {16, 24, 32}" "16 \<le> length (replicate 16 CHR ''a'')" by simp_all
  from aes_round_trip_fails [OF this, where encipher = "\<lambda>_. rev" and decipher = "\<lambda>_. rev"]
  obtain c where "AesEncrypt (\<lambda>_. rev) (replicate 16 CHR ''a'') (replicate 16 CHR ''k'') = Inr c"
    "AesDecrypt (\<lambda>_. rev) c (replicate 16 CHR ''k'') =
      Inr (take 16 (replicate 16 CHR ''a'') @ replicate (4 * ((length (replicate 16 CHR ''a'') + 2) div 3) - 16) (CHR 0x00))"
    by auto
  moreover have "4 * ((length (replicate 16 CHR ''a'') + 2) div 3) - 16 = 8" by simp
  ultimately show ?thesis by (metis length_replicate order_refl take_all)
qed

end
