(* ===== verification/Commands.thy ===== *)
theory Commands
  imports Crypt
begin

text \<open>
  The other commands of the program: cmd/action_linux.go, cmd/install_linux.go,
  cmd/synctime.go and cmd/bbr_linux.go, with common/exec/exec.go. A command is what it does to
  the host, in order; what the host answers may depend on what was done before.
\<close>

subsection \<open>The host\<close>

datatype action =
    Shell string string
  | Std string "string list"
  | Print string
  | Scan
  | Sleep int
  | RemoveAll string
  | SetSystemTime int

text \<open>Why a program did not end well; one that could not be found is told apart.\<close>

datatype run_error = NotFound string | Failed string

fun run_message :: "run_error \<Rightarrow> string" where
  "run_message (NotFound m) = m"
| "run_message (Failed m) = m"

record host =
  shell :: "action list \<Rightarrow> string \<Rightarrow> string \<Rightarrow> string \<times> run_error option"
  typed :: string
  ntp_Time :: "string \<Rightarrow> string + int"
  settime :: "int \<Rightarrow> string option"
  on_disk :: "string \<Rightarrow> bool"

subsection \<open>exec.go\<close>

definition RunCommandByShell :: "host \<Rightarrow> string \<Rightarrow> action list \<Rightarrow> action list \<times> string \<times> string option" where
  "RunCommandByShell H cmd h =
     (let h1 = h @ [Shell ''bash'' cmd] in
      case shell H h ''bash'' cmd of
        (out, Some (NotFound _)) \<Rightarrow>
          (case shell H h1 ''sh'' cmd of
             (out, err) \<Rightarrow> (h1 @ [Shell ''sh'' cmd], out, map_option run_message err))
      | (out, err) \<Rightarrow> (h1, out, map_option run_message err))"

text \<open>The result is dropped.\<close>

definition RunCommandStd :: "string \<Rightarrow> string list \<Rightarrow> action list \<Rightarrow> action list" where
  "RunCommandStd name args h = h @ [Std name args]"

definition check_running :: "host \<Rightarrow> action list \<Rightarrow> action list \<times> (string + bool)" where
  "check_running H h =
     (case RunCommandByShell H ''systemctl status V2bX | grep Active'' h of
        (h1, out, err) \<Rightarrow> (h1, checkRunning (\<lambda>_. case err of Some e \<Rightarrow> Inl e | None \<Rightarrow> Inr out)))"

subsection \<open>Messages\<close>

text \<open>The bytes of a text in UTF-8.\<close>

definition bytes :: "nat list \<Rightarrow> string" where
  "bytes bs = map char_of bs"

definition start_failed :: string where
  "start_failed = ''V2bX'' @ bytes [229, 144, 175, 229, 138, 168, 229, 164, 177, 232, 180, 165]"
definition already_runs :: string where
  "already_runs = ''V2bX'' @ bytes [229, 183, 178, 232, 191, 144, 232, 161, 140, 239, 188, 140, 230, 151, 160, 233, 156,
     128, 229, 134, 141, 230, 172, 161, 229, 144, 175, 229, 138, 168, 239, 188, 140, 229, 166, 130, 233,
     156, 128, 233, 135, 141, 229, 144, 175, 232, 175, 183, 233, 128, 137, 230, 139, 169, 233, 135, 141,
     229, 144, 175]"
definition start_unsure :: string where
  "start_unsure = ''V2bX'' @ bytes [229, 143, 175, 232, 131, 189, 229, 144, 175, 229, 138, 168, 229, 164, 177, 232, 180,
     165, 239, 188, 140, 232, 175, 183, 231, 168, 141, 229, 144, 142, 228, 189, 191, 231, 148, 168] @ ''
     V2bX log '' @ bytes [230, 159, 165, 231, 156, 139, 230, 151, 165, 229, 191, 151, 228, 191, 161, 230,
     129, 175]"
definition started :: string where
  "started = ''V2bX '' @ bytes [229, 144, 175, 229, 138, 168, 230, 136, 144, 229, 138, 159, 239, 188, 140, 232, 175,
     183, 228, 189, 191, 231, 148, 168] @ '' V2bX log '' @ bytes [230, 159, 165, 231, 156, 139, 232, 191,
     144, 232, 161, 140, 230, 151, 165, 229, 191, 151]"
definition stop_failed :: string where
  "stop_failed = ''V2bX'' @ bytes [229, 129, 156, 230, 173, 162, 229, 164, 177, 232, 180, 165]"
definition stop_late :: string where
  "stop_late = ''V2bX'' @ bytes [229, 129, 156, 230, 173, 162, 229, 164, 177, 232, 180, 165, 239, 188, 140, 229, 143,
     175, 232, 131, 189, 230, 152, 175, 229, 155, 160, 228, 184, 186, 229, 129, 156, 230, 173, 162, 230,
     151, 182, 233, 151, 180, 232, 182, 133, 232, 191, 135, 228, 186, 134, 228, 184, 164, 231, 167, 146,
     239, 188, 140, 232, 175, 183, 231, 168, 141, 229, 144, 142, 230, 159, 165, 231, 156, 139, 230, 151,
     165, 229, 191, 151, 228, 191, 161, 230, 129, 175]"
definition stopped :: string where
  "stopped = ''V2bX '' @ bytes [229, 129, 156, 230, 173, 162, 230, 136, 144, 229, 138, 159]"
definition restart_failed :: string where
  "restart_failed = ''V2bX'' @ bytes [233, 135, 141, 229, 144, 175, 229, 164, 177, 232, 180, 165]"
definition restarted :: string where
  "restarted = ''V2bX'' @ bytes [233, 135, 141, 229, 144, 175, 230, 136, 144, 229, 138, 159]"
definition ask_uninstall :: string where
  "ask_uninstall = bytes [231, 161, 174, 229, 174, 154, 232, 166, 129, 229, 141, 184, 232, 189, 189] @ '' V2bX '' @ bytes
     [229, 144, 151] @ ''?(Y/n)''"
definition cancelled :: string where
  "cancelled = bytes [229, 183, 178, 229, 143, 150, 230, 182, 136, 229, 141, 184, 232, 189, 189]"
definition uninstall_failed :: string where
  "uninstall_failed = bytes [229, 141, 184, 232, 189, 189, 229, 164, 177, 232, 180, 165]"
definition uninstalled :: string where
  "uninstalled = bytes [229, 141, 184, 232, 189, 189, 230, 136, 144, 229, 138, 159]"
definition sync_failed :: string where
  "sync_failed = bytes [229, 144, 140, 230, 173, 165, 230, 151, 182, 233, 151, 180, 229, 164, 177, 232, 180, 165]"
definition synced :: string where
  "synced = bytes [229, 144, 140, 230, 173, 165, 230, 151, 182, 233, 151, 180, 230, 136, 144, 229, 138, 159]"
definition bbr_starts :: string where
  "bbr_starts = bytes [230, 173, 163, 229, 156, 168, 229, 144, 175, 229, 138, 168] @ '' V2bX-Turbo '' @ bytes [230, 158,
     129, 233, 128, 159, 231, 189, 145, 231, 187, 156, 232, 176, 131, 228, 188, 152, 229, 188, 149, 230,
     147, 142] @ '' (BBR Turbo Extreme)...''"

definition say_err :: "string list \<Rightarrow> action" where "say_err m = Print (Err_msg m)"
definition say_ok :: "string \<Rightarrow> action" where "say_ok m = Print (Ok_msg [m])"

subsection \<open>action_linux.go\<close>

text \<open>After an error of the second look at the status, running is false.\<close>

definition startHandle :: "host \<Rightarrow> action list \<Rightarrow> action list" where
  "startHandle H h =
     (case check_running H h of
        (h1, Inl e) \<Rightarrow> h1 @ [say_err [''check status error: '', e], say_err [start_failed]]
      | (h1, Inr r) \<Rightarrow>
          (case RunCommandByShell H ''systemctl start V2bX.service'' (if r then h1 @ [say_ok already_runs] else h1) of
             (h2, _, Some e) \<Rightarrow> h2 @ [say_err [''exec start cmd error: '', e], say_err [start_failed]]
           | (h2, _, None) \<Rightarrow>
               (case check_running H (h2 @ [Sleep (3 * 1000000000)]) of
                  (h3, Inl e) \<Rightarrow> h3 @ [say_err [''check status error: '', e], say_err [start_failed], say_err [start_unsure]]
                | (h3, Inr False) \<Rightarrow> h3 @ [say_err [start_unsure]]
                | (h3, Inr True) \<Rightarrow> h3 @ [say_ok started])))"

definition stopHandle :: "host \<Rightarrow> action list \<Rightarrow> action list" where
  "stopHandle H h =
     (case RunCommandByShell H ''systemctl stop V2bX.service'' h of
        (h1, _, Some e) \<Rightarrow> h1 @ [say_err [''exec stop cmd error: '', e], say_err [stop_failed]]
      | (h1, _, None) \<Rightarrow>
          (case check_running H (h1 @ [Sleep (2 * 1000000000)]) of
             (h2, Inl e) \<Rightarrow> h2 @ [say_err [''check status error:'', e], say_err [stop_failed]]
           | (h2, Inr True) \<Rightarrow> h2 @ [say_err [stop_late]]
           | (h2, Inr False) \<Rightarrow> h2 @ [say_ok stopped]))"

definition restartHandle :: "host \<Rightarrow> action list \<Rightarrow> action list" where
  "restartHandle H h =
     (case RunCommandByShell H ''systemctl restart V2bX.service'' h of
        (h1, _, Some e) \<Rightarrow> h1 @ [say_err [''exec restart cmd error: '', e], say_err [restart_failed]]
      | (h1, _, None) \<Rightarrow>
          (case check_running H h1 of
             (h2, Inl e) \<Rightarrow> h2 @ [say_err [''check status error: '', e], say_err [restart_failed]]
           | (h2, Inr False) \<Rightarrow> h2 @ [say_err [start_unsure]]
           | (h2, Inr True) \<Rightarrow> h2 @ [say_ok restarted]))"

definition logHandle :: "action list \<Rightarrow> action list" where
  "logHandle h = RunCommandStd ''journalctl'' [''-u'', ''V2bX.service'', ''-e'', ''--no-pager'', ''-f''] h"

subsection \<open>install_linux.go\<close>

definition updateHandle :: "string \<Rightarrow> action list \<Rightarrow> action list" where
  "updateHandle targetVersion h =
     RunCommandStd ''bash''
       [''<(curl -Ls https://raw.githubusercontents.com/InazumaV/V2bX-script/master/install.sh)'', targetVersion] h"

definition uninstallHandle :: "host \<Rightarrow> action list \<Rightarrow> action list" where
  "uninstallHandle H h =
     (let h1 = h @ [Print (Warn_msg [ask_uninstall]), Scan];
          h2 = (if toLower (typed H) \<noteq> ''y'' then h1 @ [Print cancelled] else h1)
      in case RunCommandByShell H ''systemctl stop V2bX&&systemctl disable V2bX'' h2 of
           (h3, _, Some e) \<Rightarrow> h3 @ [say_err [''exec cmd error: '', e], say_err [uninstall_failed]]
         | (h3, _, None) \<Rightarrow>
             (case RunCommandByShell H ''systemctl daemon-reload&&systemctl reset-failed''
                     (h3 @ [RemoveAll ''/etc/systemd/system/V2bX.service'', RemoveAll ''/etc/V2bX/'',
                            RemoveAll ''/usr/local/V2bX/'', RemoveAll ''/bin/V2bX'']) of
                (h4, _, Some e) \<Rightarrow> h4 @ [say_err [''exec cmd error: '', e], say_err [uninstall_failed]]
              | (h4, _, None) \<Rightarrow> h4 @ [say_ok uninstalled]))"

subsection \<open>synctime.go and bbr_linux.go\<close>

definition synctimeHandle :: "host \<Rightarrow> string \<Rightarrow> action list \<Rightarrow> action list" where
  "synctimeHandle H ntpServer h =
     (case ntp_Time H ntpServer of
        Inl e \<Rightarrow> h @ [say_err [''get time from server error: '', e], say_err [sync_failed]]
      | Inr t \<Rightarrow>
          (case settime H t of
             Some e \<Rightarrow> h @ [SetSystemTime t, say_err [''set system time error: '', e], say_err [sync_failed]]
           | None \<Rightarrow> h @ [SetSystemTime t, say_ok synced]))"

definition bbrHandle :: "host \<Rightarrow> action list \<Rightarrow> action list" where
  "bbrHandle H h =
     (let h1 = h @ [say_ok bbr_starts] in
      if on_disk H ''/usr/local/V2bX/bbr_turbo.sh'' then RunCommandStd ''bash'' [''/usr/local/V2bX/bbr_turbo.sh''] h1
      else RunCommandStd ''bash'' [''-c'', ''curl -fsSL https://raw.githubusercontent.com/sbpoem-stack/V2bX-Turbo/main/bbr_turbo.sh | bash''] h1)"

subsection \<open>Properties\<close>

text \<open>What a program run through the shell leaves behind: it is entered, and nothing before it changes.\<close>

lemma shell_extends:
  assumes "RunCommandByShell H cmd h = (h', out, err)"
  shows "\<exists>k. h' = h @ k \<and> Shell ''bash'' cmd \<in> set k \<and> (\<forall>a\<in>set k. \<exists>s. a = Shell s cmd)"
  using assms by (auto simp: RunCommandByShell_def Let_def split: prod.splits option.splits run_error.splits)

lemma plain_text: "hd cancelled = char_of (229 :: nat)" "cancelled \<noteq> []"
  by (simp_all add: cancelled_def bytes_def)

lemma coloured_hd: "hd (Err_msg m) = CHR 0x1B" "hd (Ok_msg m) = CHR 0x1B" "hd (Warn_msg m) = CHR 0x1B"
  by (simp_all add: Err_msg_def Ok_msg_def Warn_msg_def coloured_def red_def green_def yellow_def)

lemma cancelled_not_coloured [simp]:
  "cancelled \<noteq> Err_msg m" "cancelled \<noteq> Ok_msg m" "cancelled \<noteq> Warn_msg m"
proof -
  have "char_of (229 :: nat) \<noteq> CHR 0x1B" by code_simp
  then show "cancelled \<noteq> Err_msg m" "cancelled \<noteq> Ok_msg m" "cancelled \<noteq> Warn_msg m"
    using plain_text(1) coloured_hd [of m] by metis+
qed

lemma cancelled_not_said [simp]: "Print cancelled \<noteq> say_err m" "Print cancelled \<noteq> say_ok t"
  by (simp_all add: say_err_def say_ok_def)

text \<open>
  C25: uninstall does not wait for a yes. Whatever was typed at the question, n or nothing
  included, a host on which the service can be stopped loses the unit, the configuration, the
  program's directory and its link; the only trace of the answer is the line that says that
  the uninstallation was cancelled.
\<close>

theorem uninstall_ignores_the_answer:
  assumes "\<And>h. snd (shell H h ''bash'' ''systemctl stop V2bX&&systemctl disable V2bX'') = None"
  shows "\<exists>k. uninstallHandle H h = h @ k
    \<and> {RemoveAll ''/etc/systemd/system/V2bX.service'', RemoveAll ''/etc/V2bX/'', RemoveAll ''/usr/local/V2bX/'',
       RemoveAll ''/bin/V2bX''} \<subseteq> set k
    \<and> (Print cancelled \<in> set k \<longleftrightarrow> toLower (typed H) \<noteq> ''y'')"
proof -
  let ?q = "h @ [Print (Warn_msg [ask_uninstall]), Scan] @ (if toLower (typed H) \<noteq> ''y'' then [Print cancelled] else [])"
  let ?rm = "[RemoveAll ''/etc/systemd/system/V2bX.service'', RemoveAll ''/etc/V2bX/'',
      RemoveAll ''/usr/local/V2bX/'', RemoveAll ''/bin/V2bX'']"
  let ?stop = "''systemctl stop V2bX&&systemctl disable V2bX''" and ?re = "''systemctl daemon-reload&&systemctl reset-failed''"
  obtain out where s: "RunCommandByShell H ?stop ?q = (?q @ [Shell ''bash'' ?stop], out, None)"
    using assms [of ?q] by (cases "shell H ?q ''bash'' ?stop") (simp add: RunCommandByShell_def Let_def)
  obtain h4 o4 e4 where r: "RunCommandByShell H ?re (?q @ [Shell ''bash'' ?stop] @ ?rm) = (h4, o4, e4)"
    by (metis prod_cases3)
  obtain k where k: "h4 = (?q @ [Shell ''bash'' ?stop] @ ?rm) @ k" "\<forall>a\<in>set k. \<exists>s. a = Shell s ?re"
    using shell_extends [OF r] by blast
  have np: "Print cancelled \<notin> set k" using k(2) by blast
  obtain t where t: "uninstallHandle H h = h4 @ t" "Print cancelled \<notin> set t"
    using s r by (cases e4) (auto simp: uninstallHandle_def Let_def split: if_splits)
  have a: "uninstallHandle H h = h @ ((if toLower (typed H) \<noteq> ''y'' then [Print (Warn_msg [ask_uninstall]), Scan, Print cancelled]
      else [Print (Warn_msg [ask_uninstall]), Scan]) @ [Shell ''bash'' ?stop] @ ?rm @ k @ t)"
    using t(1) k(1) by simp
  show ?thesis
    by (rule exI, rule conjI, rule a) (use np t(2) in auto)
qed


definition refusing_host :: host where
  "refusing_host =
     \<lparr>shell = \<lambda>_ _ _. ('''', None), typed = ''n'', ntp_Time = \<lambda>_. Inl '''', settime = \<lambda>_. None, on_disk = \<lambda>_. False\<rparr>"

theorem uninstall_ignores_the_answer_witness:
  "RemoveAll ''/etc/V2bX/'' \<in> set (uninstallHandle refusing_host []) \<and> Print cancelled \<in> set (uninstallHandle refusing_host [])"
proof -
  have y: "toLower ''n'' \<noteq> ''y''" by code_simp
  have n: "snd (shell refusing_host h ''bash'' ''systemctl stop V2bX&&systemctl disable V2bX'') = None" for h
    by (simp add: refusing_host_def)
  have t: "typed refusing_host = ''n''" by (simp add: refusing_host_def)
  from uninstall_ignores_the_answer [of refusing_host "[]", OF n] y show ?thesis unfolding t by auto
qed

subsection \<open>The service\<close>

lemma check_running_extends:
  assumes "check_running H h = (h', r)"
  shows "\<exists>k. h' = h @ k \<and> (\<forall>a\<in>set k. \<exists>s. a = Shell s ''systemctl status V2bX | grep Active'')"
proof -
  obtain h1 out err where r: "RunCommandByShell H ''systemctl status V2bX | grep Active'' h = (h1, out, err)"
    by (metis prod_cases3)
  with assms have "h' = h1" by (simp add: check_running_def)
  with shell_extends [OF r] show ?thesis by blast
qed

lemma check_running_out:
  assumes "check_running H h = (h', Inr b)"
  shows "\<exists>out. snd (RunCommandByShell H ''systemctl status V2bX | grep Active'' h) = (out, None) \<and> b = contains out ''running''"
  using assms by (auto simp: check_running_def checkRunning_def split: prod.splits sum.splits option.splits)


lemma said_apart [simp]: "say_err m \<noteq> say_ok t"
  by (simp add: say_err_def say_ok_def Err_msg_def Ok_msg_def coloured_def red_def green_def)

lemma said_apart' [simp]: "say_ok t \<noteq> say_err m"
  using said_apart by metis

definition status_is :: "host \<Rightarrow> action list \<Rightarrow> bool \<Rightarrow> bool" where
  "status_is H h b \<longleftrightarrow>
     (\<exists>out. snd (RunCommandByShell H ''systemctl status V2bX | grep Active'' h) = (out, None) \<and> b = contains out ''running'')"

text \<open>
  The service commands only report a success that they have seen: start and restart end with
  their message of success only if the shell's last look at the status found the service
  running, stop only if it found it not running.
\<close>

theorem success_is_seen:
  "(last (startHandle H h) = say_ok started \<longrightarrow> (\<exists>h'. status_is H h' True))
    \<and> (last (restartHandle H h) = say_ok restarted \<longrightarrow> (\<exists>h'. status_is H h' True))
    \<and> (last (stopHandle H h) = say_ok stopped \<longrightarrow> (\<exists>h'. status_is H h' False))"
proof -
  have s: "\<exists>h'. status_is H h' b" if "check_running H h0 = (h1, Inr b)" for h0 h1 b
    using check_running_out [OF that] unfolding status_is_def by blast
  have "\<exists>h'. status_is H h' True" if "last (startHandle H h) = say_ok started"
    using that by (auto simp: startHandle_def intro: s split: prod.splits sum.splits option.splits bool.splits if_splits)
  moreover have "\<exists>h'. status_is H h' True" if "last (restartHandle H h) = say_ok restarted"
    using that by (auto simp: restartHandle_def intro: s split: prod.splits sum.splits option.splits bool.splits)
  moreover have "\<exists>h'. status_is H h' False" if "last (stopHandle H h) = say_ok stopped"
    using that by (auto simp: stopHandle_def intro: s split: prod.splits sum.splits option.splits bool.splits)
  ultimately show ?thesis by blast
qed

end
