(* ===== verification/Files.thy ===== *)
theory Files
  imports Prelude Go_Strings
begin

text \<open>
  What the program uses of package path and of the file system: Clean, Dir and Join of
  slash-separated paths, and a file system as the contents of the files, the directories that
  exist and the errors the operating system answers for some paths (permissions, full disks).
  common/file/file.go's IsExist is over it.
\<close>

subsection \<open>Package path\<close>

text \<open>
  Clean drops empty elements and dots and resolves a pair of dots by the element before it,
  without looking at the file system; elements are collected in reverse.
\<close>

definition clean_step :: "bool \<Rightarrow> string \<Rightarrow> string list \<Rightarrow> string list" where
  "clean_step rooted e acc =
     (if e = '''' \<or> e = ''.'' then acc
      else if e = ''..'' then
        (if acc \<noteq> [] \<and> hd acc \<noteq> ''..'' then tl acc else if rooted then acc else e # acc)
      else e # acc)"

definition is_rooted :: "string \<Rightarrow> bool" where
  "is_rooted p \<longleftrightarrow> hasPrefix p ''/''"

definition Clean :: "string \<Rightarrow> string" where
  "Clean p =
     (let es = rev (fold (clean_step (is_rooted p)) (split_on CHR ''/'' p) [])
      in if is_rooted p then ''/'' @ join ''/'' es else if es = [] then ''.'' else join ''/'' es)"

definition path_Dir :: "string \<Rightarrow> string" where
  "path_Dir p = Clean (rev (dropWhile (\<lambda>c. c \<noteq> CHR ''/'') (rev p)))"

definition path_Join :: "string list \<Rightarrow> string" where
  "path_Join es = (let xs = filter (\<lambda>e. e \<noteq> '''') es in if xs = [] then '''' else Clean (join ''/'' xs))"

subsection \<open>The file system\<close>

record fs =
  contents :: "string \<rightharpoonup> string"
  dirs :: "string set"
  os_error :: "string \<Rightarrow> string option"

text \<open>
  IsExist: a path is there also where asking for it fails for another reason than that it does
  not exist.
\<close>

definition fs_IsExist :: "string \<Rightarrow> fs \<Rightarrow> bool" where
  "fs_IsExist p F \<longleftrightarrow> os_error F p \<noteq> None \<or> contents F p \<noteq> None \<or> p \<in> dirs F"

definition ReadFile :: "string \<Rightarrow> fs \<Rightarrow> string + string" where
  "ReadFile p F =
     (case os_error F p of
        Some e \<Rightarrow> Inl e
      | None \<Rightarrow> (case contents F p of Some s \<Rightarrow> Inr s | None \<Rightarrow> Inl ''no such file or directory''))"

text \<open>Whether a file can be opened for writing, being created if it is not there.\<close>

definition open_error :: "string \<Rightarrow> fs \<Rightarrow> string option" where
  "open_error p F =
     (if os_error F p \<noteq> None then os_error F p
      else if p \<in> dirs F then Some ''is a directory''
      else if path_Dir p \<in> dirs F then None
      else Some ''no such file or directory'')"

definition put_file :: "string \<Rightarrow> string \<Rightarrow> fs \<Rightarrow> fs" where
  "put_file p s F = F\<lparr>contents := (contents F)(p \<mapsto> s)\<rparr>"

text \<open>With O_TRUNC the old content goes; without, what is written replaces its beginning.\<close>

definition WriteFile :: "string \<Rightarrow> string \<Rightarrow> fs \<Rightarrow> fs \<times> string option" where
  "WriteFile p s F = (case open_error p F of Some e \<Rightarrow> (F, Some e) | None \<Rightarrow> (put_file p s F, None))"

definition over_old :: "string \<Rightarrow> string option \<Rightarrow> string" where
  "over_old s old = (case old of None \<Rightarrow> s | Some t \<Rightarrow> s @ drop (length s) t)"

definition WriteOver :: "string \<Rightarrow> string \<Rightarrow> fs \<Rightarrow> fs \<times> string option" where
  "WriteOver p s F =
     (case open_error p F of Some e \<Rightarrow> (F, Some e) | None \<Rightarrow> (put_file p (over_old s (contents F p)) F, None))"

text \<open>A directory with its ancestors; one of them in the way as a file is an error.\<close>

definition dir_prefixes :: "string \<Rightarrow> string list" where
  "dir_prefixes p =
     map (\<lambda>i. take i p) (filter (\<lambda>i. i > 0 \<and> (i = length p \<or> p ! i = CHR ''/'')) [0..<Suc (length p)])"

definition MkdirAll :: "string \<Rightarrow> fs \<Rightarrow> fs \<times> string option" where
  "MkdirAll p F =
     (case os_error F p of
        Some e \<Rightarrow> (F, Some e)
      | None \<Rightarrow>
          (if \<exists>d\<in>set (dir_prefixes p). contents F d \<noteq> None then (F, Some ''not a directory'')
           else (F\<lparr>dirs := dirs F \<union> set (dir_prefixes p)\<rparr>, None)))"

subsection \<open>Laws\<close>

lemma put_file_simps [simp]:
  "contents (put_file p s F) = (contents F)(p \<mapsto> s)" "dirs (put_file p s F) = dirs F"
  "os_error (put_file p s F) = os_error F"
  by (simp_all add: put_file_def)

lemma put_file_IsExist: "fs_IsExist q (put_file p s F) \<longleftrightarrow> q = p \<or> fs_IsExist q F"
  by (auto simp: fs_IsExist_def)

lemma WriteFile_ok:
  "WriteFile p s F = (F', None) \<longleftrightarrow> open_error p F = None \<and> F' = put_file p s F"
  by (auto simp: WriteFile_def split: option.splits)

lemma WriteOver_ok:
  "WriteOver p s F = (F', None) \<longleftrightarrow> open_error p F = None \<and> F' = put_file p (over_old s (contents F p)) F"
  by (auto simp: WriteOver_def split: option.splits)

lemma MkdirAll_frame:
  assumes "MkdirAll p F = (F', r)"
  shows "contents F' = contents F" "os_error F' = os_error F" "dirs F \<subseteq> dirs F'"
  using assms by (auto simp: MkdirAll_def split: option.splits if_splits)

lemma open_error_put [simp]: "open_error q (put_file p s F) = open_error q F"
  by (simp add: open_error_def)

lemma read_back: "open_error p F = None \<Longrightarrow> ReadFile p (put_file p s F) = Inr s"
  by (simp add: ReadFile_def open_error_def split: if_splits)

lemma read_other: "p \<noteq> q \<Longrightarrow> ReadFile q (put_file p s F) = ReadFile q F"
  by (simp add: ReadFile_def split: option.split)

lemma over_old_exact: "over_old s old = s \<longleftrightarrow> (case old of None \<Rightarrow> True | Some t \<Rightarrow> length t \<le> length s)"
  by (auto simp: over_old_def split: option.split)

end
