(* ===== verification/Cert.thy ===== *)
theory Cert
  imports Files Conf Go_Base64
begin

text \<open>
  The certificates of a node: node/cert.go and node/lego.go over a file system. The ACME
  client, key generation and the encodings of keys and certificates are parameters; times are
  in nanoseconds of the Unix clock.
\<close>

subsection \<open>PEM\<close>

function b64_lines :: "string \<Rightarrow> string" where
  "b64_lines s = (if s = '''' then '''' else take 64 s @ [CHR 0x0A] @ b64_lines (drop 64 s))"
  by pat_completeness auto
termination by (relation "measure length") auto

declare b64_lines.simps [simp del]

definition pem_encode :: "string \<Rightarrow> string \<Rightarrow> string" where
  "pem_encode typ bytes =
     ''-----BEGIN '' @ typ @ ''-----'' @ [CHR 0x0A] @ b64_lines (EncodeToString bytes)
     @ ''-----END '' @ typ @ ''-----'' @ [CHR 0x0A]"

subsection \<open>cert.go: generateSelfSslCertificate\<close>

text \<open>The template, with the time it is made at; thirty is that time thirty years on.\<close>

record x509_template =
  Version :: int
  SerialNumber :: int
  CommonName :: string
  DNSNames :: "string list"
  BasicConstraintsValid :: bool
  KeyUsage :: "string list"
  ExtKeyUsage :: "string list"
  NotBefore :: int
  NotAfter :: int

definition self_template :: "string \<Rightarrow> int \<Rightarrow> int \<Rightarrow> x509_template" where
  "self_template domain now thirty =
     \<lparr>Version = 3, SerialNumber = now div 1000000000, CommonName = domain, DNSNames = [domain],
      BasicConstraintsValid = True, KeyUsage = [''DigitalSignature'', ''KeyEncipherment''],
      ExtKeyUsage = [''ServerAuth''], NotBefore = now, NotAfter = thirty\<rparr>"

text \<open>create is x509.CreateCertificate under the new key, whose PKCS1 encoding is key.\<close>

definition generateSelfSslCertificate ::
  "(x509_template \<Rightarrow> string + string) \<Rightarrow> string \<Rightarrow> int \<Rightarrow> int \<Rightarrow> string \<Rightarrow> string \<Rightarrow> string \<Rightarrow> fs
   \<Rightarrow> fs \<times> string option" where
  "generateSelfSslCertificate create key now thirty domain certPath keyPath F =
     (case create (self_template domain now thirty) of
        Inl e \<Rightarrow> (F, Some e)
      | Inr cert \<Rightarrow>
          (case WriteOver certPath (pem_encode ''CERTIFICATE'' cert) F of
             (F1, Some e) \<Rightarrow> (F1, Some e)
           | (F1, None) \<Rightarrow> WriteOver keyPath (pem_encode ''EC PRIVATE KEY'' key) F1))"

subsection \<open>lego.go: paths\<close>

text \<open>
  parseParams replaces the two placeholders from left to right, each where it begins first,
  without looking again at what it put in.
\<close>

function parseParams :: "string \<Rightarrow> string \<Rightarrow> string \<Rightarrow> string" where
  "parseParams domain email [] = []"
| "parseParams domain email (c # s) =
     (if hasPrefix (c # s) ''{domain}'' then domain @ parseParams domain email (drop 8 (c # s))
      else if hasPrefix (c # s) ''{email}'' then email @ parseParams domain email (drop 7 (c # s))
      else c # parseParams domain email s)"
  by pat_completeness auto
termination by (relation "measure (\<lambda>(d, e, s). length s)") auto

declare parseParams.simps(2) [simp del]

definition checkPath :: "string \<Rightarrow> fs \<Rightarrow> fs \<times> string option" where
  "checkPath p F =
     (if fs_IsExist (path_Dir p) F then (F, None)
      else case MkdirAll (path_Dir p) F of
             (F1, Some e) \<Rightarrow> (F1, Some (''create dir error: '' @ e))
           | (F1, None) \<Rightarrow> (F1, None))"

text \<open>The certificate and the private key that an ACME server gave.\<close>

record resource =
  Certificate :: string
  rc_PrivateKey :: string

definition write_one :: "CertConfig \<Rightarrow> string \<Rightarrow> string \<Rightarrow> fs \<Rightarrow> fs \<times> string option" where
  "write_one cc p s F =
     (case checkPath p F of
        (F1, Some e) \<Rightarrow> (F1, Some (''check path error: '' @ e))
      | (F1, None) \<Rightarrow> WriteFile (parseParams (CertDomain cc) (Email cc) p) s F1)"

definition writeCert :: "CertConfig \<Rightarrow> resource \<Rightarrow> fs \<Rightarrow> fs \<times> string option" where
  "writeCert cc certs F =
     (case write_one cc (CertFile cc) (Certificate certs) F of
        (F1, Some e) \<Rightarrow> (F1, Some e)
      | (F1, None) \<Rightarrow> write_one cc (KeyFile cc) (rc_PrivateKey certs) F1)"

subsection \<open>lego.go: creation and renewal\<close>

text \<open>obtain is the client's Obtain for the domains, with the chain bundled.\<close>

definition lego_CreateCert :: "(string list \<Rightarrow> string + resource) \<Rightarrow> CertConfig \<Rightarrow> fs \<Rightarrow> fs \<times> string option" where
  "lego_CreateCert obtain_cert cc F =
     (case obtain_cert [CertDomain cc] of
        Inl e \<Rightarrow> (F, Some (''obtain certificate error: '' @ e))
      | Inr certs \<Rightarrow>
          (case writeCert cc certs F of
             (F1, Some e) \<Rightarrow> (F1, Some (''write certificate error: '' @ e))
           | (F1, None) \<Rightarrow> (F1, None)))"

definition day_ns :: int where
  "day_ns = 86400000000000"

text \<open>
  parse gives the end of the certificate's validity. The number of days is computed in
  floating point, which is exact enough near the limit of 31 days, and cut to an int.
\<close>

definition CheckCert :: "(string \<Rightarrow> string + int) \<Rightarrow> int \<Rightarrow> string \<Rightarrow> bool \<times> string option" where
  "CheckCert parse now file =
     (case parse file of
        Inl e \<Rightarrow> (False, Some e)
      | Inr until \<Rightarrow> (if (until - now) sdiv day_ns > 30 then (False, None) else (True, None)))"

text \<open>renew is the client's Renew of the domain's certificate, with the chain.\<close>

definition RenewCert ::
  "(string \<Rightarrow> string + int) \<Rightarrow> (string \<Rightarrow> string \<Rightarrow> string + resource) \<Rightarrow> int \<Rightarrow> CertConfig \<Rightarrow> fs
   \<Rightarrow> fs \<times> string option" where
  "RenewCert parse renew now cc F =
     (case ReadFile (CertFile cc) F of
        Inl e \<Rightarrow> (F, Some (''read cert file error: '' @ e))
      | Inr file \<Rightarrow>
          (case CheckCert parse now file of
             (False, _) \<Rightarrow> (F, None)
           | (True, Some e) \<Rightarrow> (F, Some (''check cert error: '' @ e))
           | (True, None) \<Rightarrow>
               (case renew (CertDomain cc) file of
                  Inl e \<Rightarrow> (F, Some e)
                | Inr res \<Rightarrow>
                    (case writeCert cc res F of
                       (F1, Some e) \<Rightarrow> (F1, Some (''write certificate error: '' @ e))
                     | (F1, None) \<Rightarrow> (F1, None)))))"

subsection \<open>lego.go: the account\<close>

record lego_user =
  lu_Email :: string
  Registration :: "string option"
  lu_key :: "string option"
  KeyEncoded :: string

definition zero_user :: lego_user where
  "zero_user = \<lparr>lu_Email = '''', Registration = None, lu_key = None, KeyEncoded = ''''\<rparr>"

text \<open>
  The calls outside: a new key, the client for a user and its registration, the encodings of
  an elliptic curve key, the reader of a PEM block, the JSON of a user's exported fields, and
  the providers of challenges. A provider reads the environment.
\<close>

record lego_std =
  GenerateKey :: "string + string"
  NewClient :: "lego_user \<Rightarrow> string option"
  Register :: "lego_user \<Rightarrow> string + string"
  MarshalEC :: "string \<Rightarrow> string + string"
  ParseEC :: "string \<Rightarrow> string + string"
  pem_Decode :: "string \<Rightarrow> string option"
  json_user :: "string \<times> string option \<times> string \<Rightarrow> string"
  unjson_user :: "string \<Rightarrow> string + string \<times> string option \<times> string"
  SetHTTP01Provider :: "string option"
  NewDNSProvider :: "string \<Rightarrow> (string \<rightharpoonup> string) \<Rightarrow> string option"
  SetDNS01Provider :: "string option"

definition EncodePrivate :: "lego_std \<Rightarrow> string \<Rightarrow> string \<times> string option" where
  "EncodePrivate L k =
     (case MarshalEC L k of Inl e \<Rightarrow> ('''', Some e) | Inr encoded \<Rightarrow> (pem_encode ''EC PRIVATE KEY'' encoded, None))"

definition DecodePrivate :: "lego_std \<Rightarrow> string \<Rightarrow> string result" where
  "DecodePrivate L s =
     (case pem_Decode L s of
        None \<Rightarrow> Inl (Panic ''nil pointer dereference'')
      | Some bytes \<Rightarrow> (case ParseEC L bytes of Inl e \<Rightarrow> Inl (Err e) | Inr k \<Rightarrow> Inr k))"

text \<open>Save puts the encoded key into the user for the time of writing only.\<close>

definition user_Save :: "lego_std \<Rightarrow> string \<Rightarrow> lego_user \<Rightarrow> fs \<Rightarrow> (fs \<times> lego_user) \<times> unit result" where
  "user_Save L p u F =
     (case checkPath p F of
        (F1, Some e) \<Rightarrow> ((F1, u), Inl (Err (''check path error: '' @ e)))
      | (F1, None) \<Rightarrow>
          (case lu_key u of
             None \<Rightarrow> ((F1, u), Inl (Panic ''interface conversion''))
           | Some k \<Rightarrow>
               (let u1 = u\<lparr>KeyEncoded := fst (EncodePrivate L k)\<rparr>
                in case WriteFile p (json_user L (lu_Email u1, Registration u1, KeyEncoded u1)) F1 of
                     (F2, Some e) \<Rightarrow> ((F2, u1), Inl (Err e))
                   | (F2, None) \<Rightarrow> ((F2, u1\<lparr>KeyEncoded := ''''\<rparr>), Inr ()))))"

definition user_Load :: "lego_std \<Rightarrow> string \<Rightarrow> fs \<Rightarrow> lego_user result" where
  "user_Load L p F =
     (case ReadFile p F of
        Inl e \<Rightarrow> Inl (Err (''open file error: '' @ e))
      | Inr data \<Rightarrow>
          (case unjson_user L data of
             Inl e \<Rightarrow> Inl (Err (''unmarshal json error: '' @ e))
           | Inr (email, reg, key) \<Rightarrow>
               (case DecodePrivate L key of
                  Inl e \<Rightarrow> Inl (wrap_err ''decode private key error: '' e)
                | Inr k \<Rightarrow> Inr \<lparr>lu_Email = email, Registration = reg, lu_key = Some k, KeyEncoded = key\<rparr>)))"

definition registerUser :: "lego_std \<Rightarrow> string \<Rightarrow> lego_user \<Rightarrow> fs \<Rightarrow> (fs \<times> lego_user) \<times> unit result" where
  "registerUser L p u F =
     (case GenerateKey L of
        Inl e \<Rightarrow> ((F, u), Inl (Err (''generate key error: '' @ e)))
      | Inr k \<Rightarrow>
          (let u1 = u\<lparr>lu_key := Some k\<rparr>
           in case NewClient L u1 of
                Some e \<Rightarrow> ((F, u1), Inl (Err (''create lego client error: '' @ e)))
              | None \<Rightarrow>
                  (case Register L u1 of
                     Inl e \<Rightarrow> ((F, u1), Inl (Err e))
                   | Inr reg \<Rightarrow>
                       (case user_Save L p (u1\<lparr>Registration := Some reg\<rparr>) F of
                          (st, Inl e) \<Rightarrow> (st, Inl (wrap_err ''save user error: '' e))
                        | (st, Inr ()) \<Rightarrow> (st, Inr ())))))"

definition NewLegoUser :: "lego_std \<Rightarrow> string \<Rightarrow> string \<Rightarrow> fs \<Rightarrow> fs \<times> lego_user result" where
  "NewLegoUser L p email F =
     (let registered = (\<lambda>u. case registerUser L p u F of
            ((F1, u1), Inl e) \<Rightarrow> (F1, Inl e)
          | ((F1, u1), Inr ()) \<Rightarrow> (F1, Inr u1))
      in if fs_IsExist p F then
           (case user_Load L p F of
              Inl e \<Rightarrow> (F, Inl e)
            | Inr u \<Rightarrow> if lu_Email u \<noteq> email then registered (u\<lparr>Registration := None, lu_Email := email\<rparr>) else (F, Inr u))
         else registered (zero_user\<lparr>lu_Email := email\<rparr>))"

subsection \<open>lego.go: NewLego\<close>

definition SetProvider :: "lego_std \<Rightarrow> CertConfig \<Rightarrow> (string \<rightharpoonup> string) \<Rightarrow> (string \<rightharpoonup> string) \<times> string option" where
  "SetProvider L cc env =
     (if CertMode cc = ''http'' then (env, SetHTTP01Provider L)
      else if CertMode cc = ''dns'' then
        (let env' = env ++ DNSEnv cc
         in (env', case NewDNSProvider L (Provider cc) env' of
                     Some e \<Rightarrow> Some (''create dns challenge provider error: '' @ e)
                   | None \<Rightarrow>
                       (case SetDNS01Provider L of
                          Some e \<Rightarrow> Some (''set dns provider error: '' @ e)
                        | None \<Rightarrow> None)))
      else (env, None))"

text \<open>The state is the file system and the environment of the process.\<close>

definition lego_user_path :: "CertConfig \<Rightarrow> string" where
  "lego_user_path cc = path_Join [path_Dir (CertFile cc), ''user'', ''user-'' @ Email cc @ ''.json'']"

definition lego_New :: "lego_std \<Rightarrow> CertConfig \<Rightarrow> fs \<times> (string \<rightharpoonup> string) \<Rightarrow> (fs \<times> (string \<rightharpoonup> string)) \<times> unit result" where
  "lego_New L cc st =
     (case st of (F, env) \<Rightarrow>
        (case NewLegoUser L (lego_user_path cc) (Email cc) F of
           (F1, Inl e) \<Rightarrow> ((F1, env), Inl (wrap_err ''create user error: '' e))
         | (F1, Inr u) \<Rightarrow>
             (case NewClient L u of
                Some e \<Rightarrow> ((F1, env), Inl (Err e))
              | None \<Rightarrow>
                  (case SetProvider L cc env of
                     (env1, Some e) \<Rightarrow> ((F1, env1), Inl (Err (''set provider error: '' @ e)))
                   | (env1, None) \<Rightarrow> ((F1, env1), Inr ())))))"

text \<open>The daily renewal logs its errors; only a panic of the account gets out.\<close>

definition renewCertTask ::
  "lego_std \<Rightarrow> (string \<Rightarrow> string + int) \<Rightarrow> (string \<Rightarrow> string \<Rightarrow> string + resource) \<Rightarrow> int \<Rightarrow> CertConfig
   \<Rightarrow> fs \<times> (string \<rightharpoonup> string) \<Rightarrow> (fs \<times> (string \<rightharpoonup> string)) \<times> unit result" where
  "renewCertTask L parse renew now cc st =
     (case lego_New L cc st of
        (st1, Inl (Panic m)) \<Rightarrow> (st1, Inl (Panic m))
      | (st1, Inl (Err e)) \<Rightarrow> (st1, Inr ())
      | ((F1, env1), Inr ()) \<Rightarrow> ((fst (RenewCert parse renew now cc F1), env1), Inr ()))"

end
