(* ===== verification/Geo.thy ===== *)
theory Geo
  imports Files
begin

text \<open>
  core/hy2/geoloader.go: the databases of the ACL engine, downloaded when no file is
  configured. Files have a time of modification here; the HTTP client, the reader of the
  databases and the time are parameters.
\<close>

subsection \<open>Data\<close>

record ('i, 's) GeoLoader =
  GeoIPFilename :: string
  GeoSiteFilename :: string
  UpdateInterval :: int
  geoipMap :: "'i option"
  geositeMap :: "'s option"

record geo_files =
  gf_fs :: fs
  mtime :: "string \<Rightarrow> int"

text \<open>
  Get is the answer to a request, an error or the body, which in turn may fail to be read;
  TempError and RenameError are those of the temporary file.
\<close>

record geo_io =
  geo_now :: int
  Get :: "string \<Rightarrow> string + (string + string)"
  TempError :: "string option"
  RenameError :: "string option"

definition geoipFilename :: string where "geoipFilename = ''geoip.dat''"
definition geoipURL :: string where
  "geoipURL = ''https://cdn.jsdelivr.net/gh/Loyalsoldier/v2ray-rules-dat@release/geoip.dat''"
definition geositeFilename :: string where "geositeFilename = ''geosite.dat''"
definition geositeURL :: string where
  "geositeURL = ''https://cdn.jsdelivr.net/gh/Loyalsoldier/v2ray-rules-dat@release/geosite.dat''"
definition geoDefaultUpdateInterval :: int where "geoDefaultUpdateInterval = 7 * 24 * 3600000000000"

subsection \<open>When and how a database is downloaded\<close>

text \<open>
  A file that cannot be looked at for another reason than its absence leaves a nil info, which
  is followed. A directory counts as a file that is not empty.
\<close>

definition shouldDownload :: "geo_io \<Rightarrow> ('i, 's) GeoLoader \<Rightarrow> string \<Rightarrow> geo_files \<Rightarrow> bool result" where
  "shouldDownload I l filename G =
     (if os_error (gf_fs G) filename \<noteq> None then Inl (Panic ''nil pointer dereference'')
      else if \<not> fs_IsExist filename (gf_fs G) then Inr True
      else if contents (gf_fs G) filename = Some '''' then Inr True
      else (let dt = geo_now I - mtime G filename
            in Inr (if UpdateInterval l = 0 then dt > geoDefaultUpdateInterval else dt > UpdateInterval l)))"

text \<open>
  The body goes to a temporary file, which is checked before it takes the name; whatever
  happens, the temporary file is gone at the end.
\<close>

definition downloadAndCheck ::
  "geo_io \<Rightarrow> string \<Rightarrow> string \<Rightarrow> (string \<Rightarrow> string option) \<Rightarrow> geo_files \<Rightarrow> geo_files \<times> string option" where
  "downloadAndCheck I filename url checkFunc G =
     (case Get I url of
        Inl err \<Rightarrow> (G, Some err)
      | Inr body \<Rightarrow>
          (case TempError I of
             Some err \<Rightarrow> (G, Some err)
           | None \<Rightarrow>
               (case body of
                  Inl err \<Rightarrow> (G, Some err)
                | Inr data \<Rightarrow>
                    (case checkFunc data of
                       Some err \<Rightarrow> (G, Some err)
                     | None \<Rightarrow>
                         (case RenameError I of
                            Some err \<Rightarrow> (G, Some err)
                          | None \<Rightarrow>
                              (G\<lparr>gf_fs := put_file filename data (gf_fs G), mtime := (mtime G)(filename := geo_now I)\<rparr>, None))))))"

definition load_file :: "(string \<Rightarrow> string + 'm) \<Rightarrow> string \<Rightarrow> geo_files \<Rightarrow> string + 'm" where
  "load_file load filename G = (case ReadFile filename (gf_fs G) of Inl e \<Rightarrow> Inl e | Inr data \<Rightarrow> load data)"

subsection \<open>Loading\<close>

text \<open>
  Both loaders have these steps; load is v2geo's reader, name the configured file and dflt the
  name of the downloaded one.
\<close>

definition geo_load ::
  "geo_io \<Rightarrow> (string \<Rightarrow> string + 'm) \<Rightarrow> string \<Rightarrow> string \<Rightarrow> string \<Rightarrow> ('i, 's) GeoLoader \<Rightarrow> geo_files
   \<Rightarrow> geo_files \<times> 'm result" where
  "geo_load I load name dflt url l G =
     (let autoDL = (name = ''''); filename = (if autoDL then dflt else name);
          err = (\<lambda>r. case r of Inl e \<Rightarrow> Inl (Err e) | Inr m \<Rightarrow> Inr m);
          fetch = (\<lambda>_. case downloadAndCheck I filename url (\<lambda>d. case load d of Inl e \<Rightarrow> Some e | Inr _ \<Rightarrow> None) G of
              (G1, Some e) \<Rightarrow>
                (if \<not> fs_IsExist filename (gf_fs G1) then (G1, Inl (Err e)) else (G1, err (load_file load filename G1)))
            | (G1, None) \<Rightarrow> (G1, err (load_file load filename G1)))
      in if \<not> autoDL then (G, err (load_file load filename G))
         else case shouldDownload I l filename G of
                Inl p \<Rightarrow> (G, Inl p)
              | Inr True \<Rightarrow> fetch ()
              | Inr False \<Rightarrow> (case load_file load filename G of Inr m \<Rightarrow> (G, Inr m) | Inl _ \<Rightarrow> fetch ()))"

definition LoadGeoIP ::
  "geo_io \<Rightarrow> (string \<Rightarrow> string + 'i) \<Rightarrow> ('i, 's) GeoLoader \<times> geo_files \<Rightarrow> (('i, 's) GeoLoader \<times> geo_files) \<times> 'i result" where
  "LoadGeoIP I load st =
     (case st of (l, G) \<Rightarrow>
        (case geoipMap l of
           Some m \<Rightarrow> ((l, G), Inr m)
         | None \<Rightarrow>
             (case geo_load I load (GeoIPFilename l) geoipFilename geoipURL l G of
                (G1, Inl e) \<Rightarrow> ((l, G1), Inl e)
              | (G1, Inr m) \<Rightarrow> ((l\<lparr>geoipMap := Some m\<rparr>, G1), Inr m))))"

definition LoadGeoSite ::
  "geo_io \<Rightarrow> (string \<Rightarrow> string + 's) \<Rightarrow> ('i, 's) GeoLoader \<times> geo_files \<Rightarrow> (('i, 's) GeoLoader \<times> geo_files) \<times> 's result" where
  "LoadGeoSite I load st =
     (case st of (l, G) \<Rightarrow>
        (case geositeMap l of
           Some m \<Rightarrow> ((l, G), Inr m)
         | None \<Rightarrow>
             (case geo_load I load (GeoSiteFilename l) geositeFilename geositeURL l G of
                (G1, Inl e) \<Rightarrow> ((l, G1), Inl e)
              | (G1, Inr m) \<Rightarrow> ((l\<lparr>geositeMap := Some m\<rparr>, G1), Inr m))))"

subsection \<open>Properties\<close>

lemma downloadAndCheck_cases:
  assumes "downloadAndCheck I f url chk G = (G', r)"
  shows "G' = G \<and> r \<noteq> None
    \<or> (\<exists>d. r = None \<and> chk d = None \<and> G' = G\<lparr>gf_fs := put_file f d (gf_fs G), mtime := (mtime G)(f := geo_now I)\<rparr>)"
  using assms by (auto simp: downloadAndCheck_def split: sum.splits option.splits)

lemma load_file_put:
  assumes "os_error (gf_fs G) f = None"
  shows "load_file load f (G\<lparr>gf_fs := put_file f d (gf_fs G), mtime := t\<rparr>) = load d"
  using assms by (simp add: load_file_def ReadFile_def)

text \<open>
  What a load leaves: the files as they were, with the answer of what is there, or one file
  replaced by a database that was read before it took the name.
\<close>

lemma geo_load_result:
  assumes "geo_load I load name dflt url l G = (G', r)" "f = (if name = '''' then dflt else name)"
  shows "(G' = G \<or> name = '''' \<and> (\<exists>d m. load d = Inr m \<and> contents (gf_fs G') f = Some d
      \<and> G' = G\<lparr>gf_fs := put_file f d (gf_fs G), mtime := (mtime G)(f := geo_now I)\<rparr>))
    \<and> (\<forall>m. load_file load f G' = Inr m \<longrightarrow> r = Inr m \<or> os_error (gf_fs G) f \<noteq> None)
    \<and> (\<forall>m. r = Inr m \<longrightarrow> load_file load f G' = Inr m)"
proof -
  let ?chk = "\<lambda>d. case load d of Inl e \<Rightarrow> Some e | Inr _ \<Rightarrow> None"
  obtain G1 e where d: "downloadAndCheck I f url ?chk G = (G1, e)" by (metis prod.collapse)
  note dc = downloadAndCheck_cases [OF d]
  have x: "load_file load f K = Inr m \<Longrightarrow> fs_IsExist f (gf_fs K)" for K m
    by (auto simp: load_file_def ReadFile_def fs_IsExist_def split: sum.splits option.splits)
  show ?thesis
  proof (cases "name = ''''")
    case False
    with assms show ?thesis by (auto simp: geo_load_def Let_def split: sum.splits)
  next
    case True
    then have f: "f = dflt" using assms(2) by simp
    have fetched: ?thesis if r: "(case (G1, e) of
        (G1, Some e) \<Rightarrow> (if \<not> fs_IsExist f (gf_fs G1) then (G1, Inl (Err e))
           else (G1, case load_file load f G1 of Inl e \<Rightarrow> Inl (Err e) | Inr m \<Rightarrow> Inr m))
      | (G1, None) \<Rightarrow> (G1, case load_file load f G1 of Inl e \<Rightarrow> Inl (Err e) | Inr m \<Rightarrow> Inr m)) = (G', r)"
    proof -
      have G': "G' = G1" and v: "\<And>m. r = Inr m \<longleftrightarrow> load_file load f G1 = Inr m"
        using r x [of G1] by (auto split: option.splits if_splits sum.splits)
      have "G1 = G \<or> (\<exists>d m. load d = Inr m \<and> contents (gf_fs G1) f = Some d
          \<and> G1 = G\<lparr>gf_fs := put_file f d (gf_fs G), mtime := (mtime G)(f := geo_now I)\<rparr>)"
      proof (cases "G1 = G")
        case False
        with dc obtain d where c: "?chk d = None"
          and g: "G1 = G\<lparr>gf_fs := put_file f d (gf_fs G), mtime := (mtime G)(f := geo_now I)\<rparr>" by blast
        from c obtain m where "load d = Inr m" by (cases "load d") simp_all
        with g show ?thesis by auto
      qed simp
      with G' v True show ?thesis by blast
    qed
    show ?thesis
    proof (cases "shouldDownload I l f G")
      case (Inl p)
      with assms f True have "G' = G" "r = Inl p" by (simp_all add: geo_load_def Let_def)
      moreover from Inl have "os_error (gf_fs G) f \<noteq> None" by (auto simp: shouldDownload_def Let_def split: if_splits)
      ultimately show ?thesis by simp
    next
      case (Inr b)
      show ?thesis
      proof (cases "b \<or> (\<forall>m. load_file load f G \<noteq> Inr m)")
        case t: True
        have "geo_load I load name dflt url l G = (case (G1, e) of
            (G1, Some e) \<Rightarrow> (if \<not> fs_IsExist f (gf_fs G1) then (G1, Inl (Err e))
               else (G1, case load_file load f G1 of Inl e \<Rightarrow> Inl (Err e) | Inr m \<Rightarrow> Inr m))
          | (G1, None) \<Rightarrow> (G1, case load_file load f G1 of Inl e \<Rightarrow> Inl (Err e) | Inr m \<Rightarrow> Inr m))"
          using t Inr d True f
          by (cases b; cases "load_file load f G") (simp_all add: geo_load_def Let_def split: option.split)
        with assms(1) show ?thesis by (intro fetched) simp
      next
        case False
        then obtain m where "\<not> b" "load_file load f G = Inr m" by blast
        with assms(1) Inr True f have "G' = G" "r = Inr m" by (simp_all add: geo_load_def Let_def)
        with \<open>load_file load f G = Inr m\<close> show ?thesis by simp
      qed
    qed
  qed
qed


text \<open>Examples: a database is a text that starts with an x; the download fails.\<close>

definition reads_x :: "string \<Rightarrow> string + nat" where
  "reads_x s = (if hasPrefix s ''x'' then Inr (length s) else Inl ''no database'')"

definition auto_loader :: "(nat, nat) GeoLoader" where
  "auto_loader = \<lparr>GeoIPFilename = '''', GeoSiteFilename = '''', UpdateInterval = 0, geoipMap = None, geositeMap = None\<rparr>"

definition stale_files :: geo_files where
  "stale_files = \<lparr>gf_fs = \<lparr>contents = [''geoip.dat'' \<mapsto> ''xy''], dirs = {''.''}, os_error = \<lambda>_. None\<rparr>, mtime = \<lambda>_. 0\<rparr>"

definition failing_io :: geo_io where
  "failing_io = \<lparr>geo_now = 10 ^ 18, Get = \<lambda>_. Inl ''no route'', TempError = None, RenameError = None\<rparr>"


end
