(* ===== verification/Server.thy ===== *)
theory Server
  imports Controller Selector
begin

text \<open>
  The process around the nodes: conf/conf.go, which reads the configuration, conf/watch.go,
  which decides when it is read again, and cmd/server.go, which starts the core and the nodes
  and restarts them. Times are in nanoseconds.
\<close>

subsection \<open>conf.go\<close>

record LogConfig =
  lg_Level :: string
  lg_Output :: string

record conf_file =
  cf_LogConfig :: LogConfig
  CoresConfig :: "CoreConfig list"
  NodesConfig :: "NodeConfig list"

definition conf_New :: conf_file where
  "conf_New = \<lparr>cf_LogConfig = \<lparr>lg_Level = ''info'', lg_Output = ''''\<rparr>, CoresConfig = [], NodesConfig = []\<rparr>"

text \<open>The file is an error of opening it, or a reader of its bytes; decode is json.Unmarshal.\<close>

definition LoadFromPath ::
  "conf_file unmarshal \<Rightarrow> string + string result \<Rightarrow> conf_file \<Rightarrow> conf_file \<times> error option" where
  "LoadFromPath decode file p =
     (case file of
        Inl err \<Rightarrow> (p, Some (Err (''open config file error: '' @ err)))
      | Inr f \<Rightarrow>
          (case prep f of
             Inl e \<Rightarrow> (p, Some (wrap_err ''read config file error: '' e))
           | Inr data \<Rightarrow>
               (case decode data p of
                  (p', Some err) \<Rightarrow> (p', Some (Err (''unmarshal config error: '' @ err)))
                | (p', None) \<Rightarrow> (p', None))))"

subsection \<open>watch.go\<close>

definition second_ns :: int where
  "second_ns = 1000000000"

text \<open>
  An event of the watcher: whether it is a change of permissions only, and the time at which
  the loop gets it. pre is the time of the last event that was acted on, the zero time at
  first. The result are the times at which the file is read again.
\<close>

type_synonym watch_event = "bool \<times> int"

definition zero_time :: int where
  "zero_time = -62135596800 * second_ns"

fun watch_loop :: "int \<Rightarrow> watch_event list \<Rightarrow> int list" where
  "watch_loop pre [] = []"
| "watch_loop pre ((chmod, now) # es) =
     (if chmod then watch_loop pre es
      else if pre + 10 * second_ns > now then watch_loop pre es
      else (now + 5 * second_ns) # watch_loop now es)"

text \<open>
  Watch itself: add is the error of watching a path. The loop runs already when a path cannot
  be watched.
\<close>

fun add_paths :: "(string \<Rightarrow> string option) \<Rightarrow> (string \<times> string) list \<Rightarrow> error option" where
  "add_paths add [] = None"
| "add_paths add ((msg, p) # ps) =
     (case add p of Some err \<Rightarrow> Some (Err (msg @ err)) | None \<Rightarrow> add_paths add ps)"

definition Watch :: "string option \<Rightarrow> (string \<Rightarrow> string option) \<Rightarrow> string \<Rightarrow> string \<Rightarrow> string \<Rightarrow> error option" where
  "Watch watcherErr add filePath xDnsPath sDnsPath =
     (case watcherErr of
        Some err \<Rightarrow> Some (Err (''new watcher error: '' @ err))
      | None \<Rightarrow>
          add_paths add
            ([(''watch file error: '', filePath)]
             @ (if xDnsPath \<noteq> '''' then [(''watch dns file error: '', xDnsPath)] else [])
             @ (if sDnsPath \<noteq> '''' then [(''watch dns file error: '', sDnsPath)] else [])))"

subsection \<open>The core of the process\<close>

text \<open>One core or a selector of several, as the values of the one interface they are.\<close>

definition on_core :: "('c \<Rightarrow> 'c \<times> 'r) \<Rightarrow> ('c selector \<Rightarrow> 'c selector \<times> 'r) \<Rightarrow> 'c server_core \<Rightarrow> 'c server_core \<times> 'r" where
  "on_core f g k = (case k of One c \<Rightarrow> apfst One (f c) | Many s \<Rightarrow> apfst Many (g s))"

definition server_core_ops :: "'c core_ops \<Rightarrow> 'c selector core_ops \<Rightarrow> 'c server_core core_ops" where
  "server_core_ops C S =
     \<lparr>op_Start = on_core (op_Start C) (op_Start S),
      op_Close = on_core (op_Close C) (op_Close S),
      op_AddNode = (\<lambda>tag n opt k. case k of
          One c \<Rightarrow> (case op_AddNode C tag n opt c of ((c', o2), r) \<Rightarrow> ((One c', o2), r))
        | Many s \<Rightarrow> (case op_AddNode S tag n opt s of ((s', o2), r) \<Rightarrow> ((Many s', o2), r))),
      op_DelNode = (\<lambda>tag. on_core (op_DelNode C tag) (op_DelNode S tag)),
      op_AddUsers = (\<lambda>p. on_core (op_AddUsers C p) (op_AddUsers S p)),
      op_GetUserTrafficSlice = (\<lambda>tag reset. on_core (op_GetUserTrafficSlice C tag reset) (op_GetUserTrafficSlice S tag reset)),
      op_DelUsers = (\<lambda>us tag n. on_core (op_DelUsers C us tag n) (op_DelUsers S us tag n)),
      op_Protocols = (\<lambda>k. case k of One c \<Rightarrow> op_Protocols C c | Many s \<Rightarrow> op_Protocols S s),
      op_Type = (\<lambda>k. case k of One c \<Rightarrow> op_Type C c | Many s \<Rightarrow> op_Type S s)\<rparr>"

subsection \<open>server.go\<close>

text \<open>
  What the variable vc refers to: the nil interface after a NewCore that failed, the core that
  the controllers have too, or one that no controller got because it did not start.
\<close>

datatype 'k vc_ref = NilCore | NodesCore | OwnCore 'k

record ('k, 'b) server =
  controllers :: "controller option list"
  sv_world :: "('k, 'b) world"
  vc :: "'k vc_ref"

datatype log_output = Stdout | LogFile string | NilFile

text \<open>A level that is not named stays as it is; a file that cannot be opened is nil and is set.\<close>

definition log_setup :: "string option \<Rightarrow> LogConfig \<Rightarrow> string \<Rightarrow> string \<times> log_output" where
  "log_setup openErr lc level =
     (if lg_Level lc \<in> {''debug'', ''info'', ''warn'', ''error''} then lg_Level lc else level,
      if lg_Output lc = '''' then Stdout else if openErr = None then LogFile (lg_Output lc) else NilFile)"

text \<open>The nodes of a configuration with the answers that the start of each gets.\<close>

definition with_io :: "(nat \<Rightarrow> io) \<Rightarrow> NodeConfig list \<Rightarrow> (NodeConfig \<times> io) list" where
  "with_io ios ns = zip ns (map ios [0..<length ns])"

text \<open>NewCore and Start, as far as the process gets; errors are logged, a panic ends it.\<close>

definition start_core ::
  "'k core_ops \<Rightarrow> (CoreConfig list \<Rightarrow> 'k result) \<Rightarrow> CoreConfig list \<Rightarrow> 'k option \<times> unit result" where
  "start_core K new cs =
     (case new cs of
        Inl e \<Rightarrow> (None, Inl e)
      | Inr k \<Rightarrow> (case op_Start K k of (k', Some e) \<Rightarrow> (Some k', Inl (Err e)) | (k', None) \<Rightarrow> (Some k', Inr ())))"

text \<open>vc.Close; the result's core is where vc pointed.\<close>

definition close_vc :: "'k core_ops \<Rightarrow> ('k, 'b) server \<Rightarrow> ('k, 'b) server \<times> unit result" where
  "close_vc K s =
     (case vc s of
        NilCore \<Rightarrow> (s, Inl (Panic ''nil pointer dereference''))
      | NodesCore \<Rightarrow>
          (case op_Close K (core (sv_world s)) of (k, e) \<Rightarrow>
             (s\<lparr>sv_world := (sv_world s)\<lparr>core := k\<rparr>\<rparr>, case e of None \<Rightarrow> Inr () | Some m \<Rightarrow> Inl (Err m)))
      | OwnCore k0 \<Rightarrow>
          (case op_Close K k0 of (k, e) \<Rightarrow> (s\<lparr>vc := OwnCore k\<rparr>, case e of None \<Rightarrow> Inr () | Some m \<Rightarrow> Inl (Err m))))"

text \<open>nodes.Close leaves no controllers, if it returns.\<close>

definition close_nodes :: "'k core_ops \<Rightarrow> ('k, 'b) server \<Rightarrow> ('k, 'b) server \<times> unit result" where
  "close_nodes K s =
     (case node_Close K (controllers s) (sv_world s) of
        (w, Inl e) \<Rightarrow> (s\<lparr>sv_world := w\<rparr>, Inl e)
      | (w, Inr ()) \<Rightarrow> (s\<lparr>controllers := [], sv_world := w\<rparr>, Inr ()))"

definition start_nodes ::
  "'k core_ops \<Rightarrow> (NodeConfig \<times> io) list \<Rightarrow> 'k \<Rightarrow> ('k, 'b) server \<Rightarrow> ('k, 'b) server \<times> unit result" where
  "start_nodes K ns k s =
     (case node_Start K ns ((sv_world s)\<lparr>core := k\<rparr>) of
        ((cs, w), r) \<Rightarrow> (\<lparr>controllers = cs, sv_world = w, vc = NodesCore\<rparr>, r))"

text \<open>
  The function that Watch calls: an error is logged and the rest is skipped, a panic is the
  end. What is returned is the state with the error that was logged.
\<close>

definition reload ::
  "'k core_ops \<Rightarrow> (CoreConfig list \<Rightarrow> 'k result) \<Rightarrow> (nat \<Rightarrow> io) \<Rightarrow> conf_file \<Rightarrow> ('k, 'b) server
   \<Rightarrow> ('k, 'b) server \<times> unit result" where
  "reload K new ios c s0 =
     (case close_nodes K s0 of
        (s1, Inl e) \<Rightarrow> (s1, Inl e)
      | (s1, Inr ()) \<Rightarrow>
          (case close_vc K s1 of
             (s2, Inl e) \<Rightarrow> (s2, Inl e)
           | (s2, Inr ()) \<Rightarrow>
               (case start_core K new (CoresConfig c) of
                  (None, Inl e) \<Rightarrow> (s2\<lparr>vc := NilCore\<rparr>, Inl e)
                | (Some k, Inl e) \<Rightarrow> (s2\<lparr>vc := OwnCore k\<rparr>, Inl e)
                | (Some k, Inr ()) \<Rightarrow> start_nodes K (with_io ios (NodesConfig c)) k s2
                | (None, Inr ()) \<Rightarrow> (s2, Inr ()))))"

text \<open>
  What the watcher's goroutine does: the configuration starts anew, is read, and is put into
  force even if it could not be read.
\<close>

definition on_change ::
  "'k core_ops \<Rightarrow> (CoreConfig list \<Rightarrow> 'k result) \<Rightarrow> (nat \<Rightarrow> io) \<Rightarrow> conf_file unmarshal \<Rightarrow> string + string result
   \<Rightarrow> ('k, 'b) server \<Rightarrow> ('k, 'b) server \<times> unit result" where
  "on_change K new ios decode file s = reload K new ios (fst (LoadFromPath decode file conf_New)) s"

text \<open>
  serverHandle up to the wait for a signal: limits0 is the registry before Init, world0 a world
  whose core is not looked at. None is a process that has ended, with the core it closed on
  its way out where it had started one.
\<close>

definition serverHandle ::
  "'k core_ops \<Rightarrow> (CoreConfig list \<Rightarrow> 'k result) \<Rightarrow> (nat \<Rightarrow> io) \<Rightarrow> conf_file unmarshal \<Rightarrow> string + string result
   \<Rightarrow> bool \<Rightarrow> error option \<Rightarrow> 'b limiters \<Rightarrow> ('k, 'b) server option \<times> error option" where
  "serverHandle K new ios decode file watch watchErr limits0 =
     (case LoadFromPath decode file conf_New of
        (_, Some e) \<Rightarrow> (None, Some e)
      | (c, None) \<Rightarrow>
          (case start_core K new (CoresConfig c) of
             (_, Inl e) \<Rightarrow> (None, Some e)
           | (None, Inr ()) \<Rightarrow> (None, None)
           | (Some k, Inr ()) \<Rightarrow>
               (case start_nodes K (with_io ios (NodesConfig c)) k
                       \<lparr>controllers = [], sv_world = \<lparr>core = k, limits = Init limits0\<rparr>, vc = NodesCore\<rparr> of
                  (s, Inl e) \<Rightarrow> (None, Some e)
                | (s, Inr ()) \<Rightarrow> (case (if watch then watchErr else None) of Some e \<Rightarrow> (None, Some e) | None \<Rightarrow> (Some s, None)))))"

end
