(* ===== verification/Server_Laws.thy ===== *)
theory Server_Laws
  imports Server Controller_Runs Selector_Laws
begin

text \<open>
  What the watcher and the restart of the process guarantee, and what they do not: the spacing
  of the reloads, an edit that no reload reads, and a reload of an unreadable configuration.
\<close>

subsection \<open>The spacing of reloads\<close>

lemma second_ns_pos: "0 < second_ns"
  by (simp add: second_ns_def)

lemma watch_loop_late: "t \<in> set (watch_loop pre es) \<Longrightarrow> pre + 15 * second_ns \<le> t"
proof (induction pre es rule: watch_loop.induct)
  case (2 pre chmod now es)
  then show ?case using second_ns_pos by (auto split: if_splits)
qed simp


text \<open>The events within ten seconds of one that is acted on are dropped.\<close>

lemma watch_loop_burst:
  assumes "\<forall>e\<in>set es. snd e < pre + 10 * second_ns"
  shows "watch_loop pre (es @ fs) = watch_loop pre fs"
  using assms by (induction es) auto

text \<open>
  An edit of the configuration made more than five and less than ten seconds after the one
  that is acted on is lost: the file is read once, five seconds after the first event, before
  that edit, and if no other event follows it is not read again.
\<close>

theorem late_edit_is_lost:
  assumes "pre + 10 * second_ns \<le> t0"
    and "\<forall>e\<in>set es. snd e < t0 + 10 * second_ns"
    and "(False, edit) \<in> set es" "t0 + 5 * second_ns < edit"
  shows "watch_loop pre ((False, t0) # es) = [t0 + 5 * second_ns]
    \<and> (\<nexists>t. t \<in> set (watch_loop pre ((False, t0) # es)) \<and> edit \<le> t)"
proof -
  have "watch_loop t0 es = []" using watch_loop_burst [OF assms(2), of "[]"] by simp
  then have "watch_loop pre ((False, t0) # es) = [t0 + 5 * second_ns]" using assms(1) by simp
  with assms(4) show ?thesis by simp
qed

theorem late_edit_is_lost_witness:
  "watch_loop zero_time [(False, 0), (True, 1000000000), (False, 7000000000)] = [5000000000]"
proof -
  have "watch_loop zero_time ((False, 0) # [(True, 1000000000), (False, 7000000000)]) = [0 + 5 * second_ns]"
    using late_edit_is_lost [of zero_time 0 "[(True, 1000000000), (False, 7000000000)]" 7000000000]
    by (simp add: zero_time_def second_ns_def)
  then show ?thesis by (simp add: second_ns_def)
qed

subsection \<open>The process after a reload\<close>

text \<open>What a process is in when a configuration is in force: a controller for each node.\<close>

definition in_force :: "conf_file \<Rightarrow> ('k, 'b) server \<Rightarrow> bool" where
  "in_force c s \<longleftrightarrow> vc s = NodesCore \<and> length (controllers s) = length (NodesConfig c) \<and> None \<notin> set (controllers s)"

lemma start_all_ok:
  "start_all C ns w = ((cs, w'), Inr ()) \<Longrightarrow> length cs = length ns \<and> None \<notin> set cs"
proof (induction C ns w arbitrary: cs rule: start_all.induct)
  case (2 C n I ns w)
  then show ?case
    by (auto simp: Let_def split: prod.splits sum.splits if_splits)
qed simp

lemma start_nodes_in_force:
  assumes "start_nodes K (with_io ios (NodesConfig c)) k s = (s', Inr ())"
  shows "in_force c s'"
proof -
  obtain cs w where n: "node_Start K (with_io ios (NodesConfig c)) ((sv_world s)\<lparr>core := k\<rparr>) = ((cs, w), Inr ())"
    "s' = \<lparr>controllers = cs, sv_world = w, vc = NodesCore\<rparr>"
    using assms by (auto simp: start_nodes_def split: prod.splits)
  have "length cs = length (with_io ios (NodesConfig c)) \<and> None \<notin> set cs"
    using n(1) start_all_ok by (metis node_Start_def)
  with n(2) show ?thesis by (simp add: in_force_def with_io_def)
qed

lemma serverHandle_in_force:
  assumes "serverHandle K new ios decode file watch watchErr l = (Some s, None)"
  shows "\<exists>c. LoadFromPath decode file conf_New = (c, None) \<and> in_force c s"
  using assms start_nodes_in_force
  by (fastforce simp: serverHandle_def split: prod.splits sum.splits option.splits)

lemma reload_in_force:
  assumes "reload K new ios c s = (s', Inr ())" "vc s \<noteq> NilCore"
  shows "in_force c s'"
proof -
  have sc: "start_core K new cs \<noteq> (None, Inr ())" for cs
    by (simp add: start_core_def split: sum.split prod.split option.split)
  show ?thesis
    using assms sc start_nodes_in_force
    by (auto simp: reload_def split: prod.splits sum.splits option.splits)
qed

subsection \<open>An unreadable configuration\<close>

lemma LoadFromPath_missing: "CoresConfig (fst (LoadFromPath decode (Inl err) conf_New)) = []"
  by (simp add: LoadFromPath_def conf_New_def)

text \<open>
  C9: when the file cannot be read at a reload (an editor that replaces it, say), the process
  puts an empty configuration into force: the running nodes and the core are closed and
  nothing is started. The process stays up without a core, and the next change, be the file
  good again, ends it with a panic.
\<close>

theorem unreadable_config_stops_then_panics:
  assumes "CoresConfig (fst (LoadFromPath decode file conf_New)) = []"
    and "close_nodes K s = (s1, Inr ())" "close_vc K s1 = (s2, Inr ())"
  shows "on_change K (NewCore reg) ios decode file s = (s2\<lparr>vc := NilCore\<rparr>, Inl (Err ''no have vail core''))
    \<and> controllers s2 = []
    \<and> (\<exists>m. snd (on_change K (NewCore reg) ios' decode' file' (s2\<lparr>vc := NilCore\<rparr>)) = Inl (Panic m))"
proof -
  have c1: "controllers s1 = []" using assms(2) by (auto simp: close_nodes_def split: prod.splits sum.splits)
  have c2: "controllers s2 = controllers s1"
    using assms(3) by (auto simp: close_vc_def split: vc_ref.splits prod.splits option.splits)
  have st: "start_core K (NewCore reg) [] = (None, Inl (Err ''no have vail core''))"
    by (simp add: start_core_def NewCore_def)
  have 1: "on_change K (NewCore reg) ios decode file s = (s2\<lparr>vc := NilCore\<rparr>, Inl (Err ''no have vail core''))"
    by (simp add: on_change_def reload_def assms st)
  have "close_nodes K (s2\<lparr>vc := NilCore\<rparr>) = (s2\<lparr>vc := NilCore\<rparr>, Inr ())"
    using c1 c2 by (cases s2) (simp add: close_nodes_def)
  then have "\<exists>m. snd (on_change K (NewCore reg) ios' decode' file' (s2\<lparr>vc := NilCore\<rparr>)) = Inl (Panic m)"
    by (auto simp: on_change_def reload_def close_vc_def)
  with 1 c1 c2 show ?thesis by simp
qed

text \<open>The example: the node of the example runs on a hysteria2 core, and the file is away.\<close>

definition running_server :: "(hy2 server_core, int) server" where
  "running_server =
     \<lparr>controllers = [Some (example_ctl [])], sv_world = \<lparr>core = One hy_a, limits = limits world_a\<rparr>, vc = NodesCore\<rparr>"

definition example_core :: "hy2 server_core core_ops" where
  "example_core =
     server_core_ops plain_hy (sel_ops plain_hy idle_decoder idle_decoder idle_decoder (\<lambda>_. []))"

lemma running_server_closes:
  "\<exists>s1 s2. close_nodes example_core running_server = (s1, Inr ()) \<and> close_vc example_core s1 = (s2, Inr ())"
proof -
  have t: "Hy2nodes hy_a ''n'' \<noteq> None" by (simp add: hy_a_def hy_one_def)
  then obtain k where d: "op_DelNode example_core ''n'' (One hy_a) = (One k, Inr ())"
    by (auto simp: example_core_def server_core_ops_def on_core_def plain_hy_def hy_ops_def hy_DelNode_def)
  have c: "op_Close example_core (One k) = (One k, None)"
    by (simp add: example_core_def server_core_ops_def on_core_def plain_hy_def hy_ops_def)
  obtain w where "node_Close example_core (controllers running_server) (sv_world running_server) = (w, Inr ())"
    and w: "core w = One k"
    by (auto simp: running_server_def ctl_Close_def Let_def example_ctl_def d)
  then have "close_nodes example_core running_server = (running_server\<lparr>controllers := [], sv_world := w\<rparr>, Inr ())"
    by (simp add: close_nodes_def)
  moreover have "\<exists>s2. close_vc example_core (running_server\<lparr>controllers := [], sv_world := w\<rparr>) = (s2, Inr ())"
    using c w by (auto simp: close_vc_def running_server_def)
  ultimately show ?thesis by blast
qed

theorem unreadable_config_stops_then_panics_witness:
  "\<exists>s m. on_change example_core (NewCore Map.empty) (\<lambda>_. example_io failed_reply [] []) idle_decoder (Inl ''no such file'') running_server
      = (s, Inl (Err ''no have vail core'')) \<and> vc s = NilCore \<and> controllers s = []
    \<and> snd (on_change example_core (NewCore Map.empty) (\<lambda>_. example_io failed_reply [] []) idle_decoder (Inr (Inr [])) s) = Inl (Panic m)"
proof -
  obtain s1 s2 where c: "close_nodes example_core running_server = (s1, Inr ())" "close_vc example_core s1 = (s2, Inr ())"
    using running_server_closes by blast
  from unreadable_config_stops_then_panics [OF LoadFromPath_missing [where err = "''no such file''"] c, where reg = Map.empty and ios = "\<lambda>_. example_io failed_reply [] []"
      and decode = idle_decoder and file' = "Inr (Inr [])" and decode' = idle_decoder and ios' = "\<lambda>_. example_io failed_reply [] []"]
  show ?thesis by fastforce
qed

end
