(* ===== verification/Node_Laws.thy ===== *)
theory Node_Laws
  imports Controller_Laws Xray_Dispatch
begin

text \<open>
  The controller with the xray core under it: what the synchronisation with the panel's list
  does to the connections of the users it deletes, and to the ones they try to open later.
\<close>

lemma add_all_frame:
  "LinkManagers (fst (add_all U tag xs m x)) = LinkManagers x
    \<and> closed_writers (fst (add_all U tag xs m x)) = closed_writers x
    \<and> interrupted (fst (add_all U tag xs m x)) = interrupted x"
  by (induction xs arbitrary: m x) (auto split: option.split sum.split)

lemma x_AddUsers_frame:
  assumes "x_AddUsers U base64 tag us n x = (x', r)"
  shows "LinkManagers x' = LinkManagers x \<and> closed_writers x' = closed_writers x \<and> interrupted x' = interrupted x"
proof -
  let ?x1 = "x\<lparr>uidMap := fold (\<lambda>u m. m(UserTag tag (Uuid u) \<mapsto> Id u)) us (uidMap x)\<rparr>"
  have "x' = ?x1 \<or> (\<exists>xs m. x' = fst (add_all U tag xs m ?x1))"
  proof (cases "build_users base64 tag us n")
    case (Inr xs)
    show ?thesis
    proof (cases "GetUserManager tag ?x1")
      case m: (Inr m)
      have "x' = fst (add_all U tag xs m ?x1)"
        using assms unfolding x_AddUsers_def Let_def Inr m sum.case
        by (cases "add_all U tag xs m ?x1") (auto split: sum.splits)
      then show ?thesis by blast
    qed (use assms in \<open>simp add: x_AddUsers_def Let_def Inr\<close>)
  qed (use assms in \<open>simp add: x_AddUsers_def Let_def\<close>)
  then show ?thesis using add_all_frame [of U tag _ _ ?x1] by auto
qed

lemma sync_cuts_off:
  assumes "links_inv x" "orders_ok links x" "u \<in> set deleted" and e: "e = UserTag tag (Uuid u)"
    and s: "sync_core (x_ops U base64 startErr closeErr build rin rout links ord) deleted added tag n x = (x', Inr ())"
  shows "LinkManagers x' e = None \<and> writers_of e x \<subseteq> closed_writers x' \<and> readers_of e x \<subseteq> interrupted x'"
proof -
  obtain x1 where d: "x_DelUsers U links deleted tag x = (x1, Inr ())"
    and a: "added = [] \<and> x' = x1 \<or> (\<exists>r. x_AddUsers U base64 tag added n x1 = (x', r))"
    using s assms(3) by (auto simp: sync_core_def x_ops_def split: prod.splits sum.splits if_splits)
      (metis apsnd_conv eq_fst_iff)+
  obtain m where "del_users U links tag deleted m x = (x1, Inr ())"
    using d by (auto simp: x_DelUsers_def split: sum.splits)
  from del_users_gone [OF assms(1,2) this assms(3)]
  have "LinkManagers x1 e = None \<and> writers_of e x \<subseteq> closed_writers x1 \<and> readers_of e x \<subseteq> interrupted x1"
    by (simp add: gone_def e)
  with a x_AddUsers_frame show ?thesis by metis
qed

lemma unknown_user_no_link:
  assumes "registry g tag = Some a" "l_UserLimitInfo (lims g a) e = None" "e \<noteq> []"
  shows "\<exists>x' g' m. getLink nb now tag e ip tcp ss up down (x, g) = ((x', g'), Inl (Err m))
    \<and> {fst up, fst down} \<subseteq> closed_writers x' \<and> {snd up, snd down} \<subseteq> interrupted x' \<and> LinkManagers x' = LinkManagers x"
proof -
  obtain l b where l: "CheckLimit nb now e ip tcp ss (lims g a) = (l, b, True)"
    using unknown_user_rejected [OF assms(2)] by (metis prod.collapse)
  show ?thesis using assms l by (simp add: getLink_def GetLimiter_def Let_def)
qed

end
