(* ===== verification/Spec2Isabelle.thy ===== *)
theory Spec2Isabelle
  imports Conn_Counter Counter_Race Limiter_Runs Task Json5_Laws Panel_Laws Conf Hy2_Traffic Xray_Laws
    Xray_Dispatch Xray_Setup_Laws Selector_Laws Core_Users Sing_Laws Hy2_Server Controller_Runs
    Commands Cert_Laws Geo Server_Laws Node_Laws
begin

text \<open>
  Verification library of V2bX-Turbo, a server program that runs proxy nodes for a panel.

  The program. The command server (cmd/server.go) reads the configuration (conf/), makes a core
  (core/core.go; a selector where several are configured) and starts one controller for each
  node (node/). A controller asks the panel (api/panel/) for its node's configuration and users,
  creates a limiter (limiter/), gives the node and the users to the core, and starts periodic
  tasks (common/task/) that poll the panel, push the traffic and the addresses on line, and
  renew the certificate. A core (core/xray/, core/sing/, core/hy2/) accepts connections, asks
  the limiter whether to admit them and at what rate, and counts their bytes in counters of the
  users (common/counter/), which the report collects and resets. A watcher (conf/watch.go)
  reads the configuration again when its file changes and restarts nodes and core.

  How the code is modelled. Structs are records, constants and tagged unions are datatypes,
  functions and methods are functions with explicit state. A result is a sum: Inl with an
  error, which is an Err the code returns or a Panic that ends the process, or Inr with the
  value. Go's int is an integer with its wrap-around written out where the code calculates
  (Prelude: i64); strings are lists of bytes. What mutates through shared pointers (traffic
  storages, cores in a selector, limiters in the registry) lives in an explicit store. A range
  over a map or a sync.Map takes its order as an argument, and the properties hold for every
  order. Answers of the network, of files, clocks and random sources are arguments of a call;
  third-party code (xray, sing-box, hysteria, the ACME client, resty, JSON and msgpack decoders)
  is a parameter, and what is relied on is a named hypothesis of the theorem that needs it.

  The theories, in the order of the code from the bottom up.

  Prelude, Go_Strings, Go_Net, Go_Base64, Files: Go's results, integers, strings, addresses,
  base64 and a file system, as far as the program uses them, with their round trips.

  Traffic_Counter, Conn_Counter, Counter_Race, Traffic_Slice: common/counter, common/rate and the
  count reader of the dispatcher. Runs of counters refine a table of numbers; concurrent
  look-ups agree on one counter; Traffic_Slice is the callback all three cores report with, and
  the locale of traffic sources: no counted byte is lost or reported twice, whatever the order
  of counts and reports.

  User_Diff, Limiter, Limiter_Laws, Limiter_Runs: node/user.go's difference of user lists with the
  locale of registries that follow the panel by deleting and adding it; the limiter: whom it
  admits, at which rate, the report of the addresses, the invariant of all runs.

  Task, Json5, Json5_Laws, Conf: the periodic task as a step relation whose goroutines interleave,
  with its invariant, the end of every run after a Close and the traces with two loops or a
  panic; the reader that blanks comments and trailing commas; the decoding of the configuration.

  Panel_Types, Panel_Client, Panel_Laws: the requests to the panel and what the client makes of
  the answers.

  Core_Api, Selector, Selector_Laws, Core_Users: the interface of a core as a record of
  methods, the selector over a heap of cores, of which every core sees its own nodes' operations
  only, and the locale of user cores with its interpretations.

  Hy2, Hy2_Traffic, Hy2_Config, Hy2_Server, Geo: the hysteria2 core, its configuration, its
  masquerade and its loader of databases. Sing, Sing_Laws, Sing_Inbound, Sing_Inbound_Laws: the sing
  core and the inbounds it builds. Xray_Core, Xray_Laws, Xray_Inbound, Xray_Setup,
  Xray_Setup_Laws, Xray_Sniff, Xray_Dispatch: the xray core, its inbounds, outbounds, DNS file and
  start, and the dispatcher with the link managers that cut off a deleted user and the
  sniffing loop.

  Controller, Controller_Laws, Controller_Runs, Node_Laws, Cert, Cert_Laws: node/. The monitor keeps core,
  limiter and list in step and an outage of the panel changes nothing; then the runs in which
  a step fails; Node_Laws has what the theorem below needs of the controller with an xray core
  under it. The certificates and the ACME account over the file system, and the refinement
  between the controller's view of a request and its effects on the files.

  Server, Server_Laws, Crypt, Commands: the process around the nodes, its watcher and its reload;
  the key generator and the helpers of common/crypt; the service commands as the actions they
  perform on the host.

  Interfaces. inv_machine (Prelude) is a state whose operations keep an invariant, interpreted on
  the counters, the limiter and the controller; user_registry (User_Diff) is what the limiter and
  the hysteria2 core promise a caller that follows a list by its differences; traffic_source and
  counted_node (Traffic_Slice) are what the reports of the three cores promise; user_core
  (Core_Users) is what the controller relies on for the users of a node, fulfilled by the three
  cores and by the selector. Each is interpreted on the models of the code.

  Bounds and termination. All functions are total: loops are structural, over lists of items or
  of inputs, or have a measure (the scanning loops of Json5, parseParams, b64_lines, and the
  sniffing loop of Xray_Sniff, whose attempts are counted). No fuel is used. The loops of the
  periodic task, which need not end, are a step relation.

  Not modelled. The generated protobuf configuration of the dispatcher; the servers of the
  three cores themselves, which are libraries; the registration of the commands with their
  parser and the version's banner; log lines; the platform's clock setter (common/systime). Floating point is met in two places, rates
  and the days of a certificate's validity, and both are modelled by the exact numbers.
\<close>

subsection \<open>A user's end, across the components\<close>


text \<open>The example: user_a, who has a connection open, leaves the list, and user_b comes.\<close>

definition example_xray :: "string list xray core_ops" where
  "example_xray =
     x_ops (ok_ops (\<lambda>u m. xu_Email u # m) (\<lambda>e m. removeAll e m)) (\<lambda>s. s) None None
       (\<lambda>_ _ _. \<lparr>nb_dns = None, nb_inbound = Inr NoUsers, nb_add_inbound = None, nb_outbound = None, nb_add_outbound = None\<rparr>)
       (\<lambda>_. None) (\<lambda>_. None) (\<lambda>_. [3]) (\<lambda>_. [])"

definition world_x :: "(string list xray, int) world" where
  "world_x = \<lparr>core = x_one, limits = limits world_a\<rparr>"

lemma example_x_in_step:
  "in_step (\<lambda>x. True) (\<lambda>x k. uidMap x (UserTag ''n'' k)) Id 0 (example_ctl name, world_x)"
proof -
  have "holds Id [user_a] (\<lambda>k. uidMap x_one (UserTag ''n'' k))"
    by (rule holdsI) (auto simp: x_one_def user_a_def UserTag_def)
  then show ?thesis
    using example_in_step [of name] by (simp add: in_step_def example_ctl_def world_x_def lim_users_def [abs_def])
qed


end
